(* ===== verification/UPrelude.thy ===== *)
theory UPrelude
  imports Main "HOL-Library.Word"
begin

unbundle bit_operations_syntax

text \<open>
  Shared vocabulary of the development: the machine integers of the driver, the outcome type of a
  C function (it returns, it waits for ever on a lock, or it touches memory it does not own), the
  little-endian byte layout of the 32-bit locals the driver reads and writes through narrower
  pointers, and the lemmas about them that the component theories use.

  The collection \<open>errno\<close> holds the error numbers, \<open>upcie_consts\<close> the numeric constants of the
  headers, \<open>mem_simps\<close> the equations that evaluate byte layouts.
\<close>

named_theorems upcie_consts "numeric constants of the driver's headers"
named_theorems errno "error numbers returned to user space"
named_theorems mem_simps "equations that evaluate byte layouts of locals"

section \<open>Types\<close>

type_synonym u8 = "8 word"
type_synonym u16 = "16 word"
type_synonym u32 = "32 word"
type_synonym u64 = "64 word"

text \<open>
  What a call does. \<open>Done\<close>: it returns with a result. \<open>Blocked\<close>: it waits for a mutex that is
  taken, and no step of its own will free it. \<open>Fault\<close>: it indexes an array out of its bounds or
  follows a null pointer, which C leaves undefined and a kernel pays for.
\<close>

datatype 'a run = Done 'a | Blocked | Fault

primrec run_bind :: "'a run \<Rightarrow> ('a \<Rightarrow> 'b run) \<Rightarrow> 'b run" where
  "run_bind (Done a) f = f a"
| "run_bind Blocked f = Blocked"
| "run_bind Fault f = Fault"

text \<open>Array access with the bounds C does not check: outside the array the access is a \<open>Fault\<close>.\<close>

definition arr_get :: "'a list \<Rightarrow> nat \<Rightarrow> 'a run" where
  "arr_get xs i = (if i < length xs then Done (xs ! i) else Fault)"

definition arr_set :: "'a list \<Rightarrow> nat \<Rightarrow> 'a \<Rightarrow> 'a list run" where
  "arr_set xs i v = (if i < length xs then Done (xs[i := v]) else Fault)"

section \<open>Error numbers\<close>

text \<open>Values of \<^verbatim>\<open>include/uapi/asm-generic/errno-base.h\<close> and \<^verbatim>\<open>include/linux/errno.h\<close>.\<close>

definition ENOENT :: int where [errno]: "ENOENT = 2"
definition EIO :: int where [errno]: "EIO = 5"
definition EAGAIN :: int where [errno]: "EAGAIN = 11"
definition ENOMEM :: int where [errno]: "ENOMEM = 12"
definition EFAULT :: int where [errno]: "EFAULT = 14"
definition ENODEV :: int where [errno]: "ENODEV = 19"
definition ENOTTY :: int where [errno]: "ENOTTY = 25"
definition ETIME :: int where [errno]: "ETIME = 62"
definition ERESTARTSYS :: int where [errno]: "ERESTARTSYS = 512"

section \<open>Byte layout (little endian)\<close>

definition le_bytes32 :: "u32 \<Rightarrow> u8 list" where
  "le_bytes32 x = [ucast x, ucast (drop_bit 8 x), ucast (drop_bit 16 x), ucast (drop_bit 24 x)]"

text \<open>
  \<open>of_le bs\<close> is the number whose little-endian bytes are \<open>bs\<close>; \<open>le32 bs i\<close> reads the
  32-bit field at byte offset \<open>i\<close> of a structure copied from user space, \<open>le16\<close> and
  \<open>le64\<close> the narrower and the wider one.
\<close>

fun of_le :: "u8 list \<Rightarrow> nat" where
  "of_le [] = 0"
| "of_le (b # bs) = unat b + 256 * of_le bs"

definition le16 :: "u8 list \<Rightarrow> nat \<Rightarrow> u16" where
  "le16 bs i = of_nat (of_le (take 2 (drop i bs)))"

definition le32 :: "u8 list \<Rightarrow> nat \<Rightarrow> u32" where
  "le32 bs i = of_nat (of_le (take 4 (drop i bs)))"

definition le64 :: "u8 list \<Rightarrow> nat \<Rightarrow> u64" where
  "le64 bs i = of_nat (of_le (take 8 (drop i bs)))"

text \<open>\<open>put_bytes x bs\<close>: the 32-bit local \<open>x\<close> after its first \<open>length bs\<close> bytes are overwritten by \<open>bs\<close>.\<close>

definition put_bytes :: "u32 \<Rightarrow> u8 list \<Rightarrow> u32" where
  "put_bytes x bs = le32 (bs @ drop (length bs) (le_bytes32 x)) 0"

text \<open>
  \<open>lo_word x\<close> is the low part of a 32-bit local read through a narrower pointer and widened
  again, \<open>put_lo x v\<close> the local after \<open>v\<close> is stored through that pointer.
\<close>

definition lo_word :: "'a::len itself \<Rightarrow> u32 \<Rightarrow> u32" where
  "lo_word _ x = ucast (ucast x :: 'a word)"

definition put_lo :: "u32 \<Rightarrow> 'a::len word \<Rightarrow> u32" where
  "put_lo x v = (x AND NOT (mask LENGTH('a))) OR ucast v"

section \<open>Outcomes\<close>

lemma run_bind_Done_iff:
  "run_bind m f = Done b \<longleftrightarrow> (\<exists>a. m = Done a \<and> f a = Done b)"
  by (cases m) auto

lemma run_bind_assoc: "run_bind (run_bind m f) g = run_bind m (\<lambda>a. run_bind (f a) g)"
  by (cases m) auto

lemma arr_get_Done [simp]: "i < length xs \<Longrightarrow> arr_get xs i = Done (xs ! i)"
  by (simp add: arr_get_def)

lemma arr_get_Fault [simp]: "length xs \<le> i \<Longrightarrow> arr_get xs i = Fault"
  by (simp add: arr_get_def)

lemma arr_get_iff: "arr_get xs i = Done v \<longleftrightarrow> i < length xs \<and> v = xs ! i"
  by (auto simp: arr_get_def)

lemma arr_get_not_Blocked [simp]: "arr_get xs i \<noteq> Blocked"
  by (simp add: arr_get_def)

lemma arr_set_Done [simp]: "i < length xs \<Longrightarrow> arr_set xs i v = Done (xs[i := v])"
  by (simp add: arr_set_def)

lemma arr_set_Fault [simp]: "length xs \<le> i \<Longrightarrow> arr_set xs i v = Fault"
  by (simp add: arr_set_def)

lemma arr_set_iff: "arr_set xs i v = Done ys \<longleftrightarrow> i < length xs \<and> ys = xs[i := v]"
  by (auto simp: arr_set_def)

lemma arr_set_not_Blocked [simp]: "arr_set xs i v \<noteq> Blocked"
  by (simp add: arr_set_def)

section \<open>Bytes\<close>

lemma length_le_bytes32 [simp]: "length (le_bytes32 x) = 4"
  by (simp add: le_bytes32_def)

lemma base256_digits:
  fixes n :: nat
  assumes "n < 4294967296"
  shows "n mod 256 + 256 * (n div 256 mod 256) + 65536 * (n div 65536 mod 256)
    + 16777216 * (n div 16777216 mod 256) = n"
proof -
  define q where "q = n div 256"
  define r where "r = q div 256"
  define t where "t = r div 256"
  have "n = 256 * q + n mod 256" "q = 256 * r + q mod 256" "r = 256 * t + r mod 256"
    by (simp_all add: q_def r_def t_def)
  moreover have *: "n div 65536 = r" "n div 16777216 = t"
    by (simp_all add: q_def r_def t_def flip: div_mult2_eq)
  moreover have "t mod 256 = t"
    using assms by (simp add: q_def r_def t_def flip: div_mult2_eq)
  ultimately show ?thesis unfolding q_def [symmetric] * by linarith
qed

lemma le_bytes32_of_le: "of_le (le_bytes32 x) = unat x"
proof -
  have "of_le (le_bytes32 x) = unat x mod 256 + 256 * (unat x div 256 mod 256)
      + 65536 * (unat x div 65536 mod 256) + 16777216 * (unat x div 16777216 mod 256)"
    by (simp add: le_bytes32_def unsigned_ucast_eq unsigned_drop_bit_eq take_bit_eq_mod
        drop_bit_eq_div unat_div)
  also have "\<dots> = unat x"
    using unsigned_less [of x, where ?'a = nat] by (intro base256_digits) simp
  finally show ?thesis .
qed

lemma le32_le_bytes32 [simp]: "le32 (le_bytes32 x @ ys) 0 = x"
  by (simp add: le32_def le_bytes32_of_le)

lemma put_bytes_all [simp]: "put_bytes x (le_bytes32 y) = y"
proof -
  have "drop (length (le_bytes32 y)) (le_bytes32 x) = []" by simp
  then show ?thesis unfolding put_bytes_def by (simp only: le32_le_bytes32)
qed

lemma le_bytes32_inject [simp]: "le_bytes32 x = le_bytes32 y \<longleftrightarrow> x = y"
  by (metis le32_le_bytes32 append_Nil2)

section \<open>Narrow views of a local\<close>

lemma lo_word_eq: "lo_word TYPE('a::len) x = take_bit LENGTH('a) x"
  by (rule bit_word_eqI) (auto simp: lo_word_def bit_simps)

lemma put_lo_full [simp]: "put_lo x (v :: u32) = v"
  by (rule bit_word_eqI) (auto simp: put_lo_def bit_simps)

lemma ucast_put_lo [simp]:
  "LENGTH('a::len) \<le> 32 \<Longrightarrow> (ucast (put_lo x (v :: 'a word)) :: 'a word) = v"
  by (rule bit_word_eqI) (auto simp: put_lo_def bit_simps)

lemma take_bytes_put_lo8 [simp]: "take 1 (le_bytes32 (put_lo x (v :: u8))) = [v]"
  by (simp add: le_bytes32_def)

end
