(* ===== verification/Kernel_Env.thy ===== *)
theory Kernel_Env
  imports UPrelude
begin

text \<open>
  The code the driver calls and does not contain: memory-mapped device access, copies between
  kernel and user space, the content of locals the C code never initialises. None of it is under
  \<^verbatim>\<open>src/\<close>, so it is a parameter: a record \<open>'w kern\<close> of functions over a type \<open>'w\<close>, the state of
  everything outside the driver (the boards, user memory, the rest of the kernel). Every operation
  of the driver takes such a record and passes a \<open>'w\<close> through its calls in the order the C code
  makes them. Theorems either hold for every \<open>'w kern\<close> or name what they assume of it.

  The locale \<open>kern_frame\<close> is the interface between the driver's loops and this environment: a
  predicate on \<open>'w\<close> that every access at an allowed address keeps. It is interpreted on
  \<open>logged\<close>, which runs any environment and records the device accesses made; what the loops keep
  for an arbitrary frame thus becomes a statement about the accesses they make. The locale
  \<open>plain_registers\<close> is the contract of a device whose registers keep what is written to them.
\<close>

section \<open>The environment\<close>

text \<open>
  \<open>k_copy_to_user k p bs w\<close> copies \<open>bs\<close> to user address \<open>p\<close>; the result is \<open>True\<close> when the C
  function returns a non-zero count of bytes it could not copy, which is all the driver looks at.
  \<open>k_copy_from_user k p n w\<close> is \<open>None\<close> in that case and the \<open>n\<close> bytes otherwise. \<open>k_uninit k w i\<close>
  is the indeterminate content of the \<open>i\<close>-th uninitialised 32-bit local of the running function.
  \<open>k_access_ok k p n\<close> is \<^verbatim>\<open>access_ok\<close>, a check of the address range alone.
\<close>

record 'w kern =
  k_ioread8 :: "u64 \<Rightarrow> 'w \<Rightarrow> u8 \<times> 'w"
  k_ioread16 :: "u64 \<Rightarrow> 'w \<Rightarrow> u16 \<times> 'w"
  k_ioread32 :: "u64 \<Rightarrow> 'w \<Rightarrow> u32 \<times> 'w"
  k_iowrite8 :: "u8 \<Rightarrow> u64 \<Rightarrow> 'w \<Rightarrow> 'w"
  k_iowrite16 :: "u16 \<Rightarrow> u64 \<Rightarrow> 'w \<Rightarrow> 'w"
  k_iowrite32 :: "u32 \<Rightarrow> u64 \<Rightarrow> 'w \<Rightarrow> 'w"
  k_copy_to_user :: "u64 \<Rightarrow> u8 list \<Rightarrow> 'w \<Rightarrow> bool \<times> 'w"
  k_copy_from_user :: "u64 \<Rightarrow> nat \<Rightarrow> 'w \<Rightarrow> u8 list option \<times> 'w"
  k_access_ok :: "u64 \<Rightarrow> nat \<Rightarrow> bool"
  k_uninit :: "'w \<Rightarrow> nat \<Rightarrow> u32"

text \<open>
  \<^verbatim>\<open>copy_from_user\<close> fills the destination with as many bytes as were asked for: what a caller that
  checks its result relies on.
\<close>

definition copies_exact :: "'w kern \<Rightarrow> bool" where
  "copies_exact k \<longleftrightarrow>
     (\<forall>p n w bs w'. k_copy_from_user k p n w = (Some bs, w') \<longrightarrow> length bs = n)"

section \<open>Frames\<close>

text \<open>
  A frame: \<open>P\<close> survives every user-space copy, and every device access of \<open>n\<close> bytes at an
  address \<open>a\<close> with \<open>A a n\<close>.
\<close>

locale kern_frame =
  fixes k :: "'w kern" and A :: "u64 \<Rightarrow> nat \<Rightarrow> bool" and P :: "'w \<Rightarrow> bool"
  assumes frame_read8: "P w \<Longrightarrow> A a 1 \<Longrightarrow> P (snd (k_ioread8 k a w))"
    and frame_read16: "P w \<Longrightarrow> A a 2 \<Longrightarrow> P (snd (k_ioread16 k a w))"
    and frame_read32: "P w \<Longrightarrow> A a 4 \<Longrightarrow> P (snd (k_ioread32 k a w))"
    and frame_write8: "P w \<Longrightarrow> A a 1 \<Longrightarrow> P (k_iowrite8 k v8 a w)"
    and frame_write16: "P w \<Longrightarrow> A a 2 \<Longrightarrow> P (k_iowrite16 k v16 a w)"
    and frame_write32: "P w \<Longrightarrow> A a 4 \<Longrightarrow> P (k_iowrite32 k v32 a w)"
    and frame_to_user: "P w \<Longrightarrow> P (snd (k_copy_to_user k p bs w))"
    and frame_from_user: "P w \<Longrightarrow> P (snd (k_copy_from_user k p n w))"
begin

lemmas frame_access =
  frame_read8 frame_read16 frame_read32 frame_write8 frame_write16 frame_write32

lemma frame_to_userD: "k_copy_to_user k p bs w = (e, w') \<Longrightarrow> P w \<Longrightarrow> P w'"
  using frame_to_user [of w p bs] by simp

lemma frame_from_userD: "k_copy_from_user k p n w = (r, w') \<Longrightarrow> P w \<Longrightarrow> P w'"
  using frame_from_user [of w p n] by simp

end

section \<open>Recording the accesses\<close>

text \<open>
  The environment \<open>k\<close> with a log: every device access is appended as its address and its width in
  bytes. The results are those of \<open>k\<close>.
\<close>

type_synonym access_log = "(u64 \<times> nat) list"

definition logged :: "'w kern \<Rightarrow> ('w \<times> access_log) kern" where
  "logged k = \<lparr>
     k_ioread8 = (\<lambda>a (w, l). let (v, w') = k_ioread8 k a w in (v, w', l @ [(a, 1)])),
     k_ioread16 = (\<lambda>a (w, l). let (v, w') = k_ioread16 k a w in (v, w', l @ [(a, 2)])),
     k_ioread32 = (\<lambda>a (w, l). let (v, w') = k_ioread32 k a w in (v, w', l @ [(a, 4)])),
     k_iowrite8 = (\<lambda>v a (w, l). (k_iowrite8 k v a w, l @ [(a, 1)])),
     k_iowrite16 = (\<lambda>v a (w, l). (k_iowrite16 k v a w, l @ [(a, 2)])),
     k_iowrite32 = (\<lambda>v a (w, l). (k_iowrite32 k v a w, l @ [(a, 4)])),
     k_copy_to_user = (\<lambda>p bs (w, l). let (e, w') = k_copy_to_user k p bs w in (e, w', l)),
     k_copy_from_user = (\<lambda>p n (w, l). let (r, w') = k_copy_from_user k p n w in (r, w', l)),
     k_access_ok = k_access_ok k,
     k_uninit = (\<lambda>(w, l). k_uninit k w)\<rparr>"

definition log_within :: "(u64 \<Rightarrow> nat \<Rightarrow> bool) \<Rightarrow> 'w \<times> access_log \<Rightarrow> bool" where
  "log_within A wl \<longleftrightarrow> (\<forall>(a, n) \<in> set (snd wl). A a n)"

lemma log_within_Nil [simp]: "log_within A (w, [])"
  by (simp add: log_within_def)

interpretation logged: kern_frame "logged k" A "log_within A" for k A
  by unfold_locales (auto simp: logged_def log_within_def split: prod.splits)

section \<open>Devices with stable registers\<close>

text \<open>
  In the states \<open>I\<close> the device's registers are stable: reads have no effect on the outside world and
  return, for every width, the registers \<open>r8\<close>, \<open>r16\<close>, \<open>r32\<close>; a copy to user space succeeds and
  keeps the registers. Identification and configuration registers behave so.
\<close>

definition stable_reads ::
  "'w kern \<Rightarrow> ('w \<Rightarrow> bool) \<Rightarrow> (u64 \<Rightarrow> u8) \<Rightarrow> (u64 \<Rightarrow> u16) \<Rightarrow> (u64 \<Rightarrow> u32) \<Rightarrow> bool" where
  "stable_reads k I r8 r16 r32 \<longleftrightarrow>
     (\<forall>a w. I w \<longrightarrow> k_ioread8 k a w = (r8 a, w)) \<and> (\<forall>a w. I w \<longrightarrow> k_ioread16 k a w = (r16 a, w)) \<and>
     (\<forall>a w. I w \<longrightarrow> k_ioread32 k a w = (r32 a, w)) \<and>
     (\<forall>p bs w. I w \<longrightarrow> \<not> fst (k_copy_to_user k p bs w) \<and> I (snd (k_copy_to_user k p bs w)))"

lemma stable_readsD:
  assumes "stable_reads k I r8 r16 r32" "I w"
  shows "k_ioread8 k a w = (r8 a, w)" "k_ioread16 k a w = (r16 a, w)"
    "k_ioread32 k a w = (r32 a, w)" "\<not> fst (k_copy_to_user k p bs w)"
    "I (snd (k_copy_to_user k p bs w))"
  using assms by (simp_all add: stable_reads_def)

section \<open>A concrete environment\<close>

text \<open>
  A board and a user process that are both plain byte-addressed memory. It is an instance of the
  parameter, used to evaluate the driver on concrete states; no property rests on it.
\<close>

record ram =
  r_dev :: "u64 \<Rightarrow> u8"
  r_user :: "u64 \<Rightarrow> u8"

definition peek :: "(u64 \<Rightarrow> u8) \<Rightarrow> u64 \<Rightarrow> nat \<Rightarrow> u8 list" where
  "peek m a n = map (\<lambda>i. m (a + of_nat i)) [0..<n]"

primrec poke :: "(u64 \<Rightarrow> u8) \<Rightarrow> u64 \<Rightarrow> u8 list \<Rightarrow> (u64 \<Rightarrow> u8)" where
  "poke m a [] = m"
| "poke m a (b # bs) = poke (m(a := b)) (a + 1) bs"

definition ram_kern :: "ram kern" where
  "ram_kern = \<lparr>
     k_ioread8 = (\<lambda>a w. (r_dev w a, w)),
     k_ioread16 = (\<lambda>a w. (le16 (peek (r_dev w) a 2) 0, w)),
     k_ioread32 = (\<lambda>a w. (le32 (peek (r_dev w) a 4) 0, w)),
     k_iowrite8 = (\<lambda>v a w. w\<lparr>r_dev := (r_dev w)(a := v)\<rparr>),
     k_iowrite16 = (\<lambda>v a w. w\<lparr>r_dev := poke (r_dev w) a (take 2 (le_bytes32 (ucast v)))\<rparr>),
     k_iowrite32 = (\<lambda>v a w. w\<lparr>r_dev := poke (r_dev w) a (le_bytes32 v)\<rparr>),
     k_copy_to_user = (\<lambda>p bs w. (False, w\<lparr>r_user := poke (r_user w) p bs\<rparr>)),
     k_copy_from_user = (\<lambda>p n w. (Some (peek (r_user w) p n), w)),
     k_access_ok = (\<lambda>_ _. True),
     k_uninit = (\<lambda>_ _. 0)\<rparr>"

lemma length_peek [simp]: "length (peek m a n) = n"
  by (simp add: peek_def)

lemma ram_copies_exact: "copies_exact ram_kern"
  by (auto simp: copies_exact_def ram_kern_def)

lemma ram_stable:
  "stable_reads ram_kern (\<lambda>w. r_dev w = m) m (\<lambda>a. le16 (peek m a 2) 0) (\<lambda>a. le32 (peek m a 4) 0)"
  by (simp add: stable_reads_def ram_kern_def)

lemma peek_simps [mem_simps]:
  "peek m a 1 = [m a]" "peek m a 2 = [m a, m (a + 1)]"
  "peek m a 4 = [m a, m (a + 1), m (a + 2), m (a + 3)]"
  by (simp_all add: peek_def upt_rec)

definition sample_ram :: ram where
  "sample_ram = \<lparr>r_dev = (\<lambda>a. ucast a), r_user = (\<lambda>_. 0)\<rparr>"

section \<open>Plain registers\<close>

text \<open>
  A device whose 32-bit registers keep what is written to them: \<open>reg w a\<close> is the content at address
  \<open>a\<close>. A read keeps the registers, a write is read back, copies from and to user space leave the registers
  alone.
\<close>

locale plain_registers =
  fixes k :: "'w kern" and reg :: "'w \<Rightarrow> u64 \<Rightarrow> u32"
  assumes reg_read: "fst (k_ioread32 k a w) = reg w a"
    and reg_read_keeps: "reg (snd (k_ioread32 k a w)) = reg w"
    and reg_write: "reg (k_iowrite32 k v a w) a = v"
    and reg_from_user: "reg (snd (k_copy_from_user k p n w)) = reg w"
    and reg_to_user: "reg (snd (k_copy_to_user k p bs w)) = reg w"
begin

lemma reg_readD: "k_ioread32 k a w = (v, w') \<Longrightarrow> v = reg w a \<and> reg w' = reg w"
  using reg_read [of a w] reg_read_keeps [of a w] by simp

lemma reg_from_userD: "k_copy_from_user k p n w = (r, w') \<Longrightarrow> reg w' = reg w"
  using reg_from_user [of p n w] by simp

lemma reg_to_userD: "k_copy_to_user k p bs w = (r, w') \<Longrightarrow> reg w' = reg w"
  using reg_to_user [of p bs w] by simp

end

text \<open>Recording the accesses does not change the registers.\<close>

lemma plain_registers_logged:
  assumes "plain_registers k reg"
  shows "plain_registers (logged k) (\<lambda>w. reg (fst w))"
proof -
  note effects = plain_registers.reg_readD [OF assms] plain_registers.reg_from_userD [OF assms]
    plain_registers.reg_to_userD [OF assms]
  show ?thesis
    by unfold_locales (auto simp: logged_def plain_registers.reg_write [OF assms] split: prod.splits dest: effects)
qed

lemma peek_poke4: "peek (poke m a (le_bytes32 v)) a 4 = le_bytes32 v"
  by (simp add: mem_simps le_bytes32_def)

interpretation ram_reg: plain_registers ram_kern "\<lambda>w a. le32 (peek (r_dev w) a 4) 0"
proof
  show "le32 (peek (r_dev (k_iowrite32 ram_kern v a w)) a 4) 0 = v" for v a w
    using le32_le_bytes32 [of v "[]"] by (simp add: ram_kern_def peek_poke4)
qed (simp_all add: ram_kern_def)

end
