(* ===== verification/Device.thy ===== *)
theory Device
  imports Kernel_Env
begin

text \<open>
  The data of the driver, from \<^verbatim>\<open>pciedev_ufn.h\<close> and \<^verbatim>\<open>pciedev_io.h\<close>: the header constants, the
  board and module descriptions, the per-board structure \<open>pciedev_dev\<close>, the table of slots.
  C's \<^verbatim>\<open>int\<close> fields are \<open>int\<close>, the fixed-width ones words; arrays are lists of the declared length
  (\<open>wf_dev\<close>); an intrusive list is the list of its nodes, head first. A field name that two
  structures share, or that HOL uses, carries a prefix. Fields no function of the driver touches
  (\<^verbatim>\<open>irqData\<close>, \<^verbatim>\<open>m_id\<close>, \<^verbatim>\<open>m_ulnFlag\<close>, \<^verbatim>\<open>remove\<close>, \<^verbatim>\<open>deviceData\<close>, \<^verbatim>\<open>deviceFl\<close>, \<^verbatim>\<open>parent\<close>, \<^verbatim>\<open>irq_type\<close>,
  \<^verbatim>\<open>dev_payload_size\<close>) are left out.
\<close>

section \<open>Constants\<close>

definition NUMBER_OF_BARS :: nat where [upcie_consts]: "NUMBER_OF_BARS = 6"
definition NUMBER_OF_SLOTS :: nat where [upcie_consts]: "NUMBER_OF_SLOTS = 15"
definition PCIEDEV_NR_DEVS :: nat where [upcie_consts]: "PCIEDEV_NR_DEVS = 15"

definition ASCII_BOARD_MAGIC_NUM :: u32 where [upcie_consts]: "ASCII_BOARD_MAGIC_NUM = 0x424F5244"
definition ASCII_PROJ_MAGIC_NUM :: u32 where [upcie_consts]: "ASCII_PROJ_MAGIC_NUM = 0x50524F4A"
definition ASCII_BOARD_MAGIC_NUM_L :: u32 where
  [upcie_consts]: "ASCII_BOARD_MAGIC_NUM_L = 0x626F7264"
definition SHAPI_MAGIC_DEVICE_NUM :: u32 where [upcie_consts]: "SHAPI_MAGIC_DEVICE_NUM = 0x00005348"
definition SHAPI_MAGIC_MODULE_NUM :: u32 where [upcie_consts]: "SHAPI_MAGIC_MODULE_NUM = 0x0000534D"

definition PCIED_FPOS :: u64 where [upcie_consts]: "PCIED_FPOS = 7"

definition RW_D8 :: int where [upcie_consts]: "RW_D8 = 0"
definition RW_D16 :: int where [upcie_consts]: "RW_D16 = 1"
definition RW_D32 :: int where [upcie_consts]: "RW_D32 = 2"
definition MTCA_MAX_RW :: int where [upcie_consts]: "MTCA_MAX_RW = 3"

definition MTCA_SIMPLE_READ :: int where [upcie_consts]: "MTCA_SIMPLE_READ = 0"
definition MTCA_LOCKED_READ :: int where [upcie_consts]: "MTCA_LOCKED_READ = 1"
definition MT_READ_TO_EXTRA_BUFFER :: int where [upcie_consts]: "MT_READ_TO_EXTRA_BUFFER = 2"
definition MTCA_SIMPLE_WRITE :: int where [upcie_consts]: "MTCA_SIMPLE_WRITE = 5"
definition MTCA_SET_BITS :: int where [upcie_consts]: "MTCA_SET_BITS = 6"
definition MTCA_SWAP_BITS :: int where [upcie_consts]: "MTCA_SWAP_BITS = 7"

section \<open>Board descriptions\<close>

record pciedev_brd_info =
  PCIEDEV_BOARD_ID :: u32
  PCIEDEV_BOARD_VERSION :: u32
  PCIEDEV_BOARD_DATE :: u32
  PCIEDEV_HW_VERSION :: u32
  PCIEDEV_BOARD_RESERVED :: u32
  brd_PROJ_NEXT :: u32

record pciedev_prj_info =
  PCIEDEV_PROJ_ID :: u32
  PCIEDEV_PROJ_VERSION :: u32
  PCIEDEV_PROJ_DATE :: u32
  PCIEDEV_PROJ_RESERVED :: u32
  PCIEDEV_PROJ_NEXT :: u32

record shapi_device_info =
  SHAPI_VERSION :: u32
  SHAPI_FIRST_MODULE_ADDRESS :: u32
  SHAPI_HW_IDS :: u32
  SHAPI_FW_IDS :: u32
  SHAPI_FW_VERSION :: u32
  SHAPI_FW_TIMESTAMP :: u32
  SHAPI_FW_NAME :: "u32 list"
  SHAPI_DEVICE_CAP :: u32
  SHAPI_DEVICE_STATUS :: u32
  SHAPI_DEVICE_CONTROL :: u32
  SHAPI_IRQ_MASK :: u32
  SHAPI_IRQ_FLAG :: u32
  SHAPI_IRQ_ACTIVE :: u32
  SHAPI_SCRATCH_REGISTER :: u32
  fw_name :: "u8 list"

record shapi_module_info =
  mod_SHAPI_VERSION :: u32
  SHAPI_NEXT_MODULE_ADDRESS :: u32
  SHAPI_MODULE_FW_IDS :: u32
  SHAPI_MODULE_VERSION :: u32
  SHAPI_MODULE_NAME :: "u32 list"
  SHAPI_MODULE_CAP :: u32
  SHAPI_MODULE_STATUS :: u32
  SHAPI_MODULE_CONTROL :: u32
  SHAPI_IRQ_ID :: u32
  SHAPI_IRQ_FLAG_CLEAR :: u32
  mod_IRQ_MASK :: u32
  mod_IRQ_FLAG :: u32
  mod_IRQ_ACTIVE :: u32
  mod_name :: "u8 list"
  module_num :: int

section \<open>One board\<close>

text \<open>
  A node of \<^verbatim>\<open>dev_file_list\<close>: the open file, named by a number, and its sequence number.
  \<open>dev_mut\<close> is the locked bit of the board's mutex.
\<close>

record upciedev_file_list =
  fl_filp :: nat
  file_cnt :: int

record pciedev_dev =
  dev_mut :: bool
  pciedev_pci_dev :: "nat option"
  dev_name :: string
  binded :: int
  brd_num :: int
  dev_minor :: int
  dev_num :: int
  dev_sts :: int
  dev_file_ref :: int
  null_dev :: int
  dev_swap :: int
  register_size :: int
  dev_file_list :: "upciedev_file_list list"
  slot_num :: int
  vendor_id :: u16
  device_id :: u16
  subvendor_id :: u16
  subdevice_id :: u16
  class_code :: u16
  revision :: u8
  bus_func :: int
  mem_base :: "u32 list"
  mem_base_end :: "u32 list"
  mem_base_flag :: "u32 list"
  rw_off :: "int list"
  memmory_base :: "u64 list"
  dev_dma_64mask :: int
  pciedev_all_mems :: int
  scratch_bar :: u32
  scratch_offset :: u32
  msi :: u8
  msi_num :: int
  irq_flag :: u32
  irq_mode :: u16
  irq_line :: u8
  irq_pin :: u8
  pci_dev_irq :: u32
  enbl_irq_num :: u32
  device_irq_num :: u32
  dev_str :: u64
  brd_info_list :: pciedev_brd_info
  prj_info_list :: "pciedev_prj_info list"
  startup_brd :: int
  startup_prj_num :: int
  device_info_list :: shapi_device_info
  module_info_list :: "shapi_module_info list"
  shapi_brd :: int
  shapi_module_num :: int

section \<open>The slot table and the driver's table of boards\<close>

text \<open>
  \<open>dev_phys_addresses\<close> has an entry per slot, each with its \<open>bars\<close>. \<open>pciedev_dev_m\<close> holds the boards of
  a driver, \<open>PCIEDEV_NR_DEVS + 1\<close> of them; the pointers are never null after the driver is initialised.
\<close>

record upciedev_bar_address =
  res_start :: u32
  res_end :: u32
  res_flag :: u32

record upciedev_phys_address =
  phys_slot_num :: int
  dev_stst :: int
  bars :: "upciedev_bar_address list"
  slot_bus :: u32
  slot_device :: u32

record upciedev_base_dev =
  base_VER_MAJ :: u16
  base_VER_MIN :: u16
  dev_phys_addresses :: "upciedev_phys_address list"

record pciedev_cdev =
  UPCIEDEV_VER_MAJ :: u16
  UPCIEDEV_VER_MIN :: u16
  PCIEDEV_DRV_VER_MAJ :: u16
  PCIEDEV_DRV_VER_MIN :: u16
  PCIEDEV_MAJOR :: int
  PCIEDEV_MINOR :: int
  pciedev_dev_m :: "pciedev_dev list"
  pciedevModuleNum :: int

section \<open>What \<^verbatim>\<open>kzalloc\<close> returns\<close>

definition zero_brd_info :: pciedev_brd_info where
  "zero_brd_info = \<lparr>PCIEDEV_BOARD_ID = 0, PCIEDEV_BOARD_VERSION = 0, PCIEDEV_BOARD_DATE = 0,
     PCIEDEV_HW_VERSION = 0, PCIEDEV_BOARD_RESERVED = 0, brd_PROJ_NEXT = 0\<rparr>"

definition zero_device_info :: shapi_device_info where
  "zero_device_info = \<lparr>SHAPI_VERSION = 0, SHAPI_FIRST_MODULE_ADDRESS = 0, SHAPI_HW_IDS = 0,
     SHAPI_FW_IDS = 0, SHAPI_FW_VERSION = 0, SHAPI_FW_TIMESTAMP = 0,
     SHAPI_FW_NAME = replicate 3 0, SHAPI_DEVICE_CAP = 0, SHAPI_DEVICE_STATUS = 0,
     SHAPI_DEVICE_CONTROL = 0, SHAPI_IRQ_MASK = 0, SHAPI_IRQ_FLAG = 0, SHAPI_IRQ_ACTIVE = 0,
     SHAPI_SCRATCH_REGISTER = 0, fw_name = replicate 13 0\<rparr>"

definition zero_module_info :: shapi_module_info where
  "zero_module_info = \<lparr>mod_SHAPI_VERSION = 0, SHAPI_NEXT_MODULE_ADDRESS = 0,
     SHAPI_MODULE_FW_IDS = 0, SHAPI_MODULE_VERSION = 0, SHAPI_MODULE_NAME = replicate 2 0,
     SHAPI_MODULE_CAP = 0, SHAPI_MODULE_STATUS = 0, SHAPI_MODULE_CONTROL = 0, SHAPI_IRQ_ID = 0,
     SHAPI_IRQ_FLAG_CLEAR = 0, mod_IRQ_MASK = 0, mod_IRQ_FLAG = 0, mod_IRQ_ACTIVE = 0,
     mod_name = replicate 9 0, module_num = 0\<rparr>"

definition zero_dev :: pciedev_dev where
  "zero_dev = \<lparr>dev_mut = False, pciedev_pci_dev = None, dev_name = [], binded = 0, brd_num = 0,
     dev_minor = 0, dev_num = 0, dev_sts = 0, dev_file_ref = 0, null_dev = 0, dev_swap = 0,
     register_size = 0, dev_file_list = [], slot_num = 0, vendor_id = 0, device_id = 0,
     subvendor_id = 0, subdevice_id = 0, class_code = 0, revision = 0, bus_func = 0,
     mem_base = replicate 6 0, mem_base_end = replicate 6 0, mem_base_flag = replicate 6 0,
     rw_off = replicate 6 0, memmory_base = replicate 6 0, dev_dma_64mask = 0,
     pciedev_all_mems = 0, scratch_bar = 0, scratch_offset = 0, msi = 0, msi_num = 0,
     irq_flag = 0, irq_mode = 0, irq_line = 0, irq_pin = 0, pci_dev_irq = 0, enbl_irq_num = 0,
     device_irq_num = 0, dev_str = 0, brd_info_list = zero_brd_info, prj_info_list = [],
     startup_brd = 0, startup_prj_num = 0, device_info_list = zero_device_info,
     module_info_list = [], shapi_brd = 0, shapi_module_num = 0\<rparr>"

section \<open>Well-formed boards\<close>

text \<open>
  The arrays have their declared lengths and the default register size is one of the three that
  exist. Every operation keeps this (shown with each operation).
\<close>

definition wf_dev :: "pciedev_dev \<Rightarrow> bool" where
  "wf_dev d \<longleftrightarrow>
     length (mem_base d) = NUMBER_OF_BARS \<and> length (mem_base_end d) = NUMBER_OF_BARS \<and>
     length (mem_base_flag d) = NUMBER_OF_BARS \<and> length (rw_off d) = NUMBER_OF_BARS \<and>
     length (memmory_base d) = NUMBER_OF_BARS \<and>
     length (SHAPI_FW_NAME (device_info_list d)) = 3 \<and>
     length (fw_name (device_info_list d)) = 13 \<and>
     0 \<le> register_size d \<and> register_size d < MTCA_MAX_RW"

lemma wf_zero_dev: "wf_dev zero_dev"
  by (simp add: wf_dev_def zero_dev_def zero_device_info_def upcie_consts)

lemma wf_dev_lengths:
  assumes "wf_dev d"
  shows "length (mem_base d) = 6" "length (mem_base_end d) = 6" "length (mem_base_flag d) = 6"
    "length (rw_off d) = 6" "length (memmory_base d) = 6"
  using assms by (simp_all add: wf_dev_def upcie_consts)

lemma wf_dev_register_size:
  assumes "wf_dev d"
  shows "register_size d = 0 \<or> register_size d = 1 \<or> register_size d = 2"
  using assms by (auto simp: wf_dev_def upcie_consts)

section \<open>A sample board\<close>

text \<open>
  One BAR of 16 registers at bus address \<open>0x8000\<close>, mapped at \<open>0x1000\<close>, 32-bit registers; the other
  BARs absent. It serves to evaluate the operations on a concrete state.
\<close>

definition sample_dev :: pciedev_dev where
  "sample_dev = zero_dev\<lparr>dev_sts := 1, binded := 1, register_size := RW_D32,
     mem_base := [0x8000, 0, 0, 0, 0, 0], mem_base_end := [0x803F, 0, 0, 0, 0, 0],
     memmory_base := [0x1000, 0, 0, 0, 0, 0]\<rparr>"

lemma wf_sample_dev: "wf_dev sample_dev"
  by (simp add: wf_dev_def sample_dev_def zero_dev_def zero_device_info_def upcie_consts)

lemma sample_dev_sel:
  "mem_base sample_dev = [0x8000, 0, 0, 0, 0, 0]" "mem_base_end sample_dev = [0x803F, 0, 0, 0, 0, 0]"
  "memmory_base sample_dev = [0x1000, 0, 0, 0, 0, 0]" "register_size sample_dev = RW_D32"
  "dev_swap sample_dev = 0" "scratch_bar sample_dev = 0" "scratch_offset sample_dev = 0"
  "dev_sts sample_dev = 1" "dev_mut sample_dev = False"
  by (simp_all add: sample_dev_def zero_dev_def)

end
