(* ===== verification/Register_IO.thy ===== *)
theory Register_IO
  imports Device
begin

unbundle bit_operations_syntax

text \<open>
  Register access, from \<^verbatim>\<open>read_write_inline.h\<close> and the macros of \<^verbatim>\<open>pciedev_io.h\<close>: byte swapping, the
  register-size correction, one register access in its modes (read, write, set bits, swap bits) and
  widths, the loops that move a run of registers between a BAR and a user buffer, and the scratch
  register test for a dead PCIe link.

  Shown here: the swaps are involutions that reverse the bytes, set-bits and swap-bits change the
  masked bits only, the loops access nothing but registers of the requested BAR (and the scratch
  register), move the registers they should, stop at the end of the BAR, and report errors as the
  code does. The frame lemmas are proved once in the locale \<open>kern_frame\<close>.
\<close>

section \<open>Macros of \<^verbatim>\<open>pciedev_io.h\<close>\<close>

definition UPCIEDEV_SWAPL :: "u32 \<Rightarrow> u32" where
  "UPCIEDEV_SWAPL x =
     (drop_bit 24 x AND 0x000000FF) OR (drop_bit 8 x AND 0x0000FF00) OR
     (push_bit 8 x AND 0x00FF0000) OR (push_bit 24 x AND 0xFF000000)"

definition UPCIEDEV_SWAPS :: "u32 \<Rightarrow> u32" where
  "UPCIEDEV_SWAPS x = (drop_bit 8 x AND 0x00FF) OR (push_bit 8 x AND 0xFF00)"

definition UPCIEDEV_SWAP_TOT :: "nat \<Rightarrow> u32 \<Rightarrow> u32" where
  "UPCIEDEV_SWAP_TOT sz x =
     (if sz = 1 then x else if sz = 2 then UPCIEDEV_SWAPS x else UPCIEDEV_SWAPL x)"

definition CORRECT_REGISTER_SIZE :: "int \<Rightarrow> int \<Rightarrow> int" where
  "CORRECT_REGISTER_SIZE m d = (if m < 0 \<or> MTCA_MAX_RW \<le> m then d else m)"

text \<open>Both parameters are \<^verbatim>\<open>int16_t\<close>, so the arguments are cut to 16 bits and read as signed.\<close>

definition GetRegisterSizeInBytes :: "int \<Rightarrow> int \<Rightarrow> nat" where
  "GetRegisterSizeInBytes m d =
     2 ^ nat (CORRECT_REGISTER_SIZE (signed_take_bit 15 m) (signed_take_bit 15 d))"

section \<open>One register\<close>

text \<open>
  The callers pass pointers to their locals \<^verbatim>\<open>tmp_data_for_rw\<close> and \<^verbatim>\<open>tmp_mask_for_w\<close>, the same one
  more than once, or null. A pointer is a cell or nothing; the locals are a store from cells to
  32-bit values.
\<close>

datatype cell = TmpData | TmpMask

type_synonym locals = "cell \<Rightarrow> u32"

text \<open>
  The inner \<^verbatim>\<open>switch\<close> of \<^verbatim>\<open>Read_Write_Private\<close>, which the source has once per width with the
  width's \<^verbatim>\<open>ioread\<close>, \<^verbatim>\<open>iowrite\<close> and pointer type and otherwise the same text: \<open>'a\<close> is the width.
  Memory barriers order accesses that are already in order here.
\<close>

definition rw_width ::
  "(u64 \<Rightarrow> 'w \<Rightarrow> 'a::len word \<times> 'w) \<Rightarrow> ('a word \<Rightarrow> u64 \<Rightarrow> 'w \<Rightarrow> 'w) \<Rightarrow> int \<Rightarrow> u64 \<Rightarrow>
   cell option \<Rightarrow> cell option \<Rightarrow> cell option \<Rightarrow> locals \<Rightarrow> 'w \<Rightarrow> (locals \<times> 'w) run" where
  "rw_width rd wr mode addr pv pm pe st w =
     (if mode = MTCA_SIMPLE_WRITE then
        (case pv of None \<Rightarrow> Fault | Some v \<Rightarrow> Done (st, wr (ucast (st v)) addr w))
      else if mode = MTCA_SET_BITS then
        (case (pv, pm) of
           (Some v, Some m) \<Rightarrow>
             let tmp_data = lo_word TYPE('a) (st v);
                 tmp_data_Mask = lo_word TYPE('a) (st m);
                 tmp_data = tmp_data AND tmp_data_Mask;
                 (r, w) = rd addr w;
                 tmp_data_Prev = ucast r;
                 tmp_data_Mask = NOT tmp_data_Mask;
                 tmp_data_Prev = tmp_data_Prev AND tmp_data_Mask;
                 tmp_data = tmp_data OR tmp_data_Prev
             in Done (st, wr (ucast tmp_data) addr w)
         | _ \<Rightarrow> Fault)
      else if mode = MTCA_SWAP_BITS then
        (case pm of
           Some m \<Rightarrow>
             let (r, w) = rd addr w;
                 tmp_data_Prev = ucast r;
                 tmp_data = NOT tmp_data_Prev;
                 tmp_data_Mask = lo_word TYPE('a) (st m);
                 tmp_data = tmp_data AND tmp_data_Mask;
                 tmp_data_Mask = NOT tmp_data_Mask;
                 tmp_data_Prev = tmp_data_Prev AND tmp_data_Mask;
                 tmp_data = tmp_data OR tmp_data_Prev
             in Done (st, wr (ucast tmp_data) addr w)
         | None \<Rightarrow> Fault)
      else if mode = MT_READ_TO_EXTRA_BUFFER then
        (case pe of None \<Rightarrow> Fault
         | Some e \<Rightarrow> let (r, w) = rd addr w in Done (st(e := put_lo (st e) r), w))
      else
        (case pv of None \<Rightarrow> Fault
         | Some v \<Rightarrow> let (r, w) = rd addr w in Done (st(v := put_lo (st v) r), w)))"

definition Read_Write_Private ::
  "'w kern \<Rightarrow> int \<Rightarrow> int \<Rightarrow> u64 \<Rightarrow> cell option \<Rightarrow> cell option \<Rightarrow> cell option \<Rightarrow> locals \<Rightarrow> 'w \<Rightarrow>
   (locals \<times> 'w) run" where
  "Read_Write_Private k rs mode addr pv pm pe st w =
     (if rs = RW_D8 then rw_width (k_ioread8 k) (k_iowrite8 k) mode addr pv pm pe st w
      else if rs = RW_D16 then rw_width (k_ioread16 k) (k_iowrite16 k) mode addr pv pm pe st w
      else rw_width (k_ioread32 k) (k_iowrite32 k) mode addr pv pm pe st w)"

section \<open>The scratch register\<close>

definition pciedev_check_scratch :: "'w kern \<Rightarrow> pciedev_dev \<Rightarrow> 'w \<Rightarrow> (bool \<times> 'w) run" where
  "pciedev_check_scratch k d w =
     run_bind (arr_get (memmory_base d) (unat (scratch_bar d))) (\<lambda>base.
       let address = base + ucast (scratch_offset d);
           scrachTest = (if register_size d = RW_D8 then 0xff
                         else if register_size d = RW_D16 then 0xffff else 0xffffffff)
       in if base = 0 then Done (True, w)
          else run_bind
            (Read_Write_Private k (register_size d) MTCA_SIMPLE_READ address (Some TmpData) None None
               (\<lambda>_. k_uninit k w 0) w)
            (\<lambda>(st, w). Done (st TmpData = scrachTest, w)))"

section \<open>Runs of registers\<close>

text \<open>
  How many registers fit between the offset and the end of the BAR, as the code computes it:
  32-bit subtraction of the resource addresses, then division.
\<close>

definition cnt_after_offset_rw :: "u32 \<Rightarrow> u32 \<Rightarrow> u32 \<Rightarrow> nat \<Rightarrow> nat" where
  "cnt_after_offset_rw bar_end bar_start a_offset sz =
     (let total_size_rw = bar_end - bar_start;
          size_after_offset_rw = (if a_offset < total_size_rw then total_size_rw - a_offset else 0)
      in unat size_after_offset_rw div sz)"

text \<open>
  The loop variable is a 32-bit \<^verbatim>\<open>int\<close> compared with a \<^verbatim>\<open>size_t\<close>: after \<open>2 ^ 31\<close> rounds it is
  negative, converts to a huge unsigned number, and the loop ends.
\<close>

definition int_loop_rounds :: "nat \<Rightarrow> nat" where
  "int_loop_rounds a_count = min a_count (2 ^ 31)"

text \<open>
  The conditional copies of the loop bodies: \<^verbatim>\<open>a_pcUserBuf0 && copy_to_user(...)\<close> and
  \<^verbatim>\<open>a_pcUserData0 && copy_from_user(...)\<close>; and the test of a value that may come from a dead link.
\<close>

definition copy_out :: "'w kern \<Rightarrow> u64 \<Rightarrow> u64 \<Rightarrow> u8 list \<Rightarrow> 'w \<Rightarrow> bool \<times> 'w" where
  "copy_out k buf0 p bs w = (if buf0 \<noteq> 0 then k_copy_to_user k p bs w else (False, w))"

definition copy_in :: "'w kern \<Rightarrow> u64 \<Rightarrow> u64 \<Rightarrow> nat \<Rightarrow> 'w \<Rightarrow> u8 list option \<times> 'w" where
  "copy_in k buf0 p n w = (if buf0 \<noteq> 0 then k_copy_from_user k p n w else (Some [], w))"

definition link_check :: "'w kern \<Rightarrow> pciedev_dev \<Rightarrow> u32 \<Rightarrow> u32 \<Rightarrow> 'w \<Rightarrow> (bool \<times> 'w) run" where
  "link_check k d scrachTest tmp_data_for_rw w =
     (if tmp_data_for_rw = scrachTest then pciedev_check_scratch k d w else Done (False, w))"

fun read_loop ::
  "'w kern \<Rightarrow> pciedev_dev \<Rightarrow> int \<Rightarrow> int \<Rightarrow> nat \<Rightarrow> u32 \<Rightarrow> u64 \<Rightarrow> nat \<Rightarrow> u64 \<Rightarrow> u64 \<Rightarrow> locals \<Rightarrow> int \<Rightarrow> 'w \<Rightarrow>
   (int \<times> 'w) run" where
  "read_loop k d rs mode sz scrachTest a_pcUserBuf0 0 pcUserBuf addressDev st retval w =
     Done (retval, w)"
| "read_loop k d rs mode sz scrachTest a_pcUserBuf0 (Suc n) pcUserBuf addressDev st retval w =
     run_bind (Read_Write_Private k rs mode addressDev (Some TmpData) (Some TmpData) (Some TmpData) st w)
       (\<lambda>(st, w). run_bind (link_check k d scrachTest (st TmpData) w)
         (\<lambda>(scrtch_check, w).
           if scrtch_check then Done (- ENOMEM, w)
           else
             let st = (if dev_swap d \<noteq> 0
                       then st(TmpData := UPCIEDEV_SWAP_TOT sz (st TmpData)) else st)
             in case copy_out k a_pcUserBuf0 pcUserBuf (take sz (le_bytes32 (st TmpData))) w of
                (failed, w) \<Rightarrow>
                  if failed then Done (retval, w)
                  else read_loop k d rs mode sz scrachTest a_pcUserBuf0 n
                         (pcUserBuf + of_nat sz) (addressDev + of_nat sz) st (retval + int sz) w))"

definition pciedev_read_inline ::
  "'w kern \<Rightarrow> pciedev_dev \<Rightarrow> int \<Rightarrow> int \<Rightarrow> u32 \<Rightarrow> u32 \<Rightarrow> u64 \<Rightarrow> nat \<Rightarrow> 'w \<Rightarrow> (int \<times> 'w) run" where
  "pciedev_read_inline k d rs mode a_bar a_offset a_pcUserBuf0 a_count w =
     (let unRegisterSize = GetRegisterSizeInBytes rs (register_size d);
          scrachTest = (if unRegisterSize = 1 then 0xff
                        else if unRegisterSize = 2 then 0xffff else 0xffffffff)
      in run_bind (arr_get (memmory_base d) (unat a_bar)) (\<lambda>base.
           if base = 0 \<or> unat a_offset mod unRegisterSize \<noteq> 0 then Done (- EFAULT, w)
           else run_bind (arr_get (mem_base_end d) (unat a_bar)) (\<lambda>bar_end.
             run_bind (arr_get (mem_base d) (unat a_bar)) (\<lambda>bar_start.
               let a_count = min a_count (cnt_after_offset_rw bar_end bar_start a_offset unRegisterSize)
               in read_loop k d rs mode unRegisterSize scrachTest a_pcUserBuf0
                    (int_loop_rounds a_count) a_pcUserBuf0 (base + ucast a_offset)
                    (\<lambda>_. k_uninit k w 0) 0 w))))"

fun write_loop ::
  "'w kern \<Rightarrow> pciedev_dev \<Rightarrow> int \<Rightarrow> int \<Rightarrow> nat \<Rightarrow> u64 \<Rightarrow> u64 \<Rightarrow> nat \<Rightarrow> u64 \<Rightarrow> u64 \<Rightarrow> u64 \<Rightarrow> locals \<Rightarrow> int \<Rightarrow>
   'w \<Rightarrow> (int \<times> 'w) run" where
  "write_loop k d rs mode sz a_pcUserData0 a_pcUserMask0 0 pcUserData pcUserMask addressDev st retval w =
     Done (retval, w)"
| "write_loop k d rs mode sz a_pcUserData0 a_pcUserMask0 (Suc n) pcUserData pcUserMask addressDev st
     retval w =
     (case copy_in k a_pcUserData0 pcUserData sz w of
        (None, w) \<Rightarrow> Done (retval, w)
      | (Some data, w) \<Rightarrow>
          (case copy_in k a_pcUserMask0 pcUserMask sz w of
             (None, w) \<Rightarrow> Done (retval, w)
           | (Some msk, w) \<Rightarrow>
               let st = st(TmpData := put_bytes (st TmpData) data,
                           TmpMask := put_bytes (st TmpMask) msk);
                   st = (if dev_swap d \<noteq> 0
                         then st(TmpData := UPCIEDEV_SWAP_TOT sz (st TmpData),
                                 TmpMask := UPCIEDEV_SWAP_TOT sz (st TmpMask)) else st)
               in run_bind (Read_Write_Private k rs mode addressDev (Some TmpData) (Some TmpMask)
                              (Some TmpMask) st w)
                    (\<lambda>(st, w). write_loop k d rs mode sz a_pcUserData0 a_pcUserMask0 n
                       (pcUserData + of_nat sz) (pcUserMask + of_nat sz) (addressDev + of_nat sz)
                       st (retval + int sz) w)))"

definition pciedev_write_inline ::
  "'w kern \<Rightarrow> pciedev_dev \<Rightarrow> int \<Rightarrow> int \<Rightarrow> u32 \<Rightarrow> u32 \<Rightarrow> u64 \<Rightarrow> u64 \<Rightarrow> nat \<Rightarrow> 'w \<Rightarrow> (int \<times> 'w) run" where
  "pciedev_write_inline k d rs mode a_bar a_offset a_pcUserData0 a_pcUserMask0 a_count w =
     (let unRegisterSize = GetRegisterSizeInBytes rs (register_size d)
      in run_bind (arr_get (memmory_base d) (unat a_bar)) (\<lambda>base.
           if base = 0 \<or> unat a_offset mod unRegisterSize \<noteq> 0 then Done (- EFAULT, w)
           else run_bind (arr_get (mem_base_end d) (unat a_bar)) (\<lambda>bar_end.
             run_bind (arr_get (mem_base d) (unat a_bar)) (\<lambda>bar_start.
               let a_count = min a_count (cnt_after_offset_rw bar_end bar_start a_offset unRegisterSize)
               in write_loop k d rs mode unRegisterSize a_pcUserData0 a_pcUserMask0
                    (int_loop_rounds a_count) a_pcUserData0 a_pcUserMask0 (base + ucast a_offset)
                    (\<lambda>c. case c of TmpData \<Rightarrow> k_uninit k w 0 | TmpMask \<Rightarrow> 0xffffffff) 0 w))))"

definition ModeString :: "int \<Rightarrow> string" where
  "ModeString a_unMode =
     (if a_unMode = RW_D8 then ''RW_D08'' else if a_unMode = RW_D16 then ''RW_D16''
      else if a_unMode = RW_D32 then ''RW_D32'' else ''UnknownRW'')"

section \<open>Swapping\<close>

lemma byte_masks:
  "(0xFF00 :: u32) = push_bit 8 (mask 8)" "(0xFF0000 :: u32) = push_bit 16 (mask 8)"
  "(0xFF000000 :: u32) = push_bit 24 (mask 8)" "(0xFF :: u32) = mask 8"
  by (simp_all add: mask_eq_exp_minus_1 push_bit_eq_mult)

lemma le_bytes32_SWAPL: "le_bytes32 (UPCIEDEV_SWAPL x) = rev (le_bytes32 x)"
  unfolding le_bytes32_def UPCIEDEV_SWAPL_def byte_masks
  by (auto intro!: bit_word_eqI simp: bit_simps)

lemma le_bytes32_SWAPS: "le_bytes32 (UPCIEDEV_SWAPS x) = rev (take 2 (le_bytes32 x)) @ [0, 0]"
  unfolding le_bytes32_def UPCIEDEV_SWAPS_def byte_masks
  by (auto intro!: bit_word_eqI simp: bit_simps)

lemma SWAPL_involution [simp]: "UPCIEDEV_SWAPL (UPCIEDEV_SWAPL x) = x"
proof -
  have "le_bytes32 (UPCIEDEV_SWAPL (UPCIEDEV_SWAPL x)) = le_bytes32 x"
    by (simp add: le_bytes32_SWAPL)
  then show ?thesis by simp
qed

text \<open>The first \<open>sz\<close> bytes of a local are reversed by the swap for that size.\<close>

lemma take_le_bytes32_SWAP_TOT:
  assumes "sz = 1 \<or> sz = 2 \<or> sz = 4"
  shows "take sz (le_bytes32 (UPCIEDEV_SWAP_TOT sz x)) = rev (take sz (le_bytes32 x))"
  using assms by (auto simp: UPCIEDEV_SWAP_TOT_def le_bytes32_SWAPL le_bytes32_SWAPS)
    (simp_all add: le_bytes32_def)

section \<open>Register sizes\<close>

definition valid_rs :: "int \<Rightarrow> bool" where
  "valid_rs rs \<longleftrightarrow> rs = RW_D8 \<or> rs = RW_D16 \<or> rs = RW_D32"

definition reg_bytes :: "int \<Rightarrow> nat" where
  "reg_bytes rs = (if rs = RW_D8 then 1 else if rs = RW_D16 then 2 else 4)"

lemma reg_bytes_cases: "reg_bytes rs = 1 \<or> reg_bytes rs = 2 \<or> reg_bytes rs = 4"
  by (simp add: reg_bytes_def)

lemma reg_bytes_pos [simp]: "0 < reg_bytes rs"
  by (simp add: reg_bytes_def)

lemma valid_rs_CORRECT:
  "wf_dev d \<Longrightarrow> valid_rs (CORRECT_REGISTER_SIZE m (register_size d))"
  by (auto simp: valid_rs_def CORRECT_REGISTER_SIZE_def wf_dev_def upcie_consts)

lemma valid_rs_dev: "wf_dev d \<Longrightarrow> valid_rs (register_size d)"
  by (auto simp: valid_rs_def wf_dev_def upcie_consts)

lemma GetRegisterSizeInBytes_valid:
  "valid_rs rs \<Longrightarrow> GetRegisterSizeInBytes rs d = reg_bytes rs"
  by (auto simp: valid_rs_def GetRegisterSizeInBytes_def CORRECT_REGISTER_SIZE_def reg_bytes_def
      upcie_consts)

section \<open>One access\<close>

lemma set_bits_value:
  fixes d m p :: "'a::len word"
  assumes "LENGTH('a) \<le> 32"
  shows "(ucast ((ucast d AND ucast m) OR (ucast p AND NOT (ucast m)) :: u32) :: 'a word)
    = (d AND m) OR (p AND NOT m)"
  using assms by (auto intro!: bit_word_eqI simp: bit_simps)

lemma swap_bits_value:
  fixes m p :: "'a::len word"
  assumes "LENGTH('a) \<le> 32"
  shows "(ucast ((NOT (ucast p) AND ucast m) OR (ucast p AND NOT (ucast m)) :: u32) :: 'a word)
    = p XOR m"
  using assms by (auto intro!: bit_word_eqI simp: bit_simps)

lemma rw_width_set_bits:
  fixes rd :: "u64 \<Rightarrow> 'w \<Rightarrow> 'a::len word \<times> 'w"
  assumes "LENGTH('a) \<le> 32" "rd a w = (r, w1)"
  shows "rw_width rd wr MTCA_SET_BITS a (Some v) (Some m) pe st w =
    Done (st, wr ((ucast (st v) AND ucast (st m)) OR (r AND NOT (ucast (st m)))) a w1)"
  using assms by (simp add: rw_width_def upcie_consts lo_word_def Let_def set_bits_value)

lemma rw_width_swap_bits:
  fixes rd :: "u64 \<Rightarrow> 'w \<Rightarrow> 'a::len word \<times> 'w"
  assumes "LENGTH('a) \<le> 32" "rd a w = (r, w1)"
  shows "rw_width rd wr MTCA_SWAP_BITS a pv (Some m) pe st w =
    Done (st, wr (r XOR ucast (st m)) a w1)"
  using assms by (simp add: rw_width_def upcie_consts lo_word_def Let_def swap_bits_value)

lemma rw_width_Done: "\<exists>st' w'. rw_width rd wr mode a (Some v) (Some m) (Some e) st w = Done (st', w')"
  by (auto simp: rw_width_def Let_def split: prod.splits)

lemma rw_width_frame:
  assumes "rw_width rd wr mode a pv pm pe st w = Done (st', w')" "Q w"
    and "\<And>w. Q w \<Longrightarrow> Q (snd (rd a w))" "\<And>v w. Q w \<Longrightarrow> Q (wr v a w)"
  shows "Q w'"
  using assms(1,2) assms(3) [of w] assms(4)
  by (auto simp: rw_width_def Let_def split: prod.splits option.splits if_splits)

lemma Read_Write_Private_Done:
  "\<exists>st' w'. Read_Write_Private k rs mode a (Some v) (Some m) (Some e) st w = Done (st', w')"
  by (simp add: Read_Write_Private_def rw_width_Done)

section \<open>Where the accesses go\<close>

definition scratch_address :: "pciedev_dev \<Rightarrow> u64" where
  "scratch_address d = memmory_base d ! unat (scratch_bar d) + ucast (scratch_offset d)"

context kern_frame
begin

lemma Read_Write_Private_frame:
  assumes "Read_Write_Private k rs mode a pv pm pe st w = Done (st', w')" "P w"
    and "A a (reg_bytes rs)"
  shows "P w'"
  using assms frame_access
  by (auto simp: Read_Write_Private_def reg_bytes_def upcie_consts split: if_splits
      elim!: rw_width_frame)

lemma check_scratch_frame:
  assumes "pciedev_check_scratch k d w = Done (b, w')" "P w"
    and "A (scratch_address d) (reg_bytes (register_size d))"
  shows "P w'"
  using assms
  by (auto simp: pciedev_check_scratch_def scratch_address_def run_bind_Done_iff arr_get_iff Let_def
      split: if_splits prod.splits elim!: Read_Write_Private_frame)

lemma link_check_frame:
  assumes "link_check k d scr v w = Done (b, w')" "P w"
    and "A (scratch_address d) (reg_bytes (register_size d))"
  shows "P w'"
  using assms by (auto simp: link_check_def split: if_splits elim: check_scratch_frame)

lemma copy_out_frame: "copy_out k buf0 p bs w = (e, w') \<Longrightarrow> P w \<Longrightarrow> P w'"
  by (auto simp: copy_out_def split: if_splits dest: frame_to_userD)

lemma copy_in_frame: "copy_in k buf0 p n w = (r, w') \<Longrightarrow> P w \<Longrightarrow> P w'"
  by (auto simp: copy_in_def split: if_splits dest: frame_from_userD)

lemma read_loop_frame:
  assumes "read_loop k d rs mode sz scr buf0 n ubuf a st ret w = Done (r, w')" "P w"
    and "\<And>i. i < n \<Longrightarrow> A (a + of_nat (i * sz)) (reg_bytes rs)"
    and "A (scratch_address d) (reg_bytes (register_size d))"
  shows "P w'"
  using assms
proof (induction n arbitrary: ubuf a st ret w)
  case 0
  then show ?case by simp
next
  case (Suc n)
  have next_A: "A (a + of_nat sz + of_nat (i * sz)) (reg_bytes rs)" if "i < n" for i
    using Suc.prems(3) [of "Suc i"] that by (simp add: algebra_simps)
  have A0: "A a (reg_bytes rs)" using Suc.prems(3) [of 0] by simp
  from Suc.prems(1) obtain st1 w1 bad w2 where
    rw: "Read_Write_Private k rs mode a (Some TmpData) (Some TmpData) (Some TmpData) st w = Done (st1, w1)"
    and lc: "link_check k d scr (st1 TmpData) w1 = Done (bad, w2)"
    by (auto simp: run_bind_Done_iff)
  have "P w2"
    using Read_Write_Private_frame [OF rw Suc.prems(2) A0] link_check_frame [OF lc _ Suc.prems(4)]
    by blast
  with Suc.prems(1) rw lc show ?case
    by (auto simp: Let_def split: if_splits prod.splits dest: copy_out_frame
        intro: Suc.IH [OF _ _ next_A Suc.prems(4)])
qed

lemma write_loop_frame:
  assumes "write_loop k d rs mode sz data0 mask0 n udata umask a st ret w = Done (r, w')" "P w"
    and "\<And>i. i < n \<Longrightarrow> A (a + of_nat (i * sz)) (reg_bytes rs)"
  shows "P w'"
  using assms
proof (induction n arbitrary: udata umask a st ret w)
  case 0
  then show ?case by simp
next
  case (Suc n)
  have next_A: "A (a + of_nat sz + of_nat (i * sz)) (reg_bytes rs)" if "i < n" for i
    using Suc.prems(3) [of "Suc i"] that by (simp add: algebra_simps)
  have A0: "A a (reg_bytes rs)" using Suc.prems(3) [of 0] by simp
  from Suc.prems(1,2) show ?case
    by (auto simp: run_bind_Done_iff Let_def split: prod.splits option.splits
        dest!: copy_in_frame intro: Suc.IH [OF _ _ next_A] Read_Write_Private_frame [OF _ _ A0])
qed

end

section \<open>The window of a BAR\<close>

definition in_bar_window :: "pciedev_dev \<Rightarrow> u32 \<Rightarrow> u32 \<Rightarrow> u64 \<Rightarrow> nat \<Rightarrow> bool" where
  "in_bar_window d bar off a n \<longleftrightarrow>
     unat (memmory_base d ! unat bar) + unat off \<le> unat a \<and>
     unat a + n \<le> unat (memmory_base d ! unat bar)
       + unat (mem_base_end d ! unat bar - mem_base d ! unat bar)"

lemma cnt_after_offset_fits:
  assumes "i < cnt_after_offset_rw e s off sz"
  shows "unat off + i * sz + sz \<le> unat (e - s)"
proof (cases "off < e - s")
  case True
  then have less: "unat off \<le> unat (e - s)" and "unat (e - s - off) = unat (e - s) - unat off"
    by (simp_all add: word_less_nat_alt unat_sub word_le_nat_alt)
  with True assms have "i < (unat (e - s) - unat off) div sz"
    by (simp add: cnt_after_offset_rw_def Let_def)
  then have "Suc i * sz \<le> (unat (e - s) - unat off) div sz * sz"
    by (intro mult_le_mono1) simp
  also have "\<dots> \<le> unat (e - s) - unat off" by simp
  finally show ?thesis using less by simp
next
  case False
  then show ?thesis using assms by (simp add: cnt_after_offset_rw_def Let_def)
qed

lemma unat_bar_address:
  fixes base :: u64 and off :: u32
  assumes "unat base + t \<le> 2 ^ 64" "unat off + j + n \<le> t" "0 < n"
  shows "unat (base + ucast off + of_nat j) = unat base + unat off + j"
proof -
  have "unat (ucast off :: u64) = unat off"
    using unsigned_less [of off, where ?'a = nat]
    by (simp add: unsigned_ucast_eq take_bit_eq_mod)
  moreover have "unat (of_nat j :: u64) = j"
    using assms by (simp add: unat_of_nat)
  ultimately show ?thesis
    using assms by (simp add: unat_word_ariths)
qed

lemma loop_access_in_window:
  assumes "unat (memmory_base d ! unat bar)
      + unat (mem_base_end d ! unat bar - mem_base d ! unat bar) \<le> 2 ^ 64"
    and "i < int_loop_rounds (min count
      (cnt_after_offset_rw (mem_base_end d ! unat bar) (mem_base d ! unat bar) off sz))"
    and "0 < sz"
  shows "in_bar_window d bar off (memmory_base d ! unat bar + ucast off + of_nat (i * sz)) sz"
proof -
  have fits: "unat off + i * sz + sz \<le> unat (mem_base_end d ! unat bar - mem_base d ! unat bar)"
    using assms(2) by (intro cnt_after_offset_fits) (simp add: int_loop_rounds_def)
  show ?thesis
    unfolding in_bar_window_def unat_bar_address [OF assms(1) fits assms(3)]
    using fits by simp
qed

definition link_pattern :: "int \<Rightarrow> u32" where
  "link_pattern rs = (if reg_bytes rs = 1 then 0xff else if reg_bytes rs = 2 then 0xffff else 0xffffffff)"

text \<open>Both loops run only inside the arrays: the calls in range, with the checks made explicit.\<close>

lemma read_inline_in_range:
  assumes "wf_dev d" "valid_rs rs" "unat bar < NUMBER_OF_BARS"
  shows "pciedev_read_inline k d rs mode bar off buf count w =
    (if memmory_base d ! unat bar = 0 \<or> unat off mod reg_bytes rs \<noteq> 0 then Done (- EFAULT, w)
     else read_loop k d rs mode (reg_bytes rs) (link_pattern rs) buf
       (int_loop_rounds (min count (cnt_after_offset_rw (mem_base_end d ! unat bar)
         (mem_base d ! unat bar) off (reg_bytes rs))))
       buf (memmory_base d ! unat bar + ucast off) (\<lambda>_. k_uninit k w 0) 0 w)"
  using assms(3) wf_dev_lengths [OF assms(1)]
  unfolding pciedev_read_inline_def GetRegisterSizeInBytes_valid [OF assms(2)] link_pattern_def
    NUMBER_OF_BARS_def
  by (simp only: Let_def arr_get_Done run_bind.simps)

lemma write_inline_in_range:
  assumes "wf_dev d" "valid_rs rs" "unat bar < NUMBER_OF_BARS"
  shows "pciedev_write_inline k d rs mode bar off data msk count w =
    (if memmory_base d ! unat bar = 0 \<or> unat off mod reg_bytes rs \<noteq> 0 then Done (- EFAULT, w)
     else write_loop k d rs mode (reg_bytes rs) data msk
       (int_loop_rounds (min count (cnt_after_offset_rw (mem_base_end d ! unat bar)
         (mem_base d ! unat bar) off (reg_bytes rs))))
       data msk (memmory_base d ! unat bar + ucast off)
       (\<lambda>c. case c of TmpData \<Rightarrow> k_uninit k w 0 | TmpMask \<Rightarrow> 0xffffffff) 0 w)"
  using assms(3) wf_dev_lengths [OF assms(1)]
  unfolding pciedev_write_inline_def GetRegisterSizeInBytes_valid [OF assms(2)] NUMBER_OF_BARS_def
  by (simp only: Let_def arr_get_Done run_bind.simps)

text \<open>An index past the arrays is the only way to fault before the loop.\<close>

lemma inline_out_of_range:
  assumes "wf_dev d" "NUMBER_OF_BARS \<le> unat bar"
  shows "pciedev_read_inline k d rs mode bar off buf count w = Fault"
    and "pciedev_write_inline k d rs mode bar off data msk count w = Fault"
  using assms wf_dev_lengths [OF assms(1)]
  by (simp_all add: pciedev_read_inline_def pciedev_write_inline_def NUMBER_OF_BARS_def Let_def)

text \<open>
  C1. Every device access that reading registers makes lies in the requested BAR, from the offset
  on, or is the one scratch-register access.
\<close>

theorem read_inline_stays_in_bar:
  assumes "wf_dev d" "valid_rs rs"
    and "unat (memmory_base d ! unat bar)
      + unat (mem_base_end d ! unat bar - mem_base d ! unat bar) \<le> 2 ^ 64"
    and "pciedev_read_inline (logged k) d rs mode bar off buf count (w, []) = Done (r, w', log)"
  shows "\<forall>(a, n) \<in> set log. in_bar_window d bar off a n \<or>
    a = scratch_address d \<and> n = reg_bytes (register_size d)"
proof -
  let ?A = "\<lambda>a n. in_bar_window d bar off a n \<or> a = scratch_address d \<and> n = reg_bytes (register_size d)"
  have "unat bar < NUMBER_OF_BARS"
    using assms(4) inline_out_of_range(1) [OF assms(1)] by (metis not_less run.distinct(4))
  note eq = read_inline_in_range [OF assms(1,2) this]
  have "log_within ?A (w', log)"
  proof (cases "memmory_base d ! unat bar = 0 \<or> unat off mod reg_bytes rs \<noteq> 0")
    case True
    with assms(4) show ?thesis by (simp add: eq)
  next
    case False
    with assms(4) have run: "read_loop (logged k) d rs mode (reg_bytes rs) (link_pattern rs) buf
      (int_loop_rounds (min count (cnt_after_offset_rw (mem_base_end d ! unat bar)
        (mem_base d ! unat bar) off (reg_bytes rs))))
      buf (memmory_base d ! unat bar + ucast off) (\<lambda>_. k_uninit (logged k) (w, []) 0) 0 (w, [])
      = Done (r, w', log)"
      unfolding eq by simp
    show ?thesis
      by (rule logged.read_loop_frame [OF run])
        (simp_all add: loop_access_in_window [OF assms(3) _ reg_bytes_pos] del: of_nat_mult)
  qed
  then show ?thesis by (simp add: log_within_def)
qed

text \<open>
  C13. Every device access that writing registers makes lies in the requested BAR, from the offset on.
\<close>

theorem write_inline_stays_in_bar:
  assumes "wf_dev d" "valid_rs rs"
    and "unat (memmory_base d ! unat bar)
      + unat (mem_base_end d ! unat bar - mem_base d ! unat bar) \<le> 2 ^ 64"
    and "pciedev_write_inline (logged k) d rs mode bar off data msk count (w, []) = Done (r, w', log)"
  shows "\<forall>(a, n) \<in> set log. in_bar_window d bar off a n"
proof -
  have "unat bar < NUMBER_OF_BARS"
    using assms(4) inline_out_of_range(2) [OF assms(1)] by (metis not_less run.distinct(4))
  note eq = write_inline_in_range [OF assms(1,2) this]
  have "log_within (in_bar_window d bar off) (w', log)"
  proof (cases "memmory_base d ! unat bar = 0 \<or> unat off mod reg_bytes rs \<noteq> 0")
    case True
    with assms(4) show ?thesis by (simp add: eq)
  next
    case False
    with assms(4) have run: "write_loop (logged k) d rs mode (reg_bytes rs) data msk
      (int_loop_rounds (min count (cnt_after_offset_rw (mem_base_end d ! unat bar)
        (mem_base d ! unat bar) off (reg_bytes rs))))
      data msk (memmory_base d ! unat bar + ucast off)
      (\<lambda>c. case c of TmpData \<Rightarrow> k_uninit (logged k) (w, []) 0 | TmpMask \<Rightarrow> 0xffffffff) 0 (w, [])
      = Done (r, w', log)"
      unfolding eq by simp
    show ?thesis
      by (rule logged.write_loop_frame [OF run])
        (simp_all add: loop_access_in_window [OF assms(3) _ reg_bytes_pos] del: of_nat_mult)
  qed
  then show ?thesis by (simp add: log_within_def)
qed

section \<open>What a read delivers\<close>

text \<open>
  The bytes a register of a stable device holds, and the run of copies that hands a list of chunks
  to a user buffer.
\<close>

definition reg_value_bytes ::
  "(u64 \<Rightarrow> u8) \<Rightarrow> (u64 \<Rightarrow> u16) \<Rightarrow> (u64 \<Rightarrow> u32) \<Rightarrow> int \<Rightarrow> u64 \<Rightarrow> u8 list" where
  "reg_value_bytes r8 r16 r32 rs a =
     (if rs = RW_D8 then [r8 a]
      else if rs = RW_D16 then take 2 (le_bytes32 (ucast (r16 a))) else le_bytes32 (r32 a))"

primrec deliver :: "'w kern \<Rightarrow> u64 \<Rightarrow> u8 list list \<Rightarrow> 'w \<Rightarrow> 'w" where
  "deliver k p [] w = w"
| "deliver k p (b # bs) w = deliver k (p + of_nat (length b)) bs (snd (k_copy_to_user k p b w))"

definition is_read_mode :: "int \<Rightarrow> bool" where
  "is_read_mode mode \<longleftrightarrow> mode \<noteq> MTCA_SIMPLE_WRITE \<and> mode \<noteq> MTCA_SET_BITS \<and> mode \<noteq> MTCA_SWAP_BITS"

lemma take_le_bytes32_put_lo16:
  "take 2 (le_bytes32 (put_lo x (v :: u16))) = take 2 (le_bytes32 (ucast v))"
  by (auto simp: le_bytes32_def put_lo_def bit_simps intro!: bit_word_eqI)

lemma rw_width_read:
  assumes "rd a w = (r, w')" "is_read_mode mode"
  shows "rw_width rd wr mode a (Some c) (Some c) (Some c) st w = Done (st(c := put_lo (st c) r), w')"
  using assms by (simp add: rw_width_def is_read_mode_def)

lemma Read_Write_Private_read_stable:
  assumes "stable_reads k I r8 r16 r32" "I w" "is_read_mode mode"
  obtains v where
    "Read_Write_Private k rs mode a (Some c) (Some c) (Some c) st w = Done (st(c := v), w)"
    "take (reg_bytes rs) (le_bytes32 v) = reg_value_bytes r8 r16 r32 rs a"
proof
  let ?v = "if rs = RW_D8 then put_lo (st c) (r8 a)
    else if rs = RW_D16 then put_lo (st c) (r16 a) else put_lo (st c) (r32 a)"
  show "Read_Write_Private k rs mode a (Some c) (Some c) (Some c) st w = Done (st(c := ?v), w)"
    using assms by (simp add: Read_Write_Private_def rw_width_read stable_readsD [OF assms(1,2)])
  show "take (reg_bytes rs) (le_bytes32 ?v) = reg_value_bytes r8 r16 r32 rs a"
    using take_bytes_put_lo8 by (simp add: reg_bytes_def reg_value_bytes_def take_le_bytes32_put_lo16)
qed

lemma length_reg_value_bytes [simp]: "length (reg_value_bytes r8 r16 r32 rs a) = reg_bytes rs"
  by (simp add: reg_value_bytes_def reg_bytes_def)

lemma take_link_pattern:
  "take (reg_bytes rs) (le_bytes32 (link_pattern rs)) = replicate (reg_bytes rs) 0xff"
proof -
  have "replicate 4 (0xff :: u8) = [0xff, 0xff, 0xff, 0xff]" "replicate 2 (0xff :: u8) = [0xff, 0xff]"
    by (simp_all add: eval_nat_numeral)
  then show ?thesis by (simp add: link_pattern_def reg_bytes_def le_bytes32_def)
qed

lemma read_loop_delivers:
  assumes "stable_reads k I r8 r16 r32" "I w" "is_read_mode mode" "buf0 \<noteq> 0"
    and "\<And>i. i < n \<Longrightarrow> reg_value_bytes r8 r16 r32 rs (a + of_nat (i * reg_bytes rs))
      \<noteq> replicate (reg_bytes rs) 0xff"
  shows "read_loop k d rs mode (reg_bytes rs) (link_pattern rs) buf0 n ubuf a st ret w =
    Done (ret + int (n * reg_bytes rs), deliver k ubuf
      (map (\<lambda>i. (if dev_swap d \<noteq> 0 then rev else id)
        (reg_value_bytes r8 r16 r32 rs (a + of_nat (i * reg_bytes rs)))) [0..<n]) w)"
  using assms(2,5)
proof (induction n arbitrary: ubuf a st ret w)
  case 0
  then show ?case by simp
next
  case (Suc n)
  let ?sz = "reg_bytes rs" and ?chunk = "\<lambda>a. (if dev_swap d \<noteq> 0 then rev else id) (reg_value_bytes r8 r16 r32 rs a)"
  obtain v where rw: "Read_Write_Private k rs mode a (Some TmpData) (Some TmpData) (Some TmpData) st w
      = Done (st(TmpData := v), w)"
    and v: "take ?sz (le_bytes32 v) = reg_value_bytes r8 r16 r32 rs a"
    by (rule Read_Write_Private_read_stable [OF assms(1) Suc.prems(1) assms(3)])
  have "v \<noteq> link_pattern rs"
    using Suc.prems(2) [of 0] v take_link_pattern by auto
  then have lc: "link_check k d (link_pattern rs) v w = Done (False, w)"
    by (simp add: link_check_def)
  let ?v = "if dev_swap d \<noteq> 0 then UPCIEDEV_SWAP_TOT ?sz v else v"
  have v': "take ?sz (le_bytes32 ?v) = ?chunk a"
    using v take_le_bytes32_SWAP_TOT [OF reg_bytes_cases] by simp
  have not_failed: "copy_out k buf0 ubuf bs w = (False, snd (k_copy_to_user k ubuf bs w))" for bs
    using assms(4) stable_readsD(4) [OF assms(1) Suc.prems(1), of ubuf bs]
    by (cases "k_copy_to_user k ubuf bs w") (simp add: copy_out_def)
  have IH: "read_loop k d rs mode ?sz (link_pattern rs) buf0 n (ubuf + of_nat ?sz) (a + of_nat ?sz) st' (ret + int ?sz) w'
    = Done (ret + int ?sz + int (n * ?sz), deliver k (ubuf + of_nat ?sz)
        (map (\<lambda>i. ?chunk (a + of_nat ?sz + of_nat (i * ?sz))) [0..<n]) w')" if "I w'" for st' w'
    using that Suc.prems(2) [of "Suc i" for i] by (intro Suc.IH) (simp_all add: algebra_simps)
  have upt: "[0..<Suc n] = 0 # map Suc [0..<n]"
    by (simp add: upt_conv_Cons map_Suc_upt del: upt_Suc)
  have chunks: "map (\<lambda>i. ?chunk (a + of_nat (i * ?sz))) [0..<Suc n]
    = ?chunk a # map (\<lambda>i. ?chunk (a + of_nat ?sz + of_nat (i * ?sz))) [0..<n]"
    unfolding upt by (simp add: algebra_simps)
  show ?case
    unfolding chunks using v' by (cases "dev_swap d = 0")
      (simp_all add: rw lc not_failed IH stable_readsD(5) [OF assms(1) Suc.prems(1)] Let_def)
qed

text \<open>
  C9. Reading from a stable device delivers, register by register and in order, the bytes the
  registers hold (each register's bytes reversed when swapping is on) and returns their number.
\<close>

theorem read_inline_delivers:
  assumes "stable_reads k I r8 r16 r32" "I w" "wf_dev d" "valid_rs rs" "is_read_mode mode"
    and "unat bar < NUMBER_OF_BARS" "memmory_base d ! unat bar \<noteq> 0"
    and "unat off mod reg_bytes rs = 0" "buf \<noteq> 0"
    and "n = int_loop_rounds (min count (cnt_after_offset_rw (mem_base_end d ! unat bar)
      (mem_base d ! unat bar) off (reg_bytes rs)))"
    and "\<And>i. i < n \<Longrightarrow> reg_value_bytes r8 r16 r32 rs
      (memmory_base d ! unat bar + ucast off + of_nat (i * reg_bytes rs)) \<noteq> replicate (reg_bytes rs) 0xff"
  shows "pciedev_read_inline k d rs mode bar off buf count w =
    Done (int (n * reg_bytes rs), deliver k buf
      (map (\<lambda>i. (if dev_swap d \<noteq> 0 then rev else id) (reg_value_bytes r8 r16 r32 rs
        (memmory_base d ! unat bar + ucast off + of_nat (i * reg_bytes rs)))) [0..<n]) w)"
proof -
  have "pciedev_read_inline k d rs mode bar off buf count w = read_loop k d rs mode (reg_bytes rs)
    (link_pattern rs) buf n buf (memmory_base d ! unat bar + ucast off) (\<lambda>_. k_uninit k w 0) 0 w"
    using assms(7,8) unfolding read_inline_in_range [OF assms(3,4,6)] assms(10) by simp
  also have "\<dots> = Done (0 + int (n * reg_bytes rs), deliver k buf
      (map (\<lambda>i. (if dev_swap d \<noteq> 0 then rev else id) (reg_value_bytes r8 r16 r32 rs
        (memmory_base d ! unat bar + ucast off + of_nat (i * reg_bytes rs)))) [0..<n]) w)"
    by (rule read_loop_delivers [OF assms(1,2,5,9,11)])
  finally show ?thesis by simp
qed

section \<open>Results\<close>

lemma write_loop_result:
  "\<exists>r w'. write_loop k d rs mode sz data0 mask0 n udata umask a st ret w = Done (r, w') \<and>
    (\<exists>j \<le> n. r = ret + int (j * sz))"
proof (induction n arbitrary: udata umask a st ret w)
  case 0
  then show ?case by simp
next
  case (Suc n)
  have "\<exists>r w'. write_loop k d rs mode sz data0 mask0 n udata' umask' a' st' (ret + int sz) w1 = Done (r, w') \<and>
    (\<exists>j \<le> Suc n. r = ret + int (j * sz))" for udata' umask' a' st' w1
  proof -
    obtain r w' j where "write_loop k d rs mode sz data0 mask0 n udata' umask' a' st' (ret + int sz) w1 = Done (r, w')"
      "j \<le> n" "r = ret + int sz + int (j * sz)"
      using Suc.IH by blast
    then show ?thesis by (intro exI [of _ r] exI [of _ w'] conjI exI [of _ "Suc j"]) simp_all
  qed
  note more = this
  have rw: "\<exists>r w'. run_bind (Read_Write_Private k rs mode a (Some TmpData) (Some TmpMask) (Some TmpMask) st' w1)
     (\<lambda>(st, w). write_loop k d rs mode sz data0 mask0 n udata' umask' a' st (ret + int sz) w) = Done (r, w') \<and>
    (\<exists>j \<le> Suc n. r = ret + int (j * sz))" for st' w1 udata' umask' a'
    using Read_Write_Private_Done [of k rs mode a TmpData TmpMask TmpMask st' w1] more by auto
  have stop: "\<exists>r w'. Done (ret, w1) = Done (r, w') \<and> (\<exists>j \<le> Suc n. r = ret + int (j * sz))" for w1 :: 'a
    by auto
  show ?case
    unfolding write_loop.simps Let_def
    by (split prod.split option.split, intro allI impI conjI stop)+ (rule stop rw)+
qed

lemma rounds_fit:
  assumes "0 < j" "j \<le> int_loop_rounds (min count (cnt_after_offset_rw e s off sz))"
  shows "unat off + j * sz \<le> unat (e - s)"
proof -
  have "j - 1 < cnt_after_offset_rw e s off sz" using assms by (auto simp: int_loop_rounds_def)
  from cnt_after_offset_fits [OF this] assms(1) show ?thesis by (cases j) simp_all
qed

text \<open>Whether the scratch register of a board with 32-bit registers shows a dead link.\<close>

definition scratch_dead :: "pciedev_dev \<Rightarrow> (u64 \<Rightarrow> u32) \<Rightarrow> bool" where
  "scratch_dead d r32 \<longleftrightarrow> memmory_base d ! unat (scratch_bar d) = 0 \<or> r32 (scratch_address d) = 0xffffffff"

lemma check_scratch32:
  assumes "wf_dev d" "register_size d = RW_D32" "unat (scratch_bar d) < NUMBER_OF_BARS"
  shows "pciedev_check_scratch k d w =
    (if memmory_base d ! unat (scratch_bar d) = 0 then Done (True, w)
     else Done (fst (k_ioread32 k (scratch_address d) w) = 0xffffffff, snd (k_ioread32 k (scratch_address d) w)))"
  using assms(2,3) wf_dev_lengths [OF assms(1)]
  by (simp add: pciedev_check_scratch_def Let_def Read_Write_Private_def rw_width_def upcie_consts scratch_address_def arr_get_def
      case_prod_unfold)

lemma read_loop_outcome:
  assumes "stable_reads k I r8 r16 r32" "I w" "is_read_mode mode" "buf0 \<noteq> 0"
    and "wf_dev d" "register_size d = RW_D32" "unat (scratch_bar d) < NUMBER_OF_BARS"
  shows "read_loop k d RW_D32 mode 4 0xffffffff buf0 n ubuf a st ret w =
    (let j = length (takeWhile (\<lambda>i. \<not> (scratch_dead d r32 \<and> r32 (a + of_nat (i * 4)) = 0xffffffff)) [0..<n])
     in Done (if j < n then - ENOMEM else ret + int (n * 4),
          deliver k ubuf (map (\<lambda>i. (if dev_swap d \<noteq> 0 then rev else id) (le_bytes32 (r32 (a + of_nat (i * 4))))) [0..<j]) w))"
  using assms(2)
proof (induction n arbitrary: ubuf a st ret w)
  case 0
  then show ?case by simp
next
  case (Suc n)
  let ?chunk = "\<lambda>a. (if dev_swap d \<noteq> 0 then rev else id) (le_bytes32 (r32 a))"
  let ?live = "\<lambda>a. \<not> (scratch_dead d r32 \<and> r32 a = 0xffffffff)"
  note stable = stable_readsD [OF assms(1) Suc.prems]
  have rw: "Read_Write_Private k RW_D32 mode a (Some TmpData) (Some TmpData) (Some TmpData) st w = Done (st(TmpData := r32 a), w)"
    using assms(3) stable(3) by (simp add: Read_Write_Private_def RW_D8_def RW_D16_def RW_D32_def rw_width_read)
  have lc: "link_check k d 0xffffffff (r32 a) w = Done (\<not> ?live a, w)"
    using stable(3) by (simp add: link_check_def check_scratch32 [OF assms(5-7)] scratch_dead_def)
  have upt: "[0..<Suc m] = 0 # map Suc [0..<m]" for m by (simp add: upt_conv_Cons map_Suc_upt del: upt_Suc)
  have addr: "a + of_nat (Suc i * 4) = (a + 4) + of_nat (i * 4)" for i by (simp add: algebra_simps)
  let ?j = "\<lambda>a n. length (takeWhile (\<lambda>i. ?live (a + of_nat (i * 4))) [0..<n])"
  have j: "?j a (Suc n) = (if ?live a then Suc (?j (a + 4) n) else 0)"
    unfolding upt by (simp add: takeWhile_map comp_def addr del: of_nat_mult of_nat_Suc mult_Suc)
  have chunks: "map (\<lambda>i. ?chunk (a + of_nat (i * 4))) [0..<Suc m] = ?chunk a # map (\<lambda>i. ?chunk (a + 4 + of_nat (i * 4))) [0..<m]" for m
    unfolding upt by (simp add: comp_def addr del: of_nat_mult of_nat_Suc mult_Suc)
  show ?case
  proof (cases "?live a")
    case False
    from lc False have dead: "link_check k d 0xffffffff (r32 a) w = Done (True, w)" by simp
    have "read_loop k d RW_D32 mode 4 0xffffffff buf0 (Suc n) ubuf a st ret w = Done (- ENOMEM, w)"
      by (simp add: rw dead)
    with False show ?thesis unfolding j by (simp del: upt_Suc)
  next
    case True
    let ?v = "if dev_swap d \<noteq> 0 then UPCIEDEV_SWAP_TOT 4 (r32 a) else r32 a"
    have v: "take 4 (le_bytes32 ?v) = ?chunk a"
      using take_le_bytes32_SWAP_TOT [of 4 "r32 a"] by simp
    have ok: "copy_out k buf0 ubuf bs w = (False, snd (k_copy_to_user k ubuf bs w))" for bs
      using assms(4) stable(4) [of ubuf bs] by (cases "k_copy_to_user k ubuf bs w") (simp add: copy_out_def)
    have IH: "read_loop k d RW_D32 mode 4 0xffffffff buf0 n (ubuf + of_nat 4) (a + of_nat 4) st' (ret + int 4) w' =
       Done (if ?j (a + 4) n < n then - ENOMEM else ret + int (Suc n * 4),
         deliver k (ubuf + 4) (map (\<lambda>i. ?chunk (a + 4 + of_nat (i * 4))) [0..<?j (a + 4) n]) w')" if "I w'" for st' w'
      using Suc.IH [OF that, of "ubuf + 4" "a + 4" st' "ret + int 4"] by (simp add: Let_def del: of_nat_mult)
    have step: "read_loop k d RW_D32 mode 4 0xffffffff buf0 (Suc n) ubuf a st ret w =
        read_loop k d RW_D32 mode 4 0xffffffff buf0 n (ubuf + of_nat 4) (a + of_nat 4) (st(TmpData := ?v)) (ret + int 4)
          (snd (k_copy_to_user k ubuf (?chunk a) w))"
      using True v by (cases "dev_swap d = 0") (simp_all add: rw lc ok Let_def)
    show ?thesis
      unfolding step IH [OF stable(5)] j Let_def using True
      by (simp add: chunks del: upt_Suc of_nat_mult of_nat_Suc mult_Suc)
  qed
qed

text \<open>
  C18. What a 32-bit read of a board with 32-bit registers returns, in every case, when the buffer can
  be written: \<open>-EFAULT\<close> with nothing done when the BAR is not mapped or the offset is not a
  multiple of four. Otherwise \<open>n\<close> registers are due, at most what was asked for and what lies
  between the offset and the end of the BAR, and they are delivered in order up to the first one that
  reads as all ones while the scratch register shows a dead link; if there is such a register the
  result is \<open>-ENOMEM\<close>, else it is the size of the \<open>n\<close> registers.
\<close>

theorem read_inline_outcome:
  assumes "stable_reads k I r8 r16 r32" "I w" "wf_dev d" "is_read_mode mode"
    and "unat bar < NUMBER_OF_BARS" "buf \<noteq> 0" "register_size d = RW_D32" "unat (scratch_bar d) < NUMBER_OF_BARS"
    and "n = int_loop_rounds (min count (cnt_after_offset_rw (mem_base_end d ! unat bar) (mem_base d ! unat bar) off 4))"
    and "a = (\<lambda>i. memmory_base d ! unat bar + ucast off + of_nat (i * 4))"
    and "j = length (takeWhile (\<lambda>i. \<not> (scratch_dead d r32 \<and> r32 (a i) = 0xffffffff)) [0..<n])"
  shows "pciedev_read_inline k d RW_D32 mode bar off buf count w =
      (if memmory_base d ! unat bar = 0 \<or> unat off mod 4 \<noteq> 0 then Done (- EFAULT, w)
       else Done (if j < n then - ENOMEM else int (n * 4),
         deliver k buf (map (\<lambda>i. (if dev_swap d \<noteq> 0 then rev else id) (le_bytes32 (r32 (a i)))) [0..<j]) w)) \<and>
    n \<le> count \<and> (0 < n \<longrightarrow> unat off + n * 4 \<le> unat (mem_base_end d ! unat bar - mem_base d ! unat bar))"
proof -
  have valid: "valid_rs RW_D32" and four: "reg_bytes RW_D32 = 4" "link_pattern RW_D32 = 0xffffffff"
    by (simp_all add: valid_rs_def reg_bytes_def link_pattern_def upcie_consts)
  have run: "pciedev_read_inline k d RW_D32 mode bar off buf count w =
      (if memmory_base d ! unat bar = 0 \<or> unat off mod 4 \<noteq> 0 then Done (- EFAULT, w)
       else Done (if j < n then - ENOMEM else int (n * 4),
         deliver k buf (map (\<lambda>i. (if dev_swap d \<noteq> 0 then rev else id) (le_bytes32 (r32 (a i)))) [0..<j]) w))"
    unfolding read_inline_in_range [OF assms(3) valid assms(5)] four assms(9) [symmetric]
      read_loop_outcome [OF assms(1,2,4,6,3,7,8)] assms(10,11)
    by (simp only: Let_def add_0)
  have "n \<le> count" using assms(9) by (simp add: int_loop_rounds_def)
  moreover have "unat off + n * 4 \<le> unat (mem_base_end d ! unat bar - mem_base d ! unat bar)" if "0 < n"
    using rounds_fit [OF that, of count "mem_base_end d ! unat bar" "mem_base d ! unat bar" off 4] assms(9) by simp
  ultimately show ?thesis using run by blast
qed

text \<open>
  With the BAR number in range a write returns: \<open>-EFAULT\<close> with nothing done when the BAR is not
  mapped or the offset is not a multiple of the register size; otherwise the size of the registers
  written, at most what was asked for and at most what lies between the offset and the end of the BAR.
\<close>

theorem write_inline_returns:
  assumes "wf_dev d" "valid_rs rs" "unat bar < NUMBER_OF_BARS"
  shows "\<exists>r w'. pciedev_write_inline k d rs mode bar off data msk count w = Done (r, w') \<and>
    (if memmory_base d ! unat bar = 0 \<or> unat off mod reg_bytes rs \<noteq> 0 then r = - EFAULT \<and> w' = w
     else \<exists>j. r = int (j * reg_bytes rs) \<and> j \<le> count \<and>
       (0 < j \<longrightarrow> unat off + j * reg_bytes rs \<le> unat (mem_base_end d ! unat bar - mem_base d ! unat bar)))"
proof (cases "memmory_base d ! unat bar = 0 \<or> unat off mod reg_bytes rs \<noteq> 0")
  case True
  then show ?thesis by (simp add: write_inline_in_range [OF assms])
next
  case False
  let ?cnt = "cnt_after_offset_rw (mem_base_end d ! unat bar) (mem_base d ! unat bar) off (reg_bytes rs)"
  obtain r w' where run: "pciedev_write_inline k d rs mode bar off data msk count w = Done (r, w')"
    and r: "\<exists>j \<le> int_loop_rounds (min count ?cnt). r = 0 + int (j * reg_bytes rs)"
    using False write_loop_result [of k d rs mode "reg_bytes rs" data msk
        "int_loop_rounds (min count ?cnt)" data msk "memmory_base d ! unat bar + ucast off"
        "\<lambda>c. case c of TmpData \<Rightarrow> k_uninit k w 0 | TmpMask \<Rightarrow> 0xffffffff" 0 w]
    unfolding write_inline_in_range [OF assms] by (auto simp del: of_nat_mult)
  have "\<exists>j. r = int (j * reg_bytes rs) \<and> j \<le> count \<and>
       (0 < j \<longrightarrow> unat off + j * reg_bytes rs \<le> unat (mem_base_end d ! unat bar - mem_base d ! unat bar))"
    using r rounds_fit [of _ count "mem_base_end d ! unat bar" "mem_base d ! unat bar" off "reg_bytes rs"]
    by (auto simp: int_loop_rounds_def simp del: of_nat_mult)
  with run False show ?thesis by (simp del: of_nat_mult)
qed

text \<open>
  C19. Set-bits replaces exactly the masked bits of the register by those of the data; swap-bits
  inverts exactly the masked bits. Each is one read and one write at the register's width.
\<close>

theorem masked_write_value:
  "Read_Write_Private k RW_D32 MTCA_SET_BITS a (Some v) (Some m) pe st w =
     (case k_ioread32 k a w of (r, w1) \<Rightarrow>
        Done (st, k_iowrite32 k ((st v AND st m) OR (r AND NOT (st m))) a w1)) \<and>
   Read_Write_Private k RW_D16 MTCA_SET_BITS a (Some v) (Some m) pe st w =
     (case k_ioread16 k a w of (r, w1) \<Rightarrow>
        Done (st, k_iowrite16 k ((ucast (st v) AND ucast (st m)) OR (r AND NOT (ucast (st m)))) a w1)) \<and>
   Read_Write_Private k RW_D8 MTCA_SET_BITS a (Some v) (Some m) pe st w =
     (case k_ioread8 k a w of (r, w1) \<Rightarrow>
        Done (st, k_iowrite8 k ((ucast (st v) AND ucast (st m)) OR (r AND NOT (ucast (st m)))) a w1)) \<and>
   Read_Write_Private k RW_D32 MTCA_SWAP_BITS a pv (Some m) pe st w =
     (case k_ioread32 k a w of (r, w1) \<Rightarrow> Done (st, k_iowrite32 k (r XOR st m) a w1)) \<and>
   Read_Write_Private k RW_D16 MTCA_SWAP_BITS a pv (Some m) pe st w =
     (case k_ioread16 k a w of (r, w1) \<Rightarrow> Done (st, k_iowrite16 k (r XOR ucast (st m)) a w1)) \<and>
   Read_Write_Private k RW_D8 MTCA_SWAP_BITS a pv (Some m) pe st w =
     (case k_ioread8 k a w of (r, w1) \<Rightarrow> Done (st, k_iowrite8 k (r XOR ucast (st m)) a w1))"
  by (simp add: Read_Write_Private_def RW_D8_def RW_D16_def RW_D32_def rw_width_set_bits
      rw_width_swap_bits split: prod.split)

text \<open>
  The end of a PCI resource is its last byte, but the code takes the difference of end and
  start for the size: the last register of a BAR cannot be read. The call returns 0 and touches
  nothing.
\<close>

theorem last_register_unreachable:
  assumes "wf_dev d" "valid_rs rs" "unat bar < NUMBER_OF_BARS" "memmory_base d ! unat bar \<noteq> 0"
    and "unat (mem_base d ! unat bar) + (m + 1) * reg_bytes rs \<le> 2 ^ 32"
    and "mem_base_end d ! unat bar = mem_base d ! unat bar + of_nat ((m + 1) * reg_bytes rs) - 1"
  shows "pciedev_read_inline k d rs mode bar (of_nat (m * reg_bytes rs)) buf count w = Done (0, w)"
proof -
  let ?sz = "reg_bytes rs"
  have less: "m * ?sz + ?sz \<le> 2 ^ 32" using assms(5) by simp
  have size: "mem_base_end d ! unat bar - mem_base d ! unat bar = of_nat (m * ?sz + (?sz - 1))"
    using reg_bytes_cases [of rs] by (auto simp: assms(6) algebra_simps)
  have "m * ?sz + (?sz - 1) < 2 ^ 32" using less reg_bytes_pos [of rs] by linarith
  then have un: "unat (of_nat (m * ?sz + (?sz - 1)) :: u32) = m * ?sz + (?sz - 1)"
    "unat (of_nat (m * ?sz) :: u32) = m * ?sz"
    by (simp_all add: unat_of_nat del: of_nat_mult of_nat_add)
  have "\<not> 0 < cnt_after_offset_rw (mem_base_end d ! unat bar) (mem_base d ! unat bar) (of_nat (m * ?sz)) ?sz"
    using cnt_after_offset_fits [of 0 "mem_base_end d ! unat bar" "mem_base d ! unat bar"
        "of_nat (m * ?sz)" ?sz] reg_bytes_pos [of rs] unfolding size un by linarith
  moreover have "unat (of_nat (m * ?sz) :: u32) mod ?sz = 0" unfolding un by simp
  ultimately show ?thesis
    using assms(4) unfolding read_inline_in_range [OF assms(1,2,3)] by (simp add: int_loop_rounds_def del: of_nat_mult)
qed

lemma cnt_after_offset_pos:
  assumes "unat off + sz \<le> unat (e - s)" "0 < sz"
  shows "0 < cnt_after_offset_rw e s off sz"
proof -
  have "off < e - s" using assms by (simp add: word_less_nat_alt)
  moreover from this have "unat (e - s - off) = unat (e - s) - unat off"
    by (intro unat_sub less_imp_le)
  ultimately show ?thesis
    using assms by (simp add: cnt_after_offset_rw_def Let_def div_greater_zero_iff)
qed

text \<open>
  C20. A dead link is noticed by 32-bit reads: when the register and the scratch register both read
  as all ones the call returns \<open>-ENOMEM\<close> and hands nothing to the user.
\<close>

theorem dead_link_detected:
  assumes "stable_reads k I r8 r16 r32" "I w" "wf_dev d" "is_read_mode mode" "unat bar < NUMBER_OF_BARS"
    and "memmory_base d ! unat bar \<noteq> 0" "unat off mod 4 = 0" "0 < count"
    and "unat off + 4 \<le> unat (mem_base_end d ! unat bar - mem_base d ! unat bar)"
    and "register_size d = RW_D32" "unat (scratch_bar d) < NUMBER_OF_BARS"
    and "memmory_base d ! unat (scratch_bar d) \<noteq> 0"
    and "r32 (memmory_base d ! unat bar + ucast off) = 0xffffffff" "r32 (scratch_address d) = 0xffffffff"
  shows "pciedev_read_inline k d RW_D32 mode bar off buf count w = Done (- ENOMEM, w)"
proof -
  have rb: "reg_bytes RW_D32 = 4" "valid_rs RW_D32" by (simp_all add: reg_bytes_def valid_rs_def upcie_consts)
  obtain n where n: "int_loop_rounds (min count (cnt_after_offset_rw (mem_base_end d ! unat bar)
      (mem_base d ! unat bar) off 4)) = Suc n"
    using cnt_after_offset_pos [OF assms(9)] assms(8) gr0_implies_Suc
    by (metis int_loop_rounds_def min_less_iff_conj zero_less_numeral zero_less_power)
  have rd: "Read_Write_Private k RW_D32 mode (memmory_base d ! unat bar + ucast off) (Some TmpData) (Some TmpData)
      (Some TmpData) st w = Done (st(TmpData := 0xffffffff), w)" for st
    using assms(4,13) stable_readsD(3) [OF assms(1,2)]
    by (simp add: Read_Write_Private_def RW_D8_def RW_D16_def RW_D32_def rw_width_read)
  have sc: "pciedev_check_scratch k d w = Done (True, w)"
    using assms(10,11,12,14) wf_dev_lengths [OF assms(3)] stable_readsD(3) [OF assms(1,2)]
    by (simp add: pciedev_check_scratch_def Let_def Read_Write_Private_def rw_width_def upcie_consts
        scratch_address_def)
  show ?thesis
    unfolding read_inline_in_range [OF assms(3) rb(2) assms(5)] rb n
    using assms(6,7) by (simp add: rd sc link_check_def link_pattern_def rb)
qed

text \<open>
  A narrow read does not notice it: the value read is compared as a 32-bit local of which only
  the low byte was stored. When the rest of that uninitialised local is not zero, the byte of a dead
  link is delivered as data.
\<close>

theorem narrow_read_misses_dead_link:
  assumes "stable_reads k I r8 r16 r32" "I w" "wf_dev d" "is_read_mode mode" "unat bar < NUMBER_OF_BARS"
    and "memmory_base d ! unat bar \<noteq> 0" "buf \<noteq> 0"
    and "unat off < unat (mem_base_end d ! unat bar - mem_base d ! unat bar)"
    and "r8 (memmory_base d ! unat bar + ucast off) = 0xff" "0xff < k_uninit k w 0"
  shows "pciedev_read_inline k d RW_D8 mode bar off buf 1 w = Done (1, deliver k buf [[0xff]] w)"
proof -
  have rb: "reg_bytes RW_D8 = 1" "valid_rs RW_D8" by (simp_all add: reg_bytes_def valid_rs_def upcie_consts)
  have n: "int_loop_rounds (min 1 (cnt_after_offset_rw (mem_base_end d ! unat bar)
      (mem_base d ! unat bar) off 1)) = Suc 0"
    using cnt_after_offset_pos [of off 1 "mem_base_end d ! unat bar" "mem_base d ! unat bar"] assms(8)
    by (simp add: int_loop_rounds_def)
  let ?v = "put_lo (k_uninit k w 0) (0xff :: u8)"
  have rd: "Read_Write_Private k RW_D8 mode (memmory_base d ! unat bar + ucast off) (Some TmpData) (Some TmpData)
      (Some TmpData) st w = Done (st(TmpData := put_lo (st TmpData) (0xff :: u8)), w)" for st
    using assms(4,9) stable_readsD(1) [OF assms(1,2)]
    by (simp add: Read_Write_Private_def rw_width_read)
  have "?v \<noteq> 0xff"
  proof
    assume "?v = 0xff"
    then have "drop_bit 8 ?v = 0" by simp
    moreover have "drop_bit 8 ?v = drop_bit 8 (k_uninit k w 0)"
      by (rule bit_word_eqI) (auto simp: put_lo_def bit_simps dest: bit_imp_le_length)
    ultimately have "unat (drop_bit 8 (k_uninit k w 0)) = 0" by simp
    then have "k_uninit k w 0 \<le> 0xff"
      by (simp add: drop_bit_eq_div unat_div div_eq_0_iff word_le_nat_alt)
    with assms(10) show False by simp
  qed
  then have lc: "link_check k d 0xff ?v w = Done (False, w)" by (simp add: link_check_def)
  have co: "copy_out k buf buf [0xff] w = (False, snd (k_copy_to_user k buf [0xff] w))"
    using assms(7) stable_readsD(4) [OF assms(1,2), of buf "[0xff]"]
    by (cases "k_copy_to_user k buf [0xff] w") (simp add: copy_out_def)
  show ?thesis
    unfolding read_inline_in_range [OF assms(3) rb(2) assms(5)] rb n
    using assms(6) lc co
    by (simp add: rd link_pattern_def rb UPCIEDEV_SWAP_TOT_def Let_def le_bytes32_def)
qed

section \<open>Concrete runs\<close>

lemmas sample_run_simps =
  sample_dev_sel reg_bytes_def valid_rs_def is_read_mode_def upcie_consts cnt_after_offset_rw_def
  int_loop_rounds_def link_pattern_def link_check_def copy_out_def copy_in_def
  Read_Write_Private_def rw_width_def sample_ram_def

lemma sample_read:
  "pciedev_read_inline (logged ram_kern) sample_dev RW_D32 MTCA_SIMPLE_READ 0 4 0x500 1 (sample_ram, [])
   = Done (4, sample_ram\<lparr>r_user := poke (\<lambda>_. 0) 0x500 [4, 5, 6, 7]\<rparr>, [(0x1004, 4)])"
  by (subst read_inline_in_range [OF wf_sample_dev])
    (auto simp: sample_run_simps logged_def ram_kern_def le32_def mem_simps le_bytes32_def Let_def fun_eq_iff)

lemma sample_write:
  "pciedev_write_inline (logged ram_kern) sample_dev RW_D32 MTCA_SIMPLE_WRITE 0 4 0x500 0 1 (sample_ram, [])
   = Done (4, sample_ram\<lparr>r_dev := poke (r_dev sample_ram) 0x1004 [0, 0, 0, 0]\<rparr>, [(0x1004, 4)])"
  by (subst write_inline_in_range [OF wf_sample_dev])
    (auto simp: sample_run_simps logged_def ram_kern_def le32_def mem_simps le_bytes32_def put_bytes_def Let_def fun_eq_iff)

theorem read_inline_stays_in_bar_witness:
  "in_bar_window sample_dev 0 4 0x1004 4 \<or>
    0x1004 = scratch_address sample_dev \<and> 4 = reg_bytes (register_size sample_dev)"
  using read_inline_stays_in_bar [OF wf_sample_dev _ _ sample_read]
  by (simp add: valid_rs_def sample_dev_sel)

theorem write_inline_stays_in_bar_witness:
  "in_bar_window sample_dev 0 4 0x1004 4"
  using write_inline_stays_in_bar [OF wf_sample_dev _ _ sample_write]
  by (simp add: valid_rs_def sample_dev_sel)

lemma replicate_eq_rep4: "replicate 4 x = [x, x, x, x]"
  by (simp add: numeral_eq_Suc)

theorem read_inline_delivers_witness:
  "pciedev_read_inline ram_kern sample_dev RW_D32 MTCA_SIMPLE_READ 0 4 0x500 1 sample_ram =
     Done (4, deliver ram_kern 0x500 [[4, 5, 6, 7]] sample_ram)"
proof -
  have 1: "(1::nat) = int_loop_rounds (min 1 (cnt_after_offset_rw (mem_base_end sample_dev ! unat (0 :: u32))
      (mem_base sample_dev ! unat (0 :: u32)) 4 (reg_bytes RW_D32)))"
    by (simp add: sample_run_simps)
  have 2: "reg_value_bytes (r_dev sample_ram) (\<lambda>a. le16 (peek (r_dev sample_ram) a 2) 0)
      (\<lambda>a. le32 (peek (r_dev sample_ram) a 4) 0) RW_D32 0x1004 = [4, 5, 6, 7]"
    by (simp add: sample_run_simps reg_value_bytes_def le32_def mem_simps le_bytes32_def)
  have 3: "[4, 5, 6, 7] \<noteq> replicate 4 (0xff :: u8)" by (simp add: replicate_eq_rep4)
  show ?thesis
    using read_inline_delivers [where w = sample_ram and rs = RW_D32 and mode = MTCA_SIMPLE_READ and bar = 0
        and off = 4 and buf = "0x500" and count = 1 and n = 1,
        OF ram_stable [of "r_dev sample_ram"] _ wf_sample_dev _ _ _ _ _ _ 1] 2 3
    by (simp add: sample_dev_sel reg_bytes_def valid_rs_def is_read_mode_def upcie_consts)
qed

definition half_dead_ram :: ram where
  "half_dead_ram = \<lparr>r_dev = (\<lambda>a. if a = 0x1004 \<or> a = 0x1005 \<or> a = 0x1006 \<or> a = 0x1007 then 7 else 0xff), r_user = (\<lambda>_. 0)\<rparr>"

theorem read_inline_outcome_witness:
  "pciedev_read_inline ram_kern sample_dev RW_D32 MTCA_SIMPLE_READ 0 4 0x500 3 half_dead_ram =
     Done (- ENOMEM, deliver ram_kern 0x500 [[7, 7, 7, 7]] half_dead_ram)"
proof -
  let ?r32 = "\<lambda>a. le32 (peek (r_dev half_dead_ram) a 4) 0"
  have regs: "?r32 0x1000 = 0xffffffff" "?r32 0x1004 = 0x07070707" "?r32 0x1008 = 0xffffffff"
    by (simp_all add: half_dead_ram_def le32_def mem_simps)
  have dead: "scratch_dead sample_dev ?r32"
    using regs(1) by (simp add: scratch_dead_def scratch_address_def sample_run_simps)
  have n: "3 = int_loop_rounds (min 3 (cnt_after_offset_rw (mem_base_end sample_dev ! unat (0 :: u32))
      (mem_base sample_dev ! unat (0 :: u32)) 4 4))"
    by (simp add: sample_run_simps)
  have j: "1 = length (takeWhile (\<lambda>i. \<not> (scratch_dead sample_dev ?r32 \<and>
      ?r32 (memmory_base sample_dev ! unat (0 :: u32) + ucast (4 :: u32) + of_nat (i * 4)) = 0xffffffff)) [0..<3])"
    using regs dead by (simp add: upt_rec sample_dev_sel)
  have bytes: "le_bytes32 0x07070707 = [7, 7, 7, 7]" by (simp add: le_bytes32_def)
  show ?thesis
    using read_inline_outcome [where w = half_dead_ram and mode = MTCA_SIMPLE_READ and buf = "0x500",
        OF ram_stable [of "r_dev half_dead_ram"] _ wf_sample_dev _ _ _ _ _ n refl j] regs(2)
    by (simp add: sample_run_simps bytes)
qed

theorem write_inline_returns_witness:
  "\<exists>r w'. pciedev_write_inline ram_kern sample_dev RW_D16 MTCA_SIMPLE_WRITE 0 3 0x500 0 1 sample_ram = Done (r, w') \<and>
    r = - EFAULT \<and> w' = sample_ram"
  using write_inline_returns [where rs = RW_D16 and bar = 0 and k = ram_kern and mode = MTCA_SIMPLE_WRITE and off = 3
      and data = "0x500" and msk = 0 and count = 1 and w = sample_ram, OF wf_sample_dev]
  by (simp add: sample_run_simps)

theorem last_register_unreachable_witness:
  "pciedev_read_inline ram_kern sample_dev RW_D32 MTCA_SIMPLE_READ 0 60 0x500 1 sample_ram = Done (0, sample_ram)"
  using last_register_unreachable [where rs = RW_D32 and bar = 0 and m = 15 and k = ram_kern
      and mode = MTCA_SIMPLE_READ and buf = "0x500" and count = 1 and w = sample_ram, OF wf_sample_dev]
  by (simp add: sample_run_simps)

definition dead_ram :: ram where
  "dead_ram = \<lparr>r_dev = (\<lambda>_. 0xff), r_user = (\<lambda>_. 0)\<rparr>"

theorem dead_link_detected_witness:
  "pciedev_read_inline ram_kern sample_dev RW_D32 MTCA_SIMPLE_READ 0 4 0x500 1 dead_ram = Done (- ENOMEM, dead_ram)"
  using dead_link_detected [where w = dead_ram and mode = MTCA_SIMPLE_READ and bar = 0 and off = 4 and buf = "0x500"
      and count = 1, OF ram_stable [of "r_dev dead_ram"] _ wf_sample_dev]
  by (simp add: sample_run_simps dead_ram_def le32_def mem_simps)

theorem narrow_read_misses_dead_link_witness:
  "pciedev_read_inline (ram_kern\<lparr>k_uninit := (\<lambda>_ _. 0x100)\<rparr>) sample_dev RW_D8 MTCA_SIMPLE_READ 0 4 0x500 1 dead_ram
   = Done (1, deliver (ram_kern\<lparr>k_uninit := (\<lambda>_ _. 0x100)\<rparr>) 0x500 [[0xff]] dead_ram)"
proof -
  have "stable_reads (ram_kern\<lparr>k_uninit := (\<lambda>_ _. 0x100)\<rparr>) (\<lambda>w. r_dev w = r_dev dead_ram) (r_dev dead_ram)
     (\<lambda>a. le16 (peek (r_dev dead_ram) a 2) 0) (\<lambda>a. le32 (peek (r_dev dead_ram) a 4) 0)"
    using ram_stable [of "r_dev dead_ram"] by (simp add: stable_reads_def)
  from narrow_read_misses_dead_link [where w = dead_ram and mode = MTCA_SIMPLE_READ and bar = 0 and off = 4
      and buf = "0x500", OF this _ wf_sample_dev]
  show ?thesis by (simp add: sample_run_simps dead_ram_def)
qed

end
