(* ===== verification/Crit_Region.thy ===== *)
theory Crit_Region
  imports Device
begin

text \<open>
  The lock of a board, from \<^verbatim>\<open>criticalregionlock.h\<close> as the driver is built: \<^verbatim>\<open>USE_SEMAPHORE\<close> is not
  defined, \<^verbatim>\<open>SCriticalRegionLock\<close> is \<^verbatim>\<open>mutex\<close>, and the four operations are the inline functions of
  the header. The other variant is in \<open>Crit_Semaphore\<close>.

  The locale \<open>crit_lock\<close> is the contract both variants meet: entering a free region takes it, leaving
  a taken one frees it. \<open>plain_mutex\<close> adds what the mutex alone promises: whoever enters a taken
  region waits, the owner included. The system calls use these laws through the interpretation
  \<open>mut\<close>.
\<close>

section \<open>The contract\<close>

locale crit_lock =
  fixes enter :: "'s \<Rightarrow> (int \<times> 's) run" and leave :: "'s \<Rightarrow> int \<times> 's"
    and free :: "'s \<Rightarrow> bool" and taken :: "'s \<Rightarrow> bool"
  assumes enter_free: "free s \<Longrightarrow> \<exists>s'. enter s = Done (0, s') \<and> taken s'"
    and leave_taken: "taken s \<Longrightarrow> free (snd (leave s)) \<and> fst (leave s) = 0"
begin

text \<open>A section that keeps the lock between entering and leaving ends with the lock free.\<close>

lemma section_balanced:
  assumes "free s" "\<And>s'. taken s' \<Longrightarrow> \<exists>r s''. body s' = Done (r, s'') \<and> taken s''"
  shows "\<exists>r s'. run_bind (enter s) (\<lambda>(e, s). if e \<noteq> 0 then Done (bad, s)
      else run_bind (body s) (\<lambda>(r, s). Done (r, snd (leave s)))) = Done (r, s') \<and> free s'"
proof -
  obtain s1 where s1: "enter s = Done (0, s1)" "taken s1" using enter_free [OF assms(1)] by blast
  obtain r s2 where s2: "body s1 = Done (r, s2)" "taken s2" using assms(2) [OF s1(2)] by blast
  show ?thesis using s1(1) s2(1) leave_taken [OF s2(2)] by simp
qed

end

locale plain_mutex = crit_lock +
  assumes enter_taken: "taken s \<Longrightarrow> enter s = Blocked"
begin

text \<open>A second entry inside the section never returns.\<close>

lemma reentry_blocks:
  assumes "free s"
  shows "run_bind (enter s) (\<lambda>(e, s). run_bind (enter s) f) = Blocked"
  using enter_free [OF assms] enter_taken by auto

text \<open>A call that returned with the lock taken blocks whatever enters next.\<close>

lemma leak_blocks: "taken s \<Longrightarrow> run_bind (enter s) f = Blocked"
  by (simp add: enter_taken)

end

section \<open>The mutex\<close>

definition LOCK_NOT_IMPLEMENTED :: int where [upcie_consts]: "LOCK_NOT_IMPLEMENTED = - 6"

definition InitCritRegionLock :: "pciedev_dev \<Rightarrow> pciedev_dev" where
  "InitCritRegionLock d = d\<lparr>dev_mut := False\<rparr>"

definition DestroyCritRegionLock :: "pciedev_dev \<Rightarrow> pciedev_dev" where
  "DestroyCritRegionLock d = d"

definition EnterCritRegion :: "pciedev_dev \<Rightarrow> (int \<times> pciedev_dev) run" where
  "EnterCritRegion d = (if dev_mut d then Blocked else Done (0, d\<lparr>dev_mut := True\<rparr>))"

definition LeaveCritRegion :: "pciedev_dev \<Rightarrow> int \<times> pciedev_dev" where
  "LeaveCritRegion d = (0, d\<lparr>dev_mut := False\<rparr>)"

definition LongLockOfCriticalRegion :: "pciedev_dev \<Rightarrow> int \<times> pciedev_dev" where
  "LongLockOfCriticalRegion d = (LOCK_NOT_IMPLEMENTED, d)"

definition UnlockLongCritRegion :: "pciedev_dev \<Rightarrow> int \<times> pciedev_dev" where
  "UnlockLongCritRegion d = (LOCK_NOT_IMPLEMENTED, d)"

interpretation mut: plain_mutex EnterCritRegion LeaveCritRegion "\<lambda>d. \<not> dev_mut d" dev_mut
  by unfold_locales (simp_all add: EnterCritRegion_def LeaveCritRegion_def)

lemma EnterCritRegion_free [simp]:
  "\<not> dev_mut d \<Longrightarrow> EnterCritRegion d = Done (0, d\<lparr>dev_mut := True\<rparr>)"
  by (simp add: EnterCritRegion_def)

lemma EnterCritRegion_taken [simp]: "dev_mut d \<Longrightarrow> EnterCritRegion d = Blocked"
  by (simp add: EnterCritRegion_def)

lemma LeaveCritRegion_simps [simp]:
  "snd (LeaveCritRegion d) = d\<lparr>dev_mut := False\<rparr>" "fst (LeaveCritRegion d) = 0"
  by (simp_all add: LeaveCritRegion_def)

lemma wf_dev_dev_mut [simp]: "wf_dev (d\<lparr>dev_mut := b\<rparr>) = wf_dev d"
  by (simp add: wf_dev_def)

end
