(* ===== verification/File_Ops.thy ===== *)
theory File_Ops
  imports Register_IO Crit_Region
begin

unbundle bit_operations_syntax

text \<open>
  The file operations of a board, from \<^verbatim>\<open>pciedev_rw_exp.c\<close> and \<^verbatim>\<open>pciedev_ufn.c\<close>: \<^verbatim>\<open>open\<close>, \<^verbatim>\<open>release\<close>, \<^verbatim>\<open>read\<close>,
  \<^verbatim>\<open>write\<close>, \<^verbatim>\<open>llseek\<close>, \<^verbatim>\<open>mmap\<close> and the accessors other drivers call. An operation takes the board and the
  outside world and returns its result with both; the lock is the field \<open>dev_mut\<close> of the board.

  Shown: what read and write transfer, that they leave the board as it was and the lock free, that a
  value written is read back, what the error paths do, and which mappings \<^verbatim>\<open>mmap\<close> grants.
\<close>

section \<open>Open files\<close>

text \<open>The file fields the driver uses; \<open>private_data\<close> is the number of the board the file points to.\<close>

record ufile =
  f_pos :: u64
  private_data :: nat

text \<open>
  \<open>mem_ok\<close>: whether \<^verbatim>\<open>kzalloc\<close> found memory; the code does not look. \<open>minor\<close> and \<open>brd\<close> come from the
  inode, \<open>filp\<close> names the file.
\<close>

definition pciedev_open_exp ::
  "bool \<Rightarrow> int \<Rightarrow> nat \<Rightarrow> nat \<Rightarrow> pciedev_dev \<Rightarrow> ufile \<Rightarrow> (int \<times> pciedev_dev \<times> ufile) run" where
  "pciedev_open_exp mem_ok minor brd filp d f =
     (let d = d\<lparr>dev_minor := minor\<rparr>
      in run_bind (EnterCritRegion d) (\<lambda>(e, d).
           if e \<noteq> 0 then Done (- ERESTARTSYS, d, f)
           else
             let d = d\<lparr>dev_file_ref := dev_file_ref d + 1\<rparr>;
                 f = f\<lparr>private_data := brd, f_pos := PCIED_FPOS\<rparr>
             in if \<not> mem_ok then Fault
                else
                  let node = \<lparr>fl_filp = filp, file_cnt = dev_file_ref d\<rparr>;
                      d = d\<lparr>dev_file_list := node # dev_file_list d\<rparr>
                  in Done (0, snd (LeaveCritRegion d), f)))"

definition pciedev_release_exp :: "nat \<Rightarrow> pciedev_dev \<Rightarrow> (int \<times> pciedev_dev) run" where
  "pciedev_release_exp filp d =
     run_bind (EnterCritRegion d) (\<lambda>(e, d).
       if e \<noteq> 0 then Done (- ERESTARTSYS, d)
       else
         let d = d\<lparr>dev_file_ref := dev_file_ref d - 1\<rparr>;
             d = d\<lparr>dev_file_list := filter (\<lambda>n. fl_filp n \<noteq> filp) (dev_file_list d)\<rparr>
         in Done (0, snd (LeaveCritRegion d)))"

section \<open>Accessors\<close>

text \<open>A pointer to a board is a board or nothing; \<^verbatim>\<open>dev_str\<close> is an address, 0 the null pointer.\<close>

definition pciedev_set_drvdata :: "pciedev_dev option \<Rightarrow> u64 \<Rightarrow> int \<times> pciedev_dev option" where
  "pciedev_set_drvdata dev data =
     (case dev of None \<Rightarrow> (1, None) | Some d \<Rightarrow> (0, Some (d\<lparr>dev_str := data\<rparr>)))"

definition pciedev_get_drvdata :: "pciedev_dev option \<Rightarrow> u64" where
  "pciedev_get_drvdata dev =
     (case dev of None \<Rightarrow> 0 | Some d \<Rightarrow> if dev_str d \<noteq> 0 then dev_str d else 0)"

text \<open>The argument of the next two is what \<^verbatim>\<open>dev_get_drvdata\<close> returns for the PCI device.\<close>

definition pciedev_get_brdnum :: "pciedev_dev option \<Rightarrow> int run" where
  "pciedev_get_brdnum drvdata = (case drvdata of None \<Rightarrow> Fault | Some d \<Rightarrow> Done (brd_num d))"

definition pciedev_get_pciedata :: "pciedev_dev option \<Rightarrow> pciedev_dev option" where
  "pciedev_get_pciedata drvdata = drvdata"

definition pciedev_get_baraddress :: "int \<Rightarrow> pciedev_dev \<Rightarrow> u64 run" where
  "pciedev_get_baraddress br_num d =
     (if br_num < 0 then Fault else arr_get (memmory_base d) (nat br_num))"

section \<open>Read and write\<close>

definition PRW_REG_SIZE_MASK :: u64 where [upcie_consts]: "PRW_REG_SIZE_MASK = 0xf000000000000000"
definition PRW_BAR_MASK :: u64 where [upcie_consts]: "PRW_BAR_MASK = 0x0f00000000000000"
definition PRW_OFFSET_MASK :: u64 where [upcie_consts]: "PRW_OFFSET_MASK = 0x00ffffffffffffff"
definition PRW_REG_SIZE_SHIFT :: nat where [upcie_consts]: "PRW_REG_SIZE_SHIFT = 60"
definition PRW_BAR_SHIFT :: nat where [upcie_consts]: "PRW_BAR_SHIFT = 56"

text \<open>
  \<^verbatim>\<open>struct device_rw\<close> is 24 bytes: \<^verbatim>\<open>offset_rw\<close> at 0, \<^verbatim>\<open>data_rw\<close> at 4, \<^verbatim>\<open>register_size\<close> at 8,
  \<^verbatim>\<open>barx_rw\<close> at 12, a pointer at 16.
\<close>

record device_rw =
  rw_offset :: u32
  rw_data :: u32
  rw_register_size :: u32
  rw_barx :: u32
  rw_dataPtr :: u64

definition sizeof_device_rw :: nat where [upcie_consts]: "sizeof_device_rw = 24"

definition decode_device_rw :: "u8 list \<Rightarrow> device_rw" where
  "decode_device_rw bs = \<lparr>rw_offset = le32 bs 0, rw_data = le32 bs 4, rw_register_size = le32 bs 8,
     rw_barx = le32 bs 12, rw_dataPtr = le64 bs 16\<rparr>"

text \<open>
  A position that is not \<^verbatim>\<open>PCIED_FPOS\<close> means \<^verbatim>\<open>pread\<close>. The code then decodes \<open>(u_int64_t)f_pos\<close>, the
  address of the position and not the position: both are arguments here.
\<close>

definition prw_reg_size :: "u64 \<Rightarrow> u32" where
  "prw_reg_size llnPos = ucast (drop_bit PRW_REG_SIZE_SHIFT (llnPos AND PRW_REG_SIZE_MASK))"

definition prw_barx :: "u64 \<Rightarrow> u32" where
  "prw_barx llnPos = ucast (drop_bit PRW_BAR_SHIFT (llnPos AND PRW_BAR_MASK))"

definition prw_offset :: "u64 \<Rightarrow> u32" where
  "prw_offset llnPos = ucast (llnPos AND PRW_OFFSET_MASK)"

definition pciedev_read_exp ::
  "'w kern \<Rightarrow> u64 \<Rightarrow> u64 \<Rightarrow> u64 \<Rightarrow> nat \<Rightarrow> pciedev_dev \<Rightarrow> 'w \<Rightarrow> (int \<times> pciedev_dev \<times> 'w) run" where
  "pciedev_read_exp k pos pos_addr buf count d w =
     (if dev_sts d = 0 then Done (- ENODEV, d, w)
      else run_bind (EnterCritRegion d) (\<lambda>(e, d).
        if e \<noteq> 0 then Done (- ERESTARTSYS, d, w)
        else if pos \<noteq> PCIED_FPOS then
          let llnPos = pos_addr;
              reg_size = CORRECT_REGISTER_SIZE (uint (prw_reg_size llnPos)) (register_size d)
          in run_bind (pciedev_read_inline k d reg_size MTCA_SIMPLE_READ (prw_barx llnPos)
                         (prw_offset llnPos) buf count w)
               (\<lambda>(retval, w). Done (int sizeof_device_rw, snd (LeaveCritRegion d), w))
        else
          (case k_copy_from_user k buf sizeof_device_rw w of
             (None, w) \<Rightarrow> Done (- EIO, d, w)
           | (Some bs, w) \<Rightarrow>
               let reading = decode_device_rw bs;
                   pcUserBuffer = buf + 4;
                   count = 1;
                   reg_size = CORRECT_REGISTER_SIZE (uint (rw_register_size reading)) (register_size d)
               in run_bind (pciedev_read_inline k d reg_size MTCA_SIMPLE_READ (rw_barx reading)
                              (rw_offset reading) pcUserBuffer count w)
                    (\<lambda>(retval, w). Done (int sizeof_device_rw, snd (LeaveCritRegion d), w)))))"

definition pciedev_write_exp ::
  "'w kern \<Rightarrow> u64 \<Rightarrow> u64 \<Rightarrow> u64 \<Rightarrow> nat \<Rightarrow> pciedev_dev \<Rightarrow> 'w \<Rightarrow> (int \<times> pciedev_dev \<times> 'w) run" where
  "pciedev_write_exp k pos pos_addr buf count d w =
     (if dev_sts d = 0 then Done (- EFAULT, d, w)
      else run_bind (EnterCritRegion d) (\<lambda>(e, d).
        if e \<noteq> 0 then Done (- ERESTARTSYS, d, w)
        else if pos \<noteq> PCIED_FPOS then
          let llnPos = pos_addr;
              reg_size = CORRECT_REGISTER_SIZE (uint (prw_reg_size llnPos)) (register_size d)
          in run_bind (pciedev_write_inline k d reg_size MTCA_SIMPLE_WRITE (prw_barx llnPos)
                         (prw_offset llnPos) buf 0 count w)
               (\<lambda>(retval, w). Done (int sizeof_device_rw, snd (LeaveCritRegion d), w))
        else
          (case k_copy_from_user k buf sizeof_device_rw w of
             (None, w) \<Rightarrow> Done (- EFAULT, d, w)
           | (Some bs, w) \<Rightarrow>
               let reading = decode_device_rw bs;
                   pcUserBuffer = buf + 4;
                   count = 1;
                   reg_size = CORRECT_REGISTER_SIZE (uint (rw_register_size reading)) (register_size d)
               in run_bind (pciedev_write_inline k d reg_size MTCA_SIMPLE_WRITE (rw_barx reading)
                              (rw_offset reading) pcUserBuffer 0 count w)
                    (\<lambda>(retval, w). Done (int sizeof_device_rw, snd (LeaveCritRegion d), w)))))"

definition pciedev_llseek :: "pciedev_dev \<Rightarrow> ufile \<Rightarrow> int \<times> ufile" where
  "pciedev_llseek d f =
     (let f = f\<lparr>f_pos := PCIED_FPOS\<rparr>
      in if dev_sts d = 0 then (- EFAULT, f) else (uint PCIED_FPOS, f))"

section \<open>Memory mapping\<close>

definition PAGE_SHIFT :: nat where [upcie_consts]: "PAGE_SHIFT = 12"
definition PAGE_SIZE :: u64 where [upcie_consts]: "PAGE_SIZE = 4096"

record vm_area =
  vm_start :: u64
  vm_end :: u64
  vm_pgoff :: u64

text \<open>
  \<open>remap start pfn size w\<close> is \<^verbatim>\<open>remap_pfn_range\<close>: non-zero when it fails. \<open>unsigned long\<close> has 64 bits.
  Installing \<^verbatim>\<open>upciedev_remap_vm_ops\<close> and the log message of \<^verbatim>\<open>upciedev_vma_open\<close> leave no trace here.
\<close>

definition pciedev_remap_mmap_exp ::
  "(u64 \<Rightarrow> u64 \<Rightarrow> u64 \<Rightarrow> 'w \<Rightarrow> int \<times> 'w) \<Rightarrow> vm_area \<Rightarrow> pciedev_dev \<Rightarrow> 'w \<Rightarrow> (int \<times> 'w) run" where
  "pciedev_remap_mmap_exp remap vma d w =
     (let tmp_bar_num = sint (ucast (vm_pgoff vma) :: u32);
          tmp_size = vm_end vma - vm_start vma
      in if tmp_bar_num < 0 \<or> int NUMBER_OF_BARS \<le> tmp_bar_num then Done (- ENOENT, w)
         else run_bind (arr_get (mem_base d) (nat tmp_bar_num)) (\<lambda>base.
           if base = 0 then Done (- ENOMEM, w)
           else run_bind (arr_get (mem_base_end d) (nat tmp_bar_num)) (\<lambda>base_end.
             let tmp_psize = ucast (base_end - base) :: u64
             in if PAGE_SIZE < tmp_psize \<and> tmp_psize < tmp_size then Done (- ENOMEM, w)
                else
                  let tmp_physical = drop_bit PAGE_SHIFT (ucast base :: u64)
                  in case remap (vm_start vma) tmp_physical tmp_size w of
                       (err, w) \<Rightarrow> if err \<noteq> 0 then Done (- EAGAIN, w) else Done (0, w))))"

section \<open>The lock bit and the registers\<close>

lemma link_check_dev_mut [simp]: "link_check k (d\<lparr>dev_mut := b\<rparr>) = link_check k d"
  by (intro ext) (simp add: link_check_def pciedev_check_scratch_def Let_def cong: if_cong)

lemma read_loop_dev_mut [simp]:
  "read_loop k (d\<lparr>dev_mut := b\<rparr>) rs mode sz scr buf0 n ubuf a st ret w =
   read_loop k d rs mode sz scr buf0 n ubuf a st ret w"
  by (induction n arbitrary: ubuf a st ret w) (simp_all add: Let_def split_def cong: if_cong)

lemma write_loop_dev_mut [simp]:
  "write_loop k (d\<lparr>dev_mut := b\<rparr>) rs mode sz data0 mask0 n udata umask a st ret w =
   write_loop k d rs mode sz data0 mask0 n udata umask a st ret w"
  by (induction n arbitrary: udata umask a st ret w) (simp_all add: Let_def split_def cong: if_cong option.case_cong)

lemma inline_dev_mut [simp]:
  "pciedev_read_inline k (d\<lparr>dev_mut := b\<rparr>) = pciedev_read_inline k d"
  "pciedev_write_inline k (d\<lparr>dev_mut := b\<rparr>) = pciedev_write_inline k d"
  by (intro ext, simp add: pciedev_read_inline_def pciedev_write_inline_def Let_def cong: if_cong)+

lemma dev_mut_restore [simp]: "\<not> dev_mut d \<Longrightarrow> d\<lparr>dev_mut := False\<rparr> = d"
  by (cases d) simp

section \<open>Read and write of one register\<close>

text \<open>The two calls on a present board with a free lock: one copy of the structure, one inline call.\<close>

lemma read_exp_single:
  assumes "dev_sts d \<noteq> 0" "\<not> dev_mut d" "k_copy_from_user k buf 24 w = (Some bs, w1)"
  shows "pciedev_read_exp k PCIED_FPOS pa buf count d w =
    run_bind (pciedev_read_inline k d
      (CORRECT_REGISTER_SIZE (uint (rw_register_size (decode_device_rw bs))) (register_size d)) MTCA_SIMPLE_READ
      (rw_barx (decode_device_rw bs)) (rw_offset (decode_device_rw bs)) (buf + 4) 1 w1)
      (\<lambda>(r, w2). Done (24, d, w2))"
  using assms by (simp add: pciedev_read_exp_def sizeof_device_rw_def Let_def)

lemma write_exp_single:
  assumes "dev_sts d \<noteq> 0" "\<not> dev_mut d" "k_copy_from_user k buf 24 w = (Some bs, w1)"
  shows "pciedev_write_exp k PCIED_FPOS pa buf count d w =
    run_bind (pciedev_write_inline k d
      (CORRECT_REGISTER_SIZE (uint (rw_register_size (decode_device_rw bs))) (register_size d)) MTCA_SIMPLE_WRITE
      (rw_barx (decode_device_rw bs)) (rw_offset (decode_device_rw bs)) (buf + 4) 0 1 w1)
      (\<lambda>(r, w2). Done (24, d, w2))"
  using assms by (simp add: pciedev_write_exp_def sizeof_device_rw_def Let_def)

lemma one_round:
  assumes "unat off + sz \<le> unat (e - s)" "0 < sz"
  shows "int_loop_rounds (min 1 (cnt_after_offset_rw e s off sz)) = 1"
  using cnt_after_offset_pos [OF assms] by (simp add: int_loop_rounds_def)

text \<open>
  C23. \<^verbatim>\<open>read\<close> of one register from a board with stable registers: the register's bytes, reversed when
  swapping is on, go to \<^verbatim>\<open>data_rw\<close> of the caller's structure, the result is the structure's size, and
  the board, its lock included, is as before.
\<close>

theorem read_exp_transfers:
  assumes "stable_reads k I r8 r16 r32" "I w1" "wf_dev d" "dev_sts d \<noteq> 0" "\<not> dev_mut d" "buf + 4 \<noteq> 0"
    and "k_copy_from_user k buf 24 w = (Some bs, w1)" "x = decode_device_rw bs"
    and "rs = CORRECT_REGISTER_SIZE (uint (rw_register_size x)) (register_size d)"
    and "unat (rw_barx x) < NUMBER_OF_BARS" "memmory_base d ! unat (rw_barx x) \<noteq> 0"
    and "unat (rw_offset x) mod reg_bytes rs = 0"
    and "unat (rw_offset x) + reg_bytes rs
      \<le> unat (mem_base_end d ! unat (rw_barx x) - mem_base d ! unat (rw_barx x))"
    and "v = reg_value_bytes r8 r16 r32 rs (memmory_base d ! unat (rw_barx x) + ucast (rw_offset x))"
    and "v \<noteq> replicate (reg_bytes rs) 0xff"
  shows "pciedev_read_exp k PCIED_FPOS pa buf count d w =
    Done (24, d, snd (k_copy_to_user k (buf + 4) (if dev_swap d \<noteq> 0 then rev v else v) w1))"
proof -
  have rs: "valid_rs rs" unfolding assms(9) by (rule valid_rs_CORRECT [OF assms(3)])
  have mode: "is_read_mode MTCA_SIMPLE_READ" by (simp add: is_read_mode_def upcie_consts)
  have "pciedev_read_inline k d rs MTCA_SIMPLE_READ (rw_barx x) (rw_offset x) (buf + 4) 1 w1 =
    Done (int (reg_bytes rs), snd (k_copy_to_user k (buf + 4) (if dev_swap d \<noteq> 0 then rev v else v) w1))"
    unfolding read_inline_in_range [OF assms(3) rs assms(10)]
    using read_loop_delivers [OF assms(1,2) mode assms(6), of 1 rs] one_round [OF assms(13) reg_bytes_pos]
      assms(11,12,14,15) by simp
  then show ?thesis
    using read_exp_single [OF assms(4,5,7)] unfolding assms(8)[symmetric] assms(9)[symmetric] by simp
qed

text \<open>
  C24. Whatever a \<^verbatim>\<open>read\<close> or a \<^verbatim>\<open>write\<close> on a board with a free lock does, when it returns the board is as
  it was and the lock is free, with one exception: when the structure cannot be copied from user space
  the error is returned with the lock still taken.
\<close>

theorem read_write_keep_board:
  assumes "\<not> dev_mut d"
  shows "(pciedev_read_exp k pos pa buf count d w = Done (r, d', w') \<longrightarrow>
      d' = d \<or> r = - EIO \<and> d' = d\<lparr>dev_mut := True\<rparr> \<and> fst (k_copy_from_user k buf 24 w) = None) \<and>
    (pciedev_write_exp k pos pa buf count d w = Done (r, d', w') \<longrightarrow>
      d' = d \<or> r = - EFAULT \<and> d' = d\<lparr>dev_mut := True\<rparr> \<and> fst (k_copy_from_user k buf 24 w) = None)"
  using assms
  by (auto simp: pciedev_read_exp_def pciedev_write_exp_def sizeof_device_rw_def run_bind_Done_iff Let_def
      split: if_splits prod.splits option.splits)

text \<open>
  C25. The lock a failed copy leaves behind is never given back: every later call on the board that needs
  the lock waits for ever.
\<close>

theorem failed_copy_locks_board:
  fixes k :: "'w kern"
  assumes "dev_sts d \<noteq> 0" "\<not> dev_mut d" "k_copy_from_user k buf 24 w = (None, w1)"
  shows "\<exists>d'. pciedev_read_exp k PCIED_FPOS pa buf count d w = Done (- EIO, d', w1) \<and>
    pciedev_write_exp k PCIED_FPOS pa buf count d w = Done (- EFAULT, d', w1) \<and>
    (\<forall>(k' :: 'w kern) pos' pa' buf' count' w2. pciedev_read_exp k' pos' pa' buf' count' d' w2 = Blocked \<and>
      pciedev_write_exp k' pos' pa' buf' count' d' w2 = Blocked \<and>
      (\<forall>filp. pciedev_release_exp filp d' = Blocked))"
  using assms
  by (intro exI [of _ "d\<lparr>dev_mut := True\<rparr>"])
    (simp add: pciedev_read_exp_def pciedev_write_exp_def pciedev_release_exp_def sizeof_device_rw_def
      mut.leak_blocks)

text \<open>
  The result of the register access is dropped: a read of a BAR that is not mapped, or at a
  misaligned offset, reports the size of the structure as if it had succeeded, and transfers nothing.
\<close>

theorem failed_access_reported_as_success:
  assumes "wf_dev d" "dev_sts d \<noteq> 0" "\<not> dev_mut d" "k_copy_from_user k buf 24 w = (Some bs, w1)"
    and "x = decode_device_rw bs" "unat (rw_barx x) < NUMBER_OF_BARS"
    and "rs = CORRECT_REGISTER_SIZE (uint (rw_register_size x)) (register_size d)"
    and "memmory_base d ! unat (rw_barx x) = 0 \<or> unat (rw_offset x) mod reg_bytes rs \<noteq> 0"
  shows "pciedev_read_exp k PCIED_FPOS pa buf count d w = Done (24, d, w1) \<and>
    pciedev_write_exp k PCIED_FPOS pa buf count d w = Done (24, d, w1)"
proof -
  have rs: "valid_rs rs" unfolding assms(7) by (rule valid_rs_CORRECT [OF assms(1)])
  show ?thesis
    using read_exp_single [OF assms(2,3,4)] write_exp_single [OF assms(2,3,4)] assms(8)
      read_inline_in_range [OF assms(1) rs assms(6), of k] write_inline_in_range [OF assms(1) rs assms(6), of k]
    unfolding assms(5)[symmetric] assms(7)[symmetric] by auto
qed

text \<open>
  A BAR number out of range in the caller's structure is not checked: the access runs off the array.
\<close>

theorem user_bar_number_unchecked:
  assumes "wf_dev d" "dev_sts d \<noteq> 0" "\<not> dev_mut d" "k_copy_from_user k buf 24 w = (Some bs, w1)"
    and "NUMBER_OF_BARS \<le> unat (rw_barx (decode_device_rw bs))"
  shows "pciedev_read_exp k PCIED_FPOS pa buf count d w = Fault \<and>
    pciedev_write_exp k PCIED_FPOS pa buf count d w = Fault"
  by (simp add: read_exp_single [OF assms(2,3,4)] write_exp_single [OF assms(2,3,4)]
      inline_out_of_range [OF assms(1,5)])

lemma kernel_pointer_barx:
  assumes "drop_bit 56 pa = 0xff"
  shows "prw_barx pa = 15"
proof -
  have "drop_bit 56 (pa AND push_bit 56 0xf) = 0xf"
    using arg_cong [OF assms, of "\<lambda>x. x AND 0xf"] by (simp add: drop_bit_and)
  then show ?thesis
    by (simp add: prw_barx_def PRW_BAR_SHIFT_def PRW_BAR_MASK_def push_bit_eq_mult)
qed

text \<open>
  \<^verbatim>\<open>pread\<close> and \<^verbatim>\<open>pwrite\<close> decode the address of the position instead of the position. The position
  lives in the kernel, whose addresses have their upper bits set: the BAR number is 15 whatever the
  caller asks for, and the access runs off the array.
\<close>

theorem positional_access_faults:
  assumes "wf_dev d" "dev_sts d \<noteq> 0" "\<not> dev_mut d" "pos \<noteq> PCIED_FPOS" "drop_bit 56 pa = 0xff"
  shows "pciedev_read_exp k pos pa buf count d w = Fault \<and> pciedev_write_exp k pos pa buf count d w = Fault"
  using assms(2-4) inline_out_of_range [OF assms(1), of 15 k]
  by (simp add: pciedev_read_exp_def pciedev_write_exp_def Let_def NUMBER_OF_BARS_def kernel_pointer_barx [OF assms(5)])

section \<open>What is written is read\<close>

text \<open>The value of a 32-bit register in device order: swapped when the board is set to swap.\<close>

definition dev_order :: "pciedev_dev \<Rightarrow> u32 \<Rightarrow> u32" where
  "dev_order d v = (if dev_swap d \<noteq> 0 then UPCIEDEV_SWAPL v else v)"

lemma dev_order_involution [simp]: "dev_order d (dev_order d v) = v"
  by (simp add: dev_order_def)

lemma dev_order_ones: "dev_order d v = 0xffffffff \<longleftrightarrow> v = 0xffffffff"
proof -
  have "UPCIEDEV_SWAPL 0xffffffff = 0xffffffff" by (simp add: UPCIEDEV_SWAPL_def)
  then show ?thesis by (metis dev_order_def dev_order_involution)
qed

lemma put_bytes_Nil [simp]: "put_bytes x [] = x"
  using le32_le_bytes32 [of x "[]"] by (simp add: put_bytes_def)

lemma write32_once:
  assumes "k_copy_from_user k ubuf 4 w1 = (Some (le_bytes32 v), w2)" "ubuf \<noteq> 0"
  shows "write_loop k d RW_D32 MTCA_SIMPLE_WRITE 4 ubuf 0 1 ubuf 0 a st 0 w1 =
    Done (4, k_iowrite32 k (dev_order d v) a w2)"
  using assms by (simp add: copy_in_def Read_Write_Private_def rw_width_def upcie_consts dev_order_def
      UPCIEDEV_SWAP_TOT_def Let_def)

text \<open>
  The world after one 32-bit register is read: all ones make the scratch register, if it is mapped,
  be read too.
\<close>

definition after_read32 :: "'w kern \<Rightarrow> pciedev_dev \<Rightarrow> u64 \<Rightarrow> u32 \<Rightarrow> 'w \<Rightarrow> 'w" where
  "after_read32 k d a v w =
    (let w1 = snd (k_ioread32 k a w)
     in if v = 0xffffffff \<and> memmory_base d ! unat (scratch_bar d) \<noteq> 0 then snd (k_ioread32 k (scratch_address d) w1)
        else w1)"

context plain_registers
begin

lemma read32_once:
  assumes "wf_dev d" "v = 0xffffffff \<longrightarrow> register_size d = RW_D32 \<and> unat (scratch_bar d) < NUMBER_OF_BARS"
    and "reg w a = dev_order d v" "ubuf \<noteq> 0"
  shows "\<exists>r. read_loop k d RW_D32 MTCA_SIMPLE_READ 4 0xffffffff ubuf 1 ubuf a st 0 w =
    Done (r, if v = 0xffffffff \<and> scratch_dead d (reg w) then after_read32 k d a v w
      else snd (k_copy_to_user k ubuf (le_bytes32 v) (after_read32 k d a v w)))"
proof -
  obtain w1 where rd: "k_ioread32 k a w = (dev_order d v, w1)" and w1: "reg w1 = reg w"
    using assms(3) reg_read [of a w] reg_read_keeps [of a w] by (metis prod.collapse)
  let ?w2 = "after_read32 k d a v w"
  have rw: "Read_Write_Private k RW_D32 MTCA_SIMPLE_READ a (Some TmpData) (Some TmpData) (Some TmpData) st w
    = Done (st(TmpData := dev_order d v), w1)"
    by (simp add: Read_Write_Private_def rw_width_def upcie_consts rd)
  have lc: "link_check k d 0xffffffff (dev_order d v) w1 = Done (v = 0xffffffff \<and> scratch_dead d (reg w), ?w2)"
  proof (cases "v = 0xffffffff")
    case True
    with assms(2) show ?thesis
      by (simp add: link_check_def dev_order_ones check_scratch32 [OF assms(1)] scratch_dead_def after_read32_def
          reg_read w1 rd Let_def)
  qed (simp add: link_check_def dev_order_ones after_read32_def rd)
  have undo: "(if dev_swap d \<noteq> 0 then UPCIEDEV_SWAP_TOT 4 (dev_order d v) else dev_order d v) = v"
    by (simp add: dev_order_def UPCIEDEV_SWAP_TOT_def)
  obtain failed w3 where co: "k_copy_to_user k ubuf (le_bytes32 v) ?w2 = (failed, w3)" by fastforce
  show ?thesis
    using undo lc co assms(4) by (cases "dev_swap d = 0") (auto simp: rw copy_out_def Let_def)
qed

end

text \<open>
  C3. Read after write: on a board whose registers keep what is written to them, a 32-bit value given
  to \<^verbatim>\<open>write\<close> comes back from the next \<^verbatim>\<open>read\<close> of the same register, with byte swapping on or off,
  for every value but one: \<open>0xffffffff\<close> makes \<^verbatim>\<open>read\<close> test the scratch register, and when that is
  not mapped or reads as all ones too (as it does when it is the register just written) nothing is
  copied to the caller, although the call still returns 24.
\<close>

theorem write_read_roundtrip:
  assumes "plain_registers k reg" "wf_dev d" "dev_sts d \<noteq> 0" "\<not> dev_mut d" "buf + 4 \<noteq> 0" "buf' + 4 \<noteq> 0"
    and "k_copy_from_user k buf 24 w = (Some bs, w1)" "x = decode_device_rw bs"
    and "k_copy_from_user k (buf + 4) 4 w1 = (Some (le_bytes32 v), w2)"
    and "v = 0xffffffff \<longrightarrow> register_size d = RW_D32 \<and> unat (scratch_bar d) < NUMBER_OF_BARS"
    and "CORRECT_REGISTER_SIZE (uint (rw_register_size x)) (register_size d) = RW_D32"
    and "unat (rw_barx x) < NUMBER_OF_BARS" "memmory_base d ! unat (rw_barx x) \<noteq> 0"
    and "unat (rw_offset x) mod 4 = 0"
    and "unat (rw_offset x) + 4 \<le> unat (mem_base_end d ! unat (rw_barx x) - mem_base d ! unat (rw_barx x))"
    and "a = memmory_base d ! unat (rw_barx x) + ucast (rw_offset x)"
  shows "\<exists>w3. pciedev_write_exp k PCIED_FPOS pa buf count d w = Done (24, d, w3) \<and> reg w3 a = dev_order d v \<and>
    (\<forall>bs' w4. k_copy_from_user k buf' 24 w3 = (Some bs', w4) \<longrightarrow>
      rw_barx (decode_device_rw bs') = rw_barx x \<longrightarrow> rw_offset (decode_device_rw bs') = rw_offset x \<longrightarrow>
      rw_register_size (decode_device_rw bs') = rw_register_size x \<longrightarrow>
      pciedev_read_exp k PCIED_FPOS pa' buf' count' d w3 =
        Done (24, d, if v = 0xffffffff \<and> scratch_dead d (reg w3) then after_read32 k d a v w4
          else snd (k_copy_to_user k (buf' + 4) (le_bytes32 v) (after_read32 k d a v w4))))"
proof -
  have rs: "valid_rs RW_D32" "reg_bytes RW_D32 = 4" "link_pattern RW_D32 = 0xffffffff"
    by (simp_all add: valid_rs_def reg_bytes_def link_pattern_def upcie_consts)
  note fits = one_round [OF assms(15)]
  let ?w3 = "k_iowrite32 k (dev_order d v) a w2"
  have wr: "pciedev_write_exp k PCIED_FPOS pa buf count d w = Done (24, d, ?w3)"
    using write_exp_single [OF assms(3,4,7), of pa count] assms(13,14)
      write_inline_in_range [OF assms(2) rs(1) assms(12), of k] write32_once [OF assms(9,5)] fits
    unfolding assms(8)[symmetric] assms(11,16) rs(2) by simp
  have "pciedev_read_exp k PCIED_FPOS pa' buf' count' d ?w3 =
      Done (24, d, if v = 0xffffffff \<and> scratch_dead d (reg ?w3) then after_read32 k d a v w4
        else snd (k_copy_to_user k (buf' + 4) (le_bytes32 v) (after_read32 k d a v w4)))"
    if cp: "k_copy_from_user k buf' 24 ?w3 = (Some bs', w4)"
      and eq: "rw_barx (decode_device_rw bs') = rw_barx x" "rw_offset (decode_device_rw bs') = rw_offset x"
        "rw_register_size (decode_device_rw bs') = rw_register_size x" for bs' w4
  proof -
    have same: "reg w4 = reg ?w3" by (rule plain_registers.reg_from_userD [OF assms(1) cp])
    then have "reg w4 a = dev_order d v" by (simp add: plain_registers.reg_write [OF assms(1)])
    from plain_registers.read32_once [OF assms(1,2,10) this assms(6)] obtain r where
      "read_loop k d RW_D32 MTCA_SIMPLE_READ 4 0xffffffff (buf' + 4) 1 (buf' + 4) a (\<lambda>_. k_uninit k w4 0) 0 w4 =
        Done (r, if v = 0xffffffff \<and> scratch_dead d (reg ?w3) then after_read32 k d a v w4
          else snd (k_copy_to_user k (buf' + 4) (le_bytes32 v) (after_read32 k d a v w4)))" unfolding same by blast
    then show ?thesis
      using read_exp_single [OF assms(3,4) cp, of pa' count'] assms(13,14)
        read_inline_in_range [OF assms(2) rs(1) assms(12), of k] fits
      unfolding eq assms(11,16) rs(2,3) by auto
  qed
  with wr plain_registers.reg_write [OF assms(1)] show ?thesis by blast
qed

section \<open>Mappings granted\<close>

lemma mmap_bar_cases:
  assumes "wf_dev d" "bar = sint (ucast (vm_pgoff vma) :: u32)"
  shows "pciedev_remap_mmap_exp remap vma d w =
    (if bar < 0 \<or> 6 \<le> bar then Done (- ENOENT, w)
     else let base = mem_base d ! nat bar; psize = ucast (mem_base_end d ! nat bar - base) :: u64;
              size = vm_end vma - vm_start vma
       in if base = 0 \<or> 4096 < psize \<and> psize < size then Done (- ENOMEM, w)
          else case remap (vm_start vma) (drop_bit 12 (ucast base)) size w of
            (err, w) \<Rightarrow> Done (if err \<noteq> 0 then - EAGAIN else 0, w))"
  using wf_dev_lengths [OF assms(1)]
  by (auto simp: pciedev_remap_mmap_exp_def upcie_consts Let_def assms(2) split: prod.split)

text \<open>
  C26. \<^verbatim>\<open>mmap\<close> always returns, with 0 or one of three errors; it grants a mapping only for one of the six
  BARs, from the page of its start, and for a BAR of more than a page no more than its size.
\<close>

theorem mmap_grants:
  assumes "wf_dev d"
  shows "\<exists>r w'. pciedev_remap_mmap_exp remap vma d w = Done (r, w') \<and>
    r \<in> {0, - ENOENT, - ENOMEM, - EAGAIN} \<and>
    (r = 0 \<longrightarrow> (\<exists>bar < NUMBER_OF_BARS. int bar = sint (ucast (vm_pgoff vma) :: u32) \<and> mem_base d ! bar \<noteq> 0 \<and>
      remap (vm_start vma) (drop_bit 12 (ucast (mem_base d ! bar))) (vm_end vma - vm_start vma) w = (0, w') \<and>
      (PAGE_SIZE < ucast (mem_base_end d ! bar - mem_base d ! bar) \<longrightarrow>
        vm_end vma - vm_start vma \<le> ucast (mem_base_end d ! bar - mem_base d ! bar))))"
proof -
  define bar where "bar = sint (ucast (vm_pgoff vma) :: u32)"
  show ?thesis
  proof (cases "bar < 0 \<or> 6 \<le> bar")
    case True
    then show ?thesis by (simp add: mmap_bar_cases [OF assms bar_def] errno)
  next
    case False
    then have "nat bar < NUMBER_OF_BARS \<and> int (nat bar) = bar" unfolding NUMBER_OF_BARS_def by arith
    with False show ?thesis
      unfolding mmap_bar_cases [OF assms bar_def] bar_def [symmetric]
      by (auto simp: Let_def errno upcie_consts not_less split: prod.split intro!: exI [of _ "nat bar"])
  qed
qed

text \<open>
  A BAR of at most a page has no such limit: any length is handed to the kernel, and with it the
  physical pages behind the BAR.
\<close>

theorem mmap_small_bar_unlimited:
  assumes "wf_dev d" "bar < NUMBER_OF_BARS" "vm_pgoff vma = of_nat bar" "mem_base d ! bar \<noteq> 0"
    and "unat (mem_base_end d ! bar - mem_base d ! bar) \<le> 4096"
    and "remap (vm_start vma) (drop_bit 12 (ucast (mem_base d ! bar))) (vm_end vma - vm_start vma) w = (0, w')"
  shows "pciedev_remap_mmap_exp remap vma d w = Done (0, w')"
proof -
  have bar: "sint (ucast (vm_pgoff vma) :: u32) = int bar"
    using assms(2) unfolding assms(3) NUMBER_OF_BARS_def
  proof -
    assume "bar < 6"
    then have "bar = 0 \<or> bar = 1 \<or> bar = 2 \<or> bar = 3 \<or> bar = 4 \<or> bar = 5" by arith
    then show "sint (ucast (of_nat bar :: u64) :: u32) = int bar" by auto
  qed
  have "\<not> 4096 < (ucast (mem_base_end d ! bar - mem_base d ! bar) :: u64)"
    using assms(5) by (simp add: word_less_nat_alt unsigned_ucast_eq take_bit_eq_mod not_less)
  then show ?thesis
    using assms(2,4,6) by (simp add: mmap_bar_cases [OF assms(1) bar [symmetric]] NUMBER_OF_BARS_def Let_def)
qed

section \<open>Open and release\<close>

text \<open>
  \<^verbatim>\<open>release\<close> undoes \<^verbatim>\<open>open\<close>: the list of open files and their count are as before, the lock is free; in
  between the file points to the board, at the position that selects single register access.
\<close>

theorem open_release:
  assumes "\<not> dev_mut d" "\<forall>n \<in> set (dev_file_list d). fl_filp n \<noteq> filp"
  shows "\<exists>d1 f1. pciedev_open_exp True minor brd filp d f = Done (0, d1, f1) \<and>
    private_data f1 = brd \<and> f_pos f1 = PCIED_FPOS \<and>
    map fl_filp (dev_file_list d1) = filp # map fl_filp (dev_file_list d) \<and>
    dev_file_ref d1 = dev_file_ref d + 1 \<and> \<not> dev_mut d1 \<and>
    pciedev_release_exp filp d1 = Done (0, d\<lparr>dev_minor := minor\<rparr>)"
proof -
  have "filter (\<lambda>n. fl_filp n \<noteq> filp) (dev_file_list d) = dev_file_list d"
    using assms(2) by (simp add: filter_id_conv)
  then show ?thesis
    using assms(1) by (cases d) (simp add: pciedev_open_exp_def pciedev_release_exp_def Let_def)
qed

section \<open>Concrete runs\<close>

text \<open>The concrete environment with given bytes at user address \<open>0x500\<close>, or with no readable user memory.\<close>

definition user_kern :: "u8 list \<Rightarrow> ram kern" where
  "user_kern bs = ram_kern\<lparr>k_copy_from_user :=
     (\<lambda>p n w. (if unat (p - 0x500) + n \<le> length bs then Some (take n (drop (unat (p - 0x500)) bs)) else None, w))\<rparr>"

definition sample_rw :: "u8 list" where
  "sample_rw = [4, 0, 0, 0] @ le_bytes32 0xDEADBEEF @ [2, 0, 0, 0, 0, 0, 0, 0] @ replicate 8 0"

lemma user_kern_stable:
  "stable_reads (user_kern bs) (\<lambda>w. r_dev w = m) m (\<lambda>a. le16 (peek m a 2) 0) (\<lambda>a. le32 (peek m a 4) 0)"
  using ram_stable [of m] by (simp add: stable_reads_def user_kern_def)

lemma user_kern_plain: "plain_registers (user_kern bs) (\<lambda>w a. le32 (peek (r_dev w) a 4) 0)"
proof
  show "le32 (peek (r_dev (k_iowrite32 (user_kern bs) v a w)) a 4) 0 = v" for v a w
    using ram_reg.reg_write [of v a w] by (simp add: user_kern_def)
qed (simp_all add: user_kern_def ram_kern_def)

lemma sample_rw_copy: "k_copy_from_user (user_kern sample_rw) 0x500 24 w = (Some sample_rw, w)"
  by (simp add: user_kern_def sample_rw_def)

lemma sample_rw_copy_data: "k_copy_from_user (user_kern sample_rw) 0x504 4 w = (Some (le_bytes32 0xDEADBEEF), w)"
  by (simp add: user_kern_def sample_rw_def)

lemma sample_rw_decode:
  "rw_offset (decode_device_rw sample_rw) = 4" "rw_register_size (decode_device_rw sample_rw) = 2"
  "rw_barx (decode_device_rw sample_rw) = 0"
  by (simp_all add: decode_device_rw_def sample_rw_def le32_def)

lemma sample_rs: "CORRECT_REGISTER_SIZE 2 (register_size sample_dev) = RW_D32"
  by (simp add: CORRECT_REGISTER_SIZE_def upcie_consts)

lemma sample_reg_value:
  "reg_value_bytes (r_dev sample_ram) (\<lambda>a. le16 (peek (r_dev sample_ram) a 2) 0)
     (\<lambda>a. le32 (peek (r_dev sample_ram) a 4) 0) RW_D32 0x1004 = [4, 5, 6, 7]"
  by (simp add: sample_run_simps reg_value_bytes_def le32_def mem_simps le_bytes32_def)

lemmas sample_file_simps = sample_rw_decode sample_rs sample_dev_sel reg_bytes_def upcie_consts

theorem read_exp_transfers_witness:
  "pciedev_read_exp (user_kern sample_rw) PCIED_FPOS 0 0x500 24 sample_dev sample_ram =
    Done (24, sample_dev, snd (k_copy_to_user (user_kern sample_rw) 0x504 [4, 5, 6, 7] sample_ram))"
proof -
  have "[4, 5, 6, 7] \<noteq> replicate 4 (0xff :: u8)" by (simp add: replicate_eq_rep4)
  then show ?thesis
    using read_exp_transfers [OF user_kern_stable [of sample_rw "r_dev sample_ram"] refl wf_sample_dev _ _ _
        sample_rw_copy refl refl _ _ _ _ refl, of 0 24]
    by (simp add: sample_file_simps CORRECT_REGISTER_SIZE_def sample_reg_value [unfolded RW_D32_def])
qed

definition unreadable :: "ram kern" where
  "unreadable = user_kern []"

lemma unreadable_copy: "k_copy_from_user unreadable 0x500 24 w = (None, w)"
  by (simp add: unreadable_def user_kern_def)

theorem failed_copy_locks_board_witness:
  "\<exists>d'. pciedev_read_exp unreadable PCIED_FPOS 0 0x500 24 sample_dev sample_ram = Done (- EIO, d', sample_ram) \<and>
    pciedev_read_exp unreadable PCIED_FPOS 0 0x500 24 d' sample_ram = Blocked"
  using failed_copy_locks_board [OF _ _ unreadable_copy, of sample_dev 0 24 sample_ram]
  by (auto simp: sample_dev_sel)

theorem read_write_keep_board_witness:
  "pciedev_read_exp unreadable PCIED_FPOS 0 0x500 24 sample_dev sample_ram =
     Done (- EIO, sample_dev\<lparr>dev_mut := True\<rparr>, sample_ram) \<and>
   (sample_dev\<lparr>dev_mut := True\<rparr> = sample_dev \<or> fst (k_copy_from_user unreadable 0x500 24 sample_ram) = None)"
proof -
  have run: "pciedev_read_exp unreadable PCIED_FPOS 0 0x500 24 sample_dev sample_ram =
     Done (- EIO, sample_dev\<lparr>dev_mut := True\<rparr>, sample_ram)"
    by (simp add: pciedev_read_exp_def sample_dev_sel sizeof_device_rw_def unreadable_copy)
  then show ?thesis
    using read_write_keep_board [of sample_dev unreadable PCIED_FPOS 0 "0x500" 24 sample_ram
        "- EIO" "sample_dev\<lparr>dev_mut := True\<rparr>" sample_ram] by (auto simp: sample_dev_sel)
qed

definition misaligned_rw :: "u8 list" where
  "misaligned_rw = [2, 0, 0, 0, 0, 0, 0, 0, 2, 0, 0, 0, 0, 0, 0, 0] @ replicate 8 0"

definition bad_bar_rw :: "u8 list" where
  "bad_bar_rw = [0, 0, 0, 0, 0, 0, 0, 0, 2, 0, 0, 0, 6, 0, 0, 0] @ replicate 8 0"

lemma odd_rw_copy:
  "k_copy_from_user (user_kern misaligned_rw) 0x500 24 w = (Some misaligned_rw, w)"
  "k_copy_from_user (user_kern bad_bar_rw) 0x500 24 w = (Some bad_bar_rw, w)"
  by (simp_all add: user_kern_def misaligned_rw_def bad_bar_rw_def)

lemma odd_rw_decode:
  "rw_offset (decode_device_rw misaligned_rw) = 2" "rw_register_size (decode_device_rw misaligned_rw) = 2"
  "rw_barx (decode_device_rw misaligned_rw) = 0" "rw_barx (decode_device_rw bad_bar_rw) = 6"
  by (simp_all add: decode_device_rw_def misaligned_rw_def bad_bar_rw_def le32_def)

theorem failed_access_reported_as_success_witness:
  "pciedev_read_exp (user_kern misaligned_rw) PCIED_FPOS 0 0x500 24 sample_dev sample_ram =
     Done (24, sample_dev, sample_ram)"
  using failed_access_reported_as_success [OF wf_sample_dev _ _ odd_rw_copy(1) refl _ refl, of 0 24 sample_ram]
  by (simp add: odd_rw_decode sample_file_simps CORRECT_REGISTER_SIZE_def)

theorem user_bar_number_unchecked_witness:
  "pciedev_read_exp (user_kern bad_bar_rw) PCIED_FPOS 0 0x500 24 sample_dev sample_ram = Fault"
  using user_bar_number_unchecked [OF wf_sample_dev _ _ odd_rw_copy(2), of 0 24 sample_ram]
  by (simp add: odd_rw_decode sample_file_simps)

theorem positional_access_faults_witness:
  "pciedev_read_exp ram_kern 0 0xffff888000001000 0x500 1 sample_dev sample_ram = Fault"
  using positional_access_faults [OF wf_sample_dev, of 0 "0xffff888000001000" ram_kern "0x500" 1 sample_ram]
  by (simp add: sample_file_simps)

theorem write_read_roundtrip_witness:
  "\<exists>w3 w5. pciedev_write_exp (user_kern sample_rw) PCIED_FPOS 0 0x500 24 sample_dev sample_ram = Done (24, sample_dev, w3) \<and>
    pciedev_read_exp (user_kern sample_rw) PCIED_FPOS 0 0x500 24 sample_dev w3 =
      Done (24, sample_dev, snd (k_copy_to_user (user_kern sample_rw) 0x504 (le_bytes32 0xDEADBEEF) w5))"
  using write_read_roundtrip [where x = "decode_device_rw sample_rw" and buf = "0x500" and buf' = "0x500"
      and bs = sample_rw and w = sample_ram and ?w1.0 = sample_ram and ?w2.0 = sample_ram and v = "0xDEADBEEF"
      and pa = 0 and count = 24 and pa' = 0 and count' = 24, OF user_kern_plain [of sample_rw] wf_sample_dev]
  by (auto simp: sample_rw_copy sample_rw_copy_data sample_file_simps CORRECT_REGISTER_SIZE_def)

theorem open_release_witness:
  "\<exists>d1 f1. pciedev_open_exp True 3 3 7 sample_dev \<lparr>f_pos = 0, private_data = 0\<rparr> = Done (0, d1, f1) \<and>
    pciedev_release_exp 7 d1 = Done (0, sample_dev\<lparr>dev_minor := 3\<rparr>)"
  using open_release [of sample_dev 7 3 3 "\<lparr>f_pos = 0, private_data = 0\<rparr>"]
  by (auto simp: sample_dev_def zero_dev_def)

definition page_vma :: vm_area where
  "page_vma = \<lparr>vm_start = 0x7000, vm_end = 0x107000, vm_pgoff = 0\<rparr>"

theorem mmap_grants_witness:
  "\<exists>r w'. pciedev_remap_mmap_exp (\<lambda>_ _ _ w. (0, w)) page_vma sample_dev sample_ram = Done (r, w') \<and>
    r \<in> {0, - ENOENT, - ENOMEM, - EAGAIN}"
  using mmap_grants [OF wf_sample_dev, of "\<lambda>_ _ _ w. (0, w)" page_vma sample_ram] by blast

theorem mmap_small_bar_unlimited_witness:
  "pciedev_remap_mmap_exp (\<lambda>_ _ _ w. (0, w)) page_vma sample_dev sample_ram = Done (0, sample_ram)"
  by (rule mmap_small_bar_unlimited [OF wf_sample_dev, of 0]) (simp_all add: page_vma_def sample_file_simps)

end
