(* ===== verification/Ioctl.thy ===== *)
theory Ioctl
  imports File_Ops
begin

unbundle bit_operations_syntax

text \<open>
  The \<^verbatim>\<open>ioctl\<close> entry, from \<^verbatim>\<open>pciedev_ioctl_exp.c\<close>: the command numbers of \<^verbatim>\<open>pciedev_io.h\<close>, the structures
  that cross the user boundary as their bytes, and the dispatch with every case. Locals the C code does
  not initialise have the content \<open>k_uninit\<close> gives them.

  Shown: the result of every command, that the lock is free afterwards (with the one command that
  breaks this), that the board stays well formed, what the settings commands store, and what is handed
  to user space.
\<close>

section \<open>Command numbers\<close>

text \<open>\<^verbatim>\<open>_IOWR\<close> and \<^verbatim>\<open>_IO\<close> of \<^verbatim>\<open>asm-generic/ioctl.h\<close>, with the magic \<^verbatim>\<open>'0'\<close>.\<close>

definition IOWR :: "u32 \<Rightarrow> u32 \<Rightarrow> u32" where
  "IOWR nr sz = 0xC0000000 OR push_bit 16 sz OR 0x3000 OR nr"

definition IO :: "u32 \<Rightarrow> u32" where
  "IO nr = 0x3000 OR nr"

definition IOC_DIR :: "u32 \<Rightarrow> u32" where
  "IOC_DIR cmd = drop_bit 30 cmd AND 3"

definition IOC_SIZE :: "u32 \<Rightarrow> nat" where
  "IOC_SIZE cmd = unat (drop_bit 16 cmd AND 0x3fff)"

definition PCIEDEV_PHYSICAL_SLOT :: u32 where "PCIEDEV_PHYSICAL_SLOT = IOWR 60 4"
definition PCIEDEV_DRIVER_VERSION :: u32 where "PCIEDEV_DRIVER_VERSION = IOWR 61 4"
definition PCIEDEV_FIRMWARE_VERSION :: u32 where "PCIEDEV_FIRMWARE_VERSION = IOWR 62 4"
definition PCIEDEV_SCRATCH_REG :: u32 where "PCIEDEV_SCRATCH_REG = IOWR 63 4"
definition PCIEDEV_GET_STATUS :: u32 where "PCIEDEV_GET_STATUS = IOWR 64 4"
definition PCIEDEV_SET_SWAP :: u32 where "PCIEDEV_SET_SWAP = IOWR 65 4"
definition PCIEDEV_SET_BITS :: u32 where "PCIEDEV_SET_BITS = IOWR 66 32"
definition PCIEDEV_SWAP_BITS :: u32 where "PCIEDEV_SWAP_BITS = IOWR 67 32"
definition PCIEDEV_VECTOR_RW :: u32 where "PCIEDEV_VECTOR_RW = IOWR 68 16"
definition PCIEDEV_SINGLE_IOC_ACCESS :: u32 where "PCIEDEV_SINGLE_IOC_ACCESS = IOWR 69 32"
definition PCIEDEV_UDRIVER_VERSION :: u32 where "PCIEDEV_UDRIVER_VERSION = IOWR 78 4"
definition PCIEDEV_GET_SWAP :: u32 where "PCIEDEV_GET_SWAP = IOWR 79 4"
definition PCIEDEV_LOCK_DEVICE :: u32 where "PCIEDEV_LOCK_DEVICE = IO 80"
definition PCIEDEV_UNLOCK_DEVICE :: u32 where "PCIEDEV_UNLOCK_DEVICE = IO 81"
definition PCIEDEV_LOCKED_READ :: u32 where "PCIEDEV_LOCKED_READ = IOWR 82 32"
definition PCIEDEV_SET_REGISTER_SIZE :: u32 where "PCIEDEV_SET_REGISTER_SIZE = IOWR 83 4"
definition PCIEDEV_GET_REGISTER_SIZE :: u32 where "PCIEDEV_GET_REGISTER_SIZE = IO 84"
definition PCIEDEV_GET_SHAPI_DEVINFO :: u32 where "PCIEDEV_GET_SHAPI_DEVINFO = IOWR 85 4"
definition PCIEDEV_GET_SHAPI_MODINFO :: u32 where "PCIEDEV_GET_SHAPI_MODINFO = IOWR 86 4"

lemmas ioctl_cmd_defs =
  PCIEDEV_PHYSICAL_SLOT_def PCIEDEV_DRIVER_VERSION_def PCIEDEV_FIRMWARE_VERSION_def PCIEDEV_SCRATCH_REG_def
  PCIEDEV_GET_STATUS_def PCIEDEV_SET_SWAP_def PCIEDEV_SET_BITS_def PCIEDEV_SWAP_BITS_def PCIEDEV_VECTOR_RW_def
  PCIEDEV_SINGLE_IOC_ACCESS_def PCIEDEV_UDRIVER_VERSION_def PCIEDEV_GET_SWAP_def PCIEDEV_LOCK_DEVICE_def
  PCIEDEV_UNLOCK_DEVICE_def PCIEDEV_LOCKED_READ_def PCIEDEV_SET_REGISTER_SIZE_def PCIEDEV_GET_REGISTER_SIZE_def
  PCIEDEV_GET_SHAPI_DEVINFO_def PCIEDEV_GET_SHAPI_MODINFO_def IOWR_def IO_def

section \<open>Structures\<close>

text \<open>\<^verbatim>\<open>struct device_ioctrl_data\<close>: four 32-bit fields.\<close>

record device_ioctrl_data =
  ioc_offset :: u32
  ioc_data :: u32
  ioc_cmd :: u32
  ioc_reserved :: u32

definition sizeof_ioctrl_data :: nat where [upcie_consts]: "sizeof_ioctrl_data = 16"

definition decode_ioctrl_data :: "u8 list \<Rightarrow> device_ioctrl_data" where
  "decode_ioctrl_data bs = \<lparr>ioc_offset = le32 bs 0, ioc_data = le32 bs 4, ioc_cmd = le32 bs 8,
     ioc_reserved = le32 bs 12\<rparr>"

definition encode_ioctrl_data :: "device_ioctrl_data \<Rightarrow> u8 list" where
  "encode_ioctrl_data x = le_bytes32 (ioc_offset x) @ le_bytes32 (ioc_data x) @ le_bytes32 (ioc_cmd x) @
     le_bytes32 (ioc_reserved x)"

definition uninit_ioctrl_data :: "'w kern \<Rightarrow> 'w \<Rightarrow> device_ioctrl_data" where
  "uninit_ioctrl_data k w = \<lparr>ioc_offset = k_uninit k w 0, ioc_data = k_uninit k w 1,
     ioc_cmd = k_uninit k w 2, ioc_reserved = k_uninit k w 3\<rparr>"

text \<open>\<^verbatim>\<open>struct device_ioc_rw\<close>, 32 bytes, and \<^verbatim>\<open>struct device_vector_rw\<close>, 16 bytes.\<close>

record device_ioc_rw =
  iorw_register_size :: u16
  iorw_access_mode :: u16
  iorw_barx :: u32
  iorw_offset :: u32
  iorw_count :: u32
  iorw_dataPtr :: u64
  iorw_maskPtr :: u64

definition sizeof_ioc_rw :: nat where [upcie_consts]: "sizeof_ioc_rw = 32"

definition decode_ioc_rw :: "u8 list \<Rightarrow> device_ioc_rw" where
  "decode_ioc_rw bs = \<lparr>iorw_register_size = le16 bs 0, iorw_access_mode = le16 bs 2, iorw_barx = le32 bs 4,
     iorw_offset = le32 bs 8, iorw_count = le32 bs 12, iorw_dataPtr = le64 bs 16, iorw_maskPtr = le64 bs 24\<rparr>"

definition sizeof_vector_rw :: nat where [upcie_consts]: "sizeof_vector_rw = 16"

text \<open>\<^verbatim>\<open>strncpy(dst, src, n)\<close>: up to the first zero, then zeros.\<close>

definition strncpy :: "nat \<Rightarrow> u8 list \<Rightarrow> u8 list" where
  "strncpy n src = (let s = takeWhile (\<lambda>b. b \<noteq> 0) (take n src) in s @ replicate (n - length s) 0)"

text \<open>
  \<^verbatim>\<open>struct picmg_shapi_device_info\<close> as the driver fills it, 84 bytes: sixteen words, the name of 13
  bytes, three bytes of padding, the number of modules. The hardware ids are filled from the firmware
  ids, as in the source.
\<close>

definition encode_shapi_dev :: "pciedev_dev \<Rightarrow> u8 list \<Rightarrow> u8 list" where
  "encode_shapi_dev d pad =
     (let i = device_info_list d in
      concat (map le_bytes32 [SHAPI_VERSION i, SHAPI_FIRST_MODULE_ADDRESS i, SHAPI_FW_IDS i, SHAPI_FW_IDS i,
        SHAPI_FW_VERSION i, SHAPI_FW_TIMESTAMP i, SHAPI_FW_NAME i ! 0, SHAPI_FW_NAME i ! 1, SHAPI_FW_NAME i ! 2,
        SHAPI_DEVICE_CAP i, SHAPI_DEVICE_STATUS i, SHAPI_DEVICE_CONTROL i, SHAPI_IRQ_MASK i, SHAPI_IRQ_FLAG i,
        SHAPI_IRQ_ACTIVE i, SHAPI_SCRATCH_REGISTER i]) @
      strncpy 13 (fw_name i) @ pad @ le_bytes32 (word_of_int (shapi_module_num d)))"

text \<open>
  \<^verbatim>\<open>struct picmg_shapi_module_info\<close>, 72 bytes: fourteen words, the name of 9 bytes, three bytes of
  padding, the module number.
\<close>

definition sizeof_shapi_mod :: nat where [upcie_consts]: "sizeof_shapi_mod = 72"

definition encode_shapi_mod :: "shapi_module_info \<Rightarrow> u8 list \<Rightarrow> u32 \<Rightarrow> u8 list" where
  "encode_shapi_mod m pad num =
     concat (map le_bytes32 [mod_SHAPI_VERSION m, SHAPI_NEXT_MODULE_ADDRESS m, SHAPI_MODULE_FW_IDS m,
       SHAPI_MODULE_VERSION m, SHAPI_MODULE_NAME m ! 0, SHAPI_MODULE_NAME m ! 1, SHAPI_MODULE_CAP m,
       SHAPI_MODULE_STATUS m, SHAPI_MODULE_CONTROL m, SHAPI_IRQ_ID m, SHAPI_IRQ_FLAG_CLEAR m, mod_IRQ_MASK m,
       mod_IRQ_FLAG m, mod_IRQ_ACTIVE m]) @ strncpy 9 (mod_name m) @ pad @ le_bytes32 num"

text \<open>The walk over the module list: every module with the number overwrites the structure.\<close>

definition fill_mod_info :: "shapi_module_info list \<Rightarrow> u8 list \<Rightarrow> u8 list" where
  "fill_mod_info ms bs =
     (let tmp_offset = le32 bs 68
      in foldl (\<lambda>bs m. if word_of_int (module_num m) = tmp_offset
                       then encode_shapi_mod m (take 3 (drop 65 bs)) tmp_offset else bs) bs ms)"

section \<open>Steps the cases share\<close>

text \<open>
  \<^verbatim>\<open>int\<close> results of a wider type; taking the lock; copying in under the lock, and copying out and leaving,
  with the error path that leaves first.
\<close>

definition to_int32 :: "int \<Rightarrow> int" where
  "to_int32 x = signed_take_bit 31 x"

definition with_lock ::
  "pciedev_dev \<Rightarrow> 'w \<Rightarrow> (pciedev_dev \<Rightarrow> (int \<times> pciedev_dev \<times> 'w) run) \<Rightarrow> (int \<times> pciedev_dev \<times> 'w) run" where
  "with_lock d w f =
     run_bind (EnterCritRegion d) (\<lambda>(e, d). if e \<noteq> 0 then Done (- ERESTARTSYS, d, w) else f d)"

definition locked_get ::
  "'w kern \<Rightarrow> u64 \<Rightarrow> nat \<Rightarrow> pciedev_dev \<Rightarrow> 'w \<Rightarrow> (u8 list \<Rightarrow> 'w \<Rightarrow> (int \<times> pciedev_dev \<times> 'w) run) \<Rightarrow>
   (int \<times> pciedev_dev \<times> 'w) run" where
  "locked_get k arg n d w f =
     (case k_copy_from_user k arg n w of
        (None, w) \<Rightarrow> Done (- EFAULT, snd (LeaveCritRegion d), w)
      | (Some bs, w) \<Rightarrow> f bs w)"

definition locked_put ::
  "'w kern \<Rightarrow> u64 \<Rightarrow> u8 list \<Rightarrow> pciedev_dev \<Rightarrow> 'w \<Rightarrow> (int \<times> pciedev_dev \<times> 'w) run" where
  "locked_put k arg bs d w =
     (case k_copy_to_user k arg bs w of
        (failed, w) \<Rightarrow> Done (if failed then - EFAULT else 0, snd (LeaveCritRegion d), w))"

text \<open>The register access of a \<^verbatim>\<open>device_ioc_rw\<close>, read or write by its mode.\<close>

definition ioc_access :: "'w kern \<Rightarrow> pciedev_dev \<Rightarrow> device_ioc_rw \<Rightarrow> 'w \<Rightarrow> (int \<times> 'w) run" where
  "ioc_access k d x w =
     (let rs = CORRECT_REGISTER_SIZE (uint (iorw_register_size x)) (register_size d)
      in if uint (iorw_access_mode x) < MTCA_SIMPLE_WRITE
         then pciedev_read_inline k d rs (uint (iorw_access_mode x)) (iorw_barx x) (iorw_offset x)
                (iorw_dataPtr x) (unat (iorw_count x)) w
         else pciedev_write_inline k d rs (uint (iorw_access_mode x)) (iorw_barx x) (iorw_offset x)
                (iorw_dataPtr x) (iorw_maskPtr x) (unat (iorw_count x)) w)"

section \<open>The cases\<close>

definition ioctl_physical_slot :: "'w kern \<Rightarrow> u64 \<Rightarrow> pciedev_dev \<Rightarrow> 'w \<Rightarrow> (int \<times> pciedev_dev \<times> 'w) run" where
  "ioctl_physical_slot k arg d w =
     with_lock d w (\<lambda>d. locked_get k arg sizeof_ioctrl_data d w (\<lambda>bs w.
       let data = decode_ioctrl_data bs;
           data = data\<lparr>ioc_data := word_of_int (slot_num d), ioc_cmd := PCIEDEV_PHYSICAL_SLOT\<rparr>
       in locked_put k arg (encode_ioctrl_data data) d w))"

definition ioctl_version ::
  "'w kern \<Rightarrow> u16 \<Rightarrow> u16 \<Rightarrow> u64 \<Rightarrow> pciedev_dev \<Rightarrow> 'w \<Rightarrow> (int \<times> pciedev_dev \<times> 'w) run" where
  "ioctl_version k vmaj vmin arg d w =
     with_lock d w (\<lambda>d.
       let data = (uninit_ioctrl_data k w)\<lparr>ioc_data := ucast vmaj, ioc_offset := ucast vmin\<rparr>
       in locked_put k arg (encode_ioctrl_data data) d w)"

definition ioctl_firmware_version :: "'w kern \<Rightarrow> u64 \<Rightarrow> pciedev_dev \<Rightarrow> 'w \<Rightarrow> (int \<times> pciedev_dev \<times> 'w) run" where
  "ioctl_firmware_version k arg d w =
     with_lock d w (\<lambda>d.
       let data = (uninit_ioctrl_data k w)\<lparr>ioc_data := PCIEDEV_BOARD_VERSION (brd_info_list d)\<rparr>
       in locked_put k arg (encode_ioctrl_data data) d w)"

definition ioctl_get_status :: "'w kern \<Rightarrow> u64 \<Rightarrow> pciedev_dev \<Rightarrow> 'w \<Rightarrow> (int \<times> pciedev_dev \<times> 'w) run" where
  "ioctl_get_status k arg d w =
     with_lock d w (\<lambda>d.
       let data = (uninit_ioctrl_data k w)\<lparr>ioc_data := word_of_int (dev_sts d)\<rparr>
       in locked_put k arg (encode_ioctrl_data data) d w)"

definition ioctl_scratch_reg :: "'w kern \<Rightarrow> u64 \<Rightarrow> pciedev_dev \<Rightarrow> 'w \<Rightarrow> (int \<times> pciedev_dev \<times> 'w) run" where
  "ioctl_scratch_reg k arg d w =
     with_lock d w (\<lambda>d. locked_get k arg sizeof_ioctrl_data d w (\<lambda>bs w.
       let data = decode_ioctrl_data bs; tmp_cmd = ioc_cmd data
       in if tmp_cmd = 1 then
            let data = data\<lparr>ioc_data := scratch_bar d, ioc_offset := scratch_offset d\<rparr>
            in locked_put k arg (encode_ioctrl_data data) d w
          else if tmp_cmd = 0 then
            let d = d\<lparr>scratch_bar := ioc_data data, scratch_offset := ioc_offset data\<rparr>
            in locked_put k arg (encode_ioctrl_data data) d w
          else if tmp_cmd = 2 then
            run_bind (pciedev_get_baraddress (sint (scratch_bar d)) d) (\<lambda>address.
              if address = 0 then Done (- EFAULT, snd (LeaveCritRegion d), w)
              else
                let a = address + ucast (scratch_offset d);
                    (v, w) =
                      (if register_size d = RW_D8 then (case k_ioread8 k a w of (v, w) \<Rightarrow> (ucast v, w))
                       else if register_size d = RW_D16 then (case k_ioread16 k a w of (v, w) \<Rightarrow> (ucast v, w))
                       else if register_size d = RW_D32 then k_ioread32 k a w
                       else (ioc_data data, w));
                    data = data\<lparr>ioc_data := v\<rparr>
                in locked_put k arg (encode_ioctrl_data data) d w)
          else locked_put k arg (encode_ioctrl_data data) d w))"

definition ioctl_set_swap :: "'w kern \<Rightarrow> u64 \<Rightarrow> pciedev_dev \<Rightarrow> 'w \<Rightarrow> (int \<times> pciedev_dev \<times> 'w) run" where
  "ioctl_set_swap k arg d w =
     with_lock d w (\<lambda>d. locked_get k arg 4 d w (\<lambda>bs w.
       let nUserValue = le32 bs 0;
           d = d\<lparr>dev_swap := (if nUserValue \<noteq> 0 then 1 else 0)\<rparr>
       in Done (0, snd (LeaveCritRegion d), w)))"

definition ioctl_set_bits :: "'w kern \<Rightarrow> u64 \<Rightarrow> pciedev_dev \<Rightarrow> 'w \<Rightarrow> (int \<times> pciedev_dev \<times> 'w) run" where
  "ioctl_set_bits k arg d w =
     with_lock d w (\<lambda>d. locked_get k arg sizeof_ioc_rw d w (\<lambda>bs w.
       let x = decode_ioc_rw bs;
           rs = CORRECT_REGISTER_SIZE (uint (iorw_register_size x)) (register_size d)
       in run_bind (pciedev_write_inline k d rs MTCA_SET_BITS (iorw_barx x) (iorw_offset x)
                      (iorw_dataPtr x) (iorw_maskPtr x) (unat (iorw_count x)) w)
            (\<lambda>(retval, w). Done (to_int32 retval, snd (LeaveCritRegion d), w))))"

definition ioctl_swap_bits :: "'w kern \<Rightarrow> u64 \<Rightarrow> pciedev_dev \<Rightarrow> 'w \<Rightarrow> (int \<times> pciedev_dev \<times> 'w) run" where
  "ioctl_swap_bits k arg d w =
     with_lock d w (\<lambda>d. locked_get k arg sizeof_ioc_rw d w (\<lambda>bs w.
       let x = decode_ioc_rw bs;
           rs = CORRECT_REGISTER_SIZE (uint (iorw_register_size x)) (register_size d)
       in run_bind (pciedev_write_inline k d rs MTCA_SWAP_BITS (iorw_barx x) (iorw_offset x)
                      0 (iorw_maskPtr x) (unat (iorw_count x)) w)
            (\<lambda>(retval, w). Done (to_int32 retval, snd (LeaveCritRegion d), w))))"

definition ioctl_locked_read :: "'w kern \<Rightarrow> u64 \<Rightarrow> pciedev_dev \<Rightarrow> 'w \<Rightarrow> (int \<times> pciedev_dev \<times> 'w) run" where
  "ioctl_locked_read k arg d w =
     (case k_copy_from_user k arg sizeof_ioc_rw w of
        (None, w) \<Rightarrow> Done (- EFAULT, d, w)
      | (Some bs, w) \<Rightarrow>
          let x = decode_ioc_rw bs;
              rs = CORRECT_REGISTER_SIZE (uint (iorw_register_size x)) (register_size d)
          in with_lock d w (\<lambda>d.
               run_bind (pciedev_read_inline k d rs MTCA_LOCKED_READ (iorw_barx x) (iorw_offset x)
                           (iorw_dataPtr x) (unat (iorw_count x)) w)
                 (\<lambda>(retval, w). Done (to_int32 retval, snd (LeaveCritRegion d), w))))"

fun vector_loop :: "'w kern \<Rightarrow> pciedev_dev \<Rightarrow> nat \<Rightarrow> u64 \<Rightarrow> int \<Rightarrow> 'w \<Rightarrow> (int \<times> 'w) run" where
  "vector_loop k d 0 pUserRWdata retval w = Done (retval, w)"
| "vector_loop k d (Suc n) pUserRWdata retval w =
     (case k_copy_from_user k pUserRWdata sizeof_ioc_rw w of
        (None, w) \<Rightarrow> Done (retval, w)
      | (Some bs, w) \<Rightarrow>
          run_bind (ioc_access k d (decode_ioc_rw bs) w)
            (\<lambda>(r, w). vector_loop k d n (pUserRWdata + 32) (to_int32 (retval + r)) w))"

definition ioctl_vector_rw :: "'w kern \<Rightarrow> u64 \<Rightarrow> pciedev_dev \<Rightarrow> 'w \<Rightarrow> (int \<times> pciedev_dev \<times> 'w) run" where
  "ioctl_vector_rw k arg d w =
     (case k_copy_from_user k arg sizeof_vector_rw w of
        (None, w) \<Rightarrow> Done (- EFAULT, d, w)
      | (Some bs, w) \<Rightarrow>
          let nMaxNumRW = sint (ucast (le64 bs 0) :: u32);
              pUserRWdata = le64 bs 8
          in with_lock d w (\<lambda>d.
               run_bind (vector_loop k d (nat nMaxNumRW) pUserRWdata 0 w)
                 (\<lambda>(retval, w). Done (retval, snd (LeaveCritRegion d), w))))"

definition ioctl_set_register_size :: "'w kern \<Rightarrow> u64 \<Rightarrow> pciedev_dev \<Rightarrow> 'w \<Rightarrow> (int \<times> pciedev_dev \<times> 'w) run" where
  "ioctl_set_register_size k arg d w =
     (case k_copy_from_user k arg 4 w of
        (None, w) \<Rightarrow> Done (- EFAULT, d, w)
      | (Some bs, w) \<Rightarrow>
          Done (0, d\<lparr>register_size := CORRECT_REGISTER_SIZE (sint (le32 bs 0)) RW_D32\<rparr>, w))"

definition ioctl_single_access :: "'w kern \<Rightarrow> u64 \<Rightarrow> pciedev_dev \<Rightarrow> 'w \<Rightarrow> (int \<times> pciedev_dev \<times> 'w) run" where
  "ioctl_single_access k arg d w =
     with_lock d w (\<lambda>d. locked_get k arg sizeof_ioc_rw d w (\<lambda>bs w.
       let x = decode_ioc_rw bs
       in if uint (iorw_access_mode x) < MTCA_SIMPLE_WRITE then
            if uint (iorw_access_mode x) = MTCA_LOCKED_READ then
              with_lock d w (\<lambda>d. run_bind (ioc_access k d x w)
                (\<lambda>(r, w). Done (to_int32 r, snd (LeaveCritRegion d), w)))
            else run_bind (ioc_access k d x w) (\<lambda>(r, w). Done (to_int32 r, d, w))
          else
            with_lock d w (\<lambda>d. run_bind (ioc_access k d x w)
              (\<lambda>(r, w). Done (to_int32 r, snd (LeaveCritRegion d), w)))))"

definition ioctl_get_shapi_devinfo :: "'w kern \<Rightarrow> u64 \<Rightarrow> pciedev_dev \<Rightarrow> 'w \<Rightarrow> (int \<times> pciedev_dev \<times> 'w) run" where
  "ioctl_get_shapi_devinfo k arg d w =
     with_lock d w (\<lambda>d. locked_put k arg (encode_shapi_dev d (take 3 (le_bytes32 (k_uninit k w 4)))) d w)"

definition ioctl_get_shapi_modinfo :: "'w kern \<Rightarrow> u64 \<Rightarrow> pciedev_dev \<Rightarrow> 'w \<Rightarrow> (int \<times> pciedev_dev \<times> 'w) run" where
  "ioctl_get_shapi_modinfo k arg d w =
     with_lock d w (\<lambda>d. locked_get k arg sizeof_shapi_mod d w (\<lambda>bs w.
       locked_put k arg (fill_mod_info (module_info_list d) bs) d w))"

section \<open>The entry\<close>

definition pciedev_ioctl_exp ::
  "'w kern \<Rightarrow> pciedev_cdev \<Rightarrow> u32 \<Rightarrow> u64 \<Rightarrow> pciedev_dev \<Rightarrow> 'w \<Rightarrow> (int \<times> pciedev_dev \<times> 'w) run" where
  "pciedev_ioctl_exp k cd cmd arg d w =
     (if dev_sts d = 0 then Done (- EFAULT, d, w)
      else if IOC_DIR cmd \<noteq> 0 \<and> \<not> k_access_ok k arg (IOC_SIZE cmd) then Done (- EFAULT, d, w)
      else if cmd = PCIEDEV_PHYSICAL_SLOT then ioctl_physical_slot k arg d w
      else if cmd = PCIEDEV_DRIVER_VERSION then
        ioctl_version k (PCIEDEV_DRV_VER_MAJ cd) (PCIEDEV_DRV_VER_MIN cd) arg d w
      else if cmd = PCIEDEV_UDRIVER_VERSION then
        ioctl_version k (UPCIEDEV_VER_MAJ cd) (UPCIEDEV_VER_MIN cd) arg d w
      else if cmd = PCIEDEV_FIRMWARE_VERSION then ioctl_firmware_version k arg d w
      else if cmd = PCIEDEV_GET_STATUS then ioctl_get_status k arg d w
      else if cmd = PCIEDEV_SCRATCH_REG then ioctl_scratch_reg k arg d w
      else if cmd = PCIEDEV_SET_SWAP then ioctl_set_swap k arg d w
      else if cmd = PCIEDEV_GET_SWAP then Done (dev_swap d, d, w)
      else if cmd = PCIEDEV_LOCK_DEVICE then
        (case LongLockOfCriticalRegion d of (r, d) \<Rightarrow> Done (r, d, w))
      else if cmd = PCIEDEV_UNLOCK_DEVICE then
        (case UnlockLongCritRegion d of (r, d) \<Rightarrow> Done (r, d, w))
      else if cmd = PCIEDEV_SET_BITS then ioctl_set_bits k arg d w
      else if cmd = PCIEDEV_SWAP_BITS then ioctl_swap_bits k arg d w
      else if cmd = PCIEDEV_LOCKED_READ then ioctl_locked_read k arg d w
      else if cmd = PCIEDEV_VECTOR_RW then ioctl_vector_rw k arg d w
      else if cmd = PCIEDEV_GET_REGISTER_SIZE then Done (register_size d, d, w)
      else if cmd = PCIEDEV_SET_REGISTER_SIZE then ioctl_set_register_size k arg d w
      else if cmd = PCIEDEV_SINGLE_IOC_ACCESS then ioctl_single_access k arg d w
      else if cmd = PCIEDEV_GET_SHAPI_DEVINFO then ioctl_get_shapi_devinfo k arg d w
      else if cmd = PCIEDEV_GET_SHAPI_MODINFO then ioctl_get_shapi_modinfo k arg d w
      else Done (- ENOTTY, d, w))"

section \<open>Nothing below the entry waits\<close>

lemma run_bind_Blocked_iff: "run_bind m f = Blocked \<longleftrightarrow> m = Blocked \<or> (\<exists>a. m = Done a \<and> f a = Blocked)"
  by (cases m) auto

lemma Read_Write_Private_not_Blocked [simp]: "Read_Write_Private k rs mode a pv pm pe st w \<noteq> Blocked"
  by (auto simp: Read_Write_Private_def rw_width_def Let_def split: option.split prod.split)

lemma link_check_not_Blocked [simp]: "link_check k d scr v w \<noteq> Blocked"
  by (auto simp: link_check_def pciedev_check_scratch_def Let_def run_bind_Blocked_iff)

lemma read_loop_not_Blocked [simp]: "read_loop k d rs mode sz scr buf0 n ubuf a st ret w \<noteq> Blocked"
  by (induction n arbitrary: ubuf a st ret w) (auto simp: run_bind_Blocked_iff Let_def split: prod.split)

lemma write_loop_not_Blocked [simp]: "write_loop k d rs mode sz data0 mask0 n udata umask a st ret w \<noteq> Blocked"
  by (induction n arbitrary: udata umask a st ret w)
    (auto simp: run_bind_Blocked_iff Let_def split: prod.split option.split)

lemma inline_not_Blocked [simp]:
  "pciedev_read_inline k d rs mode bar off buf count w \<noteq> Blocked"
  "pciedev_write_inline k d rs mode bar off data msk count w \<noteq> Blocked"
  by (auto simp: pciedev_read_inline_def pciedev_write_inline_def run_bind_Blocked_iff Let_def)

lemma ioc_access_not_Blocked [simp]: "ioc_access k d x w \<noteq> Blocked"
  by (simp add: ioc_access_def Let_def)

lemma vector_loop_not_Blocked [simp]: "vector_loop k d n p ret w \<noteq> Blocked"
  by (induction n arbitrary: p ret w) (auto simp: run_bind_Blocked_iff split: prod.split option.split)

section \<open>What a command may change\<close>

text \<open>
  \<open>settings d0 d\<close>: \<open>d\<close> is \<open>d0\<close> with other values of the four settings. \<open>settled d0 m\<close>: the outcome \<open>m\<close>
  is not a wait, and if the call returned, the board differs from \<open>d0\<close> in settings only.
\<close>

definition settings :: "pciedev_dev \<Rightarrow> pciedev_dev \<Rightarrow> bool" where
  "settings d0 d \<longleftrightarrow> valid_rs (register_size d) \<and>
     d = d0\<lparr>dev_swap := dev_swap d, register_size := register_size d, scratch_bar := scratch_bar d,
       scratch_offset := scratch_offset d\<rparr>"

definition settled :: "pciedev_dev \<Rightarrow> (int \<times> pciedev_dev \<times> 'w) run \<Rightarrow> bool" where
  "settled d0 m \<longleftrightarrow> (case m of Done (r, d, w) \<Rightarrow> settings d0 d | Blocked \<Rightarrow> False | Fault \<Rightarrow> True)"

lemma settings_refl: "wf_dev d \<Longrightarrow> settings d d"
  by (simp add: settings_def valid_rs_dev)

lemma settings_wf: "settings d0 d \<Longrightarrow> wf_dev d0 \<Longrightarrow> wf_dev d"
  unfolding settings_def
  by (erule conjE, erule ssubst) (auto simp: wf_dev_def valid_rs_def upcie_consts)

lemma settings_eq:
  "settings d0 d \<Longrightarrow> d = d0\<lparr>dev_swap := dev_swap d, register_size := register_size d,
     scratch_bar := scratch_bar d, scratch_offset := scratch_offset d\<rparr>"
  by (simp add: settings_def)

lemma settledD:
  "settled d0 m \<Longrightarrow> m \<noteq> Blocked" "settled d0 m \<Longrightarrow> m = Done (r, d, w) \<Longrightarrow> settings d0 d"
  by (auto simp: settled_def)

lemma settings_not_mut: "settings d0 d \<Longrightarrow> dev_mut d = dev_mut d0"
  by (cases d0; cases d) (simp add: settings_def)

lemma settings_leave:
  assumes "settings (d0\<lparr>dev_mut := True\<rparr>) d" "\<not> dev_mut d0"
  shows "settings d0 (d\<lparr>dev_mut := False\<rparr>)"
  using assms by (cases d0; cases d) (auto simp: settings_def)

text \<open>The rules follow the steps the cases are made of.\<close>

lemma settled_with_lock:
  "\<not> dev_mut d \<Longrightarrow> settled d0 (f (d\<lparr>dev_mut := True\<rparr>)) \<Longrightarrow> settled d0 (with_lock d w f)"
  by (simp add: with_lock_def)

lemma settled_locked_get:
  assumes "settings (d0\<lparr>dev_mut := True\<rparr>) d" "\<not> dev_mut d0" "\<And>bs w. settled d0 (f bs w)"
  shows "settled d0 (locked_get k arg n d w f)"
proof -
  have "settled d0 (Done (- EFAULT, d\<lparr>dev_mut := False\<rparr>, w'))" for w'
    using settings_leave [OF assms(1,2)] by (simp add: settled_def)
  with assms(3) show ?thesis by (auto simp: locked_get_def split: prod.split option.split)
qed

lemma settled_locked_put:
  assumes "settings (d0\<lparr>dev_mut := True\<rparr>) d" "\<not> dev_mut d0"
  shows "settled d0 (locked_put k arg bs d w)"
  using settings_leave [OF assms] by (auto simp: locked_put_def settled_def split: prod.split)

lemma settled_leave:
  assumes "settings (d0\<lparr>dev_mut := True\<rparr>) d" "\<not> dev_mut d0"
  shows "settled d0 (Done (r, snd (LeaveCritRegion d), w))"
  using settings_leave [OF assms] by (simp add: settled_def)

lemma settled_bind:
  "m \<noteq> Blocked \<Longrightarrow> (\<And>a. settled d0 (f a)) \<Longrightarrow> settled d0 (run_bind m f)"
  by (cases m) (auto simp: settled_def)

lemma settled_Fault [simp]: "settled d0 Fault"
  by (simp add: settled_def)

lemma settled_Done: "settings d0 d \<Longrightarrow> settled d0 (Done (r, d, w))"
  by (simp add: settled_def)

lemmas settled_intros = settled_with_lock settled_locked_get settled_locked_put settled_leave settled_bind

lemma settings_dev_mut: "wf_dev d \<Longrightarrow> settings (d\<lparr>dev_mut := True\<rparr>) (d\<lparr>dev_mut := True\<rparr>)"
  by (rule settings_refl) simp


lemma settled_simple_cases:
  assumes "wf_dev d" "\<not> dev_mut d"
  shows "settled d (ioctl_physical_slot k arg d w)" "settled d (ioctl_version k vmaj vmin arg d w)"
    "settled d (ioctl_firmware_version k arg d w)" "settled d (ioctl_get_status k arg d w)"
    "settled d (ioctl_get_shapi_devinfo k arg d w)" "settled d (ioctl_get_shapi_modinfo k arg d w)"
  using assms settings_dev_mut [OF assms(1)]
  by (auto simp: ioctl_physical_slot_def ioctl_version_def ioctl_firmware_version_def ioctl_get_status_def
      ioctl_get_shapi_devinfo_def ioctl_get_shapi_modinfo_def Let_def intro!: settled_intros)

lemma settled_access_cases:
  assumes "wf_dev d" "\<not> dev_mut d"
  shows "settled d (ioctl_set_bits k arg d w)" "settled d (ioctl_swap_bits k arg d w)"
    "settled d (ioctl_locked_read k arg d w)" "settled d (ioctl_vector_rw k arg d w)"
  using assms settings_dev_mut [OF assms(1)] settings_refl [OF assms(1)]
  by (auto simp: ioctl_set_bits_def ioctl_swap_bits_def ioctl_locked_read_def ioctl_vector_rw_def Let_def
      split: prod.split option.split intro!: settled_intros settled_Done)

lemma settings_set:
  assumes "settings d0 d"
  shows "settings d0 (d\<lparr>dev_swap := s\<rparr>)" "valid_rs rs \<Longrightarrow> settings d0 (d\<lparr>register_size := rs\<rparr>)"
    "settings d0 (d\<lparr>scratch_bar := b, scratch_offset := x\<rparr>)"
  using assms by (cases d0; cases d; auto simp: settings_def)+

lemma settled_set_cases:
  assumes "wf_dev d" "\<not> dev_mut d"
  shows "settled d (ioctl_set_swap k arg d w)" "settled d (ioctl_set_register_size k arg d w)"
    "settled d (ioctl_scratch_reg k arg d w)"
proof -
  note l = settings_dev_mut [OF assms(1)]
  have "settled d (Done (0, snd (LeaveCritRegion (d\<lparr>dev_mut := True, dev_swap := s\<rparr>)), w))" for s w
    by (rule settled_leave [OF settings_set(1) [OF l] assms(2)])
  with l assms show "settled d (ioctl_set_swap k arg d w)"
    unfolding ioctl_set_swap_def Let_def by (auto intro!: settled_with_lock settled_locked_get)
  have "valid_rs (CORRECT_REGISTER_SIZE m RW_D32)" for m
    by (auto simp: valid_rs_def CORRECT_REGISTER_SIZE_def upcie_consts)
  then show "settled d (ioctl_set_register_size k arg d w)"
    unfolding ioctl_set_register_size_def
    by (auto split: prod.split option.split intro!: settled_Done settings_set settings_refl assms)
  have "settled d (locked_put k arg bs (d\<lparr>dev_mut := True, scratch_bar := b, scratch_offset := x\<rparr>) w)" for bs b x w
    by (rule settled_locked_put [OF settings_set(3) [OF l] assms(2)])
  with l assms show "settled d (ioctl_scratch_reg k arg d w)"
    unfolding ioctl_scratch_reg_def Let_def
    by (auto simp: pciedev_get_baraddress_def split: prod.split
        intro!: settled_intros settled_Done settings_refl)
qed

text \<open>
  C10. Every command but \<^verbatim>\<open>PCIEDEV_SINGLE_IOC_ACCESS\<close>, started with the lock free, does not wait, and when
  it returns the lock is free and the board is as before except for the byte order, the register size and
  the scratch register; the register size is again one of the three there are.
\<close>

theorem ioctl_settles:
  assumes "wf_dev d" "\<not> dev_mut d" "cmd \<noteq> PCIEDEV_SINGLE_IOC_ACCESS"
  shows "pciedev_ioctl_exp k cd cmd arg d w \<noteq> Blocked \<and>
    (\<forall>r d' w'. pciedev_ioctl_exp k cd cmd arg d w = Done (r, d', w') \<longrightarrow>
      \<not> dev_mut d' \<and> wf_dev d' \<and>
      d' = d\<lparr>dev_swap := dev_swap d', register_size := register_size d', scratch_bar := scratch_bar d',
        scratch_offset := scratch_offset d'\<rparr>)"
proof -
  have "settled d (pciedev_ioctl_exp k cd cmd arg d w)"
    using assms(3) unfolding pciedev_ioctl_exp_def LongLockOfCriticalRegion_def UnlockLongCritRegion_def
    by (simp add: settled_simple_cases [OF assms(1,2)] settled_access_cases [OF assms(1,2)]
        settled_set_cases [OF assms(1,2)] settled_Done [OF settings_refl [OF assms(1)]])
  then show ?thesis
    using assms(2) settings_wf [OF _ assms(1)] settings_not_mut settings_eq
    by (blast dest: settledD)
qed

section \<open>Single access\<close>

definition ioctl_ready :: "'w kern \<Rightarrow> u32 \<Rightarrow> u64 \<Rightarrow> pciedev_dev \<Rightarrow> bool" where
  "ioctl_ready k cmd arg d \<longleftrightarrow> dev_sts d \<noteq> 0 \<and> \<not> dev_mut d \<and> (IOC_DIR cmd \<noteq> 0 \<longrightarrow> k_access_ok k arg (IOC_SIZE cmd))"

lemma ioctl_dispatch:
  assumes "ioctl_ready k cmd arg d"
  shows "cmd = PCIEDEV_SINGLE_IOC_ACCESS \<Longrightarrow> pciedev_ioctl_exp k cd cmd arg d w = ioctl_single_access k arg d w"
    "cmd = PCIEDEV_SET_REGISTER_SIZE \<Longrightarrow> pciedev_ioctl_exp k cd cmd arg d w = ioctl_set_register_size k arg d w"
    "cmd = PCIEDEV_GET_REGISTER_SIZE \<Longrightarrow> pciedev_ioctl_exp k cd cmd arg d w = Done (register_size d, d, w)"
    "cmd = PCIEDEV_SET_SWAP \<Longrightarrow> pciedev_ioctl_exp k cd cmd arg d w = ioctl_set_swap k arg d w"
    "cmd = PCIEDEV_GET_SWAP \<Longrightarrow> pciedev_ioctl_exp k cd cmd arg d w = Done (dev_swap d, d, w)"
    "cmd = PCIEDEV_SCRATCH_REG \<Longrightarrow> pciedev_ioctl_exp k cd cmd arg d w = ioctl_scratch_reg k arg d w"
    "cmd = PCIEDEV_GET_STATUS \<Longrightarrow> pciedev_ioctl_exp k cd cmd arg d w = ioctl_get_status k arg d w"
    "cmd = PCIEDEV_GET_SHAPI_DEVINFO \<Longrightarrow> pciedev_ioctl_exp k cd cmd arg d w = ioctl_get_shapi_devinfo k arg d w"
    "cmd = PCIEDEV_GET_SHAPI_MODINFO \<Longrightarrow> pciedev_ioctl_exp k cd cmd arg d w = ioctl_get_shapi_modinfo k arg d w"
  using assms by (auto simp: ioctl_ready_def pciedev_ioctl_exp_def ioctl_cmd_defs)

text \<open>
  C27. \<^verbatim>\<open>PCIEDEV_SINGLE_IOC_ACCESS\<close> takes the lock twice for writes and locked reads, so with the mutex it
  never returns; for the other reads it returns with the lock taken.
\<close>

theorem single_access_breaks_lock:
  assumes "ioctl_ready k PCIEDEV_SINGLE_IOC_ACCESS arg d" "k_copy_from_user k arg sizeof_ioc_rw w = (Some bs, w1)"
    and "mode = uint (iorw_access_mode (decode_ioc_rw bs))"
  shows "(mode = MTCA_LOCKED_READ \<or> MTCA_SIMPLE_WRITE \<le> mode \<longrightarrow>
      pciedev_ioctl_exp k cd PCIEDEV_SINGLE_IOC_ACCESS arg d w = Blocked) \<and>
    (mode \<noteq> MTCA_LOCKED_READ \<and> mode < MTCA_SIMPLE_WRITE \<longrightarrow>
      (\<forall>r d' w'. pciedev_ioctl_exp k cd PCIEDEV_SINGLE_IOC_ACCESS arg d w = Done (r, d', w') \<longrightarrow> dev_mut d'))"
  using assms ioctl_dispatch(1) [OF assms(1)]
  by (auto simp: ioctl_single_access_def with_lock_def locked_get_def ioctl_ready_def Let_def run_bind_Done_iff
      not_less mut.leak_blocks split: if_splits)

section \<open>Settings\<close>

text \<open>
  C28. What the settings commands store is what the queries return: a register size out of range becomes
  32 bits, a swap flag other than 0 becomes 1; the scratch position is reported as it was set. Other
  commands on the board see the new values.
\<close>

theorem settings_roundtrip:
  assumes "ioctl_ready k PCIEDEV_SET_REGISTER_SIZE arg d" "ioctl_ready k PCIEDEV_SET_SWAP arg d"
    and "ioctl_ready k PCIEDEV_GET_SWAP arg' d"
    and "k_copy_from_user k arg 4 w = (Some bs, w1)"
  shows "\<exists>d1 d2. pciedev_ioctl_exp k cd PCIEDEV_SET_REGISTER_SIZE arg d w = Done (0, d1, w1) \<and>
    pciedev_ioctl_exp k cd PCIEDEV_GET_REGISTER_SIZE arg' d1 w1 =
      Done (if 0 \<le> sint (le32 bs 0) \<and> sint (le32 bs 0) \<le> 2 then sint (le32 bs 0) else 2, d1, w1) \<and>
    pciedev_ioctl_exp k cd PCIEDEV_SET_SWAP arg d w = Done (0, d2, w1) \<and>
    pciedev_ioctl_exp k cd PCIEDEV_GET_SWAP arg' d2 w1 = Done (if le32 bs 0 \<noteq> 0 then 1 else 0, d2, w1)"
proof -
  have ready: "ioctl_ready k PCIEDEV_GET_REGISTER_SIZE arg' (d\<lparr>register_size := r\<rparr>)"
    "ioctl_ready k PCIEDEV_GET_SWAP arg' (d\<lparr>dev_swap := s\<rparr>)" for r s
    using assms(1,3) by (simp_all add: ioctl_ready_def IOC_DIR_def ioctl_cmd_defs)
  have rs: "pciedev_ioctl_exp k cd PCIEDEV_SET_REGISTER_SIZE arg d w =
      Done (0, d\<lparr>register_size := CORRECT_REGISTER_SIZE (sint (le32 bs 0)) RW_D32\<rparr>, w1)"
    unfolding ioctl_dispatch(2) [OF assms(1) refl] by (simp add: ioctl_set_register_size_def assms(4))
  have sw: "pciedev_ioctl_exp k cd PCIEDEV_SET_SWAP arg d w =
      Done (0, d\<lparr>dev_swap := (if le32 bs 0 \<noteq> 0 then 1 else 0)\<rparr>, w1)"
    using assms(2) unfolding ioctl_dispatch(4) [OF assms(2) refl]
    by (simp add: ioctl_set_swap_def with_lock_def locked_get_def assms(4) ioctl_ready_def)
  show ?thesis
    unfolding rs sw using ioctl_dispatch(3) [OF ready(1)] ioctl_dispatch(5) [OF ready(2)]
    by (auto simp: CORRECT_REGISTER_SIZE_def upcie_consts)
qed

lemma sint_unat: "\<not> sint (x :: u32) < 0 \<Longrightarrow> sint x = int (unat x)"
proof -
  assume "\<not> sint x < 0"
  then have "\<not> bit (uint x) 31" by (simp add: sint_uint signed_take_bit_negative_iff)
  moreover have "take_bit 32 (uint x) = uint x"
    using unsigned_less [of x, where ?'a = int] by (intro take_bit_int_eq_self) simp_all
  ultimately have "take_bit 31 (uint x) = uint x"
    using take_bit_Suc_from_most [of 31 "uint x"] by simp
  with \<open>\<not> bit (uint x) 31\<close> show ?thesis
    by (simp add: sint_uint signed_take_bit_eq_if_positive)
qed

text \<open>
  The position of the scratch register is stored as the user gives it. With a BAR number out of range
  the next check for a dead link, and the next query of the register, run off the array.
\<close>

theorem scratch_bar_unchecked:
  assumes "ioctl_ready k PCIEDEV_SCRATCH_REG arg d" "wf_dev d"
    and "k_copy_from_user k arg 16 w = (Some bs, w1)" "ioc_cmd (decode_ioctrl_data bs) = 0"
    and "NUMBER_OF_BARS \<le> unat (ioc_data (decode_ioctrl_data bs))"
  shows "\<exists>r d1 w2. pciedev_ioctl_exp k cd PCIEDEV_SCRATCH_REG arg d w = Done (r, d1, w2) \<and>
    pciedev_check_scratch k d1 w2 = Fault \<and>
    (\<forall>bs' w3. k_copy_from_user k arg 16 w2 = (Some bs', w3) \<and> ioc_cmd (decode_ioctrl_data bs') = 2 \<longrightarrow>
      pciedev_ioctl_exp k cd PCIEDEV_SCRATCH_REG arg d1 w2 = Fault)"
proof -
  let ?x = "decode_ioctrl_data bs"
  let ?d1 = "d\<lparr>scratch_bar := ioc_data ?x, scratch_offset := ioc_offset ?x\<rparr>"
  obtain failed w2 where out: "k_copy_to_user k arg (encode_ioctrl_data ?x) w1 = (failed, w2)" by fastforce
  have run: "pciedev_ioctl_exp k cd PCIEDEV_SCRATCH_REG arg d w = Done (if failed then - EFAULT else 0, ?d1, w2)"
    using assms(1) unfolding ioctl_dispatch(6) [OF assms(1) refl]
    by (simp add: ioctl_scratch_reg_def with_lock_def locked_get_def locked_put_def ioctl_ready_def
        sizeof_ioctrl_data_def assms(3,4) out Let_def)
  have "pciedev_get_baraddress (sint (ioc_data ?x)) (?d1\<lparr>dev_mut := True\<rparr>) = Fault"
    using assms(5) sint_unat [of "ioc_data ?x"] wf_dev_lengths(5) [OF assms(2)]
    by (cases "sint (ioc_data ?x) < 0") (simp_all add: pciedev_get_baraddress_def NUMBER_OF_BARS_def)
  then have "pciedev_ioctl_exp k cd PCIEDEV_SCRATCH_REG arg ?d1 w2 = Fault"
    if "k_copy_from_user k arg 16 w2 = (Some bs', w3)" "ioc_cmd (decode_ioctrl_data bs') = 2" for bs' w3
    using assms(1) that ioctl_dispatch(6) [of k PCIEDEV_SCRATCH_REG arg ?d1]
    by (simp add: ioctl_scratch_reg_def with_lock_def locked_get_def ioctl_ready_def sizeof_ioctrl_data_def Let_def)
  moreover have "pciedev_check_scratch k ?d1 w2 = Fault"
    using assms(5) wf_dev_lengths(5) [OF assms(2)] by (simp add: pciedev_check_scratch_def NUMBER_OF_BARS_def)
  ultimately show ?thesis using run by blast
qed

section \<open>What user space sees\<close>

text \<open>
  \<^verbatim>\<open>PCIEDEV_GET_STATUS\<close> copies a structure of which one of four words is set: the other three are
  what the kernel stack held.
\<close>

theorem status_query_leaks_stack:
  assumes "ioctl_ready k PCIEDEV_GET_STATUS arg d"
  shows "pciedev_ioctl_exp k cd PCIEDEV_GET_STATUS arg d w =
    (case k_copy_to_user k arg (le_bytes32 (k_uninit k w 0) @ le_bytes32 (word_of_int (dev_sts d)) @
        le_bytes32 (k_uninit k w 2) @ le_bytes32 (k_uninit k w 3)) w of
      (failed, w') \<Rightarrow> Done (if failed then - EFAULT else 0, d, w'))"
  using assms unfolding ioctl_dispatch(7) [OF assms refl]
  by (simp add: ioctl_get_status_def with_lock_def locked_put_def ioctl_ready_def uninit_ioctrl_data_def
      encode_ioctrl_data_def Let_def split: prod.split)

lemma le32_words:
  "i < length ws \<Longrightarrow> le32 (concat (map le_bytes32 ws) @ ys) (4 * i) = ws ! i"
proof (induction ws arbitrary: i)
  case (Cons x ws)
  show ?case
  proof (cases i)
    case 0
    then show ?thesis by simp
  next
    case (Suc j)
    then have "le32 (concat (map le_bytes32 (x # ws)) @ ys) (4 * i) = le32 (concat (map le_bytes32 ws) @ ys) (4 * j)"
      by (simp add: le32_def)
    with Suc Cons show ?thesis by simp
  qed
qed simp

text \<open>
  \<^verbatim>\<open>PCIEDEV_GET_SHAPI_DEVINFO\<close> reports the device description word by word, except that the field of
  the hardware ids holds the firmware ids.
\<close>

theorem shapi_devinfo_words:
  "le32 (encode_shapi_dev d pad) 0 = SHAPI_VERSION (device_info_list d) \<and>
    le32 (encode_shapi_dev d pad) 4 = SHAPI_FIRST_MODULE_ADDRESS (device_info_list d) \<and>
    le32 (encode_shapi_dev d pad) 8 = SHAPI_FW_IDS (device_info_list d) \<and> le32 (encode_shapi_dev d pad) 12 = SHAPI_FW_IDS (device_info_list d) \<and>
    le32 (encode_shapi_dev d pad) 16 = SHAPI_FW_VERSION (device_info_list d) \<and>
    le32 (encode_shapi_dev d pad) 60 = SHAPI_SCRATCH_REGISTER (device_info_list d)"
proof -
  let ?i = "device_info_list d"
  let ?ws = "[SHAPI_VERSION ?i, SHAPI_FIRST_MODULE_ADDRESS ?i, SHAPI_FW_IDS ?i, SHAPI_FW_IDS ?i,
        SHAPI_FW_VERSION ?i, SHAPI_FW_TIMESTAMP ?i, SHAPI_FW_NAME ?i ! 0, SHAPI_FW_NAME ?i ! 1, SHAPI_FW_NAME ?i ! 2,
        SHAPI_DEVICE_CAP ?i, SHAPI_DEVICE_STATUS ?i, SHAPI_DEVICE_CONTROL ?i, SHAPI_IRQ_MASK ?i, SHAPI_IRQ_FLAG ?i,
        SHAPI_IRQ_ACTIVE ?i, SHAPI_SCRATCH_REGISTER ?i]"
  obtain ys where ys: "encode_shapi_dev d pad = concat (map le_bytes32 ?ws) @ ys"
    unfolding encode_shapi_dev_def Let_def by blast
  show ?thesis
    unfolding ys using le32_words [of 0 ?ws ys] le32_words [of 1 ?ws ys] le32_words [of 2 ?ws ys]
      le32_words [of 3 ?ws ys] le32_words [of 4 ?ws ys] le32_words [of 15 ?ws ys] by simp
qed




section \<open>Where the accesses of the calls go\<close>

text \<open>The mapped BARs lie in the address space, and the part of it that belongs to a board.\<close>

definition bars_mapped :: "pciedev_dev \<Rightarrow> bool" where
  "bars_mapped d \<longleftrightarrow> (\<forall>i < NUMBER_OF_BARS.
     unat (memmory_base d ! i) + unat (mem_base_end d ! i - mem_base d ! i) \<le> 2 ^ 64)"

definition board_window :: "pciedev_dev \<Rightarrow> u64 \<Rightarrow> nat \<Rightarrow> bool" where
  "board_window d a n \<longleftrightarrow> (\<exists>bar. unat bar < NUMBER_OF_BARS \<and> in_bar_window d bar 0 a n) \<or>
     a = scratch_address d \<and> n = reg_bytes (register_size d)"

lemma bar_window_on_board: "unat bar < NUMBER_OF_BARS \<Longrightarrow> in_bar_window d bar off a n \<Longrightarrow> board_window d a n"
  by (auto simp: board_window_def in_bar_window_def)

definition keeps :: "('w \<Rightarrow> bool) \<Rightarrow> (int \<times> 'd \<times> 'w) run \<Rightarrow> bool" where
  "keeps Q m \<longleftrightarrow> (\<forall>r d w. m = Done (r, d, w) \<longrightarrow> Q w)"

lemma keeps_simps [simp]: "keeps Q (Done (r, d, w)) = Q w" "keeps Q Blocked" "keeps Q Fault"
  by (auto simp: keeps_def)

lemma keeps_bind:
  assumes "\<And>r w'. m = Done (r, w') \<Longrightarrow> Q w'" "\<And>r w'. Q w' \<Longrightarrow> keeps Q (f (r, w'))"
  shows "keeps Q (run_bind m f)"
  using assms by (cases m) auto

lemma keeps_with_lock: "Q w \<Longrightarrow> keeps Q (f (d\<lparr>dev_mut := True\<rparr>)) \<Longrightarrow> keeps Q (with_lock d w f)"
  by (cases "dev_mut d") (simp_all add: with_lock_def)

context kern_frame
begin

lemma inline_frame:
  assumes "wf_dev d" "valid_rs rs" "bars_mapped d" "\<forall>a n. board_window d a n \<longrightarrow> A a n" "P w"
  shows "pciedev_read_inline k d rs mode bar off buf count w = Done (r, w') \<Longrightarrow> P w'"
    and "pciedev_write_inline k d rs mode bar off data msk count w = Done (r, w') \<Longrightarrow> P w'"
proof -
  have win: "A (memmory_base d ! unat bar + ucast off + of_nat (i * reg_bytes rs)) (reg_bytes rs)"
    if "unat bar < NUMBER_OF_BARS" "i < int_loop_rounds (min count (cnt_after_offset_rw (mem_base_end d ! unat bar)
        (mem_base d ! unat bar) off (reg_bytes rs)))" for i
    using that assms(3) loop_access_in_window [OF _ that(2) reg_bytes_pos]
    by (intro assms(4) [rule_format] bar_window_on_board [OF that(1)]) (simp add: bars_mapped_def)
  have scr: "A (scratch_address d) (reg_bytes (register_size d))"
    by (rule assms(4) [rule_format]) (simp add: board_window_def)
  show "P w'" if run: "pciedev_read_inline k d rs mode bar off buf count w = Done (r, w')"
  proof -
    have b: "unat bar < NUMBER_OF_BARS"
      using run inline_out_of_range(1) [OF assms(1)] by (metis not_less run.distinct(4))
    show ?thesis
      using run assms(5) unfolding read_inline_in_range [OF assms(1,2) b]
      by (auto split: if_splits elim!: read_loop_frame [OF _ _ win [OF b] scr])
  qed
  show "P w'" if run: "pciedev_write_inline k d rs mode bar off data msk count w = Done (r, w')"
  proof -
    have b: "unat bar < NUMBER_OF_BARS"
      using run inline_out_of_range(2) [OF assms(1)] by (metis not_less run.distinct(4))
    show ?thesis
      using run assms(5) unfolding write_inline_in_range [OF assms(1,2) b]
      by (auto split: if_splits elim!: write_loop_frame [OF _ _ win [OF b]])
  qed
qed

lemma ioc_access_frame:
  assumes "wf_dev d" "bars_mapped d" "\<forall>a n. board_window d a n \<longrightarrow> A a n" "P w"
    and "ioc_access k d x w = Done (r, w')"
  shows "P w'"
  using assms(5) inline_frame [OF assms(1) valid_rs_CORRECT [OF assms(1)] assms(2,3,4)]
  by (auto simp: ioc_access_def Let_def split: if_splits)

lemma vector_loop_frame:
  assumes "wf_dev d" "bars_mapped d" "\<forall>a n. board_window d a n \<longrightarrow> A a n" "P w"
    and "vector_loop k d n p ret w = Done (r, w')"
  shows "P w'"
  using assms(4,5)
proof (induction n arbitrary: p ret w)
  case (Suc n)
  show ?case
  proof (cases "k_copy_from_user k p sizeof_ioc_rw w")
    case (Pair c w1)
    have w1: "P w1" by (rule frame_from_userD [OF Pair Suc.prems(1)])
    with Pair Suc.prems(2) show ?thesis
      by (cases c) (auto simp: run_bind_Done_iff, metis ioc_access_frame [OF assms(1-3) w1] Suc.IH)
  qed
qed simp

lemma keeps_locked_get:
  "P w \<Longrightarrow> (\<And>bs w. P w \<Longrightarrow> keeps P (f bs w)) \<Longrightarrow> keeps P (locked_get k arg n d w f)"
  by (auto simp: locked_get_def split: prod.split option.split dest: frame_from_userD)

lemma keeps_locked_put: "P w \<Longrightarrow> keeps P (locked_put k arg bs d w)"
  by (auto simp: locked_put_def split: prod.split dest: frame_to_userD)

lemmas keeps_intros = keeps_with_lock keeps_locked_get keeps_locked_put keeps_bind

lemma keeps_access:
  assumes "wf_dev d" "bars_mapped d" "\<forall>a n. board_window d a n \<longrightarrow> A a n" "P w"
    and "\<And>r w'. P w' \<Longrightarrow> keeps P (f (r, w'))"
  shows "keeps P (run_bind (pciedev_read_inline k d (CORRECT_REGISTER_SIZE m (register_size d)) mode bar off buf count w) f)"
    "keeps P (run_bind (pciedev_write_inline k d (CORRECT_REGISTER_SIZE m (register_size d)) mode bar off buf msk count w) f)"
    "keeps P (run_bind (ioc_access k d x w) f)" "keeps P (run_bind (vector_loop k d n p ret w) f)"
proof -
  note inline = inline_frame [OF assms(1) valid_rs_CORRECT [OF assms(1)] assms(2,3,4)]
  show "keeps P (run_bind (pciedev_read_inline k d (CORRECT_REGISTER_SIZE m (register_size d)) mode bar off buf count w) f)"
    by (rule keeps_bind) (auto dest: inline(1) intro: assms(5))
  show "keeps P (run_bind (pciedev_write_inline k d (CORRECT_REGISTER_SIZE m (register_size d)) mode bar off buf msk count w) f)"
    by (rule keeps_bind) (auto dest: inline(2) intro: assms(5))
  show "keeps P (run_bind (ioc_access k d x w) f)"
    by (rule keeps_bind) (auto dest: ioc_access_frame [OF assms(1-4)] intro: assms(5))
  show "keeps P (run_bind (vector_loop k d n p ret w) f)"
    by (rule keeps_bind) (auto dest: vector_loop_frame [OF assms(1-4)] intro: assms(5))
qed

lemma rw_exp_frame:
  assumes "wf_dev d" "bars_mapped d" "\<forall>a n. board_window d a n \<longrightarrow> A a n" "P w"
  shows "keeps P (pciedev_read_exp k pos pa buf count d w)" "keeps P (pciedev_write_exp k pos pa buf count d w)"
proof -
  note access = keeps_access [OF assms(1,2,3)]
  show "keeps P (pciedev_read_exp k pos pa buf count d w)"
    using assms(4) by (cases "dev_mut d") (auto simp: pciedev_read_exp_def Let_def split: prod.split option.split
      dest: frame_from_userD intro!: access(1))
  show "keeps P (pciedev_write_exp k pos pa buf count d w)"
    using assms(4) by (cases "dev_mut d") (auto simp: pciedev_write_exp_def Let_def split: prod.split option.split
      dest: frame_from_userD intro!: access(2))
qed

lemma ioctl_case_frame:
  assumes "wf_dev d" "bars_mapped d" "\<forall>a n. board_window d a n \<longrightarrow> A a n" "P w"
  shows "keeps P (ioctl_physical_slot k arg d w)" "keeps P (ioctl_version k vmaj vmin arg d w)"
    "keeps P (ioctl_firmware_version k arg d w)" "keeps P (ioctl_get_status k arg d w)"
    "keeps P (ioctl_get_shapi_devinfo k arg d w)" "keeps P (ioctl_get_shapi_modinfo k arg d w)"
    "keeps P (ioctl_set_swap k arg d w)" "keeps P (ioctl_set_register_size k arg d w)"
  using assms(4)
  by (auto simp: ioctl_physical_slot_def ioctl_version_def ioctl_firmware_version_def ioctl_get_status_def
      ioctl_get_shapi_devinfo_def ioctl_get_shapi_modinfo_def ioctl_set_swap_def ioctl_set_register_size_def Let_def
      split: prod.split option.split dest: frame_from_userD intro!: keeps_intros(1-3))

end

context kern_frame
begin

lemma ioctl_access_frame:
  assumes "wf_dev d" "bars_mapped d" "\<forall>a n. board_window d a n \<longrightarrow> A a n" "P w"
  shows "keeps P (ioctl_set_bits k arg d w)" "keeps P (ioctl_swap_bits k arg d w)"
    "keeps P (ioctl_locked_read k arg d w)" "keeps P (ioctl_vector_rw k arg d w)"
    "keeps P (ioctl_single_access k arg d w)"
proof -
  have lock: "wf_dev (d\<lparr>dev_mut := True\<rparr>)" "bars_mapped (d\<lparr>dev_mut := True\<rparr>)"
    "\<forall>a n. board_window (d\<lparr>dev_mut := True\<rparr>) a n \<longrightarrow> A a n"
    using assms(1-3) by (simp_all add: bars_mapped_def board_window_def in_bar_window_def scratch_address_def)
  note access = keeps_access [OF lock, simplified] keeps_access [OF assms(1-3)]
  show "keeps P (ioctl_set_bits k arg d w)" "keeps P (ioctl_swap_bits k arg d w)"
    "keeps P (ioctl_locked_read k arg d w)" "keeps P (ioctl_vector_rw k arg d w)"
    "keeps P (ioctl_single_access k arg d w)"
    using assms(4)
    by (auto simp: ioctl_set_bits_def ioctl_swap_bits_def ioctl_locked_read_def ioctl_vector_rw_def
        ioctl_single_access_def Let_def split: prod.split option.split dest: frame_from_userD
        intro!: keeps_intros(1-3) access)
qed

lemma ioctl_scratch_frame:
  assumes "wf_dev d" "\<forall>a n. board_window d a n \<longrightarrow> A a n" "P w"
  shows "keeps P (ioctl_scratch_reg k arg d w)"
proof -
  let ?a = "scratch_address d"
  have A: "A ?a (reg_bytes (register_size d))"
    using assms(2) by (simp add: board_window_def)
  have addr: "b + ucast (scratch_offset d) = ?a"
    if "pciedev_get_baraddress (sint (scratch_bar d)) (d\<lparr>dev_mut := True\<rparr>) = Done b" for b
    using that sint_unat [of "scratch_bar d"]
    by (auto simp: pciedev_get_baraddress_def arr_get_iff scratch_address_def split: if_splits)
  have rd: "P (snd (if register_size d = RW_D8 then (case k_ioread8 k ?a w1 of (v, w) \<Rightarrow> (ucast v, w))
      else if register_size d = RW_D16 then (case k_ioread16 k ?a w1 of (v, w) \<Rightarrow> (ucast v, w))
      else if register_size d = RW_D32 then k_ioread32 k ?a w1 else (x, w1)))" if "P w1" for w1 x
    using A that frame_access(1-3) [OF that, of ?a]
    by (auto simp: reg_bytes_def upcie_consts split: if_splits prod.splits)
  have put: "keeps P (case X of (v, x) \<Rightarrow> locked_put k arg (g v) d' x)" if "P (snd X)" for X g d'
    using that by (cases X) (simp add: keeps_locked_put)
  have bar: "keeps P (run_bind (pciedev_get_baraddress (sint (scratch_bar d)) (d\<lparr>dev_mut := True\<rparr>)) f)"
    if "\<And>b. b + ucast (scratch_offset d) = ?a \<Longrightarrow> keeps P (f b)" for f
    using that addr by (cases "pciedev_get_baraddress (sint (scratch_bar d)) (d\<lparr>dev_mut := True\<rparr>)") auto
  have "keeps P (run_bind (pciedev_get_baraddress (sint (scratch_bar d)) (d\<lparr>dev_mut := True\<rparr>))
      (\<lambda>address. if address = 0 then Done (- EFAULT, d2, w1)
        else case (if register_size d = RW_D8
             then (case k_ioread8 k (address + ucast (scratch_offset d)) w1 of (v, w) \<Rightarrow> (ucast v, w))
           else if register_size d = RW_D16
             then (case k_ioread16 k (address + ucast (scratch_offset d)) w1 of (v, w) \<Rightarrow> (ucast v, w))
           else if register_size d = RW_D32 then k_ioread32 k (address + ucast (scratch_offset d)) w1
           else (x, w1)) of (v, x) \<Rightarrow> locked_put k arg (g v) d' x))" if "P w1" for w1 d2 d' x g
  proof (rule bar, goal_cases)
    case (1 b)
    show ?case
      unfolding 1 using that put [OF rd [OF that]]
      by (cases "b = 0") (simp_all only: if_True if_False keeps_simps simp_thms)
  qed
  with assms(3) show ?thesis
    unfolding ioctl_scratch_reg_def Let_def
    by (auto intro!: keeps_intros(1-3) cong: if_cong)
qed

lemma ioctl_frame:
  assumes "wf_dev d" "bars_mapped d" "\<forall>a n. board_window d a n \<longrightarrow> A a n" "P w"
  shows "keeps P (pciedev_ioctl_exp k cd cmd arg d w)"
  unfolding pciedev_ioctl_exp_def LongLockOfCriticalRegion_def UnlockLongCritRegion_def
  using assms(4) by (simp add: ioctl_case_frame [OF assms] ioctl_access_frame [OF assms]
      ioctl_scratch_frame [OF assms(1,3,4)])

end

text \<open>
  C8. Whatever a user passes to \<^verbatim>\<open>read\<close>, \<^verbatim>\<open>write\<close> or \<^verbatim>\<open>ioctl\<close>, every device access of a call that returns lies
  in one of the BARs of the board, or is the access to the board's scratch register.
\<close>

theorem calls_stay_on_board:
  assumes "wf_dev d" "bars_mapped d"
    and "m = pciedev_read_exp (logged k) pos pa buf count d (w, []) \<or>
      m = pciedev_write_exp (logged k) pos pa buf count d (w, []) \<or>
      m = pciedev_ioctl_exp (logged k) cd cmd arg d (w, [])"
    and "m = Done (r, d', w', log)"
  shows "\<forall>(a, n) \<in> set log. board_window d a n"
proof -
  have "keeps (log_within (board_window d)) m"
    using assms(3) logged.rw_exp_frame [OF assms(1,2), of "board_window d" "(w, [])"]
      logged.ioctl_frame [OF assms(1,2), of "board_window d" "(w, [])"] by auto
  with assms(4) show ?thesis by (simp add: log_within_def)
qed

section \<open>Concrete runs\<close>

definition sample_cdev :: pciedev_cdev where
  "sample_cdev = \<lparr>UPCIEDEV_VER_MAJ = 11, UPCIEDEV_VER_MIN = 0, PCIEDEV_DRV_VER_MAJ = 1, PCIEDEV_DRV_VER_MIN = 2,
     PCIEDEV_MAJOR = 47, PCIEDEV_MINOR = 0, pciedev_dev_m = [], pciedevModuleNum = 0\<rparr>"

lemma sample_ready: "ioctl_ready (user_kern bs) cmd 0x500 sample_dev"
  by (simp add: ioctl_ready_def sample_dev_sel user_kern_def ram_kern_def)

lemma user_kern_copy:
  "n \<le> length bs \<Longrightarrow> k_copy_from_user (user_kern bs) 0x500 n w = (Some (take n bs), w)"
  by (simp add: user_kern_def)

theorem ioctl_settles_witness:
  "pciedev_ioctl_exp (user_kern [1, 0, 0, 0]) sample_cdev PCIEDEV_SET_SWAP 0x500 sample_dev sample_ram \<noteq> Blocked"
  using ioctl_settles [OF wf_sample_dev, of PCIEDEV_SET_SWAP "user_kern [1, 0, 0, 0]" sample_cdev "0x500" sample_ram]
  by (simp add: sample_dev_sel ioctl_cmd_defs)

definition sample_ioc_write :: "u8 list" where
  "sample_ioc_write = [2, 0, 5, 0, 0, 0, 0, 0, 4, 0, 0, 0, 1, 0, 0, 0] @ replicate 16 0"

theorem single_access_breaks_lock_witness:
  "pciedev_ioctl_exp (user_kern sample_ioc_write) sample_cdev PCIEDEV_SINGLE_IOC_ACCESS 0x500 sample_dev sample_ram
    = Blocked"
proof -
  have "uint (iorw_access_mode (decode_ioc_rw (take 32 sample_ioc_write))) = 5"
    by (simp add: decode_ioc_rw_def sample_ioc_write_def le16_def)
  then show ?thesis
    using single_access_breaks_lock [OF sample_ready user_kern_copy refl,
        of sample_ioc_write sample_cdev sample_ram]
    by (simp add: upcie_consts sample_ioc_write_def)
qed

theorem settings_roundtrip_witness:
  "\<exists>d1. pciedev_ioctl_exp (user_kern [1, 0, 0, 0]) sample_cdev PCIEDEV_SET_REGISTER_SIZE 0x500 sample_dev sample_ram
      = Done (0, d1, sample_ram) \<and>
    pciedev_ioctl_exp (user_kern [1, 0, 0, 0]) sample_cdev PCIEDEV_GET_REGISTER_SIZE 0x500 d1 sample_ram =
      Done (1, d1, sample_ram)"
proof -
  have "le32 [1, 0, 0, 0] 0 = 1" by (simp add: le32_def)
  then show ?thesis
    using settings_roundtrip [OF sample_ready sample_ready sample_ready user_kern_copy,
        of "[1, 0, 0, 0]" sample_cdev sample_ram] by auto
qed

definition sample_scratch :: "u8 list" where
  "sample_scratch = [0, 0, 0, 0, 9, 0, 0, 0, 0, 0, 0, 0, 0, 0, 0, 0]"

theorem scratch_bar_unchecked_witness:
  "\<exists>r d1 w2. pciedev_ioctl_exp (user_kern sample_scratch) sample_cdev PCIEDEV_SCRATCH_REG 0x500 sample_dev sample_ram
      = Done (r, d1, w2) \<and> pciedev_check_scratch (user_kern sample_scratch) d1 w2 = Fault"
proof -
  have "ioc_cmd (decode_ioctrl_data sample_scratch) = 0" "ioc_data (decode_ioctrl_data sample_scratch) = 9"
    "take 16 sample_scratch = sample_scratch" "length sample_scratch = 16"
    by (simp_all add: decode_ioctrl_data_def sample_scratch_def le32_def)
  then show ?thesis
    using scratch_bar_unchecked [OF sample_ready wf_sample_dev user_kern_copy, of sample_scratch sample_cdev sample_ram]
    by (auto simp: NUMBER_OF_BARS_def)
qed

theorem status_query_leaks_stack_witness:
  "pciedev_ioctl_exp (user_kern []) sample_cdev PCIEDEV_GET_STATUS 0x500 sample_dev sample_ram =
    (case k_copy_to_user (user_kern []) 0x500 (le_bytes32 (k_uninit (user_kern []) sample_ram 0) @ le_bytes32 1 @
        le_bytes32 (k_uninit (user_kern []) sample_ram 2) @ le_bytes32 (k_uninit (user_kern []) sample_ram 3)) sample_ram of
      (failed, w') \<Rightarrow> Done (if failed then - EFAULT else 0, sample_dev, w'))"
  using status_query_leaks_stack [OF sample_ready, of "[]" sample_cdev sample_ram] by (simp add: sample_dev_sel)





lemma sample_read_exp_log:
  "pciedev_read_exp (logged (user_kern sample_rw)) PCIED_FPOS 0 0x500 24 sample_dev (sample_ram, []) =
    Done (24, sample_dev, snd (k_copy_to_user (user_kern sample_rw) 0x504 [4, 5, 6, 7] sample_ram), [(0x1004, 4)])"
proof -
  have copy: "k_copy_from_user (logged (user_kern sample_rw)) 0x500 24 (sample_ram, []) = (Some sample_rw, sample_ram, [])"
    by (simp add: logged_def sample_rw_copy)
  have v: "le32 (peek (r_dev sample_ram) 0x1004 4) 0 = 0x07060504" by (simp add: sample_ram_def mem_simps le32_def)
  have rd: "pciedev_read_inline (logged (user_kern sample_rw)) sample_dev RW_D32 MTCA_SIMPLE_READ 0 4 0x504 1 (sample_ram, [])
    = Done (4, snd (k_copy_to_user (user_kern sample_rw) 0x504 [4, 5, 6, 7] sample_ram), [(0x1004, 4)])"
    using v by (subst read_inline_in_range [OF wf_sample_dev])
      (auto simp: sample_run_simps logged_def user_kern_def ram_kern_def le_bytes32_def Let_def fun_eq_iff)
  show ?thesis
    unfolding read_exp_single [OF _ _ copy, of sample_dev, simplified sample_dev_sel(8,9), simplified]
    using rd by (simp add: sample_rw_decode sample_rs)
qed

theorem calls_stay_on_board_witness:
  "board_window sample_dev 0x1004 4"
proof -
  have "bars_mapped sample_dev"
    unfolding bars_mapped_def NUMBER_OF_BARS_def
  proof (intro allI impI)
    fix i :: nat assume "i < 6"
    then have "i = 0 \<or> i = 1 \<or> i = 2 \<or> i = 3 \<or> i = 4 \<or> i = 5" by arith
    then show "unat (memmory_base sample_dev ! i) + unat (mem_base_end sample_dev ! i - mem_base sample_dev ! i) \<le> 2 ^ 64"
      by (auto simp: sample_dev_sel)
  qed
  from calls_stay_on_board [OF wf_sample_dev this disjI1 [OF refl] sample_read_exp_log]
  show ?thesis by simp
qed

end
