(* ===== verification/Crit_Semaphore.thy ===== *)
theory Crit_Semaphore
  imports Crit_Region
begin

text \<open>
  The lock of \<^verbatim>\<open>criticalregionlock.c\<close>, which a build with \<^verbatim>\<open>USE_SEMAPHORE\<close> uses instead of the mutex: a
  semaphore that a process may also take for long, over several system calls, and that is taken away
  from it when it keeps others waiting.

  The parts of the functions that run under the spin lock are functions on the lock; \<open>lock_loop\<close>
  composes them as \<^verbatim>\<open>LockCritRegionPrivate\<close> does when nobody interferes, and the step relation
  \<open>sstep\<close> interleaves them for any number of processes. Kernel time is a parameter. Shown: the
  contract of \<open>crit_lock\<close>, mutual exclusion in every reachable state, eviction, the bound on waiting,
  and where the code departs from its comments. The one-bit fields hold 0 or not 0 and are booleans.
\<close>

section \<open>The lock\<close>

datatype sem_lock_type = NO_LOCK | SHORT_LOCK_UNLOCK | LONG_LOCK_UNLOCK

record sem_lock =
  m_semaphore :: nat
  m_lnPID :: int
  m_nInCriticalRegion :: bool
  m_nShouldBeFreed :: bool
  m_nLockingType :: sem_lock_type
  m_ulnJiffiesTmOut :: u64
  m_ullnStartJiffi :: u64

definition LOCK_TIMEOUT :: int where [upcie_consts]: "LOCK_TIMEOUT = - 3"
definition LOCK_ALREADY_LOCKED :: int where [upcie_consts]: "LOCK_ALREADY_LOCKED = - 4"
definition LOCK_NOT_OWNER :: int where [upcie_consts]: "LOCK_NOT_OWNER = - 5"

definition InitCritRegionLock_sem :: "u64 \<Rightarrow> sem_lock" where
  "InitCritRegionLock_sem jiffies =
     \<lparr>m_semaphore = 1, m_lnPID = - 1, m_nInCriticalRegion = False, m_nShouldBeFreed = False,
      m_nLockingType = NO_LOCK, m_ulnJiffiesTmOut = jiffies, m_ullnStartJiffi = 0\<rparr>"

section \<open>Unlocking\<close>

definition unlockSemaphore :: "sem_lock \<Rightarrow> sem_lock" where
  "unlockSemaphore L = L\<lparr>m_semaphore := m_semaphore L + 1, m_lnPID := - 1, m_nShouldBeFreed := False,
     m_nLockingType := NO_LOCK, m_nInCriticalRegion := False\<rparr>"

definition UnlockCritRegionPrivate :: "int \<Rightarrow> sem_lock_type \<Rightarrow> sem_lock \<Rightarrow> int \<times> sem_lock" where
  "UnlockCritRegionPrivate lnPID a_nUnlockType L =
     (case a_nUnlockType of
        SHORT_LOCK_UNLOCK \<Rightarrow>
          if m_nLockingType L = SHORT_LOCK_UNLOCK then (0, unlockSemaphore L)
          else if m_nShouldBeFreed L then (LOCK_TIMEOUT, unlockSemaphore L)
          else (0, L\<lparr>m_nInCriticalRegion := False\<rparr>)
      | LONG_LOCK_UNLOCK \<Rightarrow>
          if m_lnPID L = lnPID then (0, unlockSemaphore L) else (LOCK_NOT_OWNER, L)
      | NO_LOCK \<Rightarrow> (LOCK_NOT_IMPLEMENTED, L))"

section \<open>Locking\<close>

text \<open>
  What a waiter does under the spin lock after its \<^verbatim>\<open>down_timeout\<close> failed, with the process it then
  signals (none when the number is 0), and after it succeeded.
\<close>

definition lock_timed_out :: "u64 \<Rightarrow> sem_lock \<Rightarrow> int \<times> sem_lock" where
  "lock_timed_out jiffies L =
     (if m_nLockingType L = LONG_LOCK_UNLOCK \<and> m_ulnJiffiesTmOut L < jiffies - m_ullnStartJiffi L then
        if m_nInCriticalRegion L then (0, L\<lparr>m_nShouldBeFreed := True\<rparr>)
        else (m_lnPID L, L\<lparr>m_semaphore := m_semaphore L + 1, m_nLockingType := NO_LOCK, m_lnPID := - 1\<rparr>)
      else (0, L))"

definition lock_acquired :: "int \<Rightarrow> sem_lock_type \<Rightarrow> u64 \<Rightarrow> sem_lock \<Rightarrow> sem_lock" where
  "lock_acquired lnPID a_lockType jiffies L =
     L\<lparr>m_nLockingType := a_lockType, m_nInCriticalRegion := True, m_nShouldBeFreed := False,
       m_lnPID := lnPID, m_ullnStartJiffi := jiffies\<rparr>"

text \<open>
  The loop of \<^verbatim>\<open>LockCritRegionPrivate\<close> while no other process runs: \<^verbatim>\<open>down_timeout\<close> succeeds when the
  semaphore is up. The last argument collects the processes signalled. \<open>J i\<close> is the time in the
  round with \<open>i\<close> rounds to go.
\<close>

fun lock_loop ::
  "(nat \<Rightarrow> u64) \<Rightarrow> int \<Rightarrow> sem_lock_type \<Rightarrow> nat \<Rightarrow> sem_lock \<Rightarrow> int list \<Rightarrow> int \<times> sem_lock \<times> int list" where
  "lock_loop J p t 0 L ks = (- ETIME, L, ks)"
| "lock_loop J p t (Suc n) L ks =
     (if m_semaphore L = 0 then
        let (lnPidToKill, L) = lock_timed_out (J n) L
        in lock_loop J p t n L (if lnPidToKill \<noteq> 0 then ks @ [lnPidToKill] else ks)
      else (0, lock_acquired p t (J n) (L\<lparr>m_semaphore := m_semaphore L - 1\<rparr>), ks))"

definition LockCritRegionPrivate ::
  "(nat \<Rightarrow> u64) \<Rightarrow> int \<Rightarrow> sem_lock_type \<Rightarrow> sem_lock \<Rightarrow> int \<times> sem_lock \<times> int list" where
  "LockCritRegionPrivate J p t L = lock_loop J p t 100 L []"

definition EnterCritRegion_sem :: "(nat \<Rightarrow> u64) \<Rightarrow> int \<Rightarrow> sem_lock \<Rightarrow> int \<times> sem_lock \<times> int list" where
  "EnterCritRegion_sem J lnPID L =
     (if lnPID = m_lnPID L then (0, L\<lparr>m_nInCriticalRegion := True\<rparr>, [])
      else LockCritRegionPrivate J lnPID SHORT_LOCK_UNLOCK L)"

definition LeaveCritRegion_sem :: "int \<Rightarrow> sem_lock \<Rightarrow> int \<times> sem_lock" where
  "LeaveCritRegion_sem lnPID L = UnlockCritRegionPrivate lnPID SHORT_LOCK_UNLOCK L"

definition LongLockOfCriticalRegion_sem ::
  "(nat \<Rightarrow> u64) \<Rightarrow> int \<Rightarrow> sem_lock \<Rightarrow> int \<times> sem_lock \<times> int list" where
  "LongLockOfCriticalRegion_sem J lnPID L =
     (if lnPID = m_lnPID L then (LOCK_ALREADY_LOCKED, L, [])
      else case LockCritRegionPrivate J lnPID LONG_LOCK_UNLOCK L of (nRet, L, ks) \<Rightarrow> (0, L, ks))"

definition UnlockLongCritRegion_sem :: "int \<Rightarrow> sem_lock \<Rightarrow> int \<times> sem_lock" where
  "UnlockLongCritRegion_sem lnPID L = UnlockCritRegionPrivate lnPID LONG_LOCK_UNLOCK L"

section \<open>The contract\<close>

text \<open>
  For a process with a proper number, on a lock nobody holds, entering and leaving meet the contract
  the mutex meets.
\<close>

definition sem_free :: "sem_lock \<Rightarrow> bool" where
  "sem_free L \<longleftrightarrow> m_semaphore L = 1 \<and> m_lnPID L = - 1 \<and> m_nLockingType L = NO_LOCK"

definition sem_taken :: "int \<Rightarrow> sem_lock \<Rightarrow> bool" where
  "sem_taken p L \<longleftrightarrow> m_semaphore L = 0 \<and> m_lnPID L = p \<and> m_nLockingType L = SHORT_LOCK_UNLOCK"

lemma LockCritRegionPrivate_free:
  "0 < m_semaphore L \<Longrightarrow> LockCritRegionPrivate J p t L =
     (0, lock_acquired p t (J 99) (L\<lparr>m_semaphore := m_semaphore L - 1\<rparr>), [])"
  by (simp add: LockCritRegionPrivate_def numeral_eq_Suc)

interpretation sem: crit_lock "\<lambda>L. case EnterCritRegion_sem J (int p) L of (r, L, ks) \<Rightarrow> Done (r, L)"
    "LeaveCritRegion_sem (int p)" sem_free "sem_taken (int p)" for J p
  by unfold_locales (auto simp: sem_free_def sem_taken_def EnterCritRegion_sem_def
      LockCritRegionPrivate_free lock_acquired_def LeaveCritRegion_sem_def UnlockCritRegionPrivate_def
      unlockSemaphore_def)

section \<open>Waiting is bounded, short sections are not interrupted\<close>

lemma lock_loop_held:
  assumes "m_semaphore L = 0"
    and "m_nLockingType L \<noteq> LONG_LOCK_UNLOCK \<or> (\<forall>i < n. \<not> m_ulnJiffiesTmOut L < J i - m_ullnStartJiffi L)"
  shows "lock_loop J p t n L ks = (- ETIME, L, ks)"
  using assms by (induction n arbitrary: ks) (auto simp: lock_timed_out_def)

lemma lock_loop_evicts:
  assumes "m_semaphore L = 0" "m_nLockingType L = LONG_LOCK_UNLOCK" "\<not> m_nInCriticalRegion L"
    and "m_ulnJiffiesTmOut L < J (Suc n) - m_ullnStartJiffi L" "m_lnPID L \<noteq> 0"
  shows "lock_loop J p t (Suc (Suc n)) L ks =
    (0, lock_acquired p t (J n) (L\<lparr>m_nLockingType := NO_LOCK, m_lnPID := - 1, m_semaphore := 0\<rparr>), ks @ [m_lnPID L])"
  using assms by (simp add: lock_timed_out_def)

lemma lock_loop_in_region:
  assumes "m_semaphore L = 0" "m_nLockingType L = LONG_LOCK_UNLOCK" "m_nInCriticalRegion L"
  shows "\<exists>b. lock_loop J p t n L ks = (- ETIME, L\<lparr>m_nShouldBeFreed := b\<rparr>, ks)"
  using assms
proof (induction n arbitrary: L ks)
  case 0
  have "L = L\<lparr>m_nShouldBeFreed := m_nShouldBeFreed L\<rparr>" by simp
  then show ?case by (metis lock_loop.simps(1))
next
  case (Suc n)
  have "\<exists>b. lock_timed_out (J n) L = (0, L\<lparr>m_nShouldBeFreed := b\<rparr>)"
    using Suc.prems by (auto simp: lock_timed_out_def intro: exI [of _ "m_nShouldBeFreed L"])
  then obtain b where b: "lock_timed_out (J n) L = (0, L\<lparr>m_nShouldBeFreed := b\<rparr>)" ..
  show ?case using Suc.IH [of "L\<lparr>m_nShouldBeFreed := b\<rparr>" ks] Suc.prems b by auto
qed

text \<open>
  Against a process in a short section entering is given up after 100 rounds with \<open>-ETIME\<close>; the
  lock is as it was and nobody is signalled.
\<close>

theorem short_section_not_interrupted:
  assumes "sem_taken p L" "q \<noteq> p"
  shows "EnterCritRegion_sem J q L = (- ETIME, L, [])"
  using assms lock_loop_held [of L 100 J q SHORT_LOCK_UNLOCK "[]"]
  by (simp add: EnterCritRegion_sem_def LockCritRegionPrivate_def sem_taken_def)

text \<open>
  \<^verbatim>\<open>LongLockOfCriticalRegion\<close> drops the result of the wait: against a process in a short section it
  reports success and the caller holds nothing.
\<close>

theorem long_lock_reports_success_without_lock:
  assumes "sem_taken p L" "q \<noteq> p"
  shows "LongLockOfCriticalRegion_sem J q L = (0, L, [])"
  using assms lock_loop_held [of L 100 J q LONG_LOCK_UNLOCK "[]"]
  by (simp add: LongLockOfCriticalRegion_sem_def LockCritRegionPrivate_def sem_taken_def)

text \<open>
  C22. A process that holds the lock for long, is outside the critical region and over its time loses
  the lock to the next one that wants it, and is signalled.
\<close>

theorem long_lock_evicted:
  assumes "m_semaphore L = 0" "m_nLockingType L = LONG_LOCK_UNLOCK" "\<not> m_nInCriticalRegion L"
    and "m_lnPID L = int p" "0 < p" "q \<noteq> p" "m_ulnJiffiesTmOut L < J 99 - m_ullnStartJiffi L"
  shows "\<exists>L'. EnterCritRegion_sem J (int q) L = (0, L', [int p]) \<and> sem_taken (int q) L'"
  using assms lock_loop_evicts [of L J 98 "int q" SHORT_LOCK_UNLOCK "[]"]
  by (simp add: EnterCritRegion_sem_def LockCritRegionPrivate_def sem_taken_def lock_acquired_def)

text \<open>
  Entering twice does not nest: after the first of two leaves the lock is free although its owner
  has one leave to go.
\<close>

theorem nested_sections_do_not_nest:
  assumes "sem_free L"
  shows "\<exists>L1 L2 L3. EnterCritRegion_sem J (int p) L = (0, L1, []) \<and>
    EnterCritRegion_sem J (int p) L1 = (0, L2, []) \<and> LeaveCritRegion_sem (int p) L2 = (0, L3) \<and> sem_free L3"
  using assms by (simp add: EnterCritRegion_sem_def LockCritRegionPrivate_free sem_free_def lock_acquired_def
      LeaveCritRegion_sem_def UnlockCritRegionPrivate_def unlockSemaphore_def)

section \<open>Interleavings\<close>

text \<open>
  A process is outside, waits in the loop of \<^verbatim>\<open>LockCritRegionPrivate\<close> (for a long lock or not, with
  its round), has the semaphore but has not yet noted itself in the lock, or is in the region.
  \<open>claims\<close> are the processes to which \<^verbatim>\<open>LongLockOfCriticalRegion\<close> reported success and nobody reported
  the loss. A step is one of the parts that run under the spin lock, or one operation on the
  semaphore; \<^verbatim>\<open>down_timeout\<close> may fail at any time.
\<close>

datatype phase = Out | Waiting bool nat | Acquired bool | Inside

record sem_sys =
  lk :: sem_lock
  ph :: "nat \<Rightarrow> phase"
  claims :: "nat set"
  signalled :: "int list"

definition lock_type_of :: "bool \<Rightarrow> sem_lock_type" where
  "lock_type_of long = (if long then LONG_LOCK_UNLOCK else SHORT_LOCK_UNLOCK)"

inductive sstep :: "nat \<Rightarrow> sem_sys \<Rightarrow> sem_sys \<Rightarrow> bool" where
  enter_own: "ph s p = Out \<Longrightarrow> m_lnPID (lk s) = int p \<Longrightarrow>
     sstep p s (s\<lparr>lk := (lk s)\<lparr>m_nInCriticalRegion := True\<rparr>, ph := (ph s)(p := Inside)\<rparr>)"
| start_wait: "ph s p = Out \<Longrightarrow> m_lnPID (lk s) \<noteq> int p \<Longrightarrow>
     sstep p s (s\<lparr>ph := (ph s)(p := Waiting long 0)\<rparr>)"
| down: "ph s p = Waiting long n \<Longrightarrow> n < 100 \<Longrightarrow> 0 < m_semaphore (lk s) \<Longrightarrow>
     sstep p s (s\<lparr>lk := (lk s)\<lparr>m_semaphore := m_semaphore (lk s) - 1\<rparr>, ph := (ph s)(p := Acquired long)\<rparr>)"
| timed_out: "ph s p = Waiting long n \<Longrightarrow> n < 100 \<Longrightarrow> lock_timed_out jiffies (lk s) = (kill, L) \<Longrightarrow>
     sstep p s (s\<lparr>lk := L, ph := (ph s)(p := Waiting long (n + 1)),
       signalled := (if kill \<noteq> 0 then signalled s @ [kill] else signalled s)\<rparr>)"
| give_up: "ph s p = Waiting long n \<Longrightarrow> \<not> n < 100 \<Longrightarrow>
     sstep p s (s\<lparr>ph := (ph s)(p := Out), claims := (if long then insert p (claims s) else claims s)\<rparr>)"
| acquired: "ph s p = Acquired long \<Longrightarrow>
     sstep p s (s\<lparr>lk := lock_acquired (int p) (lock_type_of long) jiffies (lk s),
       ph := (ph s)(p := (if long then Out else Inside)),
       claims := (if long then insert p (claims s) else claims s)\<rparr>)"
| leave: "ph s p = Inside \<Longrightarrow> LeaveCritRegion_sem (int p) (lk s) = (r, L) \<Longrightarrow>
     sstep p s (s\<lparr>lk := L, ph := (ph s)(p := Out),
       claims := (if r = LOCK_TIMEOUT then claims s - {p} else claims s)\<rparr>)"
| unlock_long: "ph s p = Out \<Longrightarrow> UnlockLongCritRegion_sem (int p) (lk s) = (r, L) \<Longrightarrow>
     sstep p s (s\<lparr>lk := L, claims := claims s - {p}\<rparr>)"

definition sem_init :: "u64 \<Rightarrow> sem_sys" where
  "sem_init jiffies = \<lparr>lk = InitCritRegionLock_sem jiffies, ph = (\<lambda>_. Out), claims = {}, signalled = []\<rparr>"

inductive sem_reachable :: "u64 \<Rightarrow> sem_sys \<Rightarrow> bool" for jiffies where
  init: "sem_reachable jiffies (sem_init jiffies)"
| step: "sem_reachable jiffies s \<Longrightarrow> sstep p s s' \<Longrightarrow> sem_reachable jiffies s'"

text \<open>
  The invariant: the lock is free and nobody is between taking and leaving it; or one process has it:
  it has just taken the semaphore, or is in the region with its number in the lock, or holds it for
  long.
\<close>

definition in_crit :: "phase \<Rightarrow> bool" where
  "in_crit f \<longleftrightarrow> f = Inside \<or> (\<exists>long. f = Acquired long)"

definition holder :: "sem_sys \<Rightarrow> nat \<Rightarrow> bool" where
  "holder s p \<longleftrightarrow> m_semaphore (lk s) = 0 \<and> (\<forall>q. q \<noteq> p \<longrightarrow> \<not> in_crit (ph s q)) \<and>
     (case ph s p of
        Acquired _ \<Rightarrow> m_lnPID (lk s) = - 1 \<and> m_nLockingType (lk s) = NO_LOCK
      | Inside \<Rightarrow> m_lnPID (lk s) = int p \<and> (m_nLockingType (lk s) = SHORT_LOCK_UNLOCK \<or>
          m_nLockingType (lk s) = LONG_LOCK_UNLOCK \<and> m_nInCriticalRegion (lk s))
      | _ \<Rightarrow> m_lnPID (lk s) = int p \<and> m_nLockingType (lk s) = LONG_LOCK_UNLOCK)"

definition sem_inv :: "sem_sys \<Rightarrow> bool" where
  "sem_inv s \<longleftrightarrow> sem_free (lk s) \<and> (\<forall>q. \<not> in_crit (ph s q)) \<or> (\<exists>p. holder s p)"

lemma in_crit_simps [simp]:
  "in_crit Inside" "in_crit (Acquired b)" "\<not> in_crit Out" "\<not> in_crit (Waiting b n)"
  by (simp_all add: in_crit_def)

lemmas sem_op_defs = LeaveCritRegion_sem_def UnlockLongCritRegion_sem_def UnlockCritRegionPrivate_def
  unlockSemaphore_def lock_timed_out_def lock_acquired_def

lemma sem_inv_init: "sem_inv (sem_init jiffies)"
  by (simp add: sem_inv_def sem_init_def InitCritRegionLock_sem_def sem_free_def)

lemma holderD:
  assumes "holder s p"
  shows "m_semaphore (lk s) = 0" "\<And>q. in_crit (ph s q) \<Longrightarrow> q = p"
    and "ph s p = Inside \<Longrightarrow> m_lnPID (lk s) = int p"
    and "m_lnPID (lk s) = int q \<Longrightarrow> q = p"
  using assms by (auto simp: holder_def split: phase.splits)

lemma in_crit_holder: "sem_inv s \<Longrightarrow> in_crit (ph s p) \<Longrightarrow> holder s p"
  using holderD(2) by (auto simp: sem_inv_def)

text \<open>A process that moves outside the region without touching the lock keeps the invariant.\<close>

lemma sem_inv_outside:
  assumes "sem_inv s" "lk s' = lk s" "ph s' = (ph s)(p := f)" "\<not> in_crit (ph s p)" "\<not> in_crit f"
  shows "sem_inv s'"
proof -
  have "holder s' q" if "holder s q" for q
    using that assms(2-5) by (cases "q = p") (auto simp: holder_def split: phase.splits)
  with assms show ?thesis by (auto simp: sem_inv_def)
qed

lemma sem_inv_step:
  assumes "sstep p s s'" "sem_inv s"
  shows "sem_inv s'"
  using assms
proof (cases rule: sstep.cases)
  case (enter_own)
  with assms(2) have "holder s p"
    by (auto simp: sem_inv_def sem_free_def dest: holderD(4))
  with enter_own have "holder s' p" by (auto simp: holder_def)
  then show ?thesis by (auto simp: sem_inv_def)
next
  case (start_wait long)
  with assms(2) show ?thesis by (intro sem_inv_outside [of s s' p]) auto
next
  case (down long n)
  with assms(2) have "sem_free (lk s)" "\<And>q. \<not> in_crit (ph s q)"
    by (auto simp: sem_inv_def dest: holderD(1))
  with down have "holder s' p" by (auto simp: holder_def sem_free_def)
  then show ?thesis by (auto simp: sem_inv_def)
next
  case (timed_out long n jiffies kill L)
  show ?thesis
  proof (cases "sem_free (lk s)")
    case True
    with assms(2) have "\<And>q. \<not> in_crit (ph s q)"
      by (auto simp: sem_inv_def sem_free_def dest: holderD(1))
    with True timed_out show ?thesis by (auto simp: sem_inv_def sem_free_def lock_timed_out_def)
  next
    case False
    with assms(2) obtain q where q: "holder s q" by (auto simp: sem_inv_def)
    show ?thesis
    proof (cases "lk s = L \<or> L = (lk s)\<lparr>m_nShouldBeFreed := True\<rparr>")
      case True
      with q timed_out have "holder s' q"
        by (auto simp: holder_def split: phase.splits)
      then show ?thesis by (auto simp: sem_inv_def)
    next
      case False
      with timed_out have L: "L = (lk s)\<lparr>m_semaphore := m_semaphore (lk s) + 1, m_nLockingType := NO_LOCK, m_lnPID := - 1\<rparr>"
        "m_nLockingType (lk s) = LONG_LOCK_UNLOCK" "\<not> m_nInCriticalRegion (lk s)"
        by (auto simp: lock_timed_out_def split: if_splits)
      with q have "\<not> in_crit (ph s x)" for x
        by (cases "x = q") (auto simp: holder_def split: phase.splits)
      with q L timed_out show ?thesis by (auto simp: sem_inv_def sem_free_def dest: holderD(1))
    qed
  qed
next
  case (give_up long n)
  with assms(2) show ?thesis by (intro sem_inv_outside [of s s' p]) auto
next
  case (acquired long jiffies)
  with assms(2) have "holder s p" by (simp add: in_crit_holder)
  with acquired have "holder s' p" by (auto simp: holder_def lock_acquired_def lock_type_of_def)
  then show ?thesis by (auto simp: sem_inv_def)
next
  case (leave r L)
  with assms(2) have h: "holder s p" by (simp add: in_crit_holder)
  show ?thesis
  proof (cases "L = unlockSemaphore (lk s)")
    case True
    with h leave have "sem_free L" "\<And>q. \<not> in_crit (ph s' q)"
      by (auto simp: holder_def sem_free_def unlockSemaphore_def)
    with leave show ?thesis by (simp add: sem_inv_def)
  next
    case False
    with h leave have "holder s' p"
      by (auto simp: holder_def LeaveCritRegion_sem_def UnlockCritRegionPrivate_def split: if_splits)
    then show ?thesis by (auto simp: sem_inv_def)
  qed
next
  case (unlock_long r L)
  show ?thesis
  proof (cases "m_lnPID (lk s) = int p")
    case True
    with assms(2) have h: "holder s p"
      by (auto simp: sem_inv_def sem_free_def dest: holderD(4))
    with unlock_long True have "sem_free L" "\<And>q. \<not> in_crit (ph s q)"
      by (auto simp: holder_def sem_free_def sem_op_defs split: phase.splits)
        (metis in_crit_simps(3))
    with unlock_long show ?thesis by (simp add: sem_inv_def)
  next
    case False
    with unlock_long have "L = lk s"
      by (simp add: UnlockLongCritRegion_sem_def UnlockCritRegionPrivate_def)
    with assms(2) unlock_long show ?thesis
      by (intro sem_inv_outside [of s s' p Out]) (auto simp: fun_upd_idem)
  qed
qed

lemma sem_reachable_inv: "sem_reachable jiffies s \<Longrightarrow> sem_inv s"
  by (induction rule: sem_reachable.induct) (auto simp: sem_inv_init intro: sem_inv_step)

text \<open>
  C4. Mutual exclusion: in every interleaving of any number of processes at most one is in the
  critical region, and while one is there or has the semaphore no other takes it.
\<close>

theorem sem_mutual_exclusion:
  assumes "sem_reachable jiffies s"
  shows "(in_crit (ph s p) \<longrightarrow> in_crit (ph s q) \<longrightarrow> p = q) \<and> m_semaphore (lk s) \<le> 1 \<and>
    (in_crit (ph s p) \<longrightarrow> m_semaphore (lk s) = 0)"
  using sem_reachable_inv [OF assms] in_crit_holder [of s p] holderD(1,2) [of s]
  by (auto simp: sem_inv_def sem_free_def)

text \<open>The steps of the processes other than \<open>p\<close>.\<close>

inductive others :: "nat \<Rightarrow> sem_sys \<Rightarrow> sem_sys \<Rightarrow> bool" for p where
  none: "others p s s"
| more: "others p s s' \<Longrightarrow> sstep q s' s'' \<Longrightarrow> q \<noteq> p \<Longrightarrow> others p s s''"

definition long_held_unused :: "sem_sys \<Rightarrow> nat \<Rightarrow> bool" where
  "long_held_unused s p \<longleftrightarrow> m_semaphore (lk s) = 0 \<and> m_lnPID (lk s) = int p \<and>
     m_nLockingType (lk s) = LONG_LOCK_UNLOCK \<and> m_nInCriticalRegion (lk s) \<and>
     (\<forall>q. q \<noteq> p \<longrightarrow> \<not> in_crit (ph s q))"

lemma long_held_unused_step:
  assumes "sstep q s s'" "q \<noteq> p" "long_held_unused s p"
  shows "long_held_unused s' p"
  using assms
  by (cases rule: sstep.cases)
    (auto simp: long_held_unused_def lock_timed_out_def UnlockLongCritRegion_sem_def
      UnlockCritRegionPrivate_def split: if_splits)

text \<open>
  C21. A process that took the long lock and has not made an access since is counted as inside the
  critical region, so it is never evicted: whatever the others do and however long it takes, the lock
  stays with it.
\<close>

theorem unused_long_lock_is_permanent:
  assumes "sem_reachable jiffies s" "ph s p = Acquired True" "sstep p s s1" "others p s1 s2"
  shows "m_lnPID (lk s2) = int p \<and> m_semaphore (lk s2) = 0"
proof -
  have "holder s p" using sem_reachable_inv [OF assms(1)] assms(2) by (simp add: in_crit_holder)
  with assms(2,3) have "long_held_unused s1 p"
    by (auto simp: holder_def long_held_unused_def lock_acquired_def lock_type_of_def elim!: sstep.cases)
  with assms(4) have "long_held_unused s2 p"
    by (induction rule: others.induct) (auto intro: long_held_unused_step)
  then show ?thesis by (simp add: long_held_unused_def)
qed

section \<open>Concrete runs\<close>

text \<open>Process 1 takes the long lock: the states before and after it notes itself in the lock.\<close>

definition demo_waiting :: sem_sys where
  "demo_waiting = (sem_init 500)\<lparr>ph := (\<lambda>_. Out)(1 := Waiting True 0)\<rparr>"

definition demo_acquired :: sem_sys where
  "demo_acquired = (sem_init 500)\<lparr>lk := (InitCritRegionLock_sem 500)\<lparr>m_semaphore := 0\<rparr>,
     ph := (\<lambda>_. Out)(1 := Acquired True)\<rparr>"

definition demo_held :: sem_sys where
  "demo_held = demo_acquired\<lparr>lk := lock_acquired 1 LONG_LOCK_UNLOCK 7 (lk demo_acquired),
     ph := (\<lambda>_. Out), claims := {1}\<rparr>"

lemma demo_acquired_reachable: "sem_reachable 500 demo_acquired"
proof -
  have "sstep 1 (sem_init 500) demo_waiting"
    using sstep.start_wait [of "sem_init 500" 1 True]
    by (simp add: sem_init_def InitCritRegionLock_sem_def demo_waiting_def)
  moreover have "sstep 1 demo_waiting demo_acquired"
    using sstep.down [of demo_waiting 1 True 0]
    by (simp add: sem_init_def InitCritRegionLock_sem_def demo_waiting_def demo_acquired_def)
  ultimately show ?thesis using sem_reachable.intros by metis
qed

lemma demo_held_step: "sstep 1 demo_acquired demo_held"
  using sstep.acquired [of demo_acquired 1 True 7]
  by (simp add: demo_acquired_def demo_held_def lock_type_of_def sem_init_def fun_upd_idem)

definition demo_short :: sem_lock where
  "demo_short = lock_acquired 1 SHORT_LOCK_UNLOCK 7 ((InitCritRegionLock_sem 500)\<lparr>m_semaphore := 0\<rparr>)"

definition demo_long :: sem_lock where
  "demo_long = (lk demo_held)\<lparr>m_nInCriticalRegion := False\<rparr>"

lemmas demo_simps = demo_short_def demo_long_def demo_held_def demo_acquired_def lock_acquired_def
  InitCritRegionLock_sem_def sem_taken_def sem_init_def sem_free_def

theorem sem_mutual_exclusion_witness:
  "in_crit (ph demo_acquired 1) \<and> m_semaphore (lk demo_acquired) = 0"
  using sem_mutual_exclusion [OF demo_acquired_reachable, of 1 1] by (simp add: demo_simps)

theorem unused_long_lock_is_permanent_witness:
  "m_lnPID (lk demo_held) = 1 \<and> m_semaphore (lk demo_held) = 0"
  using unused_long_lock_is_permanent [OF demo_acquired_reachable _ demo_held_step others.none]
  by (simp add: demo_acquired_def)

theorem short_section_not_interrupted_witness:
  "EnterCritRegion_sem (\<lambda>_. 1000) 2 demo_short = (- ETIME, demo_short, [])"
  by (rule short_section_not_interrupted [of 1]) (simp_all add: demo_simps)

theorem long_lock_reports_success_without_lock_witness:
  "LongLockOfCriticalRegion_sem (\<lambda>_. 1000) 2 demo_short = (0, demo_short, [])"
  by (rule long_lock_reports_success_without_lock [of 1]) (simp_all add: demo_simps)

theorem long_lock_evicted_witness:
  "\<exists>L'. EnterCritRegion_sem (\<lambda>_. 1000) (int 2) demo_long = (0, L', [int 1]) \<and> sem_taken (int 2) L'"
  by (rule long_lock_evicted) (simp_all add: demo_simps)

theorem nested_sections_do_not_nest_witness:
  "\<exists>L1 L2 L3. EnterCritRegion_sem (\<lambda>_. 7) (int 1) (InitCritRegionLock_sem 500) = (0, L1, []) \<and>
    EnterCritRegion_sem (\<lambda>_. 7) (int 1) L1 = (0, L2, []) \<and> LeaveCritRegion_sem (int 1) L2 = (0, L3) \<and> sem_free L3"
  by (rule nested_sections_do_not_nest) (simp add: demo_simps)

end
