(* ===== verification/Board_Info.thy ===== *)
theory Board_Info
  imports Device
begin

unbundle bit_operations_syntax

text \<open>
  Board discovery, from \<^verbatim>\<open>pciedev_ufn.c\<close>: \<^verbatim>\<open>pciedev_get_brdinfo\<close> identifies a board by the magic number in its first
  register; \<^verbatim>\<open>pciedev_get_prjinfo\<close> and \<^verbatim>\<open>pciedev_get_shapi_module_info\<close> follow the chain of project or module
  descriptions the board's registers form, each with the offset of the next one, and collect them in a list.

  The chain is data of the device: a walk along it ends or not. The loops are partial functions, \<open>None\<close> when they do
  not end. The locale \<open>chain\<close> is the contract between such a loop and the function that reads one description; it is
  interpreted on both. Shown: along a chain that ends, the walk ends with the descriptions in the list, last first;
  along a cycle it does not end; the scan of the other BARs does not end when a description there has a successor.
  \<open>mem_ok\<close> says whether \<^verbatim>\<open>kzalloc\<close> finds memory; the code does not look.
\<close>

section \<open>Register offsets\<close>

definition WORD_BOARD_ID :: u64 where [upcie_consts]: "WORD_BOARD_ID = 0x04"
definition WORD_BOARD_VERSION :: u64 where [upcie_consts]: "WORD_BOARD_VERSION = 0x08"
definition WORD_BOARD_DATE :: u64 where [upcie_consts]: "WORD_BOARD_DATE = 0x0C"
definition WORD_BOARD_HW_VERSION :: u64 where [upcie_consts]: "WORD_BOARD_HW_VERSION = 0x10"
definition WORD_BOARD_TO_PROJ :: u64 where [upcie_consts]: "WORD_BOARD_TO_PROJ = 0x18"
definition WORD_PROJ_ID :: u64 where [upcie_consts]: "WORD_PROJ_ID = 0x04"
definition WORD_PROJ_VERSION :: u64 where [upcie_consts]: "WORD_PROJ_VERSION = 0x08"
definition WORD_PROJ_DATE :: u64 where [upcie_consts]: "WORD_PROJ_DATE = 0x0C"
definition WORD_PROJ_RESERVED :: u64 where [upcie_consts]: "WORD_PROJ_RESERVED = 0x10"
definition WORD_PROJ_NEXT :: u64 where [upcie_consts]: "WORD_PROJ_NEXT = 0x18"
definition WORD_DEVICE_VERSION :: u64 where [upcie_consts]: "WORD_DEVICE_VERSION = 0x00"
definition WORD_FIRST_MODULE_ADDRESS :: u64 where [upcie_consts]: "WORD_FIRST_MODULE_ADDRESS = 0x04"
definition WORD_HW_IDS :: u64 where [upcie_consts]: "WORD_HW_IDS = 0x08"
definition WORD_FW_IDS :: u64 where [upcie_consts]: "WORD_FW_IDS = 0x0C"
definition WORD_FW_VERSION :: u64 where [upcie_consts]: "WORD_FW_VERSION = 0x10"
definition WORD_FW_TIMESTAMP :: u64 where [upcie_consts]: "WORD_FW_TIMESTAMP = 0x14"
definition WORD_FW_NAME :: u64 where [upcie_consts]: "WORD_FW_NAME = 0x18"
definition WORD_DEVICE_CAP :: u64 where [upcie_consts]: "WORD_DEVICE_CAP = 0x24"
definition WORD_DEVICE_STATUS :: u64 where [upcie_consts]: "WORD_DEVICE_STATUS = 0x28"
definition WORD_DEVICE_CONTROL :: u64 where [upcie_consts]: "WORD_DEVICE_CONTROL = 0x2C"
definition WORD_IRQ_MASK :: u64 where [upcie_consts]: "WORD_IRQ_MASK = 0x30"
definition WORD_IRQ_FLAG :: u64 where [upcie_consts]: "WORD_IRQ_FLAG = 0x34"
definition WORD_IRQ_ACTIVE :: u64 where [upcie_consts]: "WORD_IRQ_ACTIVE = 0x38"
definition WORD_SCRATCH_REGISTER :: u64 where [upcie_consts]: "WORD_SCRATCH_REGISTER = 0x3C"
definition WORD_MODULE_SHAPI_VERSION :: u64 where [upcie_consts]: "WORD_MODULE_SHAPI_VERSION = 0x00"
definition WORD_NEXT_MODULE_ADDRESS :: u64 where [upcie_consts]: "WORD_NEXT_MODULE_ADDRESS = 0x04"
definition WORD_MODULE_IDS :: u64 where [upcie_consts]: "WORD_MODULE_IDS = 0x08"
definition WORD_MODULE_VERSION :: u64 where [upcie_consts]: "WORD_MODULE_VERSION = 0x0C"
definition WORD_MODULE_NAME :: u64 where [upcie_consts]: "WORD_MODULE_NAME = 0x10"
definition WORD_MODULE_CAP :: u64 where [upcie_consts]: "WORD_MODULE_CAP = 0x18"
definition WORD_MODULE_STATUS :: u64 where [upcie_consts]: "WORD_MODULE_STATUS = 0x1C"
definition WORD_MODULE_CONTROL :: u64 where [upcie_consts]: "WORD_MODULE_CONTROL = 0x20"
definition WORD_MODULE_IRQ_ID :: u64 where [upcie_consts]: "WORD_MODULE_IRQ_ID = 0x24"
definition WORD_MODULE_IRQ_CLEAR :: u64 where [upcie_consts]: "WORD_MODULE_IRQ_CLEAR = 0x28"
definition WORD_MODULE_IRQ_MASK :: u64 where [upcie_consts]: "WORD_MODULE_IRQ_MASK = 0x2C"
definition WORD_MODULE_IRQ_FLAG :: u64 where [upcie_consts]: "WORD_MODULE_IRQ_FLAG = 0x30"
definition WORD_MODULE_IRQ_ACTIVE :: u64 where [upcie_consts]: "WORD_MODULE_IRQ_ACTIVE = 0x34"

section \<open>Reading registers\<close>

text \<open>The registers at offsets from a base address, read in the order given.\<close>

fun ioreads :: "'w kern \<Rightarrow> u64 \<Rightarrow> u64 list \<Rightarrow> 'w \<Rightarrow> u32 list \<times> 'w" where
  "ioreads k base [] w = ([], w)"
| "ioreads k base (off # offs) w =
     (let (v, w) = k_ioread32 k (base + off) w; (vs, w) = ioreads k base offs w in (v # vs, w))"

text \<open>
  The loop that unpacks the four characters of a register, most significant byte first, into a name from index
  \<^verbatim>\<open>k\<close> on; a blank or a zero ends it.
\<close>

definition name_char :: "u32 \<Rightarrow> nat \<Rightarrow> u8" where
  "name_char x i = ucast (drop_bit ((3 - i) * 8) x AND 0xFF)"

function name_loop :: "nat \<Rightarrow> u32 \<Rightarrow> nat \<Rightarrow> u8 list \<Rightarrow> u8 list" where
  "name_loop k x i nm =
     (if i < 4 then
        let ach = name_char x i
        in if ach = 0x20 then nm[i + k := 0]
           else if ach = 0 then nm[i + k := 0]
           else name_loop k x (i + 1) (nm[i + k := ach])
      else nm)"
  by pat_completeness auto
termination by (relation "measure (\<lambda>(k, x, i, nm). 4 - i)") auto

declare name_loop.simps [simp del]

text \<open>All words of a name.\<close>

fun name_words :: "nat \<Rightarrow> u32 list \<Rightarrow> u8 list \<Rightarrow> u8 list" where
  "name_words k [] nm = nm"
| "name_words k (x # xs) nm = name_words (k + 4) xs (name_loop k x 0 nm)"

section \<open>The board\<close>

definition ascii_board :: "'w kern \<Rightarrow> u64 \<Rightarrow> pciedev_dev \<Rightarrow> 'w \<Rightarrow> pciedev_dev \<times> 'w" where
  "ascii_board k baddress d w =
     (let (v, w) = ioreads k baddress
            [WORD_BOARD_ID, WORD_BOARD_VERSION, WORD_BOARD_DATE, WORD_BOARD_HW_VERSION, WORD_BOARD_TO_PROJ] w
      in (d\<lparr>startup_brd := 1, brd_info_list := (brd_info_list d)\<lparr>PCIEDEV_BOARD_ID := v ! 0, PCIEDEV_BOARD_VERSION := v ! 1,
            PCIEDEV_BOARD_DATE := v ! 2, PCIEDEV_HW_VERSION := v ! 3, brd_PROJ_NEXT := v ! 4\<rparr>\<rparr>, w))"

definition shapi_board :: "'w kern \<Rightarrow> u64 \<Rightarrow> pciedev_dev \<Rightarrow> 'w \<Rightarrow> pciedev_dev \<times> 'w" where
  "shapi_board k baddress d w =
     (let (v, w) = ioreads k baddress
            [WORD_DEVICE_VERSION, WORD_FIRST_MODULE_ADDRESS, WORD_HW_IDS, WORD_FW_IDS, WORD_FW_VERSION, WORD_FW_TIMESTAMP,
             WORD_DEVICE_CAP, WORD_DEVICE_STATUS, WORD_DEVICE_CONTROL, WORD_IRQ_MASK, WORD_IRQ_FLAG, WORD_IRQ_ACTIVE,
             WORD_SCRATCH_REGISTER, WORD_FW_NAME, WORD_FW_NAME + 4, WORD_FW_NAME + 8] w;
          names = drop 13 v
      in (d\<lparr>startup_brd := 0, shapi_brd := 1, shapi_module_num := (if v ! 1 \<noteq> 0 then 1 else shapi_module_num d),
            scratch_bar := 0, scratch_offset := ucast WORD_SCRATCH_REGISTER,
            device_info_list := (device_info_list d)\<lparr>SHAPI_VERSION := v ! 0 AND 0xFFFF, SHAPI_FIRST_MODULE_ADDRESS := v ! 1,
              SHAPI_HW_IDS := v ! 2, SHAPI_FW_IDS := v ! 3, SHAPI_FW_VERSION := v ! 4, SHAPI_FW_TIMESTAMP := v ! 5,
              SHAPI_DEVICE_CAP := v ! 6, SHAPI_DEVICE_STATUS := v ! 7, SHAPI_DEVICE_CONTROL := v ! 8, SHAPI_IRQ_MASK := v ! 9,
              SHAPI_IRQ_FLAG := v ! 10, SHAPI_IRQ_ACTIVE := v ! 11, SHAPI_SCRATCH_REGISTER := v ! 12,
              SHAPI_FW_NAME := names, fw_name := name_words 0 names (fw_name (device_info_list d))\<rparr>\<rparr>, w))"

definition pciedev_get_brdinfo :: "'w kern \<Rightarrow> pciedev_dev \<Rightarrow> 'w \<Rightarrow> int \<times> pciedev_dev \<times> 'w" where
  "pciedev_get_brdinfo k d w =
     (let d = d\<lparr>startup_brd := 0, shapi_brd := 0, shapi_module_num := 0\<rparr>;
          baddress = memmory_base d ! 0
      in if baddress \<noteq> 0 then
           let (magic, w) = k_ioread32 k baddress w
           in if magic = ASCII_BOARD_MAGIC_NUM \<or> magic = ASCII_BOARD_MAGIC_NUM_L then
                let (d, w) = ascii_board k baddress d w in (startup_brd d, d, w)
              else if drop_bit 16 magic = SHAPI_MAGIC_DEVICE_NUM then
                let (d, w) = shapi_board k baddress d w in (2, d, w)
              else (0, d, w)
         else (0, d, w))"

section \<open>One description\<close>

text \<open>
  The functions return the offset of the next description, \<open>0\<close> when there is none or the magic number is missing. The
  state is the board and the outside world.
\<close>

definition pciedev_fill_prj_info :: "bool \<Rightarrow> 'w kern \<Rightarrow> u64 \<Rightarrow> pciedev_dev \<times> 'w \<Rightarrow> (u32 \<times> pciedev_dev \<times> 'w) run" where
  "pciedev_fill_prj_info mem_ok k baradress s =
     (let (d, w) = s; (magic, w) = k_ioread32 k baradress w
      in if magic = ASCII_PROJ_MAGIC_NUM then
           let d = d\<lparr>startup_prj_num := startup_prj_num d + 1\<rparr>
           in if \<not> mem_ok then Fault
              else
                let (v, w) = ioreads k baradress
                      [WORD_PROJ_ID, WORD_PROJ_VERSION, WORD_PROJ_DATE, WORD_PROJ_RESERVED, WORD_PROJ_NEXT] w;
                    p = \<lparr>PCIEDEV_PROJ_ID = v ! 0, PCIEDEV_PROJ_VERSION = v ! 1, PCIEDEV_PROJ_DATE = v ! 2,
                         PCIEDEV_PROJ_RESERVED = v ! 3, PCIEDEV_PROJ_NEXT = v ! 4\<rparr>;
                    d = d\<lparr>brd_info_list := (brd_info_list d)\<lparr>brd_PROJ_NEXT := 0\<rparr>, prj_info_list := p # prj_info_list d\<rparr>
                in Done (v ! 4, d, w)
         else Done (0, d, w))"

definition module_info :: "int \<Rightarrow> u32 list \<Rightarrow> shapi_module_info" where
  "module_info num v =
     zero_module_info\<lparr>module_num := num, mod_SHAPI_VERSION := v ! 0 AND 0xFFFF, SHAPI_MODULE_FW_IDS := v ! 1,
       SHAPI_MODULE_VERSION := v ! 2, SHAPI_MODULE_CAP := v ! 3, SHAPI_MODULE_STATUS := v ! 4, SHAPI_MODULE_CONTROL := v ! 5,
       SHAPI_IRQ_ID := v ! 6, SHAPI_IRQ_FLAG_CLEAR := v ! 7, mod_IRQ_MASK := v ! 8, mod_IRQ_FLAG := v ! 9,
       mod_IRQ_ACTIVE := v ! 10, SHAPI_MODULE_NAME := [v ! 11, v ! 12],
       mod_name := name_words 0 [v ! 11, v ! 12] (mod_name zero_module_info), SHAPI_NEXT_MODULE_ADDRESS := v ! 13\<rparr>"

definition pciedev_fill_shapi_module_info :: "bool \<Rightarrow> 'w kern \<Rightarrow> u64 \<Rightarrow> pciedev_dev \<times> 'w \<Rightarrow> (u32 \<times> pciedev_dev \<times> 'w) run" where
  "pciedev_fill_shapi_module_info mem_ok k baradress s =
     (let (d, w) = s; (magic, w) = k_ioread32 k baradress w
      in if drop_bit 16 magic = SHAPI_MAGIC_MODULE_NUM then
           let d = d\<lparr>shapi_module_num := shapi_module_num d + 1\<rparr>
           in if \<not> mem_ok then Fault
              else
                let (v, w) = ioreads k baradress
                      [WORD_MODULE_SHAPI_VERSION, WORD_MODULE_IDS, WORD_MODULE_VERSION, WORD_MODULE_CAP, WORD_MODULE_STATUS,
                       WORD_MODULE_CONTROL, WORD_MODULE_IRQ_ID, WORD_MODULE_IRQ_CLEAR, WORD_MODULE_IRQ_MASK, WORD_MODULE_IRQ_FLAG,
                       WORD_MODULE_IRQ_ACTIVE, WORD_MODULE_NAME, WORD_MODULE_NAME + 4, WORD_NEXT_MODULE_ADDRESS] w;
                    d = d\<lparr>device_irq_num := device_irq_num d OR v ! 6,
                          module_info_list := module_info (shapi_module_num d) v # module_info_list d\<rparr>
                in Done (v ! 13, d, w)
         else Done (0, d, w))"

section \<open>Chains\<close>

text \<open>
  The two loops over a chain: along the offsets from BAR 0, and the scan of another BAR, whose body starts every round
  at the beginning of the BAR. \<^verbatim>\<open>baddress + tmp_next_prj\<close> adds a signed offset.
\<close>

partial_function (option) walk :: "(u64 \<Rightarrow> 's \<Rightarrow> (u32 \<times> 's) run) \<Rightarrow> u64 \<Rightarrow> u32 \<Rightarrow> 's \<Rightarrow> 's run option" where
  "walk fill base nxt s =
     (if nxt = 0 then Some (Done s)
      else case fill (base + scast nxt) s of
             Done (nxt, s) \<Rightarrow> walk fill base nxt s
           | Blocked \<Rightarrow> Some Blocked
           | Fault \<Rightarrow> Some Fault)"

partial_function (option) bar_walk :: "(u64 \<Rightarrow> 's \<Rightarrow> (u32 \<times> 's) run) \<Rightarrow> u64 \<Rightarrow> 's \<Rightarrow> 's run option" where
  "bar_walk fill base s =
     (case fill base s of
        Done (nxt, s) \<Rightarrow> if nxt = 0 then Some (Done s) else bar_walk fill base s
      | Blocked \<Rightarrow> Some Blocked
      | Fault \<Rightarrow> Some Fault)"

fun scan_bars :: "(u64 \<Rightarrow> 's \<Rightarrow> (u32 \<times> 's) run) \<Rightarrow> u64 list \<Rightarrow> 's \<Rightarrow> 's run option" where
  "scan_bars fill [] s = Some (Done s)"
| "scan_bars fill (b # bs) s =
     (if b = 0 then scan_bars fill bs s
      else case bar_walk fill b s of
             Some (Done s) \<Rightarrow> scan_bars fill bs s
           | r \<Rightarrow> r)"

definition pciedev_get_prjinfo :: "bool \<Rightarrow> 'w kern \<Rightarrow> pciedev_dev \<Rightarrow> 'w \<Rightarrow> (int \<times> pciedev_dev \<times> 'w) run option" where
  "pciedev_get_prjinfo mem_ok k d w =
     (let d = d\<lparr>startup_prj_num := 0\<rparr>;
          nxt = brd_PROJ_NEXT (brd_info_list d);
          fill = pciedev_fill_prj_info mem_ok k
      in map_option (\<lambda>r. run_bind r (\<lambda>(d, w). Done (startup_prj_num d, d, w)))
           (if nxt \<noteq> 0 then walk fill (memmory_base d ! 0) nxt (d, w)
            else scan_bars fill (drop 1 (memmory_base d)) (d, w)))"

definition pciedev_get_shapi_module_info :: "bool \<Rightarrow> 'w kern \<Rightarrow> pciedev_dev \<Rightarrow> 'w \<Rightarrow> (int \<times> pciedev_dev \<times> 'w) run option" where
  "pciedev_get_shapi_module_info mem_ok k d w =
     (let d = d\<lparr>shapi_module_num := 0\<rparr>;
          nxt = SHAPI_FIRST_MODULE_ADDRESS (device_info_list d);
          fill = pciedev_fill_shapi_module_info mem_ok k
      in map_option (\<lambda>r. run_bind r (\<lambda>(d, w). Done (shapi_module_num d, d, w)))
           (if nxt \<noteq> 0 then walk fill (memmory_base d ! 0) nxt (d, w)
            else scan_bars fill (drop 1 (memmory_base d)) (d, w)))"

section \<open>Walking a chain\<close>

text \<open>
  \<open>links good nxt n ns\<close>: from offset \<open>n\<close> the chain has the good descriptions \<open>ns\<close> and ends, with the offset \<open>0\<close> or
  at an offset without a magic number.
\<close>

fun links :: "(u32 \<Rightarrow> bool) \<Rightarrow> (u32 \<Rightarrow> u32) \<Rightarrow> u32 \<Rightarrow> u32 list \<Rightarrow> bool" where
  "links good nxt n [] \<longleftrightarrow> n = 0 \<or> \<not> good n"
| "links good nxt n (m # ms) \<longleftrightarrow> n \<noteq> 0 \<and> m = n \<and> good n \<and> links good nxt (nxt n) ms"

text \<open>
  The contract of a function that reads one description: at a good offset it returns the next offset and adds the
  description to the state, elsewhere it returns \<open>0\<close> and changes nothing.
\<close>

locale chain =
  fixes fill :: "u64 \<Rightarrow> 's \<Rightarrow> (u32 \<times> 's) run" and base :: u64 and good :: "u32 \<Rightarrow> bool" and nxt :: "u32 \<Rightarrow> u32"
    and upd :: "u32 \<Rightarrow> 's \<Rightarrow> 's" and ok :: "'s \<Rightarrow> bool"
  assumes fill_good: "ok s \<Longrightarrow> good n \<Longrightarrow> fill (base + scast n) s = Done (nxt n, upd n s)"
    and fill_bad: "ok s \<Longrightarrow> \<not> good n \<Longrightarrow> fill (base + scast n) s = Done (0, s)"
    and ok_upd: "ok s \<Longrightarrow> good n \<Longrightarrow> ok (upd n s)"
begin

lemma walk_links: "ok s \<Longrightarrow> links good nxt n ns \<Longrightarrow> walk fill base n s = Some (Done (fold upd ns s))"
proof (induction ns arbitrary: n s)
  case Nil
  then show ?case using fill_bad [of s n] by (subst walk.simps) (auto simp: walk.simps [of _ _ 0])
next
  case (Cons m ns)
  then show ?case using fill_good [of s n] ok_upd [of s n] by (subst walk.simps) simp
qed

lemma walk_cycle:
  assumes "ok s" "n \<in> C" "\<forall>m \<in> C. m \<noteq> 0 \<and> good m \<and> nxt m \<in> C"
  shows "walk fill base n s = None"
proof (rule ccontr)
  have never: "f = fill \<longrightarrow> b = base \<longrightarrow> \<not> (ok s \<and> n \<in> C)" if "walk f b n s = Some y" for f b n s y
    using that
  proof (rule walk.raw_induct [where P = "\<lambda>f b n s y. f = fill \<longrightarrow> b = base \<longrightarrow> \<not> (ok s \<and> n \<in> C)", rotated], intro impI notI)
    fix w f b n s y
    assume IH: "\<And>f b n s y. w f b n s = Some y \<Longrightarrow> f = fill \<longrightarrow> b = base \<longrightarrow> \<not> (ok s \<and> n \<in> C)"
      and body: "(if n = 0 then Some (Done s)
        else case f (b + scast n) s of Done (m, s) \<Rightarrow> w f b m s | Blocked \<Rightarrow> Some Blocked | Fault \<Rightarrow> Some Fault) = Some y"
      and f: "f = fill" "b = base" and s: "ok s \<and> n \<in> C"
    have "w f b (nxt n) (upd n s) = Some y" using body f s assms(3) fill_good [of s n] by auto
    from IH [OF this] show False using f s assms(3) ok_upd by blast
  qed
  assume "walk fill base n s \<noteq> None"
  with never [of fill base n s] assms(1,2) show False by auto
qed

lemma bar_walk_one: "ok s \<Longrightarrow> \<not> good 0 \<Longrightarrow> bar_walk fill base s = Some (Done s)"
  "ok s \<Longrightarrow> good 0 \<Longrightarrow> nxt 0 = 0 \<Longrightarrow> bar_walk fill base s = Some (Done (upd 0 s))"
  using fill_bad [of s 0] fill_good [of s 0] by (simp_all add: bar_walk.simps)

lemma bar_walk_stuck:
  assumes "ok s" "good 0" "nxt 0 \<noteq> 0"
  shows "bar_walk fill base s = None"
proof (rule ccontr)
  have never: "f = fill \<longrightarrow> b = base \<longrightarrow> \<not> ok s" if "bar_walk f b s = Some y" for f b s y
    using that
  proof (rule bar_walk.raw_induct [where P = "\<lambda>f b s y. f = fill \<longrightarrow> b = base \<longrightarrow> \<not> ok s", rotated], intro impI notI)
    fix w f b s y
    assume IH: "\<And>f b s y. w f b s = Some y \<Longrightarrow> f = fill \<longrightarrow> b = base \<longrightarrow> \<not> ok s"
      and body: "(case f b s of Done (m, s) \<Rightarrow> if m = 0 then Some (Done s) else w f b s | Blocked \<Rightarrow> Some Blocked | Fault \<Rightarrow> Some Fault) = Some y"
      and f: "f = fill" "b = base" and s: "ok s"
    have "w f b (upd 0 s) = Some y" using body f s assms(2,3) fill_good [of s 0] by simp
    from IH [OF this] show False using f s assms(2) ok_upd by blast
  qed
  assume "bar_walk fill base s \<noteq> None"
  with never [of fill base s] assms(1) show False by auto
qed

end

text \<open>Reads of a device with stable registers.\<close>

lemma ioreads_stable:
  assumes "stable_reads k I r8 r16 r32" "I w"
  shows "ioreads k base offs w = (map (\<lambda>o'. r32 (base + o')) offs, w)"
  using stable_readsD(3) [OF assms] by (induction offs) simp_all

definition prj_at :: "(u64 \<Rightarrow> u32) \<Rightarrow> u64 \<Rightarrow> pciedev_prj_info" where
  "prj_at r a = \<lparr>PCIEDEV_PROJ_ID = r (a + WORD_PROJ_ID), PCIEDEV_PROJ_VERSION = r (a + WORD_PROJ_VERSION),
     PCIEDEV_PROJ_DATE = r (a + WORD_PROJ_DATE), PCIEDEV_PROJ_RESERVED = r (a + WORD_PROJ_RESERVED),
     PCIEDEV_PROJ_NEXT = r (a + WORD_PROJ_NEXT)\<rparr>"

definition add_prj :: "(u64 \<Rightarrow> u32) \<Rightarrow> u64 \<Rightarrow> u32 \<Rightarrow> pciedev_dev \<times> 'w \<Rightarrow> pciedev_dev \<times> 'w" where
  "add_prj r base n s = (case s of (d, w) \<Rightarrow>
     (d\<lparr>startup_prj_num := startup_prj_num d + 1, brd_info_list := (brd_info_list d)\<lparr>brd_PROJ_NEXT := 0\<rparr>,
        prj_info_list := prj_at r (base + scast n) # prj_info_list d\<rparr>, w))"

definition module_at :: "(u64 \<Rightarrow> u32) \<Rightarrow> u64 \<Rightarrow> int \<Rightarrow> shapi_module_info" where
  "module_at r a num = module_info num (map (\<lambda>o'. r (a + o'))
     [WORD_MODULE_SHAPI_VERSION, WORD_MODULE_IDS, WORD_MODULE_VERSION, WORD_MODULE_CAP, WORD_MODULE_STATUS,
      WORD_MODULE_CONTROL, WORD_MODULE_IRQ_ID, WORD_MODULE_IRQ_CLEAR, WORD_MODULE_IRQ_MASK, WORD_MODULE_IRQ_FLAG,
      WORD_MODULE_IRQ_ACTIVE, WORD_MODULE_NAME, WORD_MODULE_NAME + 4, WORD_NEXT_MODULE_ADDRESS])"

definition add_module :: "(u64 \<Rightarrow> u32) \<Rightarrow> u64 \<Rightarrow> u32 \<Rightarrow> pciedev_dev \<times> 'w \<Rightarrow> pciedev_dev \<times> 'w" where
  "add_module r base n s = (case s of (d, w) \<Rightarrow>
     (d\<lparr>shapi_module_num := shapi_module_num d + 1,
        device_irq_num := device_irq_num d OR r (base + scast n + WORD_MODULE_IRQ_ID),
        module_info_list := module_at r (base + scast n) (shapi_module_num d + 1) # module_info_list d\<rparr>, w))"

definition stable_state :: "'w kern \<Rightarrow> ('w \<Rightarrow> bool) \<Rightarrow> (u64 \<Rightarrow> u8) \<Rightarrow> (u64 \<Rightarrow> u16) \<Rightarrow> (u64 \<Rightarrow> u32) \<Rightarrow> pciedev_dev \<times> 'w \<Rightarrow> bool" where
  "stable_state k I r8 r16 r32 s \<longleftrightarrow> stable_reads k I r8 r16 r32 \<and> I (snd s)"

abbreviation good_prj :: "(u64 \<Rightarrow> u32) \<Rightarrow> u64 \<Rightarrow> u32 \<Rightarrow> bool" where
  "good_prj r base n \<equiv> r (base + scast n) = ASCII_PROJ_MAGIC_NUM"

abbreviation good_module :: "(u64 \<Rightarrow> u32) \<Rightarrow> u64 \<Rightarrow> u32 \<Rightarrow> bool" where
  "good_module r base n \<equiv> drop_bit 16 (r (base + scast n)) = SHAPI_MAGIC_MODULE_NUM"

interpretation prj: chain "pciedev_fill_prj_info True k" base "good_prj r32 base"
    "\<lambda>n. r32 (base + scast n + WORD_PROJ_NEXT)" "add_prj r32 base" "stable_state k I r8 r16 r32" for k base I r8 r16 r32
proof
  fix s :: "pciedev_dev \<times> 'a" and n
  obtain d w where s: "s = (d, w)" by fastforce
  assume "stable_state k I r8 r16 r32 s"
  then have *: "stable_reads k I r8 r16 r32" "I w" by (simp_all add: stable_state_def s)
  note reads = stable_readsD(3) [OF *] ioreads_stable [OF *]
  show "good_prj r32 base n \<Longrightarrow> pciedev_fill_prj_info True k (base + scast n) s = Done (r32 (base + scast n + WORD_PROJ_NEXT), add_prj r32 base n s)"
    by (simp add: pciedev_fill_prj_info_def s reads add_prj_def prj_at_def)
  show "\<not> good_prj r32 base n \<Longrightarrow> pciedev_fill_prj_info True k (base + scast n) s = Done (0, s)"
    by (simp add: pciedev_fill_prj_info_def s reads)
  show "good_prj r32 base n \<Longrightarrow> stable_state k I r8 r16 r32 (add_prj r32 base n s)"
    using * by (simp add: stable_state_def add_prj_def s)
qed

interpretation module: chain "pciedev_fill_shapi_module_info True k" base "good_module r32 base"
    "\<lambda>n. r32 (base + scast n + WORD_NEXT_MODULE_ADDRESS)" "add_module r32 base" "stable_state k I r8 r16 r32" for k base I r8 r16 r32
proof
  fix s :: "pciedev_dev \<times> 'a" and n
  obtain d w where s: "s = (d, w)" by fastforce
  assume "stable_state k I r8 r16 r32 s"
  then have *: "stable_reads k I r8 r16 r32" "I w" by (simp_all add: stable_state_def s)
  note reads = stable_readsD(3) [OF *] ioreads_stable [OF *]
  show "good_module r32 base n \<Longrightarrow> pciedev_fill_shapi_module_info True k (base + scast n) s =
      Done (r32 (base + scast n + WORD_NEXT_MODULE_ADDRESS), add_module r32 base n s)"
    by (simp add: pciedev_fill_shapi_module_info_def s reads add_module_def module_at_def)
  show "\<not> good_module r32 base n \<Longrightarrow> pciedev_fill_shapi_module_info True k (base + scast n) s = Done (0, s)"
    by (simp add: pciedev_fill_shapi_module_info_def s reads)
  show "good_module r32 base n \<Longrightarrow> stable_state k I r8 r16 r32 (add_module r32 base n s)"
    using * by (simp add: stable_state_def add_module_def s)
qed

section \<open>Discovery\<close>

lemma fold_add_prj:
  "\<exists>d'. fold (add_prj r base) ns (d, w) = (d', w) \<and> startup_prj_num d' = startup_prj_num d + int (length ns) \<and>
    prj_info_list d' = rev (map (\<lambda>n. prj_at r (base + scast n)) ns) @ prj_info_list d"
proof (induction ns arbitrary: d)
  case (Cons n ns)
  define d1 where "d1 = fst (add_prj r base n (d, w))"
  have "add_prj r base n (d, w) = (d1, w)" "startup_prj_num d1 = startup_prj_num d + 1"
    "prj_info_list d1 = prj_at r (base + scast n) # prj_info_list d"
    by (simp_all add: d1_def add_prj_def)
  with Cons [of d1] show ?case by auto
qed simp


text \<open>
  C16. On a device with stable registers whose project descriptions form a chain that ends, \<^verbatim>\<open>pciedev_get_prjinfo\<close> returns
  their number and puts the description of each, as the registers have it, into the board's list, the last one first.
\<close>

theorem prjinfo_collects:
  assumes "stable_reads k I r8 r16 r32" "I w" "base = memmory_base d ! 0" "first = brd_PROJ_NEXT (brd_info_list d)"
    "first \<noteq> 0" "links (good_prj r32 base) (\<lambda>n. r32 (base + scast n + WORD_PROJ_NEXT)) first ns"
  shows "\<exists>d'. pciedev_get_prjinfo True k d w = Some (Done (int (length ns), d', w)) \<and>
    prj_info_list d' = rev (map (\<lambda>n. prj_at r32 (base + scast n)) ns) @ prj_info_list d"
proof -
  let ?d = "d\<lparr>startup_prj_num := 0\<rparr>"
  have "stable_state k I r8 r16 r32 (?d, w)" using assms(1,2) by (simp add: stable_state_def)
  from prj.walk_links [OF this assms(6)]
  have "walk (pciedev_fill_prj_info True k) base first (?d, w) = Some (Done (fold (add_prj r32 base) ns (?d, w)))" .
  moreover obtain d' where "fold (add_prj r32 base) ns (?d, w) = (d', w)" "startup_prj_num d' = int (length ns)"
    "prj_info_list d' = rev (map (\<lambda>n. prj_at r32 (base + scast n)) ns) @ prj_info_list d"
    using fold_add_prj [of r32 base ns ?d w] by auto
  ultimately show ?thesis using assms(3-5) by (simp add: pciedev_get_prjinfo_def Let_def)
qed


text \<open>
  C31. A chain of descriptions that runs in a circle keeps discovery from ever ending, for projects and for modules.
\<close>

theorem cyclic_chain_never_ends:
  assumes "stable_reads k I r8 r16 r32" "I w" "base = memmory_base d ! 0"
  shows "(brd_PROJ_NEXT (brd_info_list d) \<in> C \<and>
      (\<forall>n \<in> C. n \<noteq> 0 \<and> good_prj r32 base n \<and> r32 (base + scast n + WORD_PROJ_NEXT) \<in> C) \<longrightarrow>
      pciedev_get_prjinfo True k d w = None) \<and>
    (SHAPI_FIRST_MODULE_ADDRESS (device_info_list d) \<in> C \<and>
      (\<forall>n \<in> C. n \<noteq> 0 \<and> good_module r32 base n \<and> r32 (base + scast n + WORD_NEXT_MODULE_ADDRESS) \<in> C) \<longrightarrow>
      pciedev_get_shapi_module_info True k d w = None)"
proof -
  have s: "stable_state k I r8 r16 r32 (d\<lparr>startup_prj_num := 0\<rparr>, w)" "stable_state k I r8 r16 r32 (d\<lparr>shapi_module_num := 0\<rparr>, w)"
    using assms(1,2) by (simp_all add: stable_state_def)
  show ?thesis
    using prj.walk_cycle [OF s(1), of _ C base] module.walk_cycle [OF s(2), of _ C base] assms(3)
    by (auto simp: pciedev_get_prjinfo_def pciedev_get_shapi_module_info_def Let_def)
qed

text \<open>
  A project description in BAR 1 that has a successor keeps discovery from ending: the scan of the other BARs
  reads the first description again and again.
\<close>

theorem bar_scan_never_ends:
  assumes "stable_reads k I r8 r16 r32" "I w" "wf_dev d" "brd_PROJ_NEXT (brd_info_list d) = 0" "base = memmory_base d ! 1" "base \<noteq> 0"
    "r32 base = ASCII_PROJ_MAGIC_NUM" "r32 (base + WORD_PROJ_NEXT) \<noteq> 0"
  shows "pciedev_get_prjinfo True k d w = None"
proof -
  have s: "stable_state k I r8 r16 r32 (d\<lparr>startup_prj_num := 0\<rparr>, w)" using assms(1,2) by (simp add: stable_state_def)
  obtain bs where "drop 1 (memmory_base d) = base # bs"
    using wf_dev_lengths(5) [OF assms(3)] assms(5) by (simp add: Cons_nth_drop_Suc [symmetric])
  moreover have "bar_walk (pciedev_fill_prj_info True k) base (d\<lparr>startup_prj_num := 0\<rparr>, w) = None"
    using prj.bar_walk_stuck [OF s, of base] assms(7,8) by simp
  ultimately show ?thesis using assms(4,6) by (simp add: pciedev_get_prjinfo_def Let_def)
qed

section \<open>Names\<close>

definition word_chars :: "u32 \<Rightarrow> u8 list" where
  "word_chars x = map (name_char x) [0..<4]"

definition cstr :: "u8 list \<Rightarrow> u8 list" where
  "cstr nm = takeWhile (\<lambda>c. c \<noteq> 0) nm"

lemma name_loop_zeros:
  assumes "length p = i + k" "i \<le> 4" "4 - i \<le> m"
  shows "name_loop k x i (p @ replicate m 0) =
    (let ys = takeWhile (\<lambda>c. c \<noteq> 0 \<and> c \<noteq> 0x20) (map (name_char x) [i..<4]) in p @ ys @ replicate (m - length ys) 0)"
  using assms
proof (induction "4 - i" arbitrary: i p m)
  case 0
  then show ?case by (simp add: name_loop.simps)
next
  case (Suc j)
  then obtain m' where m: "m = Suc m'" by (cases m) auto
  have upd: "(p @ replicate m 0)[i + k := a] = (p @ [a]) @ replicate m' 0" for a :: u8
    using Suc.prems(1) m by (simp add: list_update_append)
  have i: "i < 4" "[i..<4] = i # [Suc i..<4]" using Suc.hyps(2) by (simp_all add: upt_conv_Cons)
  show ?case
  proof (cases "name_char x i = 0 \<or> name_char x i = 0x20")
    case True
    then show ?thesis using i m Suc.prems(1) by (auto simp: name_loop.simps list_update_append)
  next
    case False
    have "name_loop k x (Suc i) ((p @ [name_char x i]) @ replicate m' 0) =
        (let ys = takeWhile (\<lambda>c. c \<noteq> 0 \<and> c \<noteq> 0x20) (map (name_char x) [Suc i..<4]) in (p @ [name_char x i]) @ ys @ replicate (m' - length ys) 0)"
      using Suc.hyps(2) Suc.prems m by (intro Suc.hyps(1)) auto
    with False i upd show ?thesis by (simp add: name_loop.simps [of k x i] Let_def m)
  qed
qed

lemma name_words_zeros:
  assumes "length p = k" "4 * length xs < m" "0 \<notin> set p"
  shows "cstr (name_words k xs (p @ replicate m 0)) = p @ takeWhile (\<lambda>c. c \<noteq> 0 \<and> c \<noteq> 0x20) (concat (map word_chars xs))"
  using assms
proof (induction xs arbitrary: k p m)
  case Nil
  then show ?case by (cases m) (auto simp: cstr_def takeWhile_append)
next
  case (Cons x xs)
  let ?ok = "\<lambda>c :: u8. c \<noteq> 0 \<and> c \<noteq> 0x20"
  define ys where "ys = takeWhile ?ok (word_chars x)"
  have ys: "0 \<notin> set ys" "length ys \<le> 4" using length_takeWhile_le [of ?ok "word_chars x"]
    by (auto simp: ys_def word_chars_def dest: set_takeWhileD)
  have step: "name_loop k x 0 (p @ replicate m 0) = (p @ ys) @ replicate (m - length ys) 0"
    using name_loop_zeros [of p 0 k m x] Cons.prems by (simp add: ys_def word_chars_def Let_def)
  show ?case
  proof (cases "length ys = 4")
    case True
    have "length (ys @ dropWhile ?ok (word_chars x)) = 4" by (simp add: ys_def) (simp add: word_chars_def)
    with True have "dropWhile ?ok (word_chars x) = []" by simp
    then have all: "ys = word_chars x" "\<forall>c \<in> set (word_chars x). ?ok c"
      by (simp_all add: ys_def dropWhile_eq_Nil_conv takeWhile_eq_all_conv)
    then have "takeWhile ?ok (word_chars x @ zs) = word_chars x @ takeWhile ?ok zs" for zs
      by (simp add: takeWhile_append2)
    with Cons.IH [of "p @ ys" "k + 4" "m - 4"] Cons.prems ys True all step show ?thesis by simp
  next
    case False
    have short: "takeWhile ?ok (word_chars x @ zs) = ys" for zs
    proof -
      have "\<exists>c \<in> set (word_chars x). \<not> ?ok c"
      proof (rule ccontr)
        assume "\<not> (\<exists>c \<in> set (word_chars x). \<not> ?ok c)"
        then have "ys = word_chars x" unfolding ys_def by (simp add: takeWhile_eq_all_conv)
        with False show False by (simp add: word_chars_def)
      qed
      then show ?thesis unfolding ys_def by (auto simp: takeWhile_append1)
    qed
    have keep: "take (length p + length ys + 1) (name_words j zs (p @ ys @ 0 # qs)) = p @ ys @ [0]"
      if "length p + length ys + 1 \<le> j" for j zs qs
    proof -
      have loop: "take j (name_loop j x i nm) = take j nm" for j x i nm
        by (induction j x i nm rule: name_loop.induct) (subst name_loop.simps, auto simp: Let_def)
      have "take j' (name_words j zs nm) = take j' nm" if "j' \<le> j" for j' j zs nm
        using that
      proof (induction zs arbitrary: j nm)
        case (Cons z zs)
        then have "take j' (name_loop j z 0 nm) = take j' nm" using arg_cong [OF loop [of j z 0 nm], of "take j'"] by (simp add: min.absorb1)
        with Cons show ?case by simp
      qed simp
      then show ?thesis using that by simp
    qed
    obtain m' where m': "m - length ys = Suc m'" using Cons.prems(2) ys(2) by (cases "m - length ys") auto
    have "length ys < 4" using False ys(2) by simp
    then have "take (length p + length ys + 1) (name_words (k + 4) xs (p @ ys @ 0 # replicate m' 0)) = p @ ys @ [0]"
      using Cons.prems(1) by (intro keep) simp
    then obtain rest where "name_words (k + 4) xs (p @ ys @ 0 # replicate m' 0) = (p @ ys @ [0]) @ rest"
      by (metis append_take_drop_id)
    then have "cstr (name_words (k + 4) xs (p @ ys @ 0 # replicate m' 0)) = p @ ys"
      using Cons.prems(3) ys(1) by (auto simp: cstr_def takeWhile_append)
    then show ?thesis using step m' short by simp
  qed
qed

section \<open>Identification\<close>

text \<open>
  C32. \<^verbatim>\<open>pciedev_get_brdinfo\<close> identifies a board with stable registers: 1 and the board description for the board magic
  numbers, 2 and the device description for a SHAPI device, 0 otherwise. Every field of either description is the register
  at its offset (of the version register only the low half); the name of a SHAPI device is its characters up to the first
  blank or zero, its module count starts at 1 when there is a first module, and its scratch register becomes the one the
  dead-link test reads. Nothing else of the board changes.
\<close>

theorem brdinfo_identifies:
  assumes "stable_reads k I r8 r16 r32" "I w" "base = memmory_base d ! 0" "base \<noteq> 0" "fw_name (device_info_list d) = replicate 13 0"
  shows "\<exists>name. cstr name = takeWhile (\<lambda>c. c \<noteq> 0 \<and> c \<noteq> 0x20)
      (word_chars (r32 (base + 0x18)) @ word_chars (r32 (base + 0x1C)) @ word_chars (r32 (base + 0x20))) \<and>
    pciedev_get_brdinfo k d w =
     (if r32 base \<in> {ASCII_BOARD_MAGIC_NUM, ASCII_BOARD_MAGIC_NUM_L} then
        (1, d\<lparr>startup_brd := 1, shapi_brd := 0, shapi_module_num := 0, brd_info_list := (brd_info_list d)\<lparr>
           PCIEDEV_BOARD_ID := r32 (base + 0x04), PCIEDEV_BOARD_VERSION := r32 (base + 0x08),
           PCIEDEV_BOARD_DATE := r32 (base + 0x0C), PCIEDEV_HW_VERSION := r32 (base + 0x10),
           brd_PROJ_NEXT := r32 (base + 0x18)\<rparr>\<rparr>, w)
      else if drop_bit 16 (r32 base) = SHAPI_MAGIC_DEVICE_NUM then
        (2, d\<lparr>startup_brd := 0, shapi_brd := 1, shapi_module_num := (if r32 (base + 0x04) \<noteq> 0 then 1 else 0),
           scratch_bar := 0, scratch_offset := 0x3C, device_info_list := \<lparr>
             SHAPI_VERSION = r32 base AND 0xFFFF, SHAPI_FIRST_MODULE_ADDRESS = r32 (base + 0x04),
             SHAPI_HW_IDS = r32 (base + 0x08), SHAPI_FW_IDS = r32 (base + 0x0C), SHAPI_FW_VERSION = r32 (base + 0x10),
             SHAPI_FW_TIMESTAMP = r32 (base + 0x14),
             SHAPI_FW_NAME = [r32 (base + 0x18), r32 (base + 0x1C), r32 (base + 0x20)],
             SHAPI_DEVICE_CAP = r32 (base + 0x24), SHAPI_DEVICE_STATUS = r32 (base + 0x28),
             SHAPI_DEVICE_CONTROL = r32 (base + 0x2C), SHAPI_IRQ_MASK = r32 (base + 0x30),
             SHAPI_IRQ_FLAG = r32 (base + 0x34), SHAPI_IRQ_ACTIVE = r32 (base + 0x38),
             SHAPI_SCRATCH_REGISTER = r32 (base + 0x3C), fw_name = name\<rparr>\<rparr>, w)
      else (0, d\<lparr>startup_brd := 0, shapi_brd := 0, shapi_module_num := 0\<rparr>, w))"
    (is "\<exists>name. cstr name = ?chars \<and> _")
proof -
  let ?name = "name_words 0 [r32 (base + 0x18), r32 (base + 0x1C), r32 (base + 0x20)] (replicate 13 0)"
  note reads = stable_readsD(3) [OF assms(1,2)] ioreads_stable [OF assms(1,2)]
  have name: "cstr ?name = ?chars"
    using name_words_zeros [of "[]" 0 "[r32 (base + 0x18), r32 (base + 0x1C), r32 (base + 0x20)]" 13] by simp
  show ?thesis
    using assms(3-5)
    by (intro exI [of _ ?name] conjI name)
      (simp add: pciedev_get_brdinfo_def reads ascii_board_def shapi_board_def Let_def upcie_consts)
qed

section \<open>Concrete devices\<close>

text \<open>A device with the given 32-bit registers.\<close>

definition reg_kern :: "(u64 \<Rightarrow> u32) \<Rightarrow> ram kern" where
  "reg_kern r = ram_kern\<lparr>k_ioread32 := (\<lambda>a w. (r a, w))\<rparr>"

lemma reg_kern_stable:
  "stable_reads (reg_kern r) (\<lambda>w. r_dev w = r_dev sample_ram) (r_dev sample_ram) (\<lambda>a. le16 (peek (r_dev sample_ram) a 2) 0) r"
  by (simp add: stable_reads_def reg_kern_def ram_kern_def)

text \<open>Two projects at \<open>0x40\<close> and \<open>0x80\<close>, which is the last one, or points back to the first, or is in BAR 1.\<close>

definition prj_regs :: "u32 \<Rightarrow> u64 \<Rightarrow> u32" where
  "prj_regs n2 a = (if a = 0x1040 \<or> a = 0x1080 \<or> a = 0x2000 then ASCII_PROJ_MAGIC_NUM
     else if a = 0x1058 \<or> a = 0x2018 then 0x80 else if a = 0x1098 then n2 else 7)"

definition prj_dev :: pciedev_dev where
  "prj_dev = sample_dev\<lparr>brd_info_list := zero_brd_info\<lparr>brd_PROJ_NEXT := 0x40\<rparr>\<rparr>"

lemma prj_dev_sel: "memmory_base prj_dev ! 0 = 0x1000" "brd_PROJ_NEXT (brd_info_list prj_dev) = 0x40" "prj_info_list prj_dev = []"
  by (simp_all add: prj_dev_def sample_dev_def zero_dev_def)

theorem prjinfo_collects_witness:
  "\<exists>d. pciedev_get_prjinfo True (reg_kern (prj_regs 0)) prj_dev sample_ram = Some (Done (2, d, sample_ram)) \<and>
    length (prj_info_list d) = 2"
proof -
  have "links (good_prj (prj_regs 0) 0x1000) (\<lambda>n. prj_regs 0 (0x1000 + scast n + WORD_PROJ_NEXT)) 0x40 [0x40, 0x80]"
    by (simp add: prj_regs_def upcie_consts)
  from prjinfo_collects [OF reg_kern_stable _ refl refl, of sample_ram prj_dev "prj_regs 0" "[0x40, 0x80]", unfolded prj_dev_sel, OF _ _ this]
  show ?thesis by auto
qed

theorem cyclic_chain_never_ends_witness: "pciedev_get_prjinfo True (reg_kern (prj_regs 0x40)) prj_dev sample_ram = None"
proof -
  have "\<forall>n \<in> {0x40, 0x80}. n \<noteq> 0 \<and> good_prj (prj_regs 0x40) 0x1000 n \<and> prj_regs 0x40 (0x1000 + scast n + WORD_PROJ_NEXT) \<in> {0x40, 0x80}"
    by (simp add: prj_regs_def upcie_consts)
  with cyclic_chain_never_ends [OF reg_kern_stable _ refl, of sample_ram prj_dev "{0x40, 0x80}" "prj_regs 0x40"] show ?thesis
    by (simp add: prj_dev_sel)
qed

definition bar1_dev :: pciedev_dev where
  "bar1_dev = sample_dev\<lparr>memmory_base := [0x1000, 0x2000, 0, 0, 0, 0]\<rparr>"

theorem bar_scan_never_ends_witness: "pciedev_get_prjinfo True (reg_kern (prj_regs 0)) bar1_dev sample_ram = None"
proof -
  have "wf_dev bar1_dev" "brd_PROJ_NEXT (brd_info_list bar1_dev) = 0" "memmory_base bar1_dev ! 1 = 0x2000"
    using wf_sample_dev by (simp_all add: bar1_dev_def wf_dev_def sample_dev_def zero_dev_def zero_brd_info_def upcie_consts)
  with bar_scan_never_ends [OF reg_kern_stable _ this(1,2) refl, of sample_ram "prj_regs 0"] show ?thesis
    by (simp add: prj_regs_def upcie_consts)
qed

text \<open>A SHAPI device \<^verbatim>\<open>SIS8300\<close> with two modules.\<close>

definition shapi_regs :: "u64 \<Rightarrow> u32" where
  "shapi_regs a = (if a = 0x1000 then 0x53480001 else if a = 0x1004 then 0x40 else if a = 0x1018 then 0x53495338
     else if a = 0x101C then 0x33303020 else if a = 0x1040 \<or> a = 0x1080 then 0x534D0001 else if a = 0x1044 then 0x80
     else 0)"




theorem brdinfo_identifies_witness:
  "\<exists>d. pciedev_get_brdinfo (reg_kern shapi_regs) sample_dev sample_ram = (2, d, sample_ram) \<and>
    cstr (fw_name (device_info_list d)) = [0x53, 0x49, 0x53, 0x38, 0x33, 0x30, 0x30]"
proof -
  have "fw_name (device_info_list sample_dev) = replicate 13 0" "memmory_base sample_dev ! 0 = 0x1000"
    by (simp_all add: sample_dev_def zero_dev_def zero_device_info_def)
  with brdinfo_identifies [OF reg_kern_stable _ refl _ this(1), of sample_ram shapi_regs] show ?thesis
    by (auto simp: shapi_regs_def upcie_consts word_chars_def name_char_def upt_rec)
qed

section \<open>What discovery leaves alone\<close>

text \<open>
  Discovery writes the descriptions, their counters, the scratch register and the mask of module interrupts; \<open>hw_part\<close> is
  a board without them. \<open>fill_keeps\<close>: an invariant kept by reading one description is kept by the loops. It is
  interpreted on both readers with the invariant that the board is well formed and its \<open>hw_part\<close> that of a given board.
\<close>

definition hw_part :: "pciedev_dev \<Rightarrow> pciedev_dev" where
  "hw_part d = d\<lparr>brd_info_list := zero_brd_info, prj_info_list := [], startup_brd := 0, startup_prj_num := 0,
     device_info_list := zero_device_info, module_info_list := [], shapi_brd := 0, shapi_module_num := 0,
     scratch_bar := 0, scratch_offset := 0, device_irq_num := 0\<rparr>"

locale fill_keeps =
  fixes fill :: "u64 \<Rightarrow> 's \<Rightarrow> (u32 \<times> 's) run" and inv :: "'s \<Rightarrow> bool"
  assumes fill_inv: "inv s \<Longrightarrow> fill a s = Done (n, s') \<Longrightarrow> inv s'"
begin

lemma walk_inv:
  assumes "walk fill base n s = Some (Done s')" "inv s"
  shows "inv s'"
proof -
  have "f = fill \<longrightarrow> inv s \<longrightarrow> (\<forall>s'. y = Done s' \<longrightarrow> inv s')" if "walk f b n s = Some y" for f b n s y
    using that
  proof (rule walk.raw_induct [where P = "\<lambda>f b n s y. f = fill \<longrightarrow> inv s \<longrightarrow> (\<forall>s'. y = Done s' \<longrightarrow> inv s')", rotated], intro impI allI)
    fix w f b n s y s'
    assume IH: "\<And>f b n s y. w f b n s = Some y \<Longrightarrow> f = fill \<longrightarrow> inv s \<longrightarrow> (\<forall>s'. y = Done s' \<longrightarrow> inv s')"
      and body: "(if n = 0 then Some (Done s)
        else case f (b + scast n) s of Done (m, s) \<Rightarrow> w f b m s | Blocked \<Rightarrow> Some Blocked | Fault \<Rightarrow> Some Fault) = Some y"
      and f: "f = fill" and s: "inv s" and y: "y = Done s'"
    show "inv s'" using body f s y by (auto split: if_splits run.splits dest!: IH dest: fill_inv)
  qed
  with assms show ?thesis by blast
qed

lemma bar_walk_inv:
  assumes "bar_walk fill base s = Some (Done s')" "inv s"
  shows "inv s'"
proof -
  have "f = fill \<longrightarrow> inv s \<longrightarrow> (\<forall>s'. y = Done s' \<longrightarrow> inv s')" if "bar_walk f b s = Some y" for f b s y
    using that
  proof (rule bar_walk.raw_induct [where P = "\<lambda>f b s y. f = fill \<longrightarrow> inv s \<longrightarrow> (\<forall>s'. y = Done s' \<longrightarrow> inv s')", rotated], intro impI allI)
    fix w f b s y s'
    assume IH: "\<And>f b s y. w f b s = Some y \<Longrightarrow> f = fill \<longrightarrow> inv s \<longrightarrow> (\<forall>s'. y = Done s' \<longrightarrow> inv s')"
      and body: "(case f b s of Done (m, s) \<Rightarrow> if m = 0 then Some (Done s) else w f b s | Blocked \<Rightarrow> Some Blocked | Fault \<Rightarrow> Some Fault) = Some y"
      and f: "f = fill" and s: "inv s" and y: "y = Done s'"
    show "inv s'" using body f s y by (auto split: if_splits run.splits dest!: IH dest: fill_inv)
  qed
  with assms show ?thesis by blast
qed

lemma scan_bars_inv: "scan_bars fill bs s = Some (Done s') \<Longrightarrow> inv s \<Longrightarrow> inv s'"
  by (induction bs arbitrary: s) (auto split: if_splits option.splits run.splits dest: bar_walk_inv)

end

lemma length_name_loop [simp]: "length (name_loop k x i nm) = length nm"
  by (induction k x i nm rule: name_loop.induct) (subst name_loop.simps, auto simp: Let_def)

lemma length_name_words [simp]: "length (name_words k xs nm) = length nm"
  by (induction xs arbitrary: k nm) simp_all

lemma length_ioreads: "ioreads k b offs w = (vs, w') \<Longrightarrow> length vs = length offs"
  by (induction offs arbitrary: w w' vs) (auto split: prod.splits)

definition same_hw :: "pciedev_dev \<Rightarrow> pciedev_dev \<times> 'w \<Rightarrow> bool" where
  "same_hw d0 s \<longleftrightarrow> hw_part (fst s) = hw_part d0 \<and> wf_dev (fst s)"

interpretation prj_keeps: fill_keeps "pciedev_fill_prj_info mem_ok k" "same_hw d0" for mem_ok k d0
  by unfold_locales
    (auto simp: pciedev_fill_prj_info_def same_hw_def hw_part_def wf_dev_def Let_def split: prod.splits if_splits)

interpretation module_keeps: fill_keeps "pciedev_fill_shapi_module_info mem_ok k" "same_hw d0" for mem_ok k d0
  by unfold_locales
    (auto simp: pciedev_fill_shapi_module_info_def same_hw_def hw_part_def wf_dev_def Let_def split: prod.splits if_splits)

lemma prjinfo_keeps: "pciedev_get_prjinfo mem_ok k d w = Some (Done (n, d', w')) \<Longrightarrow> wf_dev d \<Longrightarrow> same_hw d (d', w')"
  using prj_keeps.walk_inv [of mem_ok k _ _ "(d\<lparr>startup_prj_num := 0\<rparr>, w)" "(d', w')" d]
    prj_keeps.scan_bars_inv [of mem_ok k _ "(d\<lparr>startup_prj_num := 0\<rparr>, w)" "(d', w')" d]
  by (auto simp: pciedev_get_prjinfo_def Let_def run_bind_Done_iff same_hw_def hw_part_def wf_dev_def split: if_splits)

lemma modules_keep: "pciedev_get_shapi_module_info mem_ok k d w = Some (Done (n, d', w')) \<Longrightarrow> wf_dev d \<Longrightarrow> same_hw d (d', w')"
  using module_keeps.walk_inv [of mem_ok k _ _ "(d\<lparr>shapi_module_num := 0\<rparr>, w)" "(d', w')" d]
    module_keeps.scan_bars_inv [of mem_ok k _ "(d\<lparr>shapi_module_num := 0\<rparr>, w)" "(d', w')" d]
  by (auto simp: pciedev_get_shapi_module_info_def Let_def run_bind_Done_iff same_hw_def hw_part_def wf_dev_def split: if_splits)

lemma brdinfo_keeps: "pciedev_get_brdinfo k d w = (r, d', w') \<Longrightarrow> wf_dev d \<Longrightarrow> same_hw d (d', w')"
  by (auto simp: pciedev_get_brdinfo_def ascii_board_def shapi_board_def Let_def same_hw_def hw_part_def wf_dev_def
      split: if_splits prod.splits dest!: length_ioreads)

end
