(* ===== verification/Lifecycle.thy ===== *)
theory Lifecycle
  imports Board_Info Crit_Region
begin

unbundle bit_operations_syntax

text \<open>
  Loading the module, finding and losing boards: \<^verbatim>\<open>pciedev_init_module\<close> (\<^verbatim>\<open>upciedev_drv.c\<close>),
  \<^verbatim>\<open>upciedev_init_module_exp\<close>, \<^verbatim>\<open>upciedev_cleanup_module_exp\<close>, \<^verbatim>\<open>pciedev_setup_interrupt\<close> and the slot queries
  (\<^verbatim>\<open>pciedev_ufn.c\<close>), \<^verbatim>\<open>pciedev_probe_exp\<close> and \<^verbatim>\<open>pciedev_remove_exp\<close>. What the PCI core answers about a device and to a
  request is a parameter, the record \<open>pci_info\<close>; what the driver asks it to do is the \<open>trace\<close> of the state.
\<close>

section \<open>The PCI core\<close>

text \<open>
  \<open>pd_bridge\<close> is the slot capability register of the bridge above the device's bus and \<open>pd_bridge2\<close> that of the bridge
  above that; \<open>None\<close> when the bus has none and \<^verbatim>\<open>bus->self\<close> is null. \<open>pd_dma64\<close>: both 64-bit DMA masks are accepted;
  \<open>pd_dma32\<close>: one of the 32-bit ones is. \<open>pd_res\<close> are the six resources, start, end and flags. The kernel has
  \<^verbatim>\<open>CONFIG_PCI_MSI\<close> and is 4.13 or later; \<open>pd_irq_vectors\<close> is what \<^verbatim>\<open>pci_alloc_irq_vectors\<close> returns.
\<close>

record pci_info =
  pd_id :: nat
  pd_enable_err :: int
  pd_request_err :: int
  pd_devfn :: u32
  pd_bus :: u32
  pd_bridge :: "u32 option"
  pd_bridge2 :: "u32 option"
  pd_dma64 :: bool
  pd_dma32 :: bool
  pd_vendor :: u16
  pd_device :: u16
  pd_subvendor :: u16
  pd_subdevice :: u16
  pd_class :: u16
  pd_revision :: u8
  pd_irq_line :: u8
  pd_irq_pin :: u8
  pd_res :: "nat \<Rightarrow> u64 \<times> u64 \<times> u64"
  pd_iomap :: "nat \<Rightarrow> u64"
  pd_msi_count :: int
  pd_irq_vectors :: int
  pd_irq :: u32

datatype pci_action =
    Enable | Disable | RequestRegions | ReleaseRegions | SetMaster
  | Iomap nat u64 | Iounmap u64
  | MsiOff | FreeIrq u32
  | DeviceCreate int string | DeviceDestroy int
  | ProcCreate string | ProcRemove string

text \<open>
  A driver: its table of boards, the slot table all drivers share, the board each PCI device has as its driver data,
  and for each open file, named by a number, the board its \<^verbatim>\<open>private_data\<close> points to.
\<close>

record driver =
  cdev :: pciedev_cdev
  base_dev :: upciedev_base_dev
  drvdata :: "nat \<rightharpoonup> nat"
  file_board :: "nat \<rightharpoonup> nat"
  trace :: "pci_action list"

definition act :: "pci_action list \<Rightarrow> driver \<Rightarrow> driver" where
  "act as s = s\<lparr>trace := trace s @ as\<rparr>"

definition get_board :: "driver \<Rightarrow> nat \<Rightarrow> pciedev_dev run" where
  "get_board s i = arr_get (pciedev_dev_m (cdev s)) i"

definition put_board :: "nat \<Rightarrow> pciedev_dev \<Rightarrow> driver \<Rightarrow> driver run" where
  "put_board i d s =
     run_bind (arr_set (pciedev_dev_m (cdev s)) i d) (\<lambda>bs. Done (s\<lparr>cdev := (cdev s)\<lparr>pciedev_dev_m := bs\<rparr>\<rparr>))"

definition MKDEV :: "int \<Rightarrow> int \<Rightarrow> int" where
  "MKDEV ma mi = ma * 2 ^ 20 + mi"

fun dec_str :: "nat \<Rightarrow> string" where
  "dec_str n = (if n < 10 then [char_of (48 + n)] else dec_str (n div 10) @ [char_of (48 + n mod 10)])"

declare dec_str.simps [simp del]

section \<open>The slot table\<close>

definition zero_entry :: upciedev_phys_address where
  "zero_entry = \<lparr>phys_slot_num = 0, dev_stst = 0, bars = replicate 6 \<lparr>res_start = 0, res_end = 0, res_flag = 0\<rparr>,
     slot_bus = 0, slot_device = 0\<rparr>"

definition upd_slot :: "nat \<Rightarrow> (upciedev_phys_address \<Rightarrow> upciedev_phys_address) \<Rightarrow> upciedev_base_dev \<Rightarrow> upciedev_base_dev run" where
  "upd_slot n f b =
     run_bind (arr_get (dev_phys_addresses b) n) (\<lambda>e.
     run_bind (arr_set (dev_phys_addresses b) n (f e)) (\<lambda>t. Done (b\<lparr>dev_phys_addresses := t\<rparr>)))"

text \<open>The loop of \<^verbatim>\<open>pciedev_init_module\<close> over \<^verbatim>\<open>NUMBER_OF_SLOTS + 1\<close> entries.\<close>

fun clear_slots :: "nat list \<Rightarrow> upciedev_base_dev \<Rightarrow> upciedev_base_dev run" where
  "clear_slots [] b = Done b"
| "clear_slots (i # is) b = run_bind (upd_slot i (\<lambda>_. zero_entry) b) (clear_slots is)"

definition pciedev_init_module :: "upciedev_base_dev \<Rightarrow> (int \<times> upciedev_base_dev) run" where
  "pciedev_init_module b = run_bind (clear_slots [0..<NUMBER_OF_SLOTS + 1] b) (\<lambda>b. Done (0, b))"

record device_phys_address =
  pa_slot :: u32
  pa_bar :: u32
  pa_offset :: u32
  phs_address :: u32
  phs_end :: u32
  phs_flag :: u32
  pa_reserved :: u32
  pa_sts :: u32

definition pciedev_get_physical_address :: "upciedev_base_dev \<Rightarrow> device_phys_address \<Rightarrow> (u32 \<times> device_phys_address) run" where
  "pciedev_get_physical_address b q =
     (if pa_slot q = 0 then Done (- 1, q)
      else
        run_bind (arr_get (dev_phys_addresses b) (unat (pa_slot q))) (\<lambda>e.
        run_bind (arr_get (bars e) (unat (pa_bar q))) (\<lambda>r.
          Done (res_start r, q\<lparr>phs_address := res_start r, phs_end := res_end r, phs_flag := res_flag r\<rparr>))))"

definition pciedev_get_slot_pciedevp :: "upciedev_base_dev \<Rightarrow> device_phys_address \<Rightarrow> (int \<times> device_phys_address) run" where
  "pciedev_get_slot_pciedevp b q =
     (if pa_slot q = 0 then Done (- 1, q)
      else
        run_bind (arr_get (dev_phys_addresses b) (unat (pa_slot q))) (\<lambda>e.
        run_bind (arr_get (bars e) (unat (pa_bar q))) (\<lambda>r.
          Done (dev_stst e, q\<lparr>pa_offset := slot_bus e, pa_reserved := slot_device e, phs_address := res_start r,
            phs_end := res_end r, phs_flag := res_flag r, pa_sts := word_of_int (dev_stst e)\<rparr>))))"

section \<open>Initialising a driver\<close>

text \<open>
  \<open>mem i\<close> says whether the \<open>i\<close>-th \<^verbatim>\<open>kzalloc\<close> finds memory, \<open>add_err i\<close> is the result of \<^verbatim>\<open>cdev_add\<close> for board \<open>i\<close>, \<open>major\<close> the
  number the kernel assigned; \<open>ver\<close> are the four version numbers \<^verbatim>\<open>simple_strtol\<close> reads from the version strings. The
  caller's pointer is null, points to the structure, or to freed memory.
\<close>

datatype cdev_ptr = Null | Valid pciedev_cdev | Freed

definition init_board :: "int \<Rightarrow> nat \<Rightarrow> pciedev_dev" where
  "init_board major i =
     (let d = zero_dev\<lparr>dev_num := MKDEV major (int i), dev_minor := int i\<rparr>;
          d = InitCritRegionLock d;
          d = d\<lparr>dev_sts := 0, dev_file_ref := 0, irq_mode := 0, msi := 0, dev_dma_64mask := 0, pciedev_all_mems := 0,
                brd_num := int i, binded := 0, null_dev := 0\<rparr>
      in if i = PCIEDEV_NR_DEVS then d\<lparr>binded := 1, null_dev := 1\<rparr> else d)"

fun init_loop :: "(nat \<Rightarrow> bool) \<Rightarrow> (nat \<Rightarrow> int) \<Rightarrow> pciedev_cdev \<Rightarrow> nat list \<Rightarrow> int \<times> cdev_ptr" where
  "init_loop mem add_err cd [] = (0, Valid cd)"
| "init_loop mem add_err cd (i # is) =
     (if \<not> mem (i + 1) then (- ENOMEM, Freed)
      else if add_err i \<noteq> 0 then
        (1, Valid (cd\<lparr>pciedev_dev_m := pciedev_dev_m cd @
            [zero_dev\<lparr>dev_num := MKDEV (PCIEDEV_MAJOR cd) (int i), dev_minor := int i\<rparr>]\<rparr>))
      else init_loop mem add_err (cd\<lparr>pciedev_dev_m := pciedev_dev_m cd @ [init_board (PCIEDEV_MAJOR cd) i]\<rparr>) is)"

definition upciedev_init_module_exp ::
  "(nat \<Rightarrow> bool) \<Rightarrow> (nat \<Rightarrow> int) \<Rightarrow> int \<Rightarrow> u16 \<times> u16 \<times> u16 \<times> u16 \<Rightarrow> cdev_ptr \<Rightarrow> int \<times> cdev_ptr" where
  "upciedev_init_module_exp mem add_err major ver p =
     (if \<not> mem 0 then (- ENOMEM, p)
      else
        let (umaj, umin, dmaj, dmin) = ver;
            cd = \<lparr>UPCIEDEV_VER_MAJ = umaj, UPCIEDEV_VER_MIN = umin, PCIEDEV_DRV_VER_MAJ = dmaj, PCIEDEV_DRV_VER_MIN = dmin,
                  PCIEDEV_MAJOR = major, PCIEDEV_MINOR = 0, pciedev_dev_m = [], pciedevModuleNum = 0\<rparr>
        in init_loop mem add_err cd [0..<PCIEDEV_NR_DEVS + 1])"

definition upciedev_cleanup_module_exp :: "cdev_ptr \<Rightarrow> cdev_ptr run" where
  "upciedev_cleanup_module_exp p = (case p of Valid cd \<Rightarrow> Done Null | _ \<Rightarrow> Fault)"

section \<open>Interrupts\<close>

text \<open>\<open>err\<close> is the result of \<^verbatim>\<open>request_irq\<close>.\<close>

definition pciedev_setup_interrupt :: "int \<Rightarrow> nat \<Rightarrow> pciedev_dev \<Rightarrow> int \<times> pciedev_dev" where
  "pciedev_setup_interrupt err num d =
     (let d = d\<lparr>irq_mode := 1\<rparr>
      in (err, if err \<noteq> 0 then d\<lparr>irq_mode := 0\<rparr> else d\<lparr>enbl_irq_num := enbl_irq_num d OR push_bit num 1\<rparr>))"

section \<open>Probing\<close>

text \<open>The search for a board that is not bound.\<close>

function find_board :: "pciedev_dev list \<Rightarrow> nat \<Rightarrow> nat run" where
  "find_board bs i =
     (if i \<le> PCIEDEV_NR_DEVS then
        (case arr_get bs i of
           Done d \<Rightarrow> if binded d = 0 then Done i else find_board bs (i + 1)
         | Blocked \<Rightarrow> Blocked
         | Fault \<Rightarrow> Fault)
      else Done i)"
  by pat_completeness auto
termination by (relation "measure (\<lambda>(bs, i). PCIEDEV_NR_DEVS + 1 - i)") auto

declare find_board.simps [simp del]

definition probe_slot :: "pci_info \<Rightarrow> int \<Rightarrow> nat run" where
  "probe_slot pd tmp_parent_num =
     (case pd_bridge pd of
        None \<Rightarrow> Fault
      | Some cap \<Rightarrow>
          if tmp_parent_num = 1 then
            (case pd_bridge2 pd of None \<Rightarrow> Fault | Some cap \<Rightarrow> Done (unat (drop_bit 19 cap)))
          else if tmp_parent_num = 2 then Done 13
          else Done (unat (drop_bit 19 cap)))"

definition PCI_SLOT :: "u32 \<Rightarrow> u32" where
  "PCI_SLOT devfn = drop_bit 3 devfn AND 0x1f"

definition probe_ids :: "pci_info \<Rightarrow> nat \<Rightarrow> pciedev_dev \<Rightarrow> pciedev_dev" where
  "probe_ids pd slot d =
     (let tmp_bus_func = uint (push_bit 8 (pd_bus pd AND 0xFF) + (PCI_SLOT (pd_devfn pd) AND 0xFF));
          d = d\<lparr>dev_swap := 0, slot_num := int slot, bus_func := tmp_bus_func, pciedev_pci_dev := Some (pd_id pd)\<rparr>;
          d = (if pd_dma64 pd then d\<lparr>dev_dma_64mask := 1\<rparr> else if pd_dma32 pd then d\<lparr>dev_dma_64mask := 0\<rparr> else d)
      in d\<lparr>vendor_id := pd_vendor pd, device_id := pd_device pd, subvendor_id := pd_subvendor pd,
           subdevice_id := pd_subdevice pd, class_code := pd_class pd, revision := pd_revision pd,
           irq_line := pd_irq_line pd, irq_pin := pd_irq_pin pd, scratch_bar := 0, scratch_offset := 0\<rparr>)"

text \<open>A resource, truncated to the 32-bit locals of the loop.\<close>

definition bar_res :: "pci_info \<Rightarrow> nat \<Rightarrow> upciedev_bar_address" where
  "bar_res pd i = (case pd_res pd i of (a, e, f) \<Rightarrow> \<lparr>res_start = ucast a, res_end = ucast e, res_flag = ucast f\<rparr>)"

definition setup_bar :: "pci_info \<Rightarrow> nat \<Rightarrow> pciedev_dev \<Rightarrow> pciedev_dev" where
  "setup_bar pd i d =
     (let r = bar_res pd i;
          d = d\<lparr>mem_base := (mem_base d)[i := res_start r], mem_base_end := (mem_base_end d)[i := res_end r],
                mem_base_flag := (mem_base_flag d)[i := res_flag r]\<rparr>
      in if res_start r \<noteq> 0 then
           d\<lparr>memmory_base := (memmory_base d)[i := pd_iomap pd i],
             rw_off := (rw_off d)[i := uint (res_end r - res_start r)],
             pciedev_all_mems := pciedev_all_mems d + 2 ^ i\<rparr>
         else d\<lparr>memmory_base := (memmory_base d)[i := 0], rw_off := (rw_off d)[i := 0]\<rparr>)"

definition setup_slot_bar :: "pci_info \<Rightarrow> nat \<Rightarrow> upciedev_phys_address \<Rightarrow> upciedev_phys_address" where
  "setup_slot_bar pd i e = (if res_start (bar_res pd i) \<noteq> 0 then e\<lparr>bars := (bars e)[i := bar_res pd i]\<rparr> else e)"

definition setup_slot :: "pci_info \<Rightarrow> nat \<Rightarrow> upciedev_phys_address \<Rightarrow> upciedev_phys_address" where
  "setup_slot pd slot e =
     fold (setup_slot_bar pd) [0..<NUMBER_OF_BARS]
       (e\<lparr>dev_stst := 1, phys_slot_num := int slot, slot_bus := pd_bus pd, slot_device := PCI_SLOT (pd_devfn pd)\<rparr>)"

definition setup_board :: "pci_info \<Rightarrow> nat \<Rightarrow> pciedev_dev \<Rightarrow> pciedev_dev" where
  "setup_board pd slot d =
     (let d = probe_ids pd slot d;
          d = fold (setup_bar pd) [0..<NUMBER_OF_BARS] (d\<lparr>pciedev_all_mems := 0\<rparr>)
      in d\<lparr>enbl_irq_num := 0, device_irq_num := 0\<rparr>)"

definition iomaps :: "pci_info \<Rightarrow> pci_action list" where
  "iomaps pd = map (\<lambda>i. Iomap i (pd_iomap pd i)) (filter (\<lambda>i. res_start (bar_res pd i) \<noteq> 0) [0..<NUMBER_OF_BARS])"

definition discover :: "bool \<Rightarrow> 'w kern \<Rightarrow> pciedev_dev \<Rightarrow> 'w \<Rightarrow> (pciedev_dev \<times> 'w) run option" where
  "discover mem_ok k d w =
     (let (tmp_info, d, w) = pciedev_get_brdinfo k d w
      in if tmp_info = 1 then map_option (\<lambda>r. run_bind r (\<lambda>(n, d, w). Done (d, w))) (pciedev_get_prjinfo mem_ok k d w)
         else if tmp_info = 2 then map_option (\<lambda>r. run_bind r (\<lambda>(n, d, w). Done (d, w))) (pciedev_get_shapi_module_info mem_ok k d w)
         else Some (Done (d, w)))"

definition IRQF_SHARED :: u32 where [upcie_consts]: "IRQF_SHARED = 0x80"
definition PCI_IRQ_ALL_TYPES :: u32 where [upcie_consts]: "PCI_IRQ_ALL_TYPES = 7"

definition setup_msi :: "pci_info \<Rightarrow> pciedev_dev \<Rightarrow> pciedev_dev" where
  "setup_msi pd d =
     (let d = d\<lparr>irq_flag := (if 0 < pd_msi_count pd then PCI_IRQ_ALL_TYPES else IRQF_SHARED), msi_num := pd_irq_vectors pd\<rparr>;
          d = (if 0 \<le> msi_num d then d\<lparr>msi := 1, irq_flag := irq_flag d AND NOT IRQF_SHARED\<rparr> else d\<lparr>msi := 0\<rparr>)
      in d\<lparr>pci_dev_irq := pd_irq pd, irq_mode := 0\<rparr>)"

definition node_name :: "string \<Rightarrow> nat \<Rightarrow> string" where
  "node_name nm slot = nm @ ''s'' @ dec_str slot"

definition finish_probe :: "pci_info \<Rightarrow> string \<Rightarrow> nat \<Rightarrow> nat \<Rightarrow> pciedev_dev \<Rightarrow> driver \<Rightarrow> driver run" where
  "finish_probe pd nm slot m d s =
     (let d = setup_msi pd d;
          cd = cdev s;
          s = (if dev_sts d \<noteq> 0 then act [DeviceDestroy (MKDEV (PCIEDEV_MAJOR cd) (PCIEDEV_MINOR cd + int m))] s else s);
          d = d\<lparr>dev_sts := 1, dev_name := node_name nm slot\<rparr>;
          s = act [DeviceCreate (MKDEV (PCIEDEV_MAJOR cd) (dev_minor d)) (node_name nm slot), ProcCreate (node_name nm slot)] s;
          s = s\<lparr>cdev := (cdev s)\<lparr>pciedevModuleNum := pciedevModuleNum cd + 1\<rparr>\<rparr>
      in put_board m (d\<lparr>register_size := RW_D32\<rparr>) s)"

definition pciedev_probe_exp ::
  "bool \<Rightarrow> 'w kern \<Rightarrow> pci_info \<Rightarrow> string \<Rightarrow> int \<Rightarrow> driver \<Rightarrow> 'w \<Rightarrow> (int \<times> int \<times> driver \<times> 'w) run option" where
  "pciedev_probe_exp mem_ok k pd nm tmp_parent_num s w =
     (case find_board (pciedev_dev_m (cdev s)) 0 of
        Blocked \<Rightarrow> Some Blocked
      | Fault \<Rightarrow> Some Fault
      | Done m \<Rightarrow>
          if m = PCIEDEV_NR_DEVS then Some (Done (- 1, 0, s, w))
          else
            case run_bind (get_board s m) (\<lambda>d. put_board m (d\<lparr>binded := 1\<rparr>) s) of
              Blocked \<Rightarrow> Some Blocked
            | Fault \<Rightarrow> Some Fault
            | Done s \<Rightarrow>
                let s = act [Enable] s
                in if pd_enable_err pd \<noteq> 0 then Some (Done (pd_enable_err pd, int m, s, w))
                   else
                     let s = act [RequestRegions] s
                     in if pd_request_err pd \<noteq> 0 then
                          Some (run_bind (get_board s m) (\<lambda>d. run_bind (put_board m (d\<lparr>binded := 0\<rparr>) s) (\<lambda>s.
                            Done (pd_request_err pd, int m, (act [Disable] s)\<lparr>drvdata := (drvdata s)(pd_id pd := None)\<rparr>, w))))
                        else
                          let s = act [SetMaster] s
                          in case run_bind (probe_slot pd tmp_parent_num) (\<lambda>slot.
                                 run_bind (get_board s m) (\<lambda>d.
                                 run_bind (upd_slot slot (setup_slot pd slot) (base_dev s)) (\<lambda>b.
                                 run_bind (arr_get (dev_phys_addresses b) NUMBER_OF_SLOTS) (\<lambda>_.
                                   Done (slot, setup_board pd slot d,
                                     (act (iomaps pd) s)\<lparr>base_dev := b, drvdata := (drvdata s)(pd_id pd := Some m)\<rparr>))))) of
                               Blocked \<Rightarrow> Some Blocked
                             | Fault \<Rightarrow> Some Fault
                             | Done (slot, d, s) \<Rightarrow>
                                 map_option (\<lambda>r. run_bind r (\<lambda>(d, w). run_bind (finish_probe pd nm slot m d s) (\<lambda>s. Done (0, int m, s, w))))
                                   (discover mem_ok k d w))"

section \<open>Removing\<close>

definition free_irqs :: "pciedev_dev \<Rightarrow> pci_action list" where
  "free_irqs d =
     (if irq_mode d \<noteq> 0 then map (\<lambda>i. FreeIrq (pci_dev_irq d + of_nat i)) (filter (bit (enbl_irq_num d)) [0..<32]) else []) @
     (if msi d \<noteq> 0 then [MsiOff] else [])"

definition unmap_bar :: "nat \<Rightarrow> pciedev_dev \<Rightarrow> pciedev_dev" where
  "unmap_bar i d =
     (if memmory_base d ! i \<noteq> 0 then
        d\<lparr>memmory_base := (memmory_base d)[i := 0], mem_base := (mem_base d)[i := 0], mem_base_end := (mem_base_end d)[i := 0],
          mem_base_flag := (mem_base_flag d)[i := 0], rw_off := (rw_off d)[i := 0]\<rparr>
      else d)"

definition iounmaps :: "pciedev_dev \<Rightarrow> pci_action list" where
  "iounmaps d = map (\<lambda>i. Iounmap (memmory_base d ! i)) (filter (\<lambda>i. memmory_base d ! i \<noteq> 0) [0..<NUMBER_OF_BARS])"

text \<open>Open files of the board go over to the null device, the last board of the table.\<close>

definition orphan_files :: "upciedev_file_list list \<Rightarrow> driver \<Rightarrow> driver run" where
  "orphan_files fs s =
     (if fs = [] then Done s
      else
        run_bind (get_board s PCIEDEV_NR_DEVS) (\<lambda>nd.
          put_board PCIEDEV_NR_DEVS (nd\<lparr>dev_file_ref := dev_file_ref nd + int (length fs)\<rparr>)
            (s\<lparr>file_board := (\<lambda>f. if f \<in> fl_filp ` set fs then Some PCIEDEV_NR_DEVS else file_board s f)\<rparr>)))"

definition pciedev_remove_exp :: "pci_info \<Rightarrow> string \<Rightarrow> driver \<Rightarrow> (int \<times> int \<times> driver) run" where
  "pciedev_remove_exp pd nm s =
     (case drvdata s (pd_id pd) of
        None \<Rightarrow> Done (0, 0, s)
      | Some b \<Rightarrow>
          run_bind (get_board s b) (\<lambda>d.
          let slot = nat (slot_num d);
              s = act (free_irqs d) s;
              d = d\<lparr>prj_info_list := []\<rparr>
          in run_bind (upd_slot slot (\<lambda>_. zero_entry) (base_dev s)) (\<lambda>base.
             run_bind (EnterCritRegion d) (\<lambda>(_, d).
             let cd = cdev s;
                 s = act (iounmaps d @ [ReleaseRegions, DeviceDestroy (MKDEV (PCIEDEV_MAJOR cd) (PCIEDEV_MINOR cd + brd_num d)),
                       ProcRemove (node_name nm slot), Disable]) s;
                 d = fold unmap_bar [0..<NUMBER_OF_BARS] d;
                 fs = dev_file_list d;
                 d = d\<lparr>dev_sts := 0, binded := 0, dev_file_list := []\<rparr>;
                 s = s\<lparr>base_dev := base, cdev := cd\<lparr>pciedevModuleNum := pciedevModuleNum cd - 1\<rparr>\<rparr>
             in run_bind (put_board b (snd (LeaveCritRegion d)) s) (\<lambda>s.
                run_bind (orphan_files fs s) (\<lambda>s. Done (0, slot_num d, s)))))))"

section \<open>Evaluation lemmas\<close>

lemma get_board_Done [simp]: "i < length (pciedev_dev_m (cdev s)) \<Longrightarrow> get_board s i = Done (pciedev_dev_m (cdev s) ! i)"
  by (simp add: get_board_def arr_get_def)

lemma put_board_Done [simp]:
  "i < length (pciedev_dev_m (cdev s)) \<Longrightarrow>
    put_board i d s = Done (s\<lparr>cdev := (cdev s)\<lparr>pciedev_dev_m := (pciedev_dev_m (cdev s))[i := d]\<rparr>\<rparr>)"
  by (simp add: put_board_def arr_set_def)

lemma upd_slot_Done [simp]:
  "n < length (dev_phys_addresses b) \<Longrightarrow>
    upd_slot n f b = Done (b\<lparr>dev_phys_addresses := (dev_phys_addresses b)[n := f (dev_phys_addresses b ! n)]\<rparr>)"
  by (simp add: upd_slot_def arr_get_def arr_set_def)

lemma upd_slot_Fault [simp]: "length (dev_phys_addresses b) \<le> n \<Longrightarrow> upd_slot n f b = Fault"
  by (simp add: upd_slot_def arr_get_def)

lemma act_simps [simp]:
  "cdev (act as s) = cdev s" "base_dev (act as s) = base_dev s" "drvdata (act as s) = drvdata s"
  "file_board (act as s) = file_board s" "trace (act as s) = trace s @ as" "act bs (act as s) = act (as @ bs) s" "act [] s = s"
  by (simp_all add: act_def)

lemma find_board_first:
  assumes "i \<le> m" "m \<le> PCIEDEV_NR_DEVS" "m < length bs" "binded (bs ! m) = 0" "\<forall>j. i \<le> j \<and> j < m \<longrightarrow> binded (bs ! j) \<noteq> 0"
  shows "find_board bs i = Done m"
  using assms
proof (induction bs i rule: find_board.induct)
  case (1 bs i)
  then show ?case by (cases "i = m") (subst find_board.simps, simp add: arr_get_def)+
qed

lemma find_board_none:
  assumes "length bs = PCIEDEV_NR_DEVS + 1" "i \<le> PCIEDEV_NR_DEVS + 1" "\<forall>j. i \<le> j \<and> j < length bs \<longrightarrow> binded (bs ! j) \<noteq> 0"
  shows "find_board bs i = Done (PCIEDEV_NR_DEVS + 1)"
  using assms
proof (induction bs i rule: find_board.induct)
  case (1 bs i)
  then show ?case by (cases "i = PCIEDEV_NR_DEVS + 1") (subst find_board.simps, simp add: arr_get_def)+
qed

lemma find_board_result:
  assumes "find_board bs i = Done m"
  shows "m = PCIEDEV_NR_DEVS + 1 \<or> i > PCIEDEV_NR_DEVS \<or>
    (i \<le> m \<and> m \<le> PCIEDEV_NR_DEVS \<and> m < length bs \<and> binded (bs ! m) = 0 \<and> (\<forall>j. i \<le> j \<and> j < m \<longrightarrow> binded (bs ! j) \<noteq> 0))"
  using assms
proof (induction bs i rule: find_board.induct)
  case (1 bs i)
  show ?case
  proof (cases "i \<le> PCIEDEV_NR_DEVS \<and> i < length bs \<and> binded (bs ! i) \<noteq> 0")
    case True
    then have "find_board bs (i + 1) = Done m" using 1(2) by (simp add: find_board.simps [of bs i] arr_get_def)
    with 1(1) [of "bs ! i"] True show ?thesis
      by (auto simp: arr_get_def find_board.simps [of bs "Suc i"] not_le less_Suc_eq_le le_Suc_eq split: if_splits)
        (metis Suc_leI le_eq_less_or_eq)+
  next
    case False
    with 1(2) show ?thesis by (auto simp: find_board.simps [of bs i] arr_get_def split: if_splits)
  qed
qed

section \<open>The BARs of a probed board\<close>

lemma map_upt_update: "length xs = n \<Longrightarrow> m < n \<Longrightarrow> (map f [0..<m] @ drop m xs)[m := v] = (map f [0..<m] @ [v]) @ drop (Suc m) xs"
  by (simp add: list_update_append Cons_nth_drop_Suc [symmetric])

lemma setup_bars:
  assumes "wf_dev d" "n \<le> 6"
  shows "fold (setup_bar pd) [0..<n] d = d\<lparr>
      mem_base := map (res_start \<circ> bar_res pd) [0..<n] @ drop n (mem_base d),
      mem_base_end := map (res_end \<circ> bar_res pd) [0..<n] @ drop n (mem_base_end d),
      mem_base_flag := map (res_flag \<circ> bar_res pd) [0..<n] @ drop n (mem_base_flag d),
      memmory_base := map (\<lambda>i. if res_start (bar_res pd i) \<noteq> 0 then pd_iomap pd i else 0) [0..<n] @ drop n (memmory_base d),
      rw_off := map (\<lambda>i. if res_start (bar_res pd i) \<noteq> 0 then uint (res_end (bar_res pd i) - res_start (bar_res pd i)) else 0) [0..<n]
        @ drop n (rw_off d),
      pciedev_all_mems := pciedev_all_mems d + (\<Sum>i \<leftarrow> [0..<n]. if res_start (bar_res pd i) \<noteq> 0 then 2 ^ i else 0)\<rparr>"
  using assms(2)
proof (induction n)
  case 0
  then show ?case by simp
next
  case (Suc n)
  note upd = map_upt_update [OF wf_dev_lengths(1) [OF assms(1)]] map_upt_update [OF wf_dev_lengths(2) [OF assms(1)]]
    map_upt_update [OF wf_dev_lengths(3) [OF assms(1)]] map_upt_update [OF wf_dev_lengths(4) [OF assms(1)]]
    map_upt_update [OF wf_dev_lengths(5) [OF assms(1)]]
  from Suc show ?case by (simp add: setup_bar_def Let_def upd)
qed

definition bar_map :: "pci_info \<Rightarrow> u64 list" where
  "bar_map pd = map (\<lambda>i. if res_start (bar_res pd i) \<noteq> 0 then pd_iomap pd i else 0) [0..<6]"

lemma setup_board_sel:
  assumes "wf_dev d"
  shows "mem_base (setup_board pd slot d) = map (res_start \<circ> bar_res pd) [0..<6]"
    "mem_base_end (setup_board pd slot d) = map (res_end \<circ> bar_res pd) [0..<6]"
    "memmory_base (setup_board pd slot d) = bar_map pd"
    "wf_dev (setup_board pd slot d)"
proof -
  have wf: "wf_dev (probe_ids pd slot d)" using assms by (simp add: probe_ids_def wf_dev_def Let_def)
  then have "wf_dev ((probe_ids pd slot d)\<lparr>pciedev_all_mems := 0\<rparr>)" by (simp add: wf_dev_def)
  note bars = setup_bars [OF this, of 6 pd, unfolded wf_dev_lengths [OF wf]]
  have *: "setup_board pd slot d =
      (fold (setup_bar pd) [0..<6] ((probe_ids pd slot d)\<lparr>pciedev_all_mems := 0\<rparr>))\<lparr>enbl_irq_num := 0, device_irq_num := 0\<rparr>"
    by (simp add: setup_board_def Let_def NUMBER_OF_BARS_def)
  show "mem_base (setup_board pd slot d) = map (res_start \<circ> bar_res pd) [0..<6]"
    "mem_base_end (setup_board pd slot d) = map (res_end \<circ> bar_res pd) [0..<6]"
    "memmory_base (setup_board pd slot d) = bar_map pd"
    "wf_dev (setup_board pd slot d)"
    using wf wf_dev_lengths [OF wf]
    by (simp_all add: * bars bar_map_def) (simp add: wf_dev_def upcie_consts)
qed

lemma setup_board_frame:
  assumes "wf_dev d"
  shows "binded (setup_board pd slot d) = binded d" "brd_num (setup_board pd slot d) = brd_num d"
    "dev_minor (setup_board pd slot d) = dev_minor d" "null_dev (setup_board pd slot d) = null_dev d"
    "dev_sts (setup_board pd slot d) = dev_sts d" "dev_mut (setup_board pd slot d) = dev_mut d"
    "dev_file_list (setup_board pd slot d) = dev_file_list d" "dev_file_ref (setup_board pd slot d) = dev_file_ref d"
    "slot_num (setup_board pd slot d) = int slot" "pciedev_pci_dev (setup_board pd slot d) = Some (pd_id pd)"
    "enbl_irq_num (setup_board pd slot d) = 0"
proof -
  have "wf_dev ((probe_ids pd slot d)\<lparr>pciedev_all_mems := 0\<rparr>)" using assms by (simp add: probe_ids_def wf_dev_def Let_def)
  note bars = setup_bars [OF this, of 6 pd]
  show "binded (setup_board pd slot d) = binded d" "brd_num (setup_board pd slot d) = brd_num d"
    "dev_minor (setup_board pd slot d) = dev_minor d" "null_dev (setup_board pd slot d) = null_dev d"
    "dev_sts (setup_board pd slot d) = dev_sts d" "dev_mut (setup_board pd slot d) = dev_mut d"
    "dev_file_list (setup_board pd slot d) = dev_file_list d" "dev_file_ref (setup_board pd slot d) = dev_file_ref d"
    "slot_num (setup_board pd slot d) = int slot" "pciedev_pci_dev (setup_board pd slot d) = Some (pd_id pd)"
    "enbl_irq_num (setup_board pd slot d) = 0"
    by (simp_all add: setup_board_def Let_def NUMBER_OF_BARS_def bars) (simp_all add: probe_ids_def Let_def)
qed

section \<open>What a probe does\<close>

text \<open>The board and the driver after a probe that succeeds.\<close>

definition attached_board :: "pci_info \<Rightarrow> string \<Rightarrow> nat \<Rightarrow> pciedev_dev \<Rightarrow> pciedev_dev" where
  "attached_board pd nm slot d = (setup_msi pd d)\<lparr>dev_sts := 1, dev_name := node_name nm slot, register_size := RW_D32\<rparr>"

definition attach_actions :: "pci_info \<Rightarrow> string \<Rightarrow> nat \<Rightarrow> nat \<Rightarrow> pciedev_dev \<Rightarrow> pciedev_cdev \<Rightarrow> pci_action list" where
  "attach_actions pd nm slot m d cd =
     Enable # RequestRegions # SetMaster # iomaps pd @
     (if dev_sts d \<noteq> 0 then [DeviceDestroy (MKDEV (PCIEDEV_MAJOR cd) (PCIEDEV_MINOR cd + int m))] else []) @
     [DeviceCreate (MKDEV (PCIEDEV_MAJOR cd) (dev_minor d)) (node_name nm slot), ProcCreate (node_name nm slot)]"

definition attach :: "pci_info \<Rightarrow> string \<Rightarrow> nat \<Rightarrow> nat \<Rightarrow> pciedev_dev \<Rightarrow> driver \<Rightarrow> driver" where
  "attach pd nm slot m d s =
     \<lparr>cdev = (cdev s)\<lparr>pciedev_dev_m := (pciedev_dev_m (cdev s))[m := attached_board pd nm slot d],
        pciedevModuleNum := pciedevModuleNum (cdev s) + 1\<rparr>,
      base_dev = (base_dev s)\<lparr>dev_phys_addresses :=
        (dev_phys_addresses (base_dev s))[slot := setup_slot pd slot (dev_phys_addresses (base_dev s) ! slot)]\<rparr>,
      drvdata = (drvdata s)(pd_id pd := Some m),
      file_board = file_board s,
      trace = trace s @ attach_actions pd nm slot m d (cdev s)\<rparr>"

lemma setup_msi_sel [simp]: "dev_sts (setup_msi pd d) = dev_sts d" "dev_minor (setup_msi pd d) = dev_minor d"
  by (simp_all add: setup_msi_def Let_def)

lemma finish_probe_Done:
  assumes "m < length (pciedev_dev_m (cdev s))"
  shows "finish_probe pd nm slot m d s = Done (s\<lparr>
      cdev := (cdev s)\<lparr>pciedev_dev_m := (pciedev_dev_m (cdev s))[m := attached_board pd nm slot d],
        pciedevModuleNum := pciedevModuleNum (cdev s) + 1\<rparr>,
      trace := trace s @ (if dev_sts d \<noteq> 0 then [DeviceDestroy (MKDEV (PCIEDEV_MAJOR (cdev s)) (PCIEDEV_MINOR (cdev s) + int m))] else []) @
        [DeviceCreate (MKDEV (PCIEDEV_MAJOR (cdev s)) (dev_minor d)) (node_name nm slot), ProcCreate (node_name nm slot)]\<rparr>)"
  using assms by (simp add: finish_probe_def Let_def put_board_def arr_set_def attached_board_def act_def)

definition table_fits :: "driver \<Rightarrow> bool" where
  "table_fits s \<longleftrightarrow> NUMBER_OF_SLOTS + 1 \<le> length (dev_phys_addresses (base_dev s))"

lemma probe_attaches:
  assumes "find_board (pciedev_dev_m (cdev s)) 0 = Done m" "m < PCIEDEV_NR_DEVS" "m < length (pciedev_dev_m (cdev s))"
    "pd_enable_err pd = 0" "pd_request_err pd = 0" "probe_slot pd par = Done slot"
    "slot < length (dev_phys_addresses (base_dev s))" "table_fits s"
  shows "pciedev_probe_exp mem_ok k pd nm par s w =
    map_option (\<lambda>r. run_bind r (\<lambda>(d, w). Done (0, int m, attach pd nm slot m d s, w)))
      (discover mem_ok k (setup_board pd slot ((pciedev_dev_m (cdev s) ! m)\<lparr>binded := 1\<rparr>)) w)"
proof -
  have fin: "finish_probe pd nm slot m d
      ((act (Enable # RequestRegions # SetMaster # iomaps pd)
         (s\<lparr>cdev := (cdev s)\<lparr>pciedev_dev_m := (pciedev_dev_m (cdev s))[m := b]\<rparr>\<rparr>))
       \<lparr>base_dev := (base_dev s)\<lparr>dev_phys_addresses :=
          (dev_phys_addresses (base_dev s))[slot := setup_slot pd slot (dev_phys_addresses (base_dev s) ! slot)]\<rparr>,
        drvdata := (drvdata s)(pd_id pd := Some m)\<rparr>) = Done (attach pd nm slot m d s)" for d b
    using assms(3) by (subst finish_probe_Done) (simp_all add: attach_def attach_actions_def act_def)
  show ?thesis
    using assms fin
    by (simp add: pciedev_probe_exp_def Let_def arr_get_def table_fits_def split del: if_split)
qed

lemma probe_enable_error:
  assumes "find_board (pciedev_dev_m (cdev s)) 0 = Done m" "m < PCIEDEV_NR_DEVS" "m < length (pciedev_dev_m (cdev s))"
    "pd_enable_err pd \<noteq> 0"
  shows "pciedev_probe_exp mem_ok k pd nm par s w = Some (Done (pd_enable_err pd, int m,
      act [Enable] (s\<lparr>cdev := (cdev s)\<lparr>pciedev_dev_m := (pciedev_dev_m (cdev s))[m := (pciedev_dev_m (cdev s) ! m)\<lparr>binded := 1\<rparr>]\<rparr>\<rparr>), w))"
  using assms by (simp add: pciedev_probe_exp_def Let_def)

lemma probe_request_error:
  assumes "find_board (pciedev_dev_m (cdev s)) 0 = Done m" "m < PCIEDEV_NR_DEVS" "m < length (pciedev_dev_m (cdev s))"
    "pd_enable_err pd = 0" "pd_request_err pd \<noteq> 0"
  shows "pciedev_probe_exp mem_ok k pd nm par s w = Some (Done (pd_request_err pd, int m,
      (act [Enable, RequestRegions, Disable] (s\<lparr>cdev := (cdev s)\<lparr>pciedev_dev_m := (pciedev_dev_m (cdev s))[m := (pciedev_dev_m (cdev s) ! m)\<lparr>binded := 0\<rparr>]\<rparr>\<rparr>))
        \<lparr>drvdata := (drvdata s)(pd_id pd := None)\<rparr>, w))"
  using assms by (simp add: pciedev_probe_exp_def Let_def)

lemma discover_keeps:
  assumes "discover mem_ok k d w = Some (Done (d', w'))" "wf_dev d"
  shows "same_hw d (d', w')"
proof -
  obtain i d1 w1 where b: "pciedev_get_brdinfo k d w = (i, d1, w1)" by (metis prod_cases3)
  from brdinfo_keeps [OF this assms(2)] have 1: "same_hw d (d1, w1)" .
  then have wf: "wf_dev d1" by (simp add: same_hw_def)
  have "(d', w') = (d1, w1) \<or> same_hw d1 (d', w')"
    using assms(1) b prjinfo_keeps [OF _ wf, of mem_ok k w1 _ d' w'] modules_keep [OF _ wf, of mem_ok k w1 _ d' w']
    by (auto simp: discover_def run_bind_Done_iff split: if_splits)
  with 1 show ?thesis by (auto simp: same_hw_def)
qed

lemma same_hw_sel:
  assumes "same_hw d (d', w')"
  shows "binded d' = binded d" "brd_num d' = brd_num d" "dev_minor d' = dev_minor d" "null_dev d' = null_dev d"
    "dev_sts d' = dev_sts d" "dev_mut d' = dev_mut d" "dev_file_list d' = dev_file_list d" "dev_file_ref d' = dev_file_ref d"
    "slot_num d' = slot_num d" "pciedev_pci_dev d' = pciedev_pci_dev d" "enbl_irq_num d' = enbl_irq_num d"
    "mem_base d' = mem_base d" "mem_base_end d' = mem_base_end d" "memmory_base d' = memmory_base d" "wf_dev d'"
proof -
  have *: "hw_part d' = hw_part d" "wf_dev d'" using assms by (simp_all add: same_hw_def)
  show "wf_dev d'" by (rule *(2))
  show "binded d' = binded d" using arg_cong [OF *(1), of binded] by (simp add: hw_part_def)
  show "brd_num d' = brd_num d" using arg_cong [OF *(1), of brd_num] by (simp add: hw_part_def)
  show "dev_minor d' = dev_minor d" using arg_cong [OF *(1), of dev_minor] by (simp add: hw_part_def)
  show "null_dev d' = null_dev d" using arg_cong [OF *(1), of null_dev] by (simp add: hw_part_def)
  show "dev_sts d' = dev_sts d" using arg_cong [OF *(1), of dev_sts] by (simp add: hw_part_def)
  show "dev_mut d' = dev_mut d" using arg_cong [OF *(1), of dev_mut] by (simp add: hw_part_def)
  show "dev_file_list d' = dev_file_list d" using arg_cong [OF *(1), of dev_file_list] by (simp add: hw_part_def)
  show "dev_file_ref d' = dev_file_ref d" using arg_cong [OF *(1), of dev_file_ref] by (simp add: hw_part_def)
  show "slot_num d' = slot_num d" using arg_cong [OF *(1), of slot_num] by (simp add: hw_part_def)
  show "pciedev_pci_dev d' = pciedev_pci_dev d" using arg_cong [OF *(1), of pciedev_pci_dev] by (simp add: hw_part_def)
  show "enbl_irq_num d' = enbl_irq_num d" using arg_cong [OF *(1), of enbl_irq_num] by (simp add: hw_part_def)
  show "mem_base d' = mem_base d" using arg_cong [OF *(1), of mem_base] by (simp add: hw_part_def)
  show "mem_base_end d' = mem_base_end d" using arg_cong [OF *(1), of mem_base_end] by (simp add: hw_part_def)
  show "memmory_base d' = memmory_base d" using arg_cong [OF *(1), of memmory_base] by (simp add: hw_part_def)
qed

lemma attached_board_sel [simp]:
  "binded (attached_board pd nm slot d) = binded d" "brd_num (attached_board pd nm slot d) = brd_num d"
  "dev_minor (attached_board pd nm slot d) = dev_minor d" "null_dev (attached_board pd nm slot d) = null_dev d"
  "dev_sts (attached_board pd nm slot d) = 1" "dev_mut (attached_board pd nm slot d) = dev_mut d"
  "dev_file_list (attached_board pd nm slot d) = dev_file_list d" "dev_file_ref (attached_board pd nm slot d) = dev_file_ref d"
  "slot_num (attached_board pd nm slot d) = slot_num d" "pciedev_pci_dev (attached_board pd nm slot d) = pciedev_pci_dev d"
  "enbl_irq_num (attached_board pd nm slot d) = enbl_irq_num d" "irq_mode (attached_board pd nm slot d) = 0"
  "mem_base (attached_board pd nm slot d) = mem_base d" "mem_base_end (attached_board pd nm slot d) = mem_base_end d"
  "memmory_base (attached_board pd nm slot d) = memmory_base d" "dev_name (attached_board pd nm slot d) = node_name nm slot"
  "register_size (attached_board pd nm slot d) = RW_D32"
  by (simp_all add: attached_board_def setup_msi_def Let_def)

lemma wf_attached_board: "wf_dev d \<Longrightarrow> wf_dev (attached_board pd nm slot d)"
  by (simp add: wf_dev_def attached_board_def setup_msi_def Let_def upcie_consts)

text \<open>Everything a client relies on of the board a probe attached.\<close>

lemma attached_facts:
  assumes "wf_dev d" "discover mem_ok k (setup_board pd slot (d\<lparr>binded := 1\<rparr>)) w = Some (Done (d', w'))"
  shows "wf_dev (attached_board pd nm slot d')" "binded d' = 1" "brd_num d' = brd_num d" "dev_minor d' = dev_minor d" "null_dev d' = null_dev d"
    "dev_mut d' = dev_mut d" "dev_sts d' = dev_sts d" "dev_file_list d' = dev_file_list d" "dev_file_ref d' = dev_file_ref d"
    "slot_num d' = int slot" "pciedev_pci_dev d' = Some (pd_id pd)" "enbl_irq_num d' = 0"
    "mem_base d' = map (res_start \<circ> bar_res pd) [0..<6]" "mem_base_end d' = map (res_end \<circ> bar_res pd) [0..<6]" "memmory_base d' = bar_map pd"
proof -
  have wf: "wf_dev (d\<lparr>binded := 1\<rparr>)" using assms(1) by (simp add: wf_dev_def)
  note h = same_hw_sel [OF discover_keeps [OF assms(2) setup_board_sel(4) [OF wf]]]
  show "wf_dev (attached_board pd nm slot d')" "binded d' = 1" "brd_num d' = brd_num d" "dev_minor d' = dev_minor d" "null_dev d' = null_dev d"
    "dev_mut d' = dev_mut d" "dev_sts d' = dev_sts d" "dev_file_list d' = dev_file_list d" "dev_file_ref d' = dev_file_ref d"
    "slot_num d' = int slot" "pciedev_pci_dev d' = Some (pd_id pd)" "enbl_irq_num d' = 0"
    "mem_base d' = map (res_start \<circ> bar_res pd) [0..<6]" "mem_base_end d' = map (res_end \<circ> bar_res pd) [0..<6]" "memmory_base d' = bar_map pd"
    using h setup_board_sel [OF wf, of pd slot] setup_board_frame [OF wf, of pd slot] by (simp_all add: wf_attached_board)
qed

text \<open>A probe that returns did one of four things.\<close>

lemma probe_cases:
  assumes "pciedev_probe_exp mem_ok k pd nm par s w = Some (Done (r, b, s', w'))" "length (pciedev_dev_m (cdev s)) = PCIEDEV_NR_DEVS + 1"
  obtains (full) "s' = s"
  | (enable_error) m where "m < PCIEDEV_NR_DEVS" "binded (pciedev_dev_m (cdev s) ! m) = 0" "r \<noteq> 0"
      "s' = act [Enable] (s\<lparr>cdev := (cdev s)\<lparr>pciedev_dev_m := (pciedev_dev_m (cdev s))[m := (pciedev_dev_m (cdev s) ! m)\<lparr>binded := 1\<rparr>]\<rparr>\<rparr>)"
  | (request_error) m where "m < PCIEDEV_NR_DEVS" "binded (pciedev_dev_m (cdev s) ! m) = 0" "r \<noteq> 0"
      "s' = (act [Enable, RequestRegions, Disable]
        (s\<lparr>cdev := (cdev s)\<lparr>pciedev_dev_m := (pciedev_dev_m (cdev s))[m := (pciedev_dev_m (cdev s) ! m)\<lparr>binded := 0\<rparr>]\<rparr>\<rparr>))
        \<lparr>drvdata := (drvdata s)(pd_id pd := None)\<rparr>"
  | (attached) m slot d where "m < PCIEDEV_NR_DEVS" "binded (pciedev_dev_m (cdev s) ! m) = 0" "r = 0" "table_fits s"
      "slot < length (dev_phys_addresses (base_dev s))"
      "discover mem_ok k (setup_board pd slot ((pciedev_dev_m (cdev s) ! m)\<lparr>binded := 1\<rparr>)) w = Some (Done (d, w'))"
      "s' = attach pd nm slot m d s"
proof -
  let ?bs = "pciedev_dev_m (cdev s)"
  obtain m where m: "find_board ?bs 0 = Done m" using assms(1) by (cases "find_board ?bs 0") (simp_all add: pciedev_probe_exp_def)
  have "m \<noteq> PCIEDEV_NR_DEVS + 1"
    using assms m by (auto simp: pciedev_probe_exp_def get_board_def arr_get_def)
  with find_board_result [OF m] have 1: "m \<le> PCIEDEV_NR_DEVS" "m < length ?bs" "binded (?bs ! m) = 0" by auto
  show thesis
  proof (cases "m = PCIEDEV_NR_DEVS")
    case True
    with assms(1) m show thesis by (intro full) (simp add: pciedev_probe_exp_def)
  next
    case False
    with 1 have lt: "m < PCIEDEV_NR_DEVS" by simp
    consider (enable) "pd_enable_err pd \<noteq> 0" | (request) "pd_enable_err pd = 0" "pd_request_err pd \<noteq> 0" | (ok) "pd_enable_err pd = 0" "pd_request_err pd = 0" by blast
    then show thesis
    proof cases
      case ok
      obtain slot where slot: "probe_slot pd par = Done slot"
        using assms(1) m lt 1(2) ok by (cases "probe_slot pd par") (simp_all add: pciedev_probe_exp_def Let_def)
      have len: "slot < length (dev_phys_addresses (base_dev s))"
        using assms(1) m lt 1(2) ok slot
        by (cases "slot < length (dev_phys_addresses (base_dev s))") (simp_all add: pciedev_probe_exp_def Let_def not_less)
      then have fits: "table_fits s"
        using assms(1) m lt 1(2) ok slot
        by (cases "NUMBER_OF_SLOTS < length (dev_phys_addresses (base_dev s))")
          (simp_all add: pciedev_probe_exp_def Let_def table_fits_def arr_get_def)
      from assms(1) [unfolded probe_attaches [OF m lt 1(2) ok slot len fits]]
      show thesis by (auto simp: run_bind_Done_iff intro: attached [OF lt 1(3) _ fits len])
    next
      case enable
      with assms(1) [unfolded probe_enable_error [OF m lt 1(2) enable]] show thesis by (intro enable_error [OF lt 1(3)]) auto
    next
      case request
      with assms(1) [unfolded probe_request_error [OF m lt 1(2) request]] show thesis by (intro request_error [OF lt 1(3)]) auto
    qed
  qed
qed

section \<open>What a removal does\<close>

definition detached_board :: "pciedev_dev \<Rightarrow> pciedev_dev" where
  "detached_board d =
     (fold unmap_bar [0..<6] (d\<lparr>prj_info_list := []\<rparr>))\<lparr>dev_sts := 0, binded := 0, dev_file_list := [], dev_mut := False\<rparr>"

definition detach_actions :: "string \<Rightarrow> pciedev_dev \<Rightarrow> pciedev_cdev \<Rightarrow> pci_action list" where
  "detach_actions nm d cd =
     free_irqs d @ iounmaps d @ [ReleaseRegions, DeviceDestroy (MKDEV (PCIEDEV_MAJOR cd) (PCIEDEV_MINOR cd + brd_num d)),
       ProcRemove (node_name nm (nat (slot_num d))), Disable]"

definition detach :: "string \<Rightarrow> nat \<Rightarrow> driver \<Rightarrow> driver" where
  "detach nm b s =
     (let bs = pciedev_dev_m (cdev s); d = bs ! b; fs = dev_file_list d; nd = bs ! PCIEDEV_NR_DEVS in
     \<lparr>cdev = (cdev s)\<lparr>pciedev_dev_m := bs[b := detached_board d, PCIEDEV_NR_DEVS := nd\<lparr>dev_file_ref := dev_file_ref nd + int (length fs)\<rparr>],
        pciedevModuleNum := pciedevModuleNum (cdev s) - 1\<rparr>,
      base_dev = (base_dev s)\<lparr>dev_phys_addresses := (dev_phys_addresses (base_dev s))[nat (slot_num d) := zero_entry]\<rparr>,
      drvdata = drvdata s,
      file_board = (\<lambda>f. if f \<in> fl_filp ` set fs then Some PCIEDEV_NR_DEVS else file_board s f),
      trace = trace s @ detach_actions nm d (cdev s)\<rparr>)"

lemma unmap_bars:
  assumes "wf_dev d" "n \<le> 6"
  shows "fold unmap_bar [0..<n] d = d\<lparr>
      mem_base := map (\<lambda>i. if memmory_base d ! i \<noteq> 0 then 0 else mem_base d ! i) [0..<n] @ drop n (mem_base d),
      mem_base_end := map (\<lambda>i. if memmory_base d ! i \<noteq> 0 then 0 else mem_base_end d ! i) [0..<n] @ drop n (mem_base_end d),
      mem_base_flag := map (\<lambda>i. if memmory_base d ! i \<noteq> 0 then 0 else mem_base_flag d ! i) [0..<n] @ drop n (mem_base_flag d),
      memmory_base := map (\<lambda>_. 0) [0..<n] @ drop n (memmory_base d),
      rw_off := map (\<lambda>i. if memmory_base d ! i \<noteq> 0 then 0 else rw_off d ! i) [0..<n] @ drop n (rw_off d)\<rparr>"
  using assms(2)
proof (induction n)
  case 0
  then show ?case by simp
next
  case (Suc n)
  note len = wf_dev_lengths [OF assms(1)]
  note upd = map_upt_update [OF len(1)] map_upt_update [OF len(2)] map_upt_update [OF len(3)] map_upt_update [OF len(4)] map_upt_update [OF len(5)]
  have drop: "drop n xs = xs ! n # drop (Suc n) xs" if "length xs = 6" for xs :: "'z list"
    using Suc.prems that by (simp add: Cons_nth_drop_Suc)
  show ?case
  proof (cases "memmory_base d ! n = 0")
    case True
    with Suc len show ?thesis by (simp add: unmap_bar_def nth_append drop)
  next
    case False
    with Suc len show ?thesis by (simp add: unmap_bar_def nth_append upd)
  qed
qed

lemma detached_board_sel:
  assumes "wf_dev d"
  shows "memmory_base (detached_board d) = replicate 6 0" "wf_dev (detached_board d)" "binded (detached_board d) = 0"
    "dev_sts (detached_board d) = 0" "dev_mut (detached_board d) = False" "dev_file_list (detached_board d) = []"
    "brd_num (detached_board d) = brd_num d" "dev_minor (detached_board d) = dev_minor d" "null_dev (detached_board d) = null_dev d"
    "prj_info_list (detached_board d) = []" "module_info_list (detached_board d) = module_info_list d" "dev_file_ref (detached_board d) = dev_file_ref d"
    "i < 6 \<Longrightarrow> memmory_base d ! i \<noteq> 0 \<Longrightarrow> mem_base (detached_board d) ! i = 0"
proof -
  have wf: "wf_dev (d\<lparr>prj_info_list := []\<rparr>)" using assms by (simp add: wf_dev_def)
  note bars = unmap_bars [OF wf, of 6]
  show "memmory_base (detached_board d) = replicate 6 0" "wf_dev (detached_board d)" "binded (detached_board d) = 0"
    "dev_sts (detached_board d) = 0" "dev_mut (detached_board d) = False" "dev_file_list (detached_board d) = []"
    "brd_num (detached_board d) = brd_num d" "dev_minor (detached_board d) = dev_minor d" "null_dev (detached_board d) = null_dev d"
    "prj_info_list (detached_board d) = []" "module_info_list (detached_board d) = module_info_list d" "dev_file_ref (detached_board d) = dev_file_ref d"
    "i < 6 \<Longrightarrow> memmory_base d ! i \<noteq> 0 \<Longrightarrow> mem_base (detached_board d) ! i = 0"
    using assms wf_dev_lengths [OF assms]
    by (simp_all add: detached_board_def bars map_replicate_trivial) (simp_all add: wf_dev_def upcie_consts)
qed

text \<open>The entries of the BARs that were mapped are cleared; a BAR that had no mapping keeps its entries.\<close>

definition clear_mapped :: "pciedev_dev \<Rightarrow> 'a::zero list \<Rightarrow> 'a list" where
  "clear_mapped d xs = map (\<lambda>i. if memmory_base d ! i \<noteq> 0 then 0 else xs ! i) [0..<6]"

lemma detached_board_eq:
  assumes "wf_dev d"
  shows "detached_board d = d\<lparr>binded := 0, dev_sts := 0, dev_mut := False, dev_file_list := [], prj_info_list := [],
    memmory_base := replicate 6 0, mem_base := clear_mapped d (mem_base d), mem_base_end := clear_mapped d (mem_base_end d),
    mem_base_flag := clear_mapped d (mem_base_flag d), rw_off := clear_mapped d (rw_off d)\<rparr>"
proof -
  have wf: "wf_dev (d\<lparr>prj_info_list := []\<rparr>)" using assms by (simp add: wf_dev_def)
  show ?thesis
    using wf_dev_lengths [OF assms]
    by (simp add: detached_board_def unmap_bars [OF wf, of 6] clear_mapped_def map_replicate_trivial)
qed

lemma remove_detaches:
  assumes "drvdata s (pd_id pd) = Some b" "b < PCIEDEV_NR_DEVS" "length (pciedev_dev_m (cdev s)) = PCIEDEV_NR_DEVS + 1"
    "\<not> dev_mut (pciedev_dev_m (cdev s) ! b)" "nat (slot_num (pciedev_dev_m (cdev s) ! b)) < length (dev_phys_addresses (base_dev s))"
  shows "pciedev_remove_exp pd nm s = Done (0, slot_num (pciedev_dev_m (cdev s) ! b), detach nm b s)"
proof -
  let ?d = "pciedev_dev_m (cdev s) ! b"
  have unmap: "(fold unmap_bar [0..<NUMBER_OF_BARS] (?d\<lparr>prj_info_list := [], dev_mut := True\<rparr>))
      \<lparr>dev_sts := 0, binded := 0, dev_file_list := [], dev_mut := False\<rparr> = detached_board ?d"
  proof -
    have one: "unmap_bar i (d\<lparr>dev_mut := l\<rparr>) = (unmap_bar i d)\<lparr>dev_mut := l\<rparr>" for i and d :: pciedev_dev and l by (simp add: unmap_bar_def)
    have "fold unmap_bar is (d\<lparr>dev_mut := l\<rparr>) = (fold unmap_bar is d)\<lparr>dev_mut := l\<rparr>" for "is" and d :: pciedev_dev and l
      by (induction "is" arbitrary: d) (simp_all add: one)
    from this [of "[0..<6]" True "?d\<lparr>prj_info_list := []\<rparr>"]
    show ?thesis by (simp add: detached_board_def NUMBER_OF_BARS_def)
  qed
  have keeps: "dev_file_list (fold unmap_bar is d) = dev_file_list d" "slot_num (fold unmap_bar is d) = slot_num d" for "is" d
    by (induction "is" arbitrary: d) (simp_all add: unmap_bar_def)
  have eq: "orphan_files fs t = Done (t\<lparr>cdev := (cdev t)\<lparr>pciedev_dev_m := (pciedev_dev_m (cdev t))[PCIEDEV_NR_DEVS :=
        (pciedev_dev_m (cdev t) ! PCIEDEV_NR_DEVS)\<lparr>dev_file_ref := dev_file_ref (pciedev_dev_m (cdev t) ! PCIEDEV_NR_DEVS) + int (length fs)\<rparr>]\<rparr>,
      file_board := (\<lambda>f. if f \<in> fl_filp ` set fs then Some PCIEDEV_NR_DEVS else file_board t f)\<rparr>)"
    if "length (pciedev_dev_m (cdev t)) = PCIEDEV_NR_DEVS + 1" for fs t
    using that by (cases "fs = []") (simp_all add: orphan_files_def)
  show ?thesis
    using assms
    by (simp add: pciedev_remove_exp_def Let_def eq, intro conjI driver.equality)
      (simp_all add: unmap keeps detach_def detach_actions_def iounmaps_def Let_def fun_eq_iff)
qed

section \<open>The driver's tables\<close>

abbreviation board :: "driver \<Rightarrow> nat \<Rightarrow> pciedev_dev" where
  "board s i \<equiv> pciedev_dev_m (cdev s) ! i"

abbreviation slot_entry :: "driver \<Rightarrow> nat \<Rightarrow> upciedev_phys_address" where
  "slot_entry s i \<equiv> dev_phys_addresses (base_dev s) ! i"

text \<open>
  The table of boards is well formed: each of the \<^verbatim>\<open>PCIEDEV_NR_DEVS + 1\<close> boards is, knows its number, and only the last
  one is the null device, which is always taken and never active.
\<close>

definition boards_ok :: "pciedev_dev list \<Rightarrow> bool" where
  "boards_ok bs \<longleftrightarrow> length bs = PCIEDEV_NR_DEVS + 1 \<and>
     (\<forall>i < length bs. wf_dev (bs ! i) \<and> brd_num (bs ! i) = int i \<and> dev_minor (bs ! i) = int i \<and>
        null_dev (bs ! i) = (if i = PCIEDEV_NR_DEVS then 1 else 0)) \<and>
     binded (bs ! PCIEDEV_NR_DEVS) = 1 \<and> dev_sts (bs ! PCIEDEV_NR_DEVS) = 0"

lemma boards_okD:
  assumes "boards_ok bs"
  shows "length bs = PCIEDEV_NR_DEVS + 1" "i \<le> PCIEDEV_NR_DEVS \<Longrightarrow> wf_dev (bs ! i)" "i \<le> PCIEDEV_NR_DEVS \<Longrightarrow> brd_num (bs ! i) = int i"
    "i \<le> PCIEDEV_NR_DEVS \<Longrightarrow> dev_minor (bs ! i) = int i" "binded (bs ! PCIEDEV_NR_DEVS) = 1" "dev_sts (bs ! PCIEDEV_NR_DEVS) = 0"
  using assms by (simp_all add: boards_ok_def)

lemma boards_ok_update:
  assumes "boards_ok bs" "i \<le> PCIEDEV_NR_DEVS" "wf_dev d" "brd_num d = brd_num (bs ! i)" "dev_minor d = int i" "null_dev d = null_dev (bs ! i)"
    "i = PCIEDEV_NR_DEVS \<Longrightarrow> binded d = 1 \<and> dev_sts d = 0"
  shows "boards_ok (bs[i := d])"
  using assms by (auto simp: boards_ok_def nth_list_update)

lemma init_loop_append:
  assumes "\<forall>i \<in> set is. mem (i + 1) \<and> add_err i = 0"
  shows "init_loop mem add_err cd (is @ js) =
    init_loop mem add_err (cd\<lparr>pciedev_dev_m := pciedev_dev_m cd @ map (init_board (PCIEDEV_MAJOR cd)) is\<rparr>) js"
  using assms by (induction "is" arbitrary: cd) simp_all

lemmas init_loop_boards = init_loop_append [where js = "[]", simplified]

lemma boards_ok_init: "boards_ok (map (init_board major) [0..<PCIEDEV_NR_DEVS + 1])"
  using wf_zero_dev
  by (simp add: boards_ok_def init_board_def InitCritRegionLock_def Let_def nth_append del: upt_Suc)
    (auto simp: wf_dev_def zero_dev_def)

text \<open>
  When memory and character devices are available, initialising a driver gives it a well-formed table of unbound
  boards with free locks and no open files, and the null device last.
\<close>

theorem init_makes_boards:
  assumes "\<forall>i \<le> PCIEDEV_NR_DEVS + 1. mem i" "\<forall>i \<le> PCIEDEV_NR_DEVS. add_err i = 0"
  shows "\<exists>cd. upciedev_init_module_exp mem add_err major ver p = (0, Valid cd) \<and> boards_ok (pciedev_dev_m cd) \<and>
    pciedevModuleNum cd = 0 \<and> PCIEDEV_MAJOR cd = major \<and>
    (\<forall>i \<le> PCIEDEV_NR_DEVS. let d = pciedev_dev_m cd ! i in
       \<not> dev_mut d \<and> dev_file_list d = [] \<and> dev_file_ref d = 0 \<and> memmory_base d = replicate 6 0 \<and>
       dev_num d = MKDEV major (int i) \<and> (binded d = 0 \<longleftrightarrow> i < PCIEDEV_NR_DEVS))"
proof -
  obtain umaj umin dmaj dmin where v: "ver = (umaj, umin, dmaj, dmin)" by (metis prod.exhaust)
  let ?bs = "map (init_board major) [0..<PCIEDEV_NR_DEVS + 1]"
  have "\<forall>i \<in> set [0..<Suc PCIEDEV_NR_DEVS]. mem (Suc i) \<and> add_err i = 0" using assms by auto
  note loop = init_loop_boards [of _ mem add_err, OF this]
  have boards: "\<not> dev_mut (?bs ! i) \<and> dev_file_list (?bs ! i) = [] \<and> dev_file_ref (?bs ! i) = 0 \<and> memmory_base (?bs ! i) = replicate 6 0 \<and>
       dev_num (?bs ! i) = MKDEV major (int i) \<and> (binded (?bs ! i) = 0 \<longleftrightarrow> i < PCIEDEV_NR_DEVS)" if "i \<le> PCIEDEV_NR_DEVS" for i
  proof -
    have "?bs ! i = init_board major i" using that by (simp add: nth_append del: upt_Suc)
    then show ?thesis using that by (simp add: init_board_def InitCritRegionLock_def Let_def zero_dev_def del: upt_Suc)
  qed
  show ?thesis
    using assms(1) boards boards_ok_init [of major]
    by (simp add: upciedev_init_module_exp_def v loop Let_def del: upt_Suc)
qed

text \<open>A failed allocation leaves the caller a pointer to freed memory, which the cleanup then follows.\<close>

lemma failed_init_dangles:
  assumes "\<forall>i \<le> j. mem i" "j \<le> PCIEDEV_NR_DEVS" "\<forall>i < j. add_err i = 0" "\<not> mem (j + 1)"
  shows "upciedev_init_module_exp mem add_err major ver p = (- ENOMEM, Freed)"
    "upciedev_cleanup_module_exp (snd (upciedev_init_module_exp mem add_err major ver p)) = Fault"
proof -
  obtain umaj umin dmaj dmin where v: "ver = (umaj, umin, dmaj, dmin)" by (metis prod.exhaust)
  have split: "[0..<PCIEDEV_NR_DEVS + 1] = [0..<j] @ j # [j + 1..<PCIEDEV_NR_DEVS + 1]"
    using upt_add_eq_append [of 0 j "PCIEDEV_NR_DEVS + 1 - j"] assms(2) by (simp add: upt_conv_Cons)
  show *: "upciedev_init_module_exp mem add_err major ver p = (- ENOMEM, Freed)"
    using assms(1,3,4) unfolding upciedev_init_module_exp_def v split
    by (simp add: init_loop_append Let_def del: upt_Suc)
  show "upciedev_cleanup_module_exp (snd (upciedev_init_module_exp mem add_err major ver p)) = Fault"
    by (simp add: * upciedev_cleanup_module_exp_def)
qed

section \<open>Devices whose description ends\<close>

text \<open>The registers from \<open>base\<close> on describe a board without a magic number, or one with a chain that ends.\<close>

definition described :: "(u64 \<Rightarrow> u32) \<Rightarrow> u64 \<Rightarrow> bool" where
  "described r base \<longleftrightarrow> base = 0 \<or>
     (if r base \<in> {ASCII_BOARD_MAGIC_NUM, ASCII_BOARD_MAGIC_NUM_L} then
        r (base + WORD_BOARD_TO_PROJ) \<noteq> 0 \<and>
        (\<exists>ns. links (good_prj r base) (\<lambda>n. r (base + scast n + WORD_PROJ_NEXT)) (r (base + WORD_BOARD_TO_PROJ)) ns)
      else if drop_bit 16 (r base) = SHAPI_MAGIC_DEVICE_NUM then
        r (base + WORD_FIRST_MODULE_ADDRESS) \<noteq> 0 \<and>
        (\<exists>ns. links (good_module r base) (\<lambda>n. r (base + scast n + WORD_NEXT_MODULE_ADDRESS)) (r (base + WORD_FIRST_MODULE_ADDRESS)) ns)
      else True)"

lemma add_prj_snd [simp]: "snd (fold (add_prj r base) ns s) = snd s"
  by (induction ns arbitrary: s) (auto simp: add_prj_def split: prod.splits)

lemma add_module_snd [simp]: "snd (fold (add_module r base) ns s) = snd s"
  by (induction ns arbitrary: s) (auto simp: add_module_def split: prod.splits)

lemma discover_ends:
  assumes "stable_reads k I r8 r16 r32" "I w" "described r32 (memmory_base d ! 0)"
  shows "\<exists>d'. discover True k d w = Some (Done (d', w))"
proof -
  let ?base = "memmory_base d ! 0"
  note reads = stable_readsD(3) [OF assms(1,2)] ioreads_stable [OF assms(1,2)]
  have ok: "stable_state k I r8 r16 r32 (d', w)" for d' using assms(1,2) by (simp add: stable_state_def)
  consider (none) "?base = 0 \<or> (r32 ?base \<notin> {ASCII_BOARD_MAGIC_NUM, ASCII_BOARD_MAGIC_NUM_L} \<and> drop_bit 16 (r32 ?base) \<noteq> SHAPI_MAGIC_DEVICE_NUM)"
    | (ascii) "?base \<noteq> 0" "r32 ?base \<in> {ASCII_BOARD_MAGIC_NUM, ASCII_BOARD_MAGIC_NUM_L}"
    | (shapi) "?base \<noteq> 0" "r32 ?base \<notin> {ASCII_BOARD_MAGIC_NUM, ASCII_BOARD_MAGIC_NUM_L}" "drop_bit 16 (r32 ?base) = SHAPI_MAGIC_DEVICE_NUM"
    by blast
  then show ?thesis
  proof cases
    case none
    then show ?thesis by (auto simp: discover_def pciedev_get_brdinfo_def Let_def reads)
  next
    case ascii
    then obtain ns where ns: "r32 (?base + WORD_BOARD_TO_PROJ) \<noteq> 0"
      "links (good_prj r32 ?base) (\<lambda>n. r32 (?base + scast n + WORD_PROJ_NEXT)) (r32 (?base + WORD_BOARD_TO_PROJ)) ns"
      using assms(3) by (auto simp: described_def)
    have "walk (pciedev_fill_prj_info True k) ?base (r32 (?base + WORD_BOARD_TO_PROJ)) (d1, w) = Some (Done (fst (fold (add_prj r32 ?base) ns (d1, w)), w))" for d1
      using prj.walk_links [OF ok ns(2)] by (metis add_prj_snd prod.collapse snd_conv)
    with ascii ns(1) show ?thesis
      by (auto simp: discover_def pciedev_get_brdinfo_def ascii_board_def pciedev_get_prjinfo_def Let_def reads)
  next
    case shapi
    then obtain ns where ns: "r32 (?base + WORD_FIRST_MODULE_ADDRESS) \<noteq> 0"
      "links (good_module r32 ?base) (\<lambda>n. r32 (?base + scast n + WORD_NEXT_MODULE_ADDRESS)) (r32 (?base + WORD_FIRST_MODULE_ADDRESS)) ns"
      using assms(3) by (auto simp: described_def)
    have "walk (pciedev_fill_shapi_module_info True k) ?base (r32 (?base + WORD_FIRST_MODULE_ADDRESS)) (d1, w) =
        Some (Done (fst (fold (add_module r32 ?base) ns (d1, w)), w))" for d1
      using module.walk_links [OF ok ns(2)] by (metis add_module_snd prod.collapse snd_conv)
    with shapi ns(1) show ?thesis
      by (auto simp: discover_def pciedev_get_brdinfo_def shapi_board_def pciedev_get_shapi_module_info_def Let_def reads)
  qed
qed

section \<open>Attaching a device\<close>

text \<open>A device the PCI core accepts, with a slot of the table and a description that ends.\<close>

definition good_device :: "(u64 \<Rightarrow> u32) \<Rightarrow> pci_info \<Rightarrow> int \<Rightarrow> nat \<Rightarrow> driver \<Rightarrow> bool" where
  "good_device r pd par slot s \<longleftrightarrow> pd_enable_err pd = 0 \<and> pd_request_err pd = 0 \<and> probe_slot pd par = Done slot \<and>
     slot < length (dev_phys_addresses (base_dev s)) \<and> table_fits s \<and> described r (bar_map pd ! 0)"

definition first_free :: "driver \<Rightarrow> nat \<Rightarrow> bool" where
  "first_free s m \<longleftrightarrow> m < PCIEDEV_NR_DEVS \<and> binded (board s m) = 0 \<and> (\<forall>j < m. binded (board s j) \<noteq> 0)"

lemma first_free_found:
  "boards_ok (pciedev_dev_m (cdev s)) \<Longrightarrow> first_free s m \<Longrightarrow> find_board (pciedev_dev_m (cdev s)) 0 = Done m"
  by (auto simp: first_free_def boards_okD(1) intro!: find_board_first)

lemma probe_good:
  assumes "stable_reads k I r8 r16 r32" "I w" "boards_ok (pciedev_dev_m (cdev s))" "first_free s m" "good_device r32 pd par slot s"
  obtains d where "discover True k (setup_board pd slot ((board s m)\<lparr>binded := 1\<rparr>)) w = Some (Done (d, w))"
    "pciedev_probe_exp True k pd nm par s w = Some (Done (0, int m, attach pd nm slot m d s, w))"
proof -
  have m: "m < PCIEDEV_NR_DEVS" "m < length (pciedev_dev_m (cdev s))" "wf_dev (board s m)"
    using assms(3,4) by (simp_all add: first_free_def boards_okD)
  then have "memmory_base (setup_board pd slot ((board s m)\<lparr>binded := 1\<rparr>)) = bar_map pd"
    by (intro setup_board_sel(3)) (simp add: wf_dev_def)
  with discover_ends [OF assms(1,2), of "setup_board pd slot ((board s m)\<lparr>binded := 1\<rparr>)"] assms(5)
  obtain d where d: "discover True k (setup_board pd slot ((board s m)\<lparr>binded := 1\<rparr>)) w = Some (Done (d, w))"
    by (auto simp: good_device_def)
  with probe_attaches [OF first_free_found [OF assms(3,4)] m(1,2), of pd par slot True k nm w] assms(5)
  show thesis by (intro that [OF d]) (simp add: good_device_def)
qed

lemma boards_ok_attach:
  assumes "boards_ok (pciedev_dev_m (cdev s))" "m < PCIEDEV_NR_DEVS"
    "discover mem_ok k (setup_board pd slot ((board s m)\<lparr>binded := 1\<rparr>)) w = Some (Done (d, w'))"
  shows "boards_ok (pciedev_dev_m (cdev (attach pd nm slot m d s)))"
  using assms(1,2) attached_facts [OF boards_okD(2) [OF assms(1)] assms(3)]
  by (simp add: attach_def) (intro boards_ok_update, simp_all add: boards_okD)

lemma setup_slot_sel:
  assumes "length (bars e) = 6"
  shows "setup_slot pd slot e = \<lparr>phys_slot_num = int slot, dev_stst = 1,
    bars = map (\<lambda>i. if res_start (bar_res pd i) \<noteq> 0 then bar_res pd i else bars e ! i) [0..<6],
    slot_bus = pd_bus pd, slot_device = PCI_SLOT (pd_devfn pd)\<rparr>"
proof -
  have "fold (setup_slot_bar pd) [0..<n] e' =
      e'\<lparr>bars := map (\<lambda>i. if res_start (bar_res pd i) \<noteq> 0 then bar_res pd i else bars e' ! i) [0..<n] @ drop n (bars e')\<rparr>"
    if "n \<le> 6" "length (bars e') = 6" for n e'
    using that
  proof (induction n)
    case (Suc n)
    then have "drop n (bars e') = bars e' ! n # drop (Suc n) (bars e')" by (simp add: Cons_nth_drop_Suc)
    with Suc show ?case by (simp add: setup_slot_bar_def list_update_append)
  qed simp
  from this [of 6 "e\<lparr>dev_stst := 1, phys_slot_num := int slot, slot_bus := pd_bus pd, slot_device := PCI_SLOT (pd_devfn pd)\<rparr>"] assms
  show ?thesis by (simp add: setup_slot_def NUMBER_OF_BARS_def)
qed

text \<open>
  C11. Probing a good device attaches it to the first free board: the board is bound and active, its BARs are the device's
  resources and their mappings, the device's driver data is the board and its slot entry describes it; no other board and
  no other slot changes.
\<close>

theorem probe_attaches_device:
  assumes "stable_reads k I r8 r16 r32" "I w" "boards_ok (pciedev_dev_m (cdev s))" "first_free s m" "good_device r32 pd par slot s"
    "slot_entry s slot = zero_entry"
  shows "\<exists>s'. pciedev_probe_exp True k pd nm par s w = Some (Done (0, int m, s', w)) \<and> boards_ok (pciedev_dev_m (cdev s')) \<and>
    binded (board s' m) = 1 \<and> dev_sts (board s' m) = 1 \<and> slot_num (board s' m) = int slot \<and> dev_name (board s' m) = node_name nm slot \<and>
    mem_base (board s' m) = map (\<lambda>i. res_start (bar_res pd i)) [0..<6] \<and> mem_base_end (board s' m) = map (\<lambda>i. res_end (bar_res pd i)) [0..<6] \<and>
    memmory_base (board s' m) = bar_map pd \<and> drvdata s' = (drvdata s)(pd_id pd \<mapsto> m) \<and>
    pciedevModuleNum (cdev s') = pciedevModuleNum (cdev s) + 1 \<and>
    dev_stst (slot_entry s' slot) = 1 \<and> phys_slot_num (slot_entry s' slot) = int slot \<and>
    (\<forall>i < 6. res_start (bars (slot_entry s' slot) ! i) = res_start (bar_res pd i)) \<and>
    (\<forall>j. j \<noteq> m \<longrightarrow> board s' j = board s j) \<and> (\<forall>j. j \<noteq> slot \<longrightarrow> slot_entry s' j = slot_entry s j)"
proof -
  obtain d where d: "discover True k (setup_board pd slot ((board s m)\<lparr>binded := 1\<rparr>)) w = Some (Done (d, w))"
    "pciedev_probe_exp True k pd nm par s w = Some (Done (0, int m, attach pd nm slot m d s, w))"
    using probe_good [OF assms(1-5)] by blast
  have m: "m < PCIEDEV_NR_DEVS" using assms(4) by (simp add: first_free_def)
  note facts = attached_facts [OF boards_okD(2) [OF assms(3)] d(1)]
  have "length (bars zero_entry) = 6" by (simp add: zero_entry_def)
  note slot = setup_slot_sel [OF this, of pd slot]
  have bar: "\<forall>i < 6. res_start (bars zero_entry ! i) = 0" by (simp add: zero_entry_def)
  show ?thesis
    using d(2) boards_ok_attach [OF assms(3) m d(1)] m facts assms(5,6) boards_okD(1) [OF assms(3)] bar
    by (auto simp: attach_def good_device_def slot comp_def)
qed

section \<open>Detaching it again\<close>

definition mapped :: "pci_action list \<Rightarrow> u64 list" where
  "mapped as = concat (map (\<lambda>a. case a of Iomap i x \<Rightarrow> if x = 0 then [] else [x] | _ \<Rightarrow> []) as)"

definition unmapped :: "pci_action list \<Rightarrow> u64 list" where
  "unmapped as = concat (map (\<lambda>a. case a of Iounmap x \<Rightarrow> [x] | _ \<Rightarrow> []) as)"

lemma mapped_iomaps: "mapped (iomaps pd) = filter (\<lambda>x. x \<noteq> 0) (bar_map pd)"
proof -
  have "mapped (map (\<lambda>i. Iomap i (f i)) (filter P is)) = filter (\<lambda>x. x \<noteq> 0) (map (\<lambda>i. if P i then f i else 0) is)" for f P "is"
    by (induction "is") (simp_all add: mapped_def)
  then show ?thesis by (simp add: iomaps_def bar_map_def NUMBER_OF_BARS_def)
qed

lemma unmapped_iounmaps: "length (memmory_base d) = 6 \<Longrightarrow> unmapped (iounmaps d) = filter (\<lambda>x. x \<noteq> 0) (memmory_base d)"
proof -
  have "unmapped (map (\<lambda>i. Iounmap (f i)) (filter (\<lambda>i. f i \<noteq> 0) is)) = filter (\<lambda>x. x \<noteq> 0) (map f is)" for f "is"
    by (induction "is") (simp_all add: unmapped_def)
  from this [of "(!) (memmory_base d)" "[0..<6]"] show "length (memmory_base d) = 6 \<Longrightarrow> ?thesis"
    by (metis (no_types, lifting) NUMBER_OF_BARS_def iounmaps_def map_nth)
qed

lemma mapped_append: "mapped (as @ bs) = mapped as @ mapped bs" "unmapped (as @ bs) = unmapped as @ unmapped bs"
  by (simp_all add: mapped_def unmapped_def)

lemma unmapped_free_irqs: "unmapped (free_irqs d) = []"
  by (auto simp: unmapped_def free_irqs_def)

text \<open>
  C7. Removing a device releases what its probe took. Every mapping made is undone, in the same order, the regions are
  released, the device is disabled, the device node and the proc entry that were created are removed. The slot entry, the
  count of modules, the open files and every other board are as before the probe. The board is free again, its lock too,
  with no BAR mapped and no project list; whatever else probe stored in it stays (the module list, the identification),
  and so does the device's driver data. The same device can be probed again and gets the same board.
\<close>

theorem remove_releases_board:
  assumes "stable_reads k I r8 r16 r32" "I w" "boards_ok (pciedev_dev_m (cdev s))" "first_free s m" "good_device r32 pd par slot s"
    "slot_entry s slot = zero_entry" "\<not> dev_mut (board s m)" "dev_file_list (board s m) = []" "PCIEDEV_MINOR (cdev s) = 0"
  shows "\<exists>s1 s2 up down. pciedev_probe_exp True k pd nm par s w = Some (Done (0, int m, s1, w)) \<and>
    pciedev_remove_exp pd nm s1 = Done (0, int slot, s2) \<and>
    board s2 m = (let d = board s1 m in d\<lparr>binded := 0, dev_sts := 0, dev_mut := False, dev_file_list := [], prj_info_list := [],
      memmory_base := replicate 6 0, mem_base := clear_mapped d (mem_base d), mem_base_end := clear_mapped d (mem_base_end d),
      mem_base_flag := clear_mapped d (mem_base_flag d), rw_off := clear_mapped d (rw_off d)\<rparr>) \<and>
    boards_ok (pciedev_dev_m (cdev s2)) \<and> (\<forall>j. j \<noteq> m \<longrightarrow> board s2 j = board s j) \<and>
    dev_phys_addresses (base_dev s2) = dev_phys_addresses (base_dev s) \<and> pciedevModuleNum (cdev s2) = pciedevModuleNum (cdev s) \<and>
    file_board s2 = file_board s \<and> drvdata s2 = (drvdata s)(pd_id pd \<mapsto> m) \<and>
    trace s1 = trace s @ up \<and> trace s2 = trace s1 @ down \<and> mapped up = unmapped down \<and> {ReleaseRegions, Disable} \<subseteq> set down \<and>
    (\<forall>n x. DeviceCreate n x \<in> set up \<longrightarrow> DeviceDestroy n \<in> set down) \<and> (\<forall>x. ProcCreate x \<in> set up \<longrightarrow> ProcRemove x \<in> set down) \<and>
    (\<exists>s3. pciedev_probe_exp True k pd nm par s2 w = Some (Done (0, int m, s3, w)))"
proof -
  obtain d where d: "discover True k (setup_board pd slot ((board s m)\<lparr>binded := 1\<rparr>)) w = Some (Done (d, w))"
    "pciedev_probe_exp True k pd nm par s w = Some (Done (0, int m, attach pd nm slot m d s, w))"
    using probe_good [OF assms(1-5)] by blast
  have m: "m < PCIEDEV_NR_DEVS" using assms(4) by (simp add: first_free_def)
  note len = boards_okD(1) [OF assms(3)]
  note facts = attached_facts [OF boards_okD(2) [OF assms(3)] d(1)]
  let ?s1 = "attach pd nm slot m d s" and ?d1 = "attached_board pd nm slot d"
  have b1: "board ?s1 m = ?d1" "board ?s1 PCIEDEV_NR_DEVS = board s PCIEDEV_NR_DEVS" "drvdata ?s1 (pd_id pd) = Some m"
    "length (pciedev_dev_m (cdev ?s1)) = PCIEDEV_NR_DEVS + 1" "length (dev_phys_addresses (base_dev ?s1)) = length (dev_phys_addresses (base_dev s))"
    using m len by (simp_all add: attach_def)
  have d1: "slot_num ?d1 = int slot" "\<not> dev_mut ?d1" "dev_file_list ?d1 = []" "memmory_base ?d1 = bar_map pd" "brd_num ?d1 = int m" "dev_minor d = int m"
    "wf_dev ?d1" "null_dev ?d1 = null_dev (board s m)" "dev_minor ?d1 = int m"
    using facts m assms(7,8) boards_okD(3,4) [OF assms(3), of m] by simp_all
  have rm: "pciedev_remove_exp pd nm ?s1 = Done (0, int slot, detach nm m ?s1)"
    using remove_detaches [OF b1(3) m b1(4), of nm] b1(1,5) d1(1,2) assms(5) by (simp add: good_device_def)
  note det = detached_board_sel [OF d1(7)]
  have bs2: "pciedev_dev_m (cdev (detach nm m ?s1)) = (pciedev_dev_m (cdev s))[m := detached_board ?d1]"
    using m len b1(1,2) d1(3) by (simp add: detach_def Let_def) (simp add: attach_def list_update_swap)
  have slots: "dev_phys_addresses (base_dev (detach nm m ?s1)) = dev_phys_addresses (base_dev s)"
    using assms(6) b1(1) d1(1) by (simp add: detach_def Let_def) (simp add: attach_def flip: assms(6))
  let ?up = "attach_actions pd nm slot m d (cdev s)" and ?down = "detach_actions nm ?d1 (cdev ?s1)"
  have cd: "PCIEDEV_MAJOR (cdev ?s1) = PCIEDEV_MAJOR (cdev s)" "PCIEDEV_MINOR (cdev ?s1) = 0"
    using assms(9) by (simp_all add: attach_def)
  have tr: "trace ?s1 = trace s @ ?up" "trace (detach nm m ?s1) = trace ?s1 @ ?down"
    using b1(1) by (simp_all add: attach_def detach_def Let_def)
  have "mapped ?up = filter (\<lambda>x. x \<noteq> 0) (bar_map pd)"
    using mapped_iomaps [of pd] by (simp add: attach_actions_def mapped_append) (simp add: mapped_def)
  moreover have "unmapped ?down = filter (\<lambda>x. x \<noteq> 0) (bar_map pd)"
    using unmapped_iounmaps [of ?d1] d1(4) wf_dev_lengths(5) [OF d1(7)]
    by (simp add: detach_actions_def mapped_append unmapped_free_irqs) (simp add: unmapped_def)
  moreover have "\<forall>n x. DeviceCreate n x \<in> set ?up \<longrightarrow> DeviceDestroy n \<in> set ?down" "\<forall>x. ProcCreate x \<in> set ?up \<longrightarrow> ProcRemove x \<in> set ?down"
    using d1(1,5,6) cd assms(9) by (auto simp: attach_actions_def detach_actions_def iomaps_def)
  moreover have "boards_ok ((pciedev_dev_m (cdev s))[m := detached_board ?d1])"
    using m det(2,7-9) d1(8,9) facts(3) by (intro boards_ok_update [OF assms(3)]) simp_all
  moreover have "pciedevModuleNum (cdev (detach nm m ?s1)) = pciedevModuleNum (cdev s)" by (simp add: detach_def attach_def Let_def)
  moreover have "file_board (detach nm m ?s1) = file_board s" "drvdata (detach nm m ?s1) = (drvdata s)(pd_id pd \<mapsto> m)"
    using b1(1) d1(3) by (simp_all add: detach_def attach_def Let_def)
  moreover have "{ReleaseRegions, Disable} \<subseteq> set ?down" by (simp add: detach_actions_def)
  moreover obtain s3 where "pciedev_probe_exp True k pd nm par (detach nm m ?s1) w = Some (Done (0, int m, s3, w))"
  proof -
    have "boards_ok (pciedev_dev_m (cdev (detach nm m ?s1)))" unfolding bs2 by fact
    moreover have "first_free (detach nm m ?s1) m" "good_device r32 pd par slot (detach nm m ?s1)"
      using assms(4,5) m len det(3) by (simp_all add: first_free_def good_device_def table_fits_def bs2 slots)
    ultimately show thesis using probe_good [OF assms(1,2)] that by metis
  qed
  ultimately show ?thesis
    using d(2) rm tr b1(1) detached_board_eq [OF d1(7)] bs2 slots m len
    by (intro exI [of _ ?s1] exI [of _ "detach nm m ?s1"] exI [of _ ?up] exI [of _ ?down]) (simp add: Let_def)
qed

section \<open>Error paths\<close>

text \<open>
  C30. The slot table is declared with \<^verbatim>\<open>NUMBER_OF_SLOTS\<close> entries, the loops over it run to \<^verbatim>\<open>NUMBER_OF_SLOTS\<close> inclusive: loading
  the module writes behind the table, and no probe succeeds without reading behind it.
\<close>

theorem slot_table_overrun:
  assumes "length (dev_phys_addresses b) = NUMBER_OF_SLOTS" "length (dev_phys_addresses (base_dev s)) = NUMBER_OF_SLOTS"
    "length (pciedev_dev_m (cdev s)) = PCIEDEV_NR_DEVS + 1"
  shows "pciedev_init_module b = Fault \<and>
    (pciedev_probe_exp mem_ok k pd nm par s w = Some (Done (r, i, s', w')) \<longrightarrow> s' = s \<or> r \<noteq> 0)"
proof -
  have "clear_slots (is @ [NUMBER_OF_SLOTS]) b = Fault" if "length (dev_phys_addresses b) = NUMBER_OF_SLOTS" for b "is"
    using that
  proof (induction "is" arbitrary: b)
    case (Cons i "is")
    then show ?case by (cases "i < NUMBER_OF_SLOTS") simp_all
  qed simp
  from this [OF assms(1), of "[0..<NUMBER_OF_SLOTS]"] have "pciedev_init_module b = Fault" by (simp add: pciedev_init_module_def)
  moreover have "\<not> table_fits s" using assms(2) by (simp add: table_fits_def)
  then have "s' = s \<or> r \<noteq> 0" if "pciedev_probe_exp mem_ok k pd nm par s w = Some (Done (r, i, s', w'))"
    using that by (rule_tac probe_cases [OF that assms(3)]) auto
  ultimately show ?thesis by blast
qed

text \<open>
  With every board bound a further probe does not report that there are no more devices: the search runs past the
  null device and its result is used as an index behind the table.
\<close>

theorem full_table_faults:
  assumes "boards_ok (pciedev_dev_m (cdev s))" "\<forall>i < PCIEDEV_NR_DEVS. binded (board s i) \<noteq> 0"
  shows "pciedev_probe_exp mem_ok k pd nm par s w = Some Fault"
proof -
  have "\<forall>j. 0 \<le> j \<and> j < length (pciedev_dev_m (cdev s)) \<longrightarrow> binded (board s j) \<noteq> 0"
    using assms boards_okD(1,5) [OF assms(1)] by (auto simp: less_Suc_eq)
  from find_board_none [OF boards_okD(1) [OF assms(1)] _ this] boards_okD(1) [OF assms(1)] show ?thesis
    by (simp add: pciedev_probe_exp_def get_board_def arr_get_def)
qed

text \<open>
  A device the kernel cannot enable costs a board: it stays bound, with no device attached, and removing the device
  does nothing; a device whose regions are taken leaves the board free.
\<close>

theorem probe_failure_board:
  assumes "boards_ok (pciedev_dev_m (cdev s))" "first_free s m" "drvdata s (pd_id pd) = None"
  shows "(pd_enable_err pd \<noteq> 0 \<longrightarrow> (\<exists>s'. pciedev_probe_exp mem_ok k pd nm par s w = Some (Done (pd_enable_err pd, int m, s', w)) \<and>
      binded (board s' m) = 1 \<and> pciedev_remove_exp pd nm s' = Done (0, 0, s'))) \<and>
    (pd_enable_err pd = 0 \<and> pd_request_err pd \<noteq> 0 \<longrightarrow> (\<exists>s'. pciedev_probe_exp mem_ok k pd nm par s w = Some (Done (pd_request_err pd, int m, s', w)) \<and>
      pciedev_dev_m (cdev s') = pciedev_dev_m (cdev s) \<and> trace s' = trace s @ [Enable, RequestRegions, Disable]))"
proof -
  have m: "m < PCIEDEV_NR_DEVS" "m < length (pciedev_dev_m (cdev s))" "binded (board s m) = 0"
    using assms(1,2) by (simp_all add: first_free_def boards_okD)
  then have same: "(pciedev_dev_m (cdev s))[m := (board s m)\<lparr>binded := 0\<rparr>] = pciedev_dev_m (cdev s)"
    by (metis (no_types, lifting) list_update_id pciedev_dev.surjective pciedev_dev.update_convs(4))
  have rm: "pciedev_remove_exp pd nm t = Done (0, 0, t)" if "drvdata t (pd_id pd) = None" for t
    using that by (simp add: pciedev_remove_exp_def)
  note err = probe_enable_error [OF first_free_found [OF assms(1,2)] m(1,2)] probe_request_error [OF first_free_found [OF assms(1,2)] m(1,2)]
  show ?thesis
  proof (intro conjI impI)
    assume e: "pd_enable_err pd \<noteq> 0"
    show "\<exists>s'. pciedev_probe_exp mem_ok k pd nm par s w = Some (Done (pd_enable_err pd, int m, s', w)) \<and>
      binded (board s' m) = 1 \<and> pciedev_remove_exp pd nm s' = Done (0, 0, s')"
      by (intro exI conjI, rule err(1) [OF e]) (use m assms(3) rm in simp_all)
  next
    assume e: "pd_enable_err pd = 0 \<and> pd_request_err pd \<noteq> 0"
    show "\<exists>s'. pciedev_probe_exp mem_ok k pd nm par s w = Some (Done (pd_request_err pd, int m, s', w)) \<and>
      pciedev_dev_m (cdev s') = pciedev_dev_m (cdev s) \<and> trace s' = trace s @ [Enable, RequestRegions, Disable]"
      by (intro exI conjI, rule err(2)) (use e same in simp_all)
  qed
qed

text \<open>
  When the second of two interrupt vectors of a board is refused, the first stays requested for ever: the mode is
  cleared, and the removal frees no vector.
\<close>

theorem refused_vector_leaks_irq:
  assumes "err \<noteq> 0" "n < 32"
  shows "let d' = snd (pciedev_setup_interrupt err n' (snd (pciedev_setup_interrupt 0 n d)))
    in bit (enbl_irq_num d') n \<and> (\<forall>i. FreeIrq i \<notin> set (free_irqs d')) \<and>
       FreeIrq (pci_dev_irq d + of_nat n) \<in> set (free_irqs (snd (pciedev_setup_interrupt 0 n d)))"
  using assms by (auto simp: pciedev_setup_interrupt_def free_irqs_def Let_def bit_simps)

section \<open>A concrete driver and device\<close>

text \<open>A driver as it is initialised, with a slot table of \<open>n\<close> entries.\<close>

definition start_driver :: "int \<Rightarrow> nat \<Rightarrow> driver" where
  "start_driver major n =
     \<lparr>cdev = \<lparr>UPCIEDEV_VER_MAJ = 1, UPCIEDEV_VER_MIN = 1, PCIEDEV_DRV_VER_MAJ = 1, PCIEDEV_DRV_VER_MIN = 1, PCIEDEV_MAJOR = major,
        PCIEDEV_MINOR = 0, pciedev_dev_m = map (init_board major) [0..<PCIEDEV_NR_DEVS + 1], pciedevModuleNum = 0\<rparr>,
      base_dev = \<lparr>base_VER_MAJ = 0, base_VER_MIN = 0, dev_phys_addresses = replicate n zero_entry\<rparr>,
      drvdata = Map.empty, file_board = Map.empty, trace = []\<rparr>"

text \<open>A device in slot 4 with the BAR of the sample board.\<close>

definition sample_pd :: pci_info where
  "sample_pd = \<lparr>pd_id = 7, pd_enable_err = 0, pd_request_err = 0, pd_devfn = 0, pd_bus = 5, pd_bridge = Some 0x200000, pd_bridge2 = None,
     pd_dma64 = True, pd_dma32 = True, pd_vendor = 0x10EE, pd_device = 0x88, pd_subvendor = 0, pd_subdevice = 0, pd_class = 0, pd_revision = 0,
     pd_irq_line = 0, pd_irq_pin = 0, pd_res = (\<lambda>i. if i = 0 then (0x8000, 0x803F, 0x200) else (0, 0, 0)),
     pd_iomap = (\<lambda>i. if i = 0 then 0x1000 else 0), pd_msi_count = 1, pd_irq_vectors = 1, pd_irq = 33\<rparr>"

lemma start_driver_sel [simp]:
  "pciedev_dev_m (cdev (start_driver major n)) = map (init_board major) [0..<PCIEDEV_NR_DEVS + 1]"
  "dev_phys_addresses (base_dev (start_driver major n)) = replicate n zero_entry" "drvdata (start_driver major n) = Map.empty"
  "file_board (start_driver major n) = Map.empty" "pciedevModuleNum (cdev (start_driver major n)) = 0" "PCIEDEV_MINOR (cdev (start_driver major n)) = 0"
  by (simp_all add: start_driver_def del: upt_Suc)

lemma start_driver_board: "i \<le> PCIEDEV_NR_DEVS \<Longrightarrow> board (start_driver major n) i = init_board major i"
  by (simp add: nth_append del: upt_Suc)

lemma init_board_sel:
  "binded (init_board major i) = (if i = PCIEDEV_NR_DEVS then 1 else 0)" "\<not> dev_mut (init_board major i)" "dev_file_list (init_board major i) = []"
  "dev_file_ref (init_board major i) = 0"
  by (simp_all add: init_board_def InitCritRegionLock_def zero_dev_def Let_def)

lemma start_driver_ok: "boards_ok (pciedev_dev_m (cdev (start_driver major n)))" "first_free (start_driver major n) 0"
  using boards_ok_init [of major] start_driver_board [of 0 major n]
  by (simp_all add: first_free_def init_board_sel del: upt_Suc start_driver_sel(1))
    (simp_all add: PCIEDEV_NR_DEVS_def del: upt_Suc)

lemma sample_pd_good: "good_device (prj_regs 0) sample_pd 0 4 (start_driver 240 16)"
  by (simp add: good_device_def sample_pd_def probe_slot_def table_fits_def described_def bar_map_def bar_res_def prj_regs_def upcie_consts upt_rec)

theorem init_makes_boards_witness:
  "\<exists>cd. upciedev_init_module_exp (\<lambda>_. True) (\<lambda>_. 0) 240 (1, 1, 1, 1) Null = (0, Valid cd) \<and> boards_ok (pciedev_dev_m cd)"
  using init_makes_boards [of "\<lambda>_. True" "\<lambda>_. 0" 240 "(1, 1, 1, 1)" Null] by auto

theorem probe_attaches_device_witness:
  "\<exists>s'. pciedev_probe_exp True (reg_kern (prj_regs 0)) sample_pd ''pcie'' 0 (start_driver 240 16) sample_ram = Some (Done (0, 0, s', sample_ram)) \<and>
    dev_name (board s' 0) = ''pcies4'' \<and> drvdata s' 7 = Some 0"
proof -
  have "slot_entry (start_driver 240 16) 4 = zero_entry" by simp
  from probe_attaches_device [OF reg_kern_stable _ start_driver_ok sample_pd_good this, of sample_ram "''pcie''"]
  obtain s' where s': "pciedev_probe_exp True (reg_kern (prj_regs 0)) sample_pd ''pcie'' 0 (start_driver 240 16) sample_ram = Some (Done (0, int 0, s', sample_ram))"
    "dev_name (board s' 0) = node_name ''pcie'' 4" "drvdata s' = (drvdata (start_driver 240 16))(pd_id sample_pd \<mapsto> 0)"
    by blast
  have "node_name ''pcie'' 4 = ''pcies4''" by code_simp
  moreover have "pd_id sample_pd = 7" by (simp add: sample_pd_def)
  ultimately show ?thesis using s' by auto
qed

theorem remove_releases_board_witness:
  "\<exists>s1 s2. pciedev_probe_exp True (reg_kern (prj_regs 0)) sample_pd ''pcie'' 0 (start_driver 240 16) sample_ram = Some (Done (0, 0, s1, sample_ram)) \<and>
    pciedev_remove_exp sample_pd ''pcie'' s1 = Done (0, 4, s2) \<and> binded (board s2 0) = 0"
proof -
  have *: "slot_entry (start_driver 240 16) 4 = zero_entry" "\<not> dev_mut (board (start_driver 240 16) 0)" "dev_file_list (board (start_driver 240 16) 0) = []"
    "PCIEDEV_MINOR (cdev (start_driver 240 16)) = 0"
    using start_driver_board [of 0 240 16] by (simp_all add: init_board_sel del: upt_Suc start_driver_sel(1))
  from remove_releases_board [OF reg_kern_stable _ start_driver_ok sample_pd_good *, of sample_ram "''pcie''"]
  show ?thesis by (auto simp: Let_def)
qed

theorem slot_table_overrun_witness:
  "pciedev_init_module (base_dev (start_driver 240 15)) = Fault"
  using slot_table_overrun [of "base_dev (start_driver 240 15)" "start_driver 240 15" True ram_kern sample_pd "''pcie''" 0 sample_ram 0 0 "start_driver 240 15" sample_ram]
  by (simp add: NUMBER_OF_SLOTS_def del: upt_Suc)

definition full_driver :: driver where
  "full_driver = (start_driver 240 16)\<lparr>cdev := (cdev (start_driver 240 16))\<lparr>pciedev_dev_m :=
     map (\<lambda>d. d\<lparr>binded := 1\<rparr>) (pciedev_dev_m (cdev (start_driver 240 16)))\<rparr>\<rparr>"

theorem full_table_faults_witness: "pciedev_probe_exp True ram_kern sample_pd ''pcie'' 0 full_driver sample_ram = Some Fault"
proof -
  have bs: "pciedev_dev_m (cdev full_driver) = map (\<lambda>d. d\<lparr>binded := 1\<rparr>) (pciedev_dev_m (cdev (start_driver 240 16)))"
    by (simp add: full_driver_def del: start_driver_sel(1))
  have "boards_ok (map (\<lambda>d. d\<lparr>binded := 1\<rparr>) bs)" if "boards_ok bs" for bs
    using that by (simp add: boards_ok_def wf_dev_def)
  then have "boards_ok (pciedev_dev_m (cdev full_driver))" unfolding bs using start_driver_ok(1) .
  then show ?thesis by (rule full_table_faults) (use boards_okD(1) [OF start_driver_ok(1), of 240 16] in \<open>simp add: bs del: start_driver_sel(1)\<close>)
qed

theorem probe_failure_board_witness:
  "\<exists>s'. pciedev_probe_exp True ram_kern (sample_pd\<lparr>pd_enable_err := - ENODEV\<rparr>) ''pcie'' 0 (start_driver 240 16) sample_ram =
    Some (Done (- ENODEV, 0, s', sample_ram)) \<and> binded (board s' 0) = 1"
  using probe_failure_board [OF start_driver_ok, of 240 16 "sample_pd\<lparr>pd_enable_err := - ENODEV\<rparr>" True ram_kern "''pcie''" 0 sample_ram]
  by (auto simp: ENODEV_def del: start_driver_sel(1))

theorem refused_vector_leaks_irq_witness:
  "\<forall>i. FreeIrq i \<notin> set (free_irqs (snd (pciedev_setup_interrupt (- 16) 1 (snd (pciedev_setup_interrupt 0 0 zero_dev)))))"
  using refused_vector_leaks_irq [of "- 16" 0 1 zero_dev] by (simp add: Let_def)

end
