(* ===== verification/Event_Runs.thy ===== *)
theory Event_Runs
  imports UPrelude
begin

text \<open>
  Components that react to events: a step takes an event and a state to an outcome, and a run handles a list of
  events one after the other. Three contracts between a component's steps and what is said of its runs, each a
  locale with the result for whole runs: an invariant the steps keep (\<open>kept\<close>), steps that never fail in good states
  (\<open>never_stuck\<close>), and steps that do what a step of an abstract machine does (\<open>simulation\<close>); the last gives the
  second.
\<close>

fun run_all :: "('e \<Rightarrow> 's \<Rightarrow> 's run) \<Rightarrow> 'e list \<Rightarrow> 's \<Rightarrow> 's run" where
  "run_all step [] s = Done s"
| "run_all step (e # es) s = run_bind (step e s) (run_all step es)"

lemma run_all_append: "run_all step (es @ fs) s = run_bind (run_all step es s) (run_all step fs)"
proof (induction es arbitrary: s)
  case (Cons e es)
  then show ?case by (cases "step e s") simp_all
qed simp

locale kept =
  fixes step :: "'e \<Rightarrow> 's \<Rightarrow> 's run" and inv :: "'s \<Rightarrow> bool"
  assumes kept_step: "inv s \<Longrightarrow> step e s = Done s' \<Longrightarrow> inv s'"
begin

lemma kept_run: "inv s \<Longrightarrow> run_all step es s = Done s' \<Longrightarrow> inv s'"
  by (induction es arbitrary: s) (auto simp: run_bind_Done_iff dest: kept_step)

end

locale never_stuck =
  fixes step :: "'e \<Rightarrow> 's \<Rightarrow> 's run" and good :: "'s \<Rightarrow> bool" and enabled :: "'e \<Rightarrow> bool"
  assumes progress: "good s \<Longrightarrow> enabled e \<Longrightarrow> \<exists>s'. step e s = Done s' \<and> good s'"
begin

lemma progress_run: "good s \<Longrightarrow> list_all enabled es \<Longrightarrow> \<exists>s'. run_all step es s = Done s' \<and> good s'"
proof (induction es arbitrary: s)
  case (Cons e es)
  then obtain s1 where "step e s = Done s1" "good s1" using progress [of s e] by auto
  with Cons show ?case by simp
qed simp

end

text \<open>\<open>rep a\<close> is the state that stands for the abstract state \<open>a\<close>.\<close>

locale simulation =
  fixes step :: "'e \<Rightarrow> 's \<Rightarrow> 's run" and spec :: "'e \<Rightarrow> 'a \<Rightarrow> 'a" and rep :: "'a \<Rightarrow> 's"
    and ok :: "'a \<Rightarrow> bool" and enabled :: "'e \<Rightarrow> bool"
  assumes simulates: "ok a \<Longrightarrow> enabled e \<Longrightarrow> step e (rep a) = Done (rep (spec e a))"
    and spec_ok: "ok a \<Longrightarrow> enabled e \<Longrightarrow> ok (spec e a)"
begin

lemma simulates_run: "ok a \<Longrightarrow> list_all enabled es \<Longrightarrow> run_all step es (rep a) = Done (rep (fold spec es a))"
  by (induction es arbitrary: a) (simp_all add: simulates spec_ok)

lemma spec_run_ok: "ok a \<Longrightarrow> list_all enabled es \<Longrightarrow> ok (fold spec es a)"
  by (induction es arbitrary: a) (simp_all add: spec_ok)

end

sublocale simulation \<subseteq> never_stuck step "\<lambda>s. \<exists>a. ok a \<and> s = rep a" enabled
  by unfold_locales (auto dest: simulates spec_ok)

end
