(* ===== verification/Driver_Runs.thy ===== *)
theory Driver_Runs
  imports Lifecycle File_Ops Event_Runs
begin

text \<open>
  The driver under a sequence of events: the PCI core attaches and removes devices, the board drivers set up
  interrupts, processes open and close files, each through the functions of \<open>Lifecycle\<close> and \<open>File_Ops\<close>. The
  invariant \<open>drv_inv\<close> ties the tables together: devices and boards, boards and open files. It is kept by every run
  (the interpretation \<open>drv\<close> of the contract \<open>kept\<close>), and a file whose board has gone is left with the null device, which
  refuses every access.
\<close>

section \<open>Events\<close>

text \<open>
  The core of the kernel probes a device only while no driver has it and clears its driver data when the probe fails or
  the device is removed; a file is opened once. A probe that never returns is \<open>Blocked\<close>.
\<close>

datatype drv_event =
    E_Probe bool pci_info string int
  | E_Remove pci_info string
  | E_Irq nat nat int
  | E_Open nat nat
  | E_Release nat

definition clear_drvdata :: "pci_info \<Rightarrow> driver \<Rightarrow> driver" where
  "clear_drvdata pd s = s\<lparr>drvdata := (drvdata s)(pd_id pd := None)\<rparr>"

fun drv_step :: "'w kern \<Rightarrow> drv_event \<Rightarrow> driver \<times> 'w \<Rightarrow> (driver \<times> 'w) run" where
  "drv_step k (E_Probe mem_ok pd nm par) (s, w) =
     (if drvdata s (pd_id pd) \<noteq> None then Done (s, w)
      else case pciedev_probe_exp mem_ok k pd nm par s w of
             None \<Rightarrow> Blocked
           | Some r \<Rightarrow> run_bind r (\<lambda>(e, b, s, w). Done (if e \<noteq> 0 then clear_drvdata pd s else s, w)))"
| "drv_step k (E_Remove pd nm) (s, w) =
     run_bind (pciedev_remove_exp pd nm s) (\<lambda>(e, b, s). Done (clear_drvdata pd s, w))"
| "drv_step k (E_Irq b num err) (s, w) =
     run_bind (get_board s b) (\<lambda>d. run_bind (put_board b (snd (pciedev_setup_interrupt err num d)) s) (\<lambda>s. Done (s, w)))"
| "drv_step k (E_Open b filp) (s, w) =
     (if file_board s filp \<noteq> None then Done (s, w)
      else
        run_bind (get_board s b) (\<lambda>d.
        run_bind (pciedev_open_exp True (int b) b filp d \<lparr>f_pos = 0, private_data = 0\<rparr>) (\<lambda>(e, d, f).
        run_bind (put_board b d (s\<lparr>file_board := (file_board s)(filp \<mapsto> private_data f)\<rparr>)) (\<lambda>s. Done (s, w)))))"
| "drv_step k (E_Release filp) (s, w) =
     (case file_board s filp of
        None \<Rightarrow> Done (s, w)
      | Some b \<Rightarrow>
          run_bind (get_board s b) (\<lambda>d.
          run_bind (pciedev_release_exp filp d) (\<lambda>(e, d).
          run_bind (put_board b d (s\<lparr>file_board := (file_board s)(filp := None)\<rparr>)) (\<lambda>s. Done (s, w)))))"

section \<open>The invariant\<close>

definition attached_ok :: "driver \<Rightarrow> bool" where
  "attached_ok s \<longleftrightarrow> finite (dom (drvdata s)) \<and> pciedevModuleNum (cdev s) = int (card (dom (drvdata s))) \<and>
     (\<forall>p b. drvdata s p = Some b \<longrightarrow> b < PCIEDEV_NR_DEVS \<and> binded (board s b) = 1 \<and> dev_sts (board s b) = 1 \<and> pciedev_pci_dev (board s b) = Some p \<and>
        nat (slot_num (board s b)) < length (dev_phys_addresses (base_dev s)))"

definition files_of :: "driver \<Rightarrow> nat \<Rightarrow> nat set" where
  "files_of s b = {f. file_board s f = Some b}"

definition files_ok :: "driver \<Rightarrow> bool" where
  "files_ok s \<longleftrightarrow> finite (dom (file_board s)) \<and>
     (\<forall>b \<le> PCIEDEV_NR_DEVS. distinct (map fl_filp (dev_file_list (board s b))) \<and> fl_filp ` set (dev_file_list (board s b)) \<subseteq> files_of s b) \<and>
     (\<forall>b < PCIEDEV_NR_DEVS. fl_filp ` set (dev_file_list (board s b)) = files_of s b) \<and>
     (\<forall>f b. file_board s f = Some b \<longrightarrow> b \<le> PCIEDEV_NR_DEVS) \<and>
     dev_file_ref (board s PCIEDEV_NR_DEVS) = int (card (files_of s PCIEDEV_NR_DEVS))"

definition locks_free :: "driver \<Rightarrow> bool" where
  "locks_free s \<longleftrightarrow> (\<forall>b \<le> PCIEDEV_NR_DEVS. \<not> dev_mut (board s b))"

definition drv_inv :: "driver \<Rightarrow> bool" where
  "drv_inv s \<longleftrightarrow> boards_ok (pciedev_dev_m (cdev s)) \<and> attached_ok s \<and> files_ok s \<and> locks_free s"

text \<open>Two devices never share a board.\<close>

lemma attached_inj: "attached_ok s \<Longrightarrow> drvdata s p = Some b \<Longrightarrow> drvdata s q = Some b \<Longrightarrow> p = q"
  unfolding attached_ok_def by (metis option.inject)

lemma files_of_finite: "files_ok s \<Longrightarrow> finite (files_of s b)"
  unfolding files_ok_def files_of_def by (auto elim: finite_subset [rotated] simp: dom_def)

section \<open>Every event keeps it\<close>

lemma files_ok_same:
  assumes "files_ok s" "file_board s' = file_board s"
    "\<And>b. b \<le> PCIEDEV_NR_DEVS \<Longrightarrow> dev_file_list (board s' b) = dev_file_list (board s b)"
    "dev_file_ref (board s' PCIEDEV_NR_DEVS) = dev_file_ref (board s PCIEDEV_NR_DEVS)"
  shows "files_ok s'"
  using assms by (simp add: files_ok_def files_of_def)

lemma probe_keeps:
  assumes "drv_inv s" "drvdata s (pd_id pd) = None" "pciedev_probe_exp mem_ok k pd nm par s w = Some (Done (e, b, s', w'))"
  shows "drv_inv (if e \<noteq> 0 then clear_drvdata pd s' else s')"
proof -
  have ok: "boards_ok (pciedev_dev_m (cdev s))" "attached_ok s" "files_ok s" "locks_free s" using assms(1) by (simp_all add: drv_inv_def)
  note len = boards_okD(1) [OF ok(1)]
  have nodata: "(drvdata s)(pd_id pd := None) = drvdata s" using assms(2) by (simp add: fun_upd_idem)
  from assms(3) len show ?thesis
  proof (cases rule: probe_cases)
    case full
    then show ?thesis using assms(1) nodata by (simp add: clear_drvdata_def)
  next
    case (enable_error m)
    have free: "drvdata s p \<noteq> Some m" for p using ok(2) enable_error(2) by (auto simp: attached_ok_def)
    have "boards_ok ((pciedev_dev_m (cdev s))[m := (board s m)\<lparr>binded := 1\<rparr>])"
      using enable_error(1) boards_okD(2,4) [OF ok(1), of m] by (intro boards_ok_update [OF ok(1)]) (simp_all add: wf_dev_def)
    moreover have "attached_ok (clear_drvdata pd s')"
      using ok(2) free enable_error(1,4) len nodata by (auto simp: attached_ok_def clear_drvdata_def nth_list_update)
    moreover have "files_ok (clear_drvdata pd s')"
      using enable_error(1,4) len by (intro files_ok_same [OF ok(3)]) (simp_all add: clear_drvdata_def nth_list_update)
    moreover have "locks_free s'" using enable_error(1,4) ok(4) len by (auto simp: locks_free_def nth_list_update)
    ultimately show ?thesis using enable_error(3,4) by (simp add: drv_inv_def locks_free_def clear_drvdata_def)
  next
    case (request_error m)
    have free: "drvdata s p \<noteq> Some m" for p using ok(2) request_error(2) by (auto simp: attached_ok_def)
    have "boards_ok ((pciedev_dev_m (cdev s))[m := (board s m)\<lparr>binded := 0\<rparr>])"
      using request_error(1) boards_okD(2,4) [OF ok(1), of m] by (intro boards_ok_update [OF ok(1)]) (simp_all add: wf_dev_def)
    moreover have "attached_ok (clear_drvdata pd s')"
      using ok(2) free request_error(1,4) len nodata by (auto simp: attached_ok_def clear_drvdata_def nth_list_update)
    moreover have "files_ok (clear_drvdata pd s')"
      using request_error(1,4) len by (intro files_ok_same [OF ok(3)]) (simp_all add: clear_drvdata_def nth_list_update)
    moreover have "locks_free s'" using request_error(1,4) ok(4) len by (auto simp: locks_free_def nth_list_update)
    ultimately show ?thesis using request_error(3,4) by (simp add: drv_inv_def locks_free_def clear_drvdata_def)
  next
    case (attached m slot d)
    note facts = attached_facts [OF boards_okD(2) [OF ok(1)] attached(6)]
    have free: "drvdata s p \<noteq> Some m" for p using ok(2) attached(2) by (auto simp: attached_ok_def)
    have "attached_ok (attach pd nm slot m d s)"
      using ok(2) free attached(1,5) len facts assms(2)
      by (auto simp: attached_ok_def attach_def nth_list_update card_insert_if domIff)
    moreover have "files_ok (attach pd nm slot m d s)"
      using attached(1) len facts by (intro files_ok_same [OF ok(3)]) (simp_all add: attach_def nth_list_update)
    moreover have "locks_free (attach pd nm slot m d s)"
      using attached(1) len facts ok(4) by (auto simp: locks_free_def attach_def nth_list_update)
    ultimately show ?thesis
      using boards_ok_attach [OF ok(1) attached(1,6)] attached(3,7) by (simp add: drv_inv_def)
  qed
qed

lemma remove_cases:
  assumes "pciedev_remove_exp pd nm s = Done (e, n, s')" "boards_ok (pciedev_dev_m (cdev s))" "attached_ok s"
  obtains (gone) "drvdata s (pd_id pd) = None" "s' = s"
  | (detached) b where "drvdata s (pd_id pd) = Some b" "b < PCIEDEV_NR_DEVS" "s' = detach nm b s"
proof (cases "drvdata s (pd_id pd)")
  case None
  then show thesis using assms(1) by (intro gone) (simp_all add: pciedev_remove_exp_def)
next
  case (Some b)
  let ?d = "board s b"
  have b: "b < PCIEDEV_NR_DEVS" using assms(3) Some by (simp add: attached_ok_def)
  have "nat (slot_num ?d) < length (dev_phys_addresses (base_dev s))"
  proof (rule ccontr)
    assume "\<not> nat (slot_num ?d) < length (dev_phys_addresses (base_dev s))"
    then show False using assms(1) Some b boards_okD(1) [OF assms(2)] by (simp add: pciedev_remove_exp_def Let_def)
  qed
  moreover from this have "\<not> dev_mut ?d"
    using assms(1) Some b boards_okD(1) [OF assms(2)] by (cases "dev_mut ?d") (simp_all add: pciedev_remove_exp_def Let_def)
  ultimately show thesis
    using remove_detaches [OF Some b boards_okD(1) [OF assms(2)], of nm] assms(1) by (intro detached [OF Some b]) simp
qed

lemma detach_board:
  assumes "length (pciedev_dev_m (cdev s)) = PCIEDEV_NR_DEVS + 1" "b < PCIEDEV_NR_DEVS"
  shows "board (detach nm b s) j = (if j = b then detached_board (board s b)
     else if j = PCIEDEV_NR_DEVS then (board s j)\<lparr>dev_file_ref := dev_file_ref (board s j) + int (length (dev_file_list (board s b)))\<rparr>
     else board s j)"
  using assms by (simp add: detach_def Let_def nth_list_update)

lemma boards_ok_detach:
  assumes "boards_ok (pciedev_dev_m (cdev s))" "b < PCIEDEV_NR_DEVS"
  shows "boards_ok (pciedev_dev_m (cdev (detach nm b s)))"
proof -
  note det = detached_board_sel [OF boards_okD(2) [OF assms(1), of b]]
  have "boards_ok ((pciedev_dev_m (cdev s))[b := detached_board (board s b)])"
    using assms(2) det boards_okD(4) [OF assms(1), of b] by (intro boards_ok_update [OF assms(1)]) simp_all
  from boards_ok_update [OF this, of PCIEDEV_NR_DEVS
      "(board s PCIEDEV_NR_DEVS)\<lparr>dev_file_ref := dev_file_ref (board s PCIEDEV_NR_DEVS) + int (length (dev_file_list (board s b)))\<rparr>"]
  show ?thesis using assms boards_okD [OF assms(1)] by (simp add: detach_def Let_def wf_dev_def)
qed

lemma files_of_detach:
  assumes "files_ok s" "b < PCIEDEV_NR_DEVS"
  shows "files_of (detach nm b s) j = (if j = b then {} else if j = PCIEDEV_NR_DEVS then files_of s j \<union> files_of s b else files_of s j)"
proof -
  have "fl_filp ` set (dev_file_list (board s b)) = files_of s b" using assms by (simp add: files_ok_def)
  then show ?thesis using assms(2) by (auto simp: files_of_def detach_def Let_def)
qed

lemma files_ok_detach:
  assumes "files_ok s" "b < PCIEDEV_NR_DEVS" "boards_ok (pciedev_dev_m (cdev s))"
  shows "files_ok (detach nm b s)"
proof -
  let ?fs = "dev_file_list (board s b)"
  have fs: "fl_filp ` set ?fs = files_of s b" "distinct (map fl_filp ?fs)" using assms(1,2) by (simp_all add: files_ok_def)
  then have "card (files_of s b) = length ?fs" by (metis distinct_card length_map set_map)
  moreover have "files_of s PCIEDEV_NR_DEVS \<inter> files_of s b = {}" using assms(2) by (auto simp: files_of_def)
  ultimately have card: "card (files_of s PCIEDEV_NR_DEVS \<union> files_of s b) = card (files_of s PCIEDEV_NR_DEVS) + length ?fs"
    using files_of_finite [OF assms(1)] by (simp add: card_Un_disjoint)
  have "dom (file_board (detach nm b s)) = dom (file_board s)"
    using fs(1) by (auto simp: detach_def Let_def files_of_def dom_def)
  moreover have "\<forall>f c. file_board (detach nm b s) f = Some c \<longrightarrow> c \<le> PCIEDEV_NR_DEVS"
    using assms(1) by (auto simp: detach_def Let_def files_ok_def split: if_splits)
  ultimately show ?thesis
    using assms(1,2) card detached_board_sel(6) [OF boards_okD(2) [OF assms(3), of b]] unfolding files_ok_def
    by (auto simp: detach_board [OF boards_okD(1) [OF assms(3)] assms(2)] files_of_detach [OF assms(1,2)] image_subset_iff)
qed

lemma remove_keeps:
  assumes "drv_inv s" "pciedev_remove_exp pd nm s = Done (e, n, s')"
  shows "drv_inv (clear_drvdata pd s')"
proof -
  have ok: "boards_ok (pciedev_dev_m (cdev s))" "attached_ok s" "files_ok s" "locks_free s" using assms(1) by (simp_all add: drv_inv_def)
  from assms(2) ok(1,2) show ?thesis
  proof (cases rule: remove_cases)
    case gone
    then show ?thesis using assms(1) by (simp add: clear_drvdata_def fun_upd_idem)
  next
    case (detached b)
    note db = detach_board [OF boards_okD(1) [OF ok(1)] detached(2), of nm]
    have "attached_ok (clear_drvdata pd (detach nm b s))"
    proof -
      have "card (dom (drvdata s) - {pd_id pd}) = card (dom (drvdata s)) - 1" "0 < card (dom (drvdata s))"
        using ok(2) detached(1) by (auto simp: attached_ok_def card_gt_0_iff domI card_Diff_singleton)
      then have "int (card (dom (drvdata s) - {pd_id pd})) = int (card (dom (drvdata s))) - 1" by simp
      moreover have "c \<noteq> b" if "drvdata s p = Some c" "p \<noteq> pd_id pd" for p c
        using attached_inj [OF ok(2) _ detached(1)] that by blast
      ultimately show ?thesis
        using ok(2) by (auto simp: attached_ok_def clear_drvdata_def db) (auto simp: detach_def Let_def)
    qed
    moreover have "files_ok (clear_drvdata pd (detach nm b s))"
      by (rule files_ok_same [OF files_ok_detach [OF ok(3) detached(2) ok(1), of nm]]) (simp_all add: clear_drvdata_def)
    moreover have "locks_free (detach nm b s)"
      using ok(4) detached_board_sel(5) [OF boards_okD(2) [OF ok(1), of b]] detached(2) by (auto simp: locks_free_def db)
    ultimately show ?thesis using boards_ok_detach [OF ok(1) detached(2)] detached(3) by (simp add: drv_inv_def locks_free_def clear_drvdata_def)
  qed
qed

text \<open>An operation on one board that keeps what the tables know of it.\<close>

lemma update_keeps:
  assumes "drv_inv s" "b \<le> PCIEDEV_NR_DEVS" "wf_dev d" "brd_num d = brd_num (board s b)" "dev_minor d = int b" "null_dev d = null_dev (board s b)"
    "binded d = binded (board s b)" "dev_sts d = dev_sts (board s b)" "pciedev_pci_dev d = pciedev_pci_dev (board s b)"
    "slot_num d = slot_num (board s b)" "\<not> dev_mut d"
    "files_ok (s\<lparr>cdev := (cdev s)\<lparr>pciedev_dev_m := (pciedev_dev_m (cdev s))[b := d]\<rparr>, file_board := fb\<rparr>)"
  shows "drv_inv (s\<lparr>cdev := (cdev s)\<lparr>pciedev_dev_m := (pciedev_dev_m (cdev s))[b := d]\<rparr>, file_board := fb\<rparr>)"
proof -
  have ok: "boards_ok (pciedev_dev_m (cdev s))" "attached_ok s" "locks_free s" using assms(1) by (simp_all add: drv_inv_def)
  have "boards_ok ((pciedev_dev_m (cdev s))[b := d])"
    using assms(2-8) boards_okD(5,6) [OF ok(1)] by (intro boards_ok_update [OF ok(1)]) simp_all
  moreover have "attached_ok (s\<lparr>cdev := (cdev s)\<lparr>pciedev_dev_m := (pciedev_dev_m (cdev s))[b := d]\<rparr>, file_board := fb\<rparr>)"
    using ok(2) assms(2,7-10) boards_okD(1) [OF ok(1)] by (auto simp: attached_ok_def nth_list_update)
  moreover have "locks_free (s\<lparr>cdev := (cdev s)\<lparr>pciedev_dev_m := (pciedev_dev_m (cdev s))[b := d]\<rparr>, file_board := fb\<rparr>)"
    using ok(3) assms(2,11) boards_okD(1) [OF ok(1)] by (auto simp: locks_free_def nth_list_update)
  ultimately show ?thesis using assms(12) by (simp add: drv_inv_def)
qed

lemma irq_keeps:
  assumes "drv_inv s" "b \<le> PCIEDEV_NR_DEVS"
  shows "drv_inv (s\<lparr>cdev := (cdev s)\<lparr>pciedev_dev_m := (pciedev_dev_m (cdev s))[b := snd (pciedev_setup_interrupt err num (board s b))]\<rparr>\<rparr>)"
proof -
  have ok: "boards_ok (pciedev_dev_m (cdev s))" "files_ok s" "locks_free s" using assms(1) by (simp_all add: drv_inv_def)
  let ?d = "snd (pciedev_setup_interrupt err num (board s b))"
  have "files_ok (s\<lparr>cdev := (cdev s)\<lparr>pciedev_dev_m := (pciedev_dev_m (cdev s))[b := ?d]\<rparr>, file_board := file_board s\<rparr>)"
    using assms(2) boards_okD(1) [OF ok(1)]
    by (intro files_ok_same [OF ok(2)]) (simp_all add: nth_list_update pciedev_setup_interrupt_def Let_def)
  from update_keeps [OF assms _ _ _ _ _ _ _ _ _ this] ok(3) assms(2) boards_okD(2-4) [OF ok(1) assms(2)] show ?thesis
    by (simp add: pciedev_setup_interrupt_def Let_def wf_dev_def locks_free_def)
qed

lemma files_ok_update:
  assumes "files_ok s" "length (pciedev_dev_m (cdev s)) = PCIEDEV_NR_DEVS + 1" "b \<le> PCIEDEV_NR_DEVS"
    "\<And>f j. j \<noteq> b \<Longrightarrow> fb f = Some j \<longleftrightarrow> file_board s f = Some j" "finite (dom fb)" "distinct (map fl_filp (dev_file_list d))"
    "fl_filp ` set (dev_file_list d) \<subseteq> {f. fb f = Some b}"
    "b < PCIEDEV_NR_DEVS \<Longrightarrow> {f. fb f = Some b} \<subseteq> fl_filp ` set (dev_file_list d)"
    "b = PCIEDEV_NR_DEVS \<Longrightarrow> dev_file_ref d = int (card {f. fb f = Some b})"
  shows "files_ok (s\<lparr>cdev := (cdev s)\<lparr>pciedev_dev_m := (pciedev_dev_m (cdev s))[b := d]\<rparr>, file_board := fb\<rparr>)"
proof -
  let ?s = "s\<lparr>cdev := (cdev s)\<lparr>pciedev_dev_m := (pciedev_dev_m (cdev s))[b := d]\<rparr>, file_board := fb\<rparr>"
  have files: "files_of ?s j = (if j = b then {f. fb f = Some b} else files_of s j)" for j
    using assms(4) by (auto simp: files_of_def)
  have brd: "board ?s j = (if j = b then d else board s j)" for j using assms(2,3) by (simp add: nth_list_update)
  have range: "c \<le> PCIEDEV_NR_DEVS" if "fb f = Some c" for f c
    using that assms(1,3,4) by (cases "c = b") (auto simp: files_ok_def)
  show ?thesis
    unfolding files_ok_def files brd
  proof (intro conjI allI impI)
    fix j assume "j \<le> PCIEDEV_NR_DEVS"
    then show "distinct (map fl_filp (dev_file_list (if j = b then d else board s j)))"
      "fl_filp ` set (dev_file_list (if j = b then d else board s j)) \<subseteq> (if j = b then {f. fb f = Some b} else files_of s j)"
      using assms(1,6,7) by (simp_all add: files_ok_def)
  next
    fix j assume "j < PCIEDEV_NR_DEVS"
    then show "fl_filp ` set (dev_file_list (if j = b then d else board s j)) = (if j = b then {f. fb f = Some b} else files_of s j)"
      using assms(1,7,8) by (auto simp: files_ok_def)
  next
    show "dev_file_ref (if PCIEDEV_NR_DEVS = b then d else board s PCIEDEV_NR_DEVS) =
        int (card (if PCIEDEV_NR_DEVS = b then {f. fb f = Some b} else files_of s PCIEDEV_NR_DEVS))"
      using assms(1,9) by (auto simp: files_ok_def)
  qed (use assms(5) range in simp_all)
qed

lemma open_keeps:
  assumes "drv_inv s" "b \<le> PCIEDEV_NR_DEVS" "file_board s f = None"
    "pciedev_open_exp True (int b) b f (board s b) uf = Done (e, d, uf')"
  shows "drv_inv (s\<lparr>cdev := (cdev s)\<lparr>pciedev_dev_m := (pciedev_dev_m (cdev s))[b := d]\<rparr>, file_board := (file_board s)(f \<mapsto> private_data uf')\<rparr>)"
proof -
  have ok: "boards_ok (pciedev_dev_m (cdev s))" "files_ok s" "locks_free s" using assms(1) by (simp_all add: drv_inv_def)
  have d: "private_data uf' = b" "fl_filp ` set (dev_file_list d) = insert f (fl_filp ` set (dev_file_list (board s b)))"
    "map fl_filp (dev_file_list d) = f # map fl_filp (dev_file_list (board s b))" "dev_file_ref d = dev_file_ref (board s b) + 1"
    "\<not> dev_mut d" "brd_num d = brd_num (board s b)" "dev_minor d = int b" "null_dev d = null_dev (board s b)" "binded d = binded (board s b)"
    "dev_sts d = dev_sts (board s b)" "pciedev_pci_dev d = pciedev_pci_dev (board s b)" "slot_num d = slot_num (board s b)" "wf_dev d"
    using assms(2,4) ok(3) boards_okD(2) [OF ok(1) assms(2)]
    by (auto simp: pciedev_open_exp_def locks_free_def Let_def wf_dev_def)
  let ?fb = "(file_board s)(f \<mapsto> b)"
  have files: "{g. ?fb g = Some b} = insert f (files_of s b)" "f \<notin> files_of s b" using assms(3) by (auto simp: files_of_def)
  have old: "fl_filp ` set (dev_file_list (board s b)) \<subseteq> files_of s b" "b < PCIEDEV_NR_DEVS \<Longrightarrow> fl_filp ` set (dev_file_list (board s b)) = files_of s b"
    "distinct (map fl_filp (dev_file_list (board s b)))" "b = PCIEDEV_NR_DEVS \<Longrightarrow> dev_file_ref (board s b) = int (card (files_of s b))"
    using ok(2) assms(2) by (simp_all add: files_ok_def)
  have "files_ok (s\<lparr>cdev := (cdev s)\<lparr>pciedev_dev_m := (pciedev_dev_m (cdev s))[b := d]\<rparr>, file_board := ?fb\<rparr>)"
  proof (rule files_ok_update [OF ok(2) boards_okD(1) [OF ok(1)] assms(2)])
    show "j \<noteq> b \<Longrightarrow> ?fb g = Some j \<longleftrightarrow> file_board s g = Some j" for g j using assms(3) by auto
    show "finite (dom ?fb)" using ok(2) by (simp add: files_ok_def)
    show "distinct (map fl_filp (dev_file_list d))" using old(1,3) files(2) d(3) by auto
    show "fl_filp ` set (dev_file_list d) \<subseteq> {g. ?fb g = Some b}" unfolding files d(2) using old(1) by blast
    show "b < PCIEDEV_NR_DEVS \<Longrightarrow> {g. ?fb g = Some b} \<subseteq> fl_filp ` set (dev_file_list d)" unfolding files d(2) using old(2) by blast
    show "b = PCIEDEV_NR_DEVS \<Longrightarrow> dev_file_ref d = int (card {g. ?fb g = Some b})"
      unfolding files d(4) using old(4) files(2) files_of_finite [OF ok(2)] by simp
  qed
  from update_keeps [OF assms(1,2) d(13,6-12,5) this] show ?thesis by (simp add: d(1))
qed

lemma release_keeps:
  assumes "drv_inv s" "file_board s f = Some b" "pciedev_release_exp f (board s b) = Done (e, d)"
  shows "drv_inv (s\<lparr>cdev := (cdev s)\<lparr>pciedev_dev_m := (pciedev_dev_m (cdev s))[b := d]\<rparr>, file_board := (file_board s)(f := None)\<rparr>)"
proof -
  have ok: "boards_ok (pciedev_dev_m (cdev s))" "files_ok s" "locks_free s" using assms(1) by (simp_all add: drv_inv_def)
  have b: "b \<le> PCIEDEV_NR_DEVS" using ok(2) assms(2) by (auto simp: files_ok_def)
  have d: "dev_file_list d = filter (\<lambda>n. fl_filp n \<noteq> f) (dev_file_list (board s b))" "dev_file_ref d = dev_file_ref (board s b) - 1"
    "\<not> dev_mut d" "brd_num d = brd_num (board s b)" "dev_minor d = int b" "null_dev d = null_dev (board s b)" "binded d = binded (board s b)"
    "dev_sts d = dev_sts (board s b)" "pciedev_pci_dev d = pciedev_pci_dev (board s b)" "slot_num d = slot_num (board s b)" "wf_dev d"
    using assms(3) b ok(3) boards_okD(2,4) [OF ok(1) b]
    by (auto simp: pciedev_release_exp_def locks_free_def Let_def wf_dev_def)
  let ?fb = "(file_board s)(f := None)"
  have files: "{g. ?fb g = Some b} = files_of s b - {f}" "f \<in> files_of s b" using assms(2) by (auto simp: files_of_def)
  have list: "fl_filp ` set (dev_file_list d) = fl_filp ` set (dev_file_list (board s b)) - {f}" by (auto simp: d(1))
  have old: "fl_filp ` set (dev_file_list (board s b)) \<subseteq> files_of s b" "b < PCIEDEV_NR_DEVS \<Longrightarrow> fl_filp ` set (dev_file_list (board s b)) = files_of s b"
    "distinct (map fl_filp (dev_file_list (board s b)))" "b = PCIEDEV_NR_DEVS \<Longrightarrow> dev_file_ref (board s b) = int (card (files_of s b))"
    using ok(2) b by (simp_all add: files_ok_def)
  have "files_ok (s\<lparr>cdev := (cdev s)\<lparr>pciedev_dev_m := (pciedev_dev_m (cdev s))[b := d]\<rparr>, file_board := ?fb\<rparr>)"
  proof (rule files_ok_update [OF ok(2) boards_okD(1) [OF ok(1)] b])
    show "j \<noteq> b \<Longrightarrow> ?fb g = Some j \<longleftrightarrow> file_board s g = Some j" for g j using assms(2) by auto
    show "finite (dom ?fb)" using ok(2) by (simp add: files_ok_def)
    show "distinct (map fl_filp (dev_file_list d))" using old(3) by (simp add: d(1) distinct_map_filter)
    show "fl_filp ` set (dev_file_list d) \<subseteq> {g. ?fb g = Some b}" unfolding files list using old(1) by blast
    show "b < PCIEDEV_NR_DEVS \<Longrightarrow> {g. ?fb g = Some b} \<subseteq> fl_filp ` set (dev_file_list d)" unfolding files list using old(2) by blast
    have "0 < card (files_of s b)" using files(2) files_of_finite [OF ok(2), of b] by (auto simp: card_gt_0_iff)
    then show "b = PCIEDEV_NR_DEVS \<Longrightarrow> dev_file_ref d = int (card {g. ?fb g = Some b})"
      unfolding files d(2) using old(4) files(2) by (simp add: card_Diff_singleton)
  qed
  from update_keeps [OF assms(1) b d(11,4-10,3) this] show ?thesis .
qed

interpretation drv: kept "drv_step k" "\<lambda>(s, w). drv_inv s" for k :: "'w kern"
proof
  fix e :: drv_event and sw sw' :: "driver \<times> 'w"
  obtain s w where sw: "sw = (s, w)" by fastforce
  assume "case sw of (s, w) \<Rightarrow> drv_inv s" and step: "drv_step k e sw = Done sw'"
  then have inv: "drv_inv s" by (simp add: sw)
  then have ok: "boards_ok (pciedev_dev_m (cdev s))" "files_ok s" by (simp_all add: drv_inv_def)
  have in_table: "b \<le> PCIEDEV_NR_DEVS \<and> b < length (pciedev_dev_m (cdev s)) \<and> d = board s b" if "get_board s b = Done d" for b d
    using that boards_okD(1) [OF ok(1)] by (auto simp: get_board_def arr_get_def split: if_splits)
  have "drv_inv (fst sw')"
  proof (cases e)
    case (E_Probe mem_ok pd nm par)
    then show ?thesis using step sw inv by (auto simp: run_bind_Done_iff split: if_splits option.splits dest: probe_keeps)
  next
    case (E_Remove pd nm)
    then show ?thesis using step sw inv by (auto simp: run_bind_Done_iff dest: remove_keeps)
  next
    case (E_Irq b num err)
    then show ?thesis using step sw irq_keeps [OF inv, of b err num] by (auto simp: run_bind_Done_iff dest!: in_table)
  next
    case (E_Open b f)
    show ?thesis
    proof (cases "file_board s f")
      case None
      then obtain e' d uf where "get_board s b = Done (board s b)" "pciedev_open_exp True (int b) b f (board s b) \<lparr>f_pos = 0, private_data = 0\<rparr> = Done (e', d, uf)"
          "b \<le> PCIEDEV_NR_DEVS" "b < length (pciedev_dev_m (cdev s))"
          "fst sw' = s\<lparr>cdev := (cdev s)\<lparr>pciedev_dev_m := (pciedev_dev_m (cdev s))[b := d]\<rparr>, file_board := (file_board s)(f \<mapsto> private_data uf)\<rparr>"
        using step sw E_Open
        by (auto simp: run_bind_Done_iff dest!: in_table)
      with open_keeps [OF inv _ None] show ?thesis by simp
    qed (use step sw inv E_Open in auto)
  next
    case (E_Release f)
    show ?thesis
    proof (cases "file_board s f")
      case (Some b)
      then have b: "b \<le> PCIEDEV_NR_DEVS" using ok(2) by (auto simp: files_ok_def)
      obtain e' d where "pciedev_release_exp f (board s b) = Done (e', d)"
          "fst sw' = s\<lparr>cdev := (cdev s)\<lparr>pciedev_dev_m := (pciedev_dev_m (cdev s))[b := d]\<rparr>, file_board := (file_board s)(f := None)\<rparr>"
        using step sw E_Release Some b boards_okD(1) [OF ok(1)] by (auto simp: run_bind_Done_iff)
      with release_keeps [OF inv Some] show ?thesis by simp
    qed (use step sw inv E_Release in auto)
  qed
  then show "case sw' of (s, w) \<Rightarrow> drv_inv s" by (simp add: case_prod_unfold)
qed


section \<open>Runs of the driver\<close>

lemma start_driver_inv: "drv_inv (start_driver major n)"
proof -
  have "\<forall>b \<le> PCIEDEV_NR_DEVS. board (start_driver major n) b = init_board major b" using start_driver_board by blast
  then have "attached_ok (start_driver major n)" "files_ok (start_driver major n)" "locks_free (start_driver major n)"
    by (simp_all add: attached_ok_def files_ok_def files_of_def locks_free_def init_board_sel del: upt_Suc start_driver_sel(1))
  then show ?thesis using start_driver_ok(1) by (simp add: drv_inv_def)
qed

text \<open>
  C2. Whatever the order of probes, removals, interrupt set-ups, opens and closes, the driver's tables stay consistent:
  attached devices have different boards, each bound, active and pointing back to its device, and are counted by
  \<^verbatim>\<open>pciedevModuleNum\<close>; each board's list holds exactly the files open on it, without repetition; the null device counts the
  files left without a board; no lock stays taken.
\<close>

theorem driver_tables_consistent:
  assumes "run_all (drv_step k) es (start_driver major n, w) = Done (s, w')"
  shows "boards_ok (pciedev_dev_m (cdev s)) \<and> inj_on (drvdata s) (dom (drvdata s)) \<and>
    (\<forall>p b. drvdata s p = Some b \<longrightarrow> b < PCIEDEV_NR_DEVS \<and> binded (board s b) = 1 \<and> dev_sts (board s b) = 1 \<and> pciedev_pci_dev (board s b) = Some p) \<and>
    pciedevModuleNum (cdev s) = int (card (dom (drvdata s))) \<and>
    (\<forall>b < PCIEDEV_NR_DEVS. distinct (map fl_filp (dev_file_list (board s b))) \<and>
       fl_filp ` set (dev_file_list (board s b)) = {f. file_board s f = Some b}) \<and>
    dev_file_ref (board s PCIEDEV_NR_DEVS) = int (card {f. file_board s f = Some PCIEDEV_NR_DEVS}) \<and>
    (\<forall>b \<le> PCIEDEV_NR_DEVS. \<not> dev_mut (board s b))"
proof -
  have inv: "boards_ok (pciedev_dev_m (cdev s))" "attached_ok s" "files_ok s" "locks_free s"
    using drv.kept_run [of "(start_driver major n, w)" k es "(s, w')"] start_driver_inv assms by (simp_all add: drv_inv_def)
  have "inj_on (drvdata s) (dom (drvdata s))" using attached_inj [OF inv(2)] by (auto intro!: inj_onI)
  with inv show ?thesis by (auto simp: attached_ok_def files_ok_def files_of_def locks_free_def)
qed

text \<open>
  C12. Removing an attached device always succeeds, also with files open on its board. Each of these files is then on the
  null device: a read returns \<^verbatim>\<open>-ENODEV\<close>, a write and a seek \<^verbatim>\<open>-EFAULT\<close>, without an access to any device, and closing the file
  succeeds.
\<close>

theorem removed_board_orphans_files:
  assumes "run_all (drv_step k) es (start_driver major n, w) = Done (s, w1)" "drvdata s (pd_id pd) = Some b" "file_board s f = Some b"
  shows "\<exists>s'. drv_step k (E_Remove pd nm) (s, w1) = Done (s', w1) \<and> drvdata s' (pd_id pd) = None \<and> binded (board s' b) = 0 \<and>
    file_board s' f = Some PCIEDEV_NR_DEVS \<and>
    (let nd = board s' PCIEDEV_NR_DEVS in
       pciedev_read_exp k pos pos_addr buf count nd w2 = Done (- ENODEV, nd, w2) \<and>
       pciedev_write_exp k pos pos_addr buf count nd w2 = Done (- EFAULT, nd, w2) \<and>
       fst (pciedev_llseek nd uf) = - EFAULT) \<and>
    (\<exists>s''. drv_step k (E_Release f) (s', w1) = Done (s'', w1) \<and> file_board s'' f = None)"
proof -
  have inv: "boards_ok (pciedev_dev_m (cdev s))" "attached_ok s" "files_ok s" "locks_free s"
    using drv.kept_run [of "(start_driver major n, w)" k es "(s, w1)"] start_driver_inv assms(1) by (simp_all add: drv_inv_def)
  have b: "b < PCIEDEV_NR_DEVS" "nat (slot_num (board s b)) < length (dev_phys_addresses (base_dev s))"
    using inv(2) assms(2) by (auto simp: attached_ok_def)
  have free: "\<not> dev_mut (board s b)" using inv(4) b(1) by (simp add: locks_free_def)
  note rm = remove_detaches [OF assms(2) b(1) boards_okD(1) [OF inv(1)] free b(2), of nm]
  define s' where "s' = clear_drvdata pd (detach nm b s)"
  have step: "drv_step k (E_Remove pd nm) (s, w1) = Done (s', w1)" by (simp add: rm s'_def)
  note db = detach_board [OF boards_okD(1) [OF inv(1)] b(1), of nm]
  have brd: "board s' j = board (detach nm b s) j" "length (pciedev_dev_m (cdev s')) = PCIEDEV_NR_DEVS + 1" for j
    using boards_okD(1) [OF boards_ok_detach [OF inv(1) b(1), of nm]] by (simp_all add: s'_def clear_drvdata_def)
  have f: "file_board s' f = Some PCIEDEV_NR_DEVS"
    using files_of_detach [OF inv(3) b(1), of nm PCIEDEV_NR_DEVS] assms(3) b(1) by (auto simp: files_of_def s'_def clear_drvdata_def)
  have nd: "dev_sts (board s' PCIEDEV_NR_DEVS) = 0" "\<not> dev_mut (board s' PCIEDEV_NR_DEVS)"
    using brd(1) db b(1) boards_okD(6) [OF inv(1)] inv(4) by (simp_all add: locks_free_def)
  have rel: "\<exists>s''. drv_step k (E_Release f) (s', w1) = Done (s'', w1) \<and> file_board s'' f = None"
    using f brd(2) nd(2) by (simp add: pciedev_release_exp_def)
  have "drvdata s' (pd_id pd) = None" by (simp add: s'_def clear_drvdata_def)
  moreover have "binded (board s' b) = 0" using brd(1) db detached_board_sel(3) [OF boards_okD(2) [OF inv(1), of b]] b(1) by simp
  ultimately show ?thesis
    using step f rel nd by (intro exI [of _ s']) (simp add: pciedev_read_exp_def pciedev_write_exp_def pciedev_llseek_def Let_def)
qed

text \<open>The sample device, probed, and a file opened on its board.\<close>

abbreviation sample_events :: "drv_event list" where
  "sample_events \<equiv> [E_Probe True sample_pd ''pcie'' 0, E_Open 0 5]"

lemma sample_run:
  "\<exists>s. run_all (drv_step (reg_kern (prj_regs 0))) sample_events (start_driver 240 16, sample_ram) = Done (s, sample_ram) \<and>
    drvdata s = [7 \<mapsto> 0] \<and> file_board s = [5 \<mapsto> 0]"
proof -
  let ?k = "reg_kern (prj_regs 0)" and ?s = "start_driver 240 16"
  obtain d where d: "discover True ?k (setup_board sample_pd 4 ((board ?s 0)\<lparr>binded := 1\<rparr>)) sample_ram = Some (Done (d, sample_ram))"
    "pciedev_probe_exp True ?k sample_pd ''pcie'' 0 ?s sample_ram = Some (Done (0, int 0, attach sample_pd ''pcie'' 4 0 d ?s, sample_ram))"
    using probe_good [OF reg_kern_stable _ start_driver_ok sample_pd_good, of sample_ram] by blast
  have "\<not> dev_mut d"
    using attached_facts(6) [OF boards_okD(2) [OF start_driver_ok(1)] d(1)] start_driver_board [of 0 240 16]
    by (simp add: init_board_sel del: start_driver_sel(1))
  moreover have "length (pciedev_dev_m (cdev (attach sample_pd ''pcie'' 4 0 d ?s))) = PCIEDEV_NR_DEVS + 1"
    "board (attach sample_pd ''pcie'' 4 0 d ?s) 0 = attached_board sample_pd ''pcie'' 4 d"
    "drvdata (attach sample_pd ''pcie'' 4 0 d ?s) = [7 \<mapsto> 0]" "file_board (attach sample_pd ''pcie'' 4 0 d ?s) = Map.empty"
    using boards_okD(1) [OF start_driver_ok(1), of 240 16] by (simp_all add: attach_def del: start_driver_sel(1)) (simp_all add: sample_pd_def)
  ultimately show ?thesis using d(2) by (simp add: pciedev_open_exp_def Let_def)
qed

theorem driver_tables_consistent_witness:
  "\<exists>s. run_all (drv_step (reg_kern (prj_regs 0))) sample_events (start_driver 240 16, sample_ram) = Done (s, sample_ram) \<and>
    pciedevModuleNum (cdev s) = 1 \<and> binded (board s 0) = 1"
proof -
  obtain s where "run_all (drv_step (reg_kern (prj_regs 0))) sample_events (start_driver 240 16, sample_ram) = Done (s, sample_ram)" "drvdata s = [7 \<mapsto> 0]"
    using sample_run by blast
  then show ?thesis using driver_tables_consistent [of "reg_kern (prj_regs 0)" sample_events 240 16 sample_ram s sample_ram] by auto
qed

theorem removed_board_orphans_files_witness:
  "\<exists>s s'. run_all (drv_step (reg_kern (prj_regs 0))) sample_events (start_driver 240 16, sample_ram) = Done (s, sample_ram) \<and>
    drv_step (reg_kern (prj_regs 0)) (E_Remove sample_pd ''pcie'') (s, sample_ram) = Done (s', sample_ram) \<and> file_board s' 5 = Some PCIEDEV_NR_DEVS"
proof -
  obtain s where s: "run_all (drv_step (reg_kern (prj_regs 0))) sample_events (start_driver 240 16, sample_ram) = Done (s, sample_ram)"
    "drvdata s (pd_id sample_pd) = Some 0" "file_board s 5 = Some 0"
    using sample_run by (auto simp: sample_pd_def)
  from removed_board_orphans_files [OF this, of "''pcie''"] s(1) show ?thesis by blast
qed

end
