(* ===== verification/Search_Text.thy ===== *)
theory Search_Text
  imports Main "HOL-Library.Sublist"
begin

text \<open>
  The text functions of the documentation's search page, \<^verbatim>\<open>Doc/html/search/search.js\<close>: \<^verbatim>\<open>convertToId\<close>, and
  the parts of the JavaScript library the page uses (\<^verbatim>\<open>toString(16)\<close>, \<^verbatim>\<open>toLowerCase\<close>, \<^verbatim>\<open>escape\<close>, \<^verbatim>\<open>unescape\<close>
  and the blank-stripping \<^verbatim>\<open>replace\<close> calls). A JavaScript string is the list of its code units.
  \<^verbatim>\<open>toLowerCase\<close> is given for code units below 256 and leaves the others alone.

  Shown: for code units below 256 \<open>convertToId\<close> is a prefix code, so prefixes of ids are exactly ids of
  prefixes; above, two different terms can have one id. A search term survives the way through the URL.
\<close>

section \<open>Strings\<close>

type_synonym jstr = "nat list"

definition js :: "string \<Rightarrow> jstr" where
  "js s = map of_char s"

definition hex_digit :: "nat \<Rightarrow> nat" where
  "hex_digit n = (if n < 10 then 48 + n else 87 + n)"

fun to_hex :: "nat \<Rightarrow> jstr" where
  "to_hex n = (if n < 16 then [hex_digit n] else to_hex (n div 16) @ [hex_digit (n mod 16)])"

declare to_hex.simps [simp del]

fun to_dec :: "nat \<Rightarrow> jstr" where
  "to_dec n = (if n < 10 then [48 + n] else to_dec (n div 10) @ [48 + n mod 10])"

declare to_dec.simps [simp del]

definition toLowerCase :: "jstr \<Rightarrow> jstr" where
  "toLowerCase s = map (\<lambda>c. if 65 \<le> c \<and> c \<le> 90 \<or> 192 \<le> c \<and> c \<le> 222 \<and> c \<noteq> 215 then c + 32 else c) s"

definition strip_leading :: "jstr \<Rightarrow> jstr" where
  "strip_leading s = dropWhile (\<lambda>c. c = 32) s"

definition strip_trailing :: "jstr \<Rightarrow> jstr" where
  "strip_trailing s = rev (dropWhile (\<lambda>c. c = 32) (rev s))"

definition strip_blanks :: "jstr \<Rightarrow> jstr" where
  "strip_blanks s = filter (\<lambda>c. c \<noteq> 32) s"

section \<open>Ids\<close>

text \<open>The loop of \<^verbatim>\<open>convertToId\<close> with its accumulator \<^verbatim>\<open>result\<close>; one round appends the code of a character.\<close>

definition id_of_char :: "nat \<Rightarrow> jstr" where
  "id_of_char c =
     (if 97 \<le> c \<and> c \<le> 122 \<or> 48 \<le> c \<and> c \<le> 57 then [c]
      else if c < 16 then js ''_0'' @ to_hex c
      else js ''_'' @ to_hex c)"

fun convert_loop :: "jstr \<Rightarrow> jstr \<Rightarrow> jstr" where
  "convert_loop [] result = result"
| "convert_loop (c # cs) result = convert_loop cs (result @ id_of_char c)"

definition convertToId :: "jstr \<Rightarrow> jstr" where
  "convertToId search = convert_loop search []"

section \<open>The way through the URL\<close>

definition HEX_digit :: "nat \<Rightarrow> nat" where
  "HEX_digit n = (if n < 10 then 48 + n else 55 + n)"

definition escape_char :: "nat \<Rightarrow> jstr" where
  "escape_char c =
     (if 48 \<le> c \<and> c \<le> 57 \<or> 65 \<le> c \<and> c \<le> 90 \<or> 97 \<le> c \<and> c \<le> 122 \<or> c \<in> set (js ''@*_+-./'') then [c]
      else if c < 256 then [37, HEX_digit (c div 16), HEX_digit (c mod 16)]
      else [37, 117, HEX_digit (c div 4096), HEX_digit (c div 256 mod 16), HEX_digit (c div 16 mod 16),
        HEX_digit (c mod 16)])"

definition escape :: "jstr \<Rightarrow> jstr" where
  "escape s = concat (map escape_char s)"

definition hex_value :: "nat \<Rightarrow> nat option" where
  "hex_value c =
     (if 48 \<le> c \<and> c \<le> 57 then Some (c - 48) else if 65 \<le> c \<and> c \<le> 70 then Some (c - 55)
      else if 97 \<le> c \<and> c \<le> 102 then Some (c - 87) else None)"

definition hex_number :: "jstr \<Rightarrow> nat option" where
  "hex_number cs = foldl (\<lambda>acc c. case (acc, hex_value c) of (Some n, Some v) \<Rightarrow> Some (16 * n + v) | _ \<Rightarrow> None)
     (Some 0) cs"

function unescape :: "jstr \<Rightarrow> jstr" where
  "unescape [] = []"
| "unescape (c # cs) =
     (if c \<noteq> 37 then c # unescape cs
      else
        case (if 5 \<le> length cs \<and> hd cs = 117 then hex_number (take 4 (tl cs)) else None) of
          Some n \<Rightarrow> n # unescape (drop 5 cs)
        | None \<Rightarrow>
            (case (if 2 \<le> length cs then hex_number (take 2 cs) else None) of
               Some n \<Rightarrow> n # unescape (drop 2 cs)
             | None \<Rightarrow> c # unescape cs))"
  by pat_completeness auto
termination by (relation "measure length") auto

section \<open>Ids are a prefix code\<close>

lemma convert_loop_append: "convert_loop s r = r @ concat (map id_of_char s)"
  by (induction s arbitrary: r) simp_all

lemma convertToId_concat: "convertToId s = concat (map id_of_char s)"
  by (simp add: convertToId_def convert_loop_append)

lemma to_hex_two: "16 \<le> c \<Longrightarrow> c < 256 \<Longrightarrow> to_hex c = [hex_digit (c div 16), hex_digit (c mod 16)]"
  by (subst to_hex.simps) (simp add: to_hex.simps [of "c div 16"])

lemma hex_digit_inject: "m < 16 \<Longrightarrow> n < 16 \<Longrightarrow> hex_digit m = hex_digit n \<longleftrightarrow> m = n"
  by (auto simp: hex_digit_def split: if_splits)

text \<open>The code of a character below 256: itself, or an underscore and two hexadecimal digits.\<close>

lemma id_of_char_cases:
  assumes "c < 256"
  shows "id_of_char c = [c] \<and> c \<noteq> 95 \<or> id_of_char c = [95, hex_digit (c div 16), hex_digit (c mod 16)]"
  using assms to_hex_two [of c]
  by (auto simp: id_of_char_def js_def to_hex.simps [of c] hex_digit_def [of 0])

lemma id_of_char_prefix:
  assumes "c < 256" "d < 256" "prefix (id_of_char c @ xs) (id_of_char d @ ys)"
  shows "c = d"
proof -
  have *: "c = d" if "c div 16 = d div 16" "c mod 16 = d mod 16"
    by (metis that div_mult_mod_eq)
  have "hex_digit (c div 16) = hex_digit (d div 16) \<Longrightarrow> c div 16 = d div 16"
    "hex_digit (c mod 16) = hex_digit (d mod 16) \<Longrightarrow> c mod 16 = d mod 16"
    using assms(1,2) by (simp_all add: hex_digit_inject)
  with * assms(3) id_of_char_cases [OF assms(1)] id_of_char_cases [OF assms(2)] show ?thesis
    by auto
qed

lemma convertToId_prefix_code:
  assumes "\<forall>c \<in> set s. c < 256" "\<forall>c \<in> set t. c < 256"
  shows "prefix (convertToId s) (convertToId t) \<longleftrightarrow> prefix s t"
  using assms unfolding convertToId_concat
proof (induction s arbitrary: t)
  case (Cons c s)
  show ?case
  proof (cases t)
    case Nil
    then show ?thesis using id_of_char_cases [of c] Cons.prems by auto
  next
    case (Cons d t')
    have "\<not> prefix (id_of_char c @ xs) (id_of_char d @ ys)" if "c \<noteq> d" for xs ys
      using that id_of_char_prefix [of c d] Cons.prems Cons by auto
    with Cons.prems Cons.IH [of t'] Cons show ?thesis by (cases "c = d") auto
  qed
qed simp

text \<open>
  C38. For code units below 256 the id of a term is a prefix of the id of a name exactly when the term is
  a prefix of the name; in particular ids are unique.
\<close>

theorem convertToId_prefix:
  assumes "\<forall>c \<in> set s. c < 256" "\<forall>c \<in> set t. c < 256"
  shows "(prefix (convertToId s) (convertToId t) \<longleftrightarrow> prefix s t) \<and> (convertToId s = convertToId t \<longleftrightarrow> s = t)"
  using convertToId_prefix_code [OF assms] convertToId_prefix_code [OF assms(2) assms(1)]
  by (auto intro: prefix_order.antisym)

text \<open>
  Beyond, ids are not unique: the character \<open>0x123\<close> and the two characters \<open>0x12\<close> and \<open>3\<close> have the
  same id.
\<close>

theorem convertToId_collision: "convertToId [0x123] = convertToId [0x12, 0x33]"
  by (simp add: convertToId_concat id_of_char_def js_def to_hex.simps hex_digit_def)

section \<open>A term survives the URL\<close>

lemma hex_value_HEX_digit: "n < 16 \<Longrightarrow> hex_value (HEX_digit n) = Some n"
  by (auto simp: hex_value_def HEX_digit_def)

lemma HEX_digit_neq: "n < 16 \<Longrightarrow> HEX_digit n \<noteq> 117"
  by (auto simp: HEX_digit_def)

lemma unescape_escape_char:
  assumes "c < 65536"
  shows "unescape (escape_char c @ xs) = c # unescape xs"
proof -
  have "c \<noteq> 37 \<or> \<not> (48 \<le> c \<and> c \<le> 57 \<or> 65 \<le> c \<and> c \<le> 90 \<or> 97 \<le> c \<and> c \<le> 122 \<or> c \<in> set (js ''@*_+-./''))"
    by (auto simp: js_def)
  moreover have "hex_number [HEX_digit (c div 16), HEX_digit (c mod 16)] = Some c" if "c < 256"
    using that by (simp add: hex_number_def hex_value_HEX_digit)
  moreover have "hex_number [HEX_digit (c div 4096), HEX_digit (c div 256 mod 16), HEX_digit (c div 16 mod 16),
      HEX_digit (c mod 16)] = Some c"
  proof -
    have "c div 4096 < 16" using assms by simp
    moreover have "c div 256 = c div 16 div 16" "c div 4096 = c div 16 div 16 div 16"
      by (simp_all flip: div_mult2_eq)
    then have "16 * (16 * (16 * (c div 4096) + c div 256 mod 16) + c div 16 mod 16) + c mod 16 = c"
      by (simp only: mult_div_mod_eq)
    ultimately show ?thesis by (simp add: hex_number_def hex_value_HEX_digit)
  qed
  moreover have "HEX_digit (c div 16) \<noteq> 117" if "c < 256" using that by (intro HEX_digit_neq) simp
  ultimately show ?thesis
    by (auto simp: escape_char_def)
qed

text \<open>
  The term \<^verbatim>\<open>SearchBox.Search\<close> puts into the URL is the term \<^verbatim>\<open>SearchResults.Search\<close> takes out of it.
\<close>

theorem unescape_escape:
  assumes "\<forall>c \<in> set s. c < 65536"
  shows "unescape (escape s) = s"
  using assms by (induction s) (simp_all add: escape_def unescape_escape_char)

section \<open>Concrete runs\<close>

theorem convertToId_prefix_witness:
  "prefix (convertToId (js ''file_'')) (convertToId (js ''file_cnt''))"
proof -
  have "prefix (js ''file_'') (js ''file_cnt'')" by (simp add: js_def)
  then show ?thesis
    using convertToId_prefix [of "js ''file_''" "js ''file_cnt''"] by (simp add: js_def)
qed

theorem unescape_escape_witness: "unescape (escape (js ''brd info'')) = js ''brd info''"
  by (rule unescape_escape) (simp add: js_def)

end
