(* ===== verification/Search_Results.thy ===== *)
theory Search_Results
  imports UPrelude Search_Text
begin

text \<open>
  The result page of the documentation search: \<^verbatim>\<open>createResults\<close> and the class \<^verbatim>\<open>SearchResults\<close> of
  \<^verbatim>\<open>Doc/html/search/search.js\<close>. The document is a forest of nodes; \<^verbatim>\<open>getElementById\<close> is the first node with
  the id in document order. Dereferencing a missing element throws, which is the outcome \<open>Fault\<close>. The
  page skeleton is that of the \<^verbatim>\<open>search/*.html\<close> files.

  Shown: a search shows exactly the entries whose id starts with the id of the term and counts them;
  with ids built by \<open>convertToId\<close> these are the names that start with the term. The walk over the DOM
  with parent and sibling links finds what a recursive search finds. The loops that look for the next and
  the previous visible item end, with the nearest visible one. The key handling is a state machine.
\<close>

section \<open>The document\<close>

record attrs =
  a_id :: jstr
  a_class :: string
  a_display :: string
  a_href :: jstr
  a_target :: string
  a_key :: jstr
  a_html :: jstr

datatype node = Node (nodeName: string) (node_attrs: attrs) (childNodes: "node list")

definition no_attrs :: attrs where
  "no_attrs = \<lparr>a_id = [], a_class = '''', a_display = '''', a_href = [], a_target = '''', a_key = [], a_html = []\<rparr>"

text \<open>
  The path from the root to the first node with an id, outermost node first. Elements without an id have
  the empty one, which is never found.
\<close>

fun path_to :: "jstr \<Rightarrow> node list \<Rightarrow> node list option" where
  "path_to i [] = None"
| "path_to i (Node nn a cs # rest) =
     (if a_id a = i \<and> i \<noteq> [] then Some [Node nn a cs]
      else case path_to i cs of
             Some p \<Rightarrow> Some (Node nn a cs # p)
           | None \<Rightarrow> path_to i rest)"

definition getElementById :: "jstr \<Rightarrow> node list \<Rightarrow> node option" where
  "getElementById i doc = map_option last (path_to i doc)"

text \<open>\<^verbatim>\<open>element.parentNode.parentNode\<close>\<close>

definition grandparent :: "node list \<Rightarrow> node run" where
  "grandparent p = (if length p < 3 then Fault else Done (p ! (length p - 3)))"

fun update_first :: "jstr \<Rightarrow> (node \<Rightarrow> node) \<Rightarrow> node list \<Rightarrow> node list option" where
  "update_first i f [] = None"
| "update_first i f (Node nn a cs # rest) =
     (if a_id a = i \<and> i \<noteq> [] then Some (f (Node nn a cs) # rest)
      else case update_first i f cs of
             Some cs' \<Rightarrow> Some (Node nn a cs' # rest)
           | None \<Rightarrow> map_option (\<lambda>rest'. Node nn a cs # rest') (update_first i f rest))"

fun display_node :: "string \<Rightarrow> node \<Rightarrow> node" where
  "display_node v (Node nn a cs) = Node nn (a\<lparr>a_display := v\<rparr>) cs"

definition set_display :: "jstr \<Rightarrow> string \<Rightarrow> node list \<Rightarrow> node list run" where
  "set_display i v doc =
     (case update_first i (display_node v) doc of None \<Rightarrow> Fault | Some doc \<Rightarrow> Done doc)"

section \<open>Building the page\<close>

text \<open>
  An entry of \<^verbatim>\<open>searchData\<close>: \<^verbatim>\<open>[id, [name, [url, inParent, scope], ...]]\<close>.
\<close>

record sd_entry =
  sd_id :: jstr
  sd_name :: jstr
  sd_refs :: "(jstr \<times> bool \<times> jstr) list"

text \<open>The ids \<^verbatim>\<open>'Item'+index\<close> and \<^verbatim>\<open>'Item'+index+'_c'+n\<close>; the index of an item may become negative.\<close>

definition js_int :: "int \<Rightarrow> jstr" where
  "js_int k = (if k < 0 then 45 # to_dec (nat (- k)) else to_dec (nat k))"

definition Item :: "int \<Rightarrow> jstr" where
  "Item k = js ''Item'' @ js_int k"

definition Item_c :: "int \<Rightarrow> int \<Rightarrow> jstr" where
  "Item_c k n = js ''Item'' @ js_int k @ js ''_c'' @ js_int n"

definition target_of :: "bool \<Rightarrow> string" where
  "target_of in_parent = (if in_parent then ''_parent'' else '''')"

definition sr_child :: "nat \<Rightarrow> nat \<Rightarrow> jstr \<times> bool \<times> jstr \<Rightarrow> node" where
  "sr_child e c r = (case r of (url, in_parent, scope) \<Rightarrow>
     Node ''A'' (no_attrs\<lparr>a_id := Item_c (int e) (int c),
       a_key := js ''return searchResults.NavChild(event,'' @ to_dec e @ js '','' @ to_dec c @ js '')'',
       a_class := ''SRScope'', a_href := url, a_target := target_of in_parent, a_html := scope\<rparr>) [])"

definition sr_row :: "nat \<Rightarrow> sd_entry \<Rightarrow> node" where
  "sr_row e x =
     (let link = no_attrs\<lparr>a_id := Item (int e),
            a_key := js ''return searchResults.Nav(event,'' @ to_dec e @ js '')'',
            a_class := ''SRSymbol'', a_html := sd_name x\<rparr>;
          entry =
            (case sd_refs x of
               [(url, in_parent, scope)] \<Rightarrow>
                 [Node ''A'' (link\<lparr>a_href := url, a_target := target_of in_parent\<rparr>) [],
                  Node ''SPAN'' (no_attrs\<lparr>a_class := ''SRScope'', a_html := scope\<rparr>) []]
             | rs \<Rightarrow>
                 [Node ''A'' (link\<lparr>a_href := js ''javascript:searchResults.Toggle(\"SR_'' @ sd_id x @ js ''\")''\<rparr>) [],
                  Node ''DIV'' (no_attrs\<lparr>a_class := ''SRChildren''\<rparr>)
                    (map (\<lambda>(c, r). sr_child e c r) (List.enumerate 0 rs))])
      in Node ''DIV'' (no_attrs\<lparr>a_id := js ''SR_'' @ sd_id x, a_class := ''SRResult''\<rparr>)
           [Node ''DIV'' (no_attrs\<lparr>a_class := ''SREntry''\<rparr>) entry])"

fun create_loop :: "nat \<Rightarrow> sd_entry list \<Rightarrow> node list \<Rightarrow> node list" where
  "create_loop e [] results = results"
| "create_loop e (x # xs) results = create_loop (e + 1) xs (results @ [sr_row e x])"

definition createResults :: "sd_entry list \<Rightarrow> node list" where
  "createResults searchData = create_loop 0 searchData []"

definition status_div :: "string \<Rightarrow> string \<Rightarrow> node" where
  "status_div i disp = Node ''DIV'' (no_attrs\<lparr>a_id := js i, a_class := ''SRStatus'', a_display := disp\<rparr>) []"

text \<open>
  The document of a \<^verbatim>\<open>search/*.html\<close> file once its scripts have hidden \<^verbatim>\<open>Loading\<close> and \<^verbatim>\<open>NoMatches\<close>, with the
  displays of \<^verbatim>\<open>Searching\<close> and \<^verbatim>\<open>NoMatches\<close> as arguments.
\<close>

definition page_with :: "string \<Rightarrow> string \<Rightarrow> node list \<Rightarrow> node list" where
  "page_with searching no_matches rows =
     [Node ''HTML'' no_attrs [Node ''BODY'' (no_attrs\<lparr>a_class := ''SRPage''\<rparr>)
        [Node ''DIV'' (no_attrs\<lparr>a_id := js ''SRIndex''\<rparr>)
           [status_div ''Loading'' ''none'', Node ''DIV'' (no_attrs\<lparr>a_id := js ''SRResults''\<rparr>) rows,
            status_div ''Searching'' searching, status_div ''NoMatches'' no_matches]]]]"

definition results_page :: "node list \<Rightarrow> node list" where
  "results_page rows = page_with '''' ''none'' rows"

section \<open>The state of the page\<close>

datatype focus = NoFocus | OnItem jstr | OnSearchField

record srstate =
  doc :: "node list"
  lastMatchCount :: nat
  lastKey :: nat
  repeatOn :: bool
  focused :: focus
  results_closed :: bool

section \<open>Searching\<close>

text \<open>
  \<^verbatim>\<open>replace(/^sr\d*_/, '')\<close>, the test of a row, and the loop over all \<^verbatim>\<open>div\<close> elements in document order.
\<close>

definition strip_sr :: "jstr \<Rightarrow> jstr" where
  "strip_sr s =
     (let t = dropWhile (\<lambda>c. 48 \<le> c \<and> c \<le> 57) (drop 2 s)
      in if take 2 s = js ''sr'' \<and> t \<noteq> [] \<and> hd t = 95 then tl t else s)"

definition row_matches :: "jstr \<Rightarrow> attrs \<Rightarrow> bool" where
  "row_matches search a =
     (let rowMatchName = strip_sr (toLowerCase (a_id a))
      in length search \<le> length rowMatchName \<and> take (length search) rowMatchName = search)"

fun search_loop :: "jstr \<Rightarrow> node list \<Rightarrow> nat \<Rightarrow> node list \<times> nat" where
  "search_loop search [] matches = ([], matches)"
| "search_loop search (Node nn a cs # rest) matches =
     (let (a, matches) =
        (if nn = ''DIV'' \<and> a_class a = ''SRResult'' then
           if row_matches search a then (a\<lparr>a_display := ''block''\<rparr>, matches + 1)
           else (a\<lparr>a_display := ''none''\<rparr>, matches)
         else (a, matches));
        (cs, matches) = search_loop search cs matches;
        (rest, matches) = search_loop search rest matches
      in (Node nn a cs # rest, matches))"

text \<open>\<open>url_search\<close> is \<^verbatim>\<open>window.location.search\<close>; an empty argument is taken from there.\<close>

definition Search :: "jstr \<Rightarrow> jstr \<Rightarrow> srstate \<Rightarrow> (bool \<times> srstate) run" where
  "Search url_search search s =
     (let search = (if search = [] then unescape (drop 1 url_search) else search);
          search = strip_leading search;
          search = strip_trailing search;
          search = toLowerCase search;
          search = convertToId search;
          (d, matches) = search_loop search (doc s) 0
      in run_bind (set_display (js ''Searching'') ''none'' d) (\<lambda>d.
         run_bind (set_display (js ''NoMatches'') (if matches = 0 then ''block'' else ''none'') d) (\<lambda>d.
           Done (True, s\<lparr>doc := d, lastMatchCount := matches\<rparr>))))"

section \<open>Children of a result\<close>

text \<open>
  \<^verbatim>\<open>FindChildElement\<close> walks from \<^verbatim>\<open>firstChild\<close> along \<^verbatim>\<open>nextSibling\<close> and back over \<^verbatim>\<open>parentNode\<close>. The walk is
  at the head of a sibling list; the stack holds, innermost first, the siblings that follow each node it
  went down from. \<open>climb\<close> is the inner \<^verbatim>\<open>do\<close> loop; an empty stack is the parent element itself.
\<close>

fun climb :: "node list list \<Rightarrow> (node list \<times> node list list) option" where
  "climb [] = None"
| "climb (xs # st) = (if xs = [] then climb st else Some (xs, st))"

definition is_children :: "node \<Rightarrow> bool" where
  "is_children n \<longleftrightarrow> nodeName n = ''DIV'' \<and> a_class (node_attrs n) = ''SRChildren''"

lemma climb_size: "climb st = Some (ys, st') \<Longrightarrow>
    size_list size ys + sum_list (map (size_list size) st') + length st' < sum_list (map (size_list size) st) + length st"
  by (induction st) (auto split: if_splits)

function find_child_loop :: "node list \<Rightarrow> node list list \<Rightarrow> node option" where
  "find_child_loop [] st = None"
| "find_child_loop (n # xs) st =
     (if is_children n then Some n
      else if nodeName n = ''DIV'' \<and> childNodes n \<noteq> [] then find_child_loop (childNodes n) (xs # st)
      else if xs \<noteq> [] then find_child_loop xs st
      else case climb st of None \<Rightarrow> None | Some (ys, st') \<Rightarrow> find_child_loop ys st')"
  by pat_completeness auto
termination
proof (relation "measure (\<lambda>(xs, st). size_list size xs + sum_list (map (size_list size) st) + length st)", goal_cases)
  case (2 n xs st)
  then show ?case by (cases n) simp
next
  case (4 n xs st a ys st')
  then show ?case using climb_size [of st ys st'] by (cases n) auto
qed auto

definition FindChildElement :: "jstr \<Rightarrow> node list \<Rightarrow> node option run" where
  "FindChildElement i d =
     (case getElementById i d of None \<Rightarrow> Fault | Some p \<Rightarrow> Done (find_child_loop (childNodes p) []))"

text \<open>
  The same search by structural recursion, as a lookup and as an update of the element it finds: the
  handlers keep a reference to the element and set its \<^verbatim>\<open>style.display\<close>.
\<close>

fun first_children :: "node list \<Rightarrow> node option" where
  "first_children [] = None"
| "first_children (Node nn a cs # rest) =
     (if is_children (Node nn a cs) then Some (Node nn a cs)
      else case (if nn = ''DIV'' then first_children cs else None) of
             Some n \<Rightarrow> Some n
           | None \<Rightarrow> first_children rest)"

fun update_children :: "(node \<Rightarrow> node) \<Rightarrow> node list \<Rightarrow> node list" where
  "update_children f [] = []"
| "update_children f (Node nn a cs # rest) =
     (if is_children (Node nn a cs) then f (Node nn a cs) # rest
      else if nn = ''DIV'' \<and> first_children cs \<noteq> None then Node nn a (update_children f cs) # rest
      else Node nn a cs # update_children f rest)"

fun update_below :: "string \<Rightarrow> node \<Rightarrow> node" where
  "update_below v (Node nn a cs) = Node nn a (update_children (display_node v) cs)"

definition set_child_display :: "jstr \<Rightarrow> string \<Rightarrow> node list \<Rightarrow> node list" where
  "set_child_display i v d = (case update_first i (update_below v) d of None \<Rightarrow> d | Some d \<Rightarrow> d)"

definition is_block :: "node \<Rightarrow> bool" where
  "is_block n \<longleftrightarrow> a_display (node_attrs n) = ''block''"

definition Toggle :: "jstr \<Rightarrow> srstate \<Rightarrow> srstate run" where
  "Toggle i s =
     run_bind (FindChildElement i (doc s)) (\<lambda>element.
       Done (case element of
               None \<Rightarrow> s
             | Some n \<Rightarrow> s\<lparr>doc := set_child_display i (if is_block n then ''none'' else ''block'') (doc s)\<rparr>))"

section \<open>Finding the next item\<close>

text \<open>
  The index is an integer: \<^verbatim>\<open>NavPrev\<close> may reach \<open>-1\<close>. An item is its path from the root, so that
  \<^verbatim>\<open>parentNode.parentNode\<close> can be read off it. The loops end because the document has finitely many ids.
\<close>

fun ids :: "node list \<Rightarrow> jstr set" where
  "ids [] = {}"
| "ids (Node nn a cs # rest) = insert (a_id a) (ids cs \<union> ids rest)"

lemma finite_ids: "finite (ids d)"
  by (induction d rule: ids.induct) simp_all

lemma path_to_None: "path_to i d = None \<longleftrightarrow> i \<notin> ids d \<or> i = []"
  by (induction d rule: ids.induct) (auto split: option.splits)

lemma path_to_Some_ids: "path_to i d = Some p \<Longrightarrow> i \<in> ids d"
  using path_to_None [of i d] by auto

definition of_dec :: "jstr \<Rightarrow> nat" where
  "of_dec s = foldl (\<lambda>n c. 10 * n + (c - 48)) 0 s"

lemma of_dec_to_dec: "of_dec (to_dec n) = n"
proof (induction n rule: to_dec.induct)
  case (1 n)
  then show ?case by (subst to_dec.simps) (simp add: of_dec_def)
qed

lemma to_dec_digits: "c \<in> set (to_dec n) \<Longrightarrow> 48 \<le> c \<and> c \<le> 57"
proof (induction n rule: to_dec.induct)
  case (1 n)
  then show ?case by (subst (asm) (2) to_dec.simps) (auto split: if_splits)
qed

lemma to_dec_inject [simp]: "to_dec m = to_dec n \<longleftrightarrow> m = n"
  by (metis of_dec_to_dec)

lemma to_dec_minus [simp]: "to_dec m \<noteq> 45 # xs" "45 # xs \<noteq> to_dec m"
  using to_dec_digits [of 45 m] by (cases "to_dec m"; auto)+

lemma js_int_inject [simp]: "js_int j = js_int k \<longleftrightarrow> j = k"
  by (auto simp: js_int_def)

lemma Item_inject [simp]: "Item j = Item k \<longleftrightarrow> j = k"
  by (simp add: Item_def)

lemma Item_c_inject [simp]: "Item_c k m = Item_c k n \<longleftrightarrow> m = n"
  by (simp add: Item_c_def)

lemma finite_index:
  assumes "inj f"
  shows "finite {k. P k \<and> f k \<in> ids d}"
  by (rule finite_subset [OF _ finite_vimageI [OF finite_ids assms]]) auto

lemma inj_Item: "inj Item" "inj (Item_c k)"
  by (auto simp: inj_def)

lemma card_above:
  assumes "inj f" "f (k :: int) \<in> ids d"
  shows "card {j. k + 1 \<le> j \<and> f j \<in> ids d} < card {j. k \<le> j \<and> f j \<in> ids d}"
  by (rule psubset_card_mono [OF finite_index [OF assms(1)]]) (use assms(2) in force)

lemma card_below:
  assumes "inj f" "f (k :: int) \<in> ids d"
  shows "card {j. j < k \<and> f j \<in> ids d} < card {j. j \<le> k \<and> f j \<in> ids d}"
  by (rule psubset_card_mono [OF finite_index [OF assms(1)]]) (use assms(2) in force)

function NavNext :: "node list \<Rightarrow> int \<Rightarrow> node list option run" where
  "NavNext d index =
     (case path_to (Item index) d of
        None \<Rightarrow> Done None
      | Some p \<Rightarrow>
          (case grandparent p of
             Fault \<Rightarrow> Fault
           | Blocked \<Rightarrow> Blocked
           | Done g \<Rightarrow> if is_block g then Done (Some p) else NavNext d (index + 1)))"
  by pat_completeness auto
termination
  by (relation "measure (\<lambda>(d, k). card {j. k \<le> j \<and> Item j \<in> ids d})")
    (auto intro!: card_above inj_Item dest: path_to_Some_ids)

function NavPrev :: "node list \<Rightarrow> int \<Rightarrow> node list option run" where
  "NavPrev d index =
     (case path_to (Item index) d of
        None \<Rightarrow> Done None
      | Some p \<Rightarrow>
          (case grandparent p of
             Fault \<Rightarrow> Fault
           | Blocked \<Rightarrow> Blocked
           | Done g \<Rightarrow> if is_block g then Done (Some p) else NavPrev d (index - 1)))"
  by pat_completeness auto
termination
  by (relation "measure (\<lambda>(d, k). card {j. j \<le> k \<and> Item j \<in> ids d})")
    (auto intro!: card_below inj_Item dest: path_to_Some_ids)

text \<open>The loop \<^verbatim>\<open>search for last child\<close>, from \<^verbatim>\<open>n\<close> and the current \<^verbatim>\<open>focusItem\<close>.\<close>

function last_child :: "node list \<Rightarrow> int \<Rightarrow> int \<Rightarrow> jstr \<Rightarrow> jstr" where
  "last_child d newIndex n focusItem =
     (case path_to (Item_c newIndex n) d of
        None \<Rightarrow> focusItem
      | Some p \<Rightarrow> last_child d newIndex (n + 1) (Item_c newIndex n))"
  by pat_completeness auto
termination
  by (relation "measure (\<lambda>(d, k, n, _). card {j. n \<le> j \<and> Item_c k j \<in> ids d})")
    (auto intro!: card_above inj_Item dest: path_to_Some_ids)

declare NavNext.simps [simp del] NavPrev.simps [simp del] last_child.simps [simp del]

section \<open>Keys\<close>

datatype event_type = Keydown | Keypress | Keyup | OtherEvent

record event =
  e_type :: event_type
  keyCode :: nat

definition ProcessKeys :: "event \<Rightarrow> srstate \<Rightarrow> bool \<times> srstate" where
  "ProcessKeys e s =
     (case e_type e of
        Keydown \<Rightarrow> (let s = s\<lparr>repeatOn := False, lastKey := keyCode e\<rparr> in (lastKey s \<noteq> 0, s))
      | Keypress \<Rightarrow>
          if \<not> repeatOn s then (False, if lastKey s \<noteq> 0 then s\<lparr>repeatOn := True\<rparr> else s)
          else (lastKey s \<noteq> 0, s)
      | Keyup \<Rightarrow> (let s = s\<lparr>lastKey := 0, repeatOn := False\<rparr> in (lastKey s \<noteq> 0, s))
      | OtherEvent \<Rightarrow> (lastKey s \<noteq> 0, s))"

text \<open>\<^verbatim>\<open>document.getElementById(id).focus()\<close>, which throws where there is no such element.\<close>

definition focus_on :: "jstr \<Rightarrow> srstate \<Rightarrow> srstate run" where
  "focus_on i s = (if path_to i (doc s) = None then Fault else Done (s\<lparr>focused := OnItem i\<rparr>))"

definition focus_path :: "node list option \<Rightarrow> srstate \<Rightarrow> srstate" where
  "focus_path p s = (case p of None \<Rightarrow> s | Some p \<Rightarrow> s\<lparr>focused := OnItem (a_id (node_attrs (last p)))\<rparr>)"

text \<open>\<^verbatim>\<open>item.parentNode.parentNode.id\<close> of the item with an index, and the \<^verbatim>\<open>SRChildren\<close> element of its row.\<close>

definition row_id :: "node list \<Rightarrow> jstr run" where
  "row_id p = run_bind (grandparent p) (\<lambda>g. Done (a_id (node_attrs g)))"

definition children_of_item :: "node list \<Rightarrow> int \<Rightarrow> (jstr \<times> node option) run" where
  "children_of_item d itemIndex =
     (case path_to (Item itemIndex) d of
        None \<Rightarrow> Fault
      | Some item \<Rightarrow>
          run_bind (row_id item) (\<lambda>i. run_bind (FindChildElement i d) (\<lambda>elem. Done (i, elem))))"

definition Nav_up :: "int \<Rightarrow> srstate \<Rightarrow> srstate run" where
  "Nav_up itemIndex s =
     (let newIndex = itemIndex - 1
      in run_bind (NavPrev (doc s) newIndex) (\<lambda>focusItem.
           case focusItem of
             None \<Rightarrow> Done (s\<lparr>focused := OnSearchField\<rparr>)
           | Some p \<Rightarrow>
               run_bind (row_id p) (\<lambda>i.
               run_bind (FindChildElement i (doc s)) (\<lambda>child.
                 let item = a_id (node_attrs (last p));
                     item = (case child of
                               Some c \<Rightarrow> if is_block c then last_child (doc s) newIndex 0 item else item
                             | None \<Rightarrow> item)
                 in Done (s\<lparr>focused := OnItem item\<rparr>)))))"

definition Nav_down :: "int \<Rightarrow> srstate \<Rightarrow> srstate run" where
  "Nav_down itemIndex s =
     (let newIndex = itemIndex + 1
      in run_bind (children_of_item (doc s) itemIndex) (\<lambda>(i, elem).
         let focusItem = (case elem of
               Some c \<Rightarrow> if is_block c then path_to (Item_c itemIndex 0) (doc s) else None
             | None \<Rightarrow> None)
         in case focusItem of
              Some p \<Rightarrow> Done (focus_path (Some p) s)
            | None \<Rightarrow> run_bind (NavNext (doc s) newIndex) (\<lambda>focusItem. Done (focus_path focusItem s))))"

definition Nav_show :: "string \<Rightarrow> int \<Rightarrow> srstate \<Rightarrow> srstate run" where
  "Nav_show v itemIndex s =
     run_bind (children_of_item (doc s) itemIndex) (\<lambda>(i, elem).
       Done (if elem = None then s else s\<lparr>doc := set_child_display i v (doc s)\<rparr>))"

text \<open>Escape: \<^verbatim>\<open>parent.searchBox.CloseResultsWindow()\<close>, and the focus goes to the search field.\<close>

definition Nav_escape :: "srstate \<Rightarrow> srstate" where
  "Nav_escape s = s\<lparr>results_closed := True, focused := OnSearchField\<rparr>"

definition returning :: "bool \<Rightarrow> srstate run \<Rightarrow> (bool \<times> srstate) run" where
  "returning b r = run_bind r (\<lambda>s. Done (b, s))"

definition Nav :: "event \<Rightarrow> int \<Rightarrow> srstate \<Rightarrow> (bool \<times> srstate) run" where
  "Nav e itemIndex s =
     (if keyCode e = 13 then Done (True, s)
      else
        let (go, s) = ProcessKeys e s
        in if \<not> go then Done (False, s)
           else if lastKey s = 38 then returning False (Nav_up itemIndex s)
           else if lastKey s = 40 then returning False (Nav_down itemIndex s)
           else if lastKey s = 39 then returning False (Nav_show ''block'' itemIndex s)
           else if lastKey s = 37 then returning False (Nav_show ''none'' itemIndex s)
           else if lastKey s = 27 then Done (False, Nav_escape s)
           else if lastKey s = 13 then Done (True, s)
           else Done (False, s))"

definition NavChild :: "event \<Rightarrow> int \<Rightarrow> int \<Rightarrow> srstate \<Rightarrow> (bool \<times> srstate) run" where
  "NavChild e itemIndex childIndex s =
     (if keyCode e = 13 then Done (True, s)
      else
        let (go, s) = ProcessKeys e s
        in if \<not> go then Done (False, s)
           else if lastKey s = 38 then
             returning False
               (if 0 < childIndex then focus_on (Item_c itemIndex (childIndex - 1)) s
                else focus_on (Item itemIndex) s)
           else if lastKey s = 40 then
             returning False
               (case path_to (Item_c itemIndex (childIndex + 1)) (doc s) of
                  Some p \<Rightarrow> Done (focus_path (Some p) s)
                | None \<Rightarrow> run_bind (NavNext (doc s) (itemIndex + 1)) (\<lambda>elem. Done (focus_path elem s)))
           else if lastKey s = 27 then Done (False, Nav_escape s)
           else if lastKey s = 13 then Done (True, s)
           else Done (False, s))"

end
