(* ===== verification/Search_View.thy ===== *)
theory Search_View
  imports Search_Results
begin

text \<open>
  What the handlers of the result page do, over the abstract state of the page: the search data it was
  built from and, per row, the \<^verbatim>\<open>style.display\<close> of the row and of its children. \<open>page data sd nd vs\<close> is the
  document in that state; \<open>createResults\<close> builds such a page and every handler keeps it one.
\<close>

section \<open>Paths and ids of forests\<close>

lemma ids_append [simp]: "ids (xs @ ys) = ids xs \<union> ids ys"
  by (induction xs rule: ids.induct) auto

lemma ids_nth: "i \<in> ids xs \<longleftrightarrow> (\<exists>j < length xs. i \<in> ids [xs ! j])"
proof (induction xs)
  case (Cons x xs)
  have "i \<in> ids (x # xs) \<longleftrightarrow> i \<in> ids [x] \<or> i \<in> ids xs"
    by (cases x) auto
  with Cons show ?case by (simp only: Ex_less_Suc2 length_Cons nth_Cons_0 nth_Cons_Suc)
qed simp

lemma path_to_append:
  "path_to i (xs @ ys) = (case path_to i xs of Some p \<Rightarrow> Some p | None \<Rightarrow> path_to i ys)"
  by (induction xs rule: ids.induct) (auto split: option.splits)

lemma update_first_append:
  "update_first i f (xs @ ys) =
     (case update_first i f xs of Some xs' \<Rightarrow> Some (xs' @ ys) | None \<Rightarrow> map_option (\<lambda>ys'. xs @ ys') (update_first i f ys))"
  by (induction xs rule: ids.induct; cases "update_first i f ys") (auto split: option.splits)

lemma update_first_None: "update_first i f d = None \<longleftrightarrow> i \<notin> ids d \<or> i = []"
  by (induction d rule: ids.induct) (auto split: option.splits)

text \<open>The first of the trees of a forest that holds an id decides.\<close>

lemma path_to_nth:
  assumes "e < length xs" "\<forall>j < e. i \<notin> ids [xs ! j]" "path_to i [xs ! e] = Some p"
  shows "path_to i xs = Some p"
proof -
  have "i \<notin> ids (take e xs)" using assms(1,2) by (subst ids_nth) auto
  moreover have "path_to i (drop e xs) = Some p"
    using assms(1,3) path_to_append [of i "[xs ! e]" "drop (Suc e) xs"] by (simp add: Cons_nth_drop_Suc [symmetric] del: path_to.simps)
  ultimately show ?thesis
    using path_to_append [of i "take e xs" "drop e xs"] path_to_None [of i "take e xs"] by simp
qed

lemma update_first_nth:
  assumes "e < length xs" "\<forall>j < e. i \<notin> ids [xs ! j]" "update_first i f [xs ! e] = Some [y]"
  shows "update_first i f xs = Some (xs[e := y])"
proof -
  have "i \<notin> ids (take e xs)" using assms(1,2) by (subst ids_nth) auto
  moreover have "update_first i f (drop e xs) = Some (y # drop (Suc e) xs)"
    using assms(1,3) update_first_append [of i f "[xs ! e]" "drop (Suc e) xs"]
    by (simp add: Cons_nth_drop_Suc [symmetric] del: update_first.simps)
  ultimately show ?thesis
    using update_first_append [of i f "take e xs" "drop e xs"] update_first_None [of i f "take e xs"] assms(1)
    by (simp add: upd_conv_take_nth_drop)
qed

section \<open>Item names\<close>

lemma js_int_chars: "c \<in> set (js_int k) \<Longrightarrow> c = 45 \<or> 48 \<le> c \<and> c \<le> 57"
  using to_dec_digits by (auto simp: js_int_def split: if_splits)

lemma js_int_underscore [simp]: "95 \<notin> set (js_int k)"
  using js_int_chars [of 95 k] by auto

lemma takeWhile_underscore: "95 \<notin> set xs \<Longrightarrow> takeWhile (\<lambda>c. c \<noteq> 95) (xs @ (95 :: nat) # ys) = xs"
  by (induction xs) auto

lemma js_int_split [simp]: "js_int j @ 95 # xs = js_int k @ 95 # ys \<longleftrightarrow> j = k \<and> xs = ys"
proof
  assume *: "js_int j @ 95 # xs = js_int k @ 95 # ys"
  from arg_cong [OF this, of "takeWhile (\<lambda>c. c \<noteq> 95)"] have "js_int j = js_int k"
    by (simp only: takeWhile_underscore js_int_underscore not_False_eq_True)
  with * show "j = k \<and> xs = ys" by simp
qed simp

lemma Item_c_inject2 [simp]: "Item_c j m = Item_c k n \<longleftrightarrow> j = k \<and> m = n"
  by (auto simp: Item_c_def js_def)

lemma Item_neq [simp]: "Item k \<noteq> Item_c j n" "Item_c j n \<noteq> Item k" "Item k \<noteq> []" "Item_c j n \<noteq> []"
  "[] \<noteq> Item k" "[] \<noteq> Item_c j n"
proof -
  have "95 \<notin> set (Item k)" by (simp add: Item_def js_def)
  moreover have "95 \<in> set (Item_c j n)" by (simp add: Item_c_def js_def)
  ultimately show "Item k \<noteq> Item_c j n" "Item_c j n \<noteq> Item k" "Item k \<noteq> []" "Item_c j n \<noteq> []"
    "[] \<noteq> Item k" "[] \<noteq> Item_c j n"
    by (metis, metis, simp_all add: Item_def Item_c_def js_def)
qed

definition SR_id :: "sd_entry \<Rightarrow> jstr" where
  "SR_id x = js ''SR_'' @ sd_id x"

lemma SR_id_neq [simp]:
  "SR_id x \<noteq> Item k" "Item k \<noteq> SR_id x" "SR_id x \<noteq> Item_c k n" "Item_c k n \<noteq> SR_id x" "SR_id x \<noteq> []" "[] \<noteq> SR_id x"
  by (simp_all add: SR_id_def Item_def Item_c_def js_def)

lemma SR_id_inject [simp]: "SR_id x = SR_id y \<longleftrightarrow> sd_id x = sd_id y"
  by (simp add: SR_id_def)

definition fixed_ids :: "jstr set" where
  "fixed_ids = js ` {''SRIndex'', ''SRResults'', ''Loading'', ''Searching'', ''NoMatches''}"

lemma fixed_ids_fresh [simp]: "SR_id x \<notin> fixed_ids" "Item k \<notin> fixed_ids" "Item_c k n \<notin> fixed_ids"
  by (simp_all add: fixed_ids_def SR_id_def Item_def Item_c_def js_def)

section \<open>The page in a state\<close>

definition single :: "sd_entry \<Rightarrow> bool" where
  "single x \<longleftrightarrow> length (sd_refs x) = 1"

definition row_part :: "nat \<Rightarrow> sd_entry \<Rightarrow> nat \<Rightarrow> node" where
  "row_part e x k = childNodes (hd (childNodes (sr_row e x))) ! k"

definition styled_row :: "nat \<Rightarrow> sd_entry \<Rightarrow> string \<times> string \<Rightarrow> node" where
  "styled_row e x v =
     Node ''DIV'' (no_attrs\<lparr>a_id := SR_id x, a_class := ''SRResult'', a_display := fst v\<rparr>)
       [Node ''DIV'' (no_attrs\<lparr>a_class := ''SREntry''\<rparr>)
          [row_part e x 0, if single x then row_part e x 1 else display_node (snd v) (row_part e x 1)]]"

definition styled_rows :: "sd_entry list \<Rightarrow> (string \<times> string) list \<Rightarrow> node list" where
  "styled_rows data vs = map (\<lambda>((e, x), v). styled_row e x v) (zip (List.enumerate 0 data) vs)"

definition page :: "sd_entry list \<Rightarrow> string \<Rightarrow> string \<Rightarrow> (string \<times> string) list \<Rightarrow> node list" where
  "page data sd nd vs = page_with sd nd (styled_rows data vs)"

lemma row_part_link: "\<exists>a. row_part e x 0 = Node ''A'' a [] \<and> a_id a = Item (int e)"
  by (auto simp: row_part_def sr_row_def Let_def split: list.splits prod.splits)

lemma row_part_single: "single x \<Longrightarrow> \<exists>a. row_part e x 1 = Node ''SPAN'' a [] \<and> a_id a = []"
  by (auto simp: row_part_def sr_row_def single_def no_attrs_def length_Suc_conv Let_def split: list.splits prod.splits)

lemma row_part_multi: "\<not> single x \<Longrightarrow> row_part e x 1 = Node ''DIV'' (no_attrs\<lparr>a_class := ''SRChildren''\<rparr>)
    (map (\<lambda>(c, r). sr_child e c r) (List.enumerate 0 (sd_refs x)))"
  by (auto simp: row_part_def sr_row_def single_def Let_def split: list.splits)

lemma sr_row_styled: "sr_row e x = styled_row e x ('''', '''')"
  by (auto simp: styled_row_def row_part_def sr_row_def single_def SR_id_def no_attrs_def Let_def split: list.splits prod.splits)

lemma create_loop_map:
  "create_loop e data results = results @ map (\<lambda>(e, x). sr_row e x) (List.enumerate e data)"
  by (induction data arbitrary: e results) simp_all

lemma length_styled_rows [simp]: "length vs = length data \<Longrightarrow> length (styled_rows data vs) = length data"
  by (simp add: styled_rows_def)

lemma nth_styled_rows [simp]:
  "length vs = length data \<Longrightarrow> e < length data \<Longrightarrow> styled_rows data vs ! e = styled_row e (data ! e) (vs ! e)"
  by (simp add: styled_rows_def nth_enumerate_eq)

lemma createResults_styled: "createResults data = styled_rows data (replicate (length data) ('''', ''''))"
  by (rule nth_equalityI) (simp_all add: createResults_def create_loop_map nth_enumerate_eq sr_row_styled)

section \<open>Lookups and updates on the page\<close>

lemma ids_children: "i \<in> ids (map (\<lambda>(c, r). sr_child e c r) (List.enumerate 0 rs)) \<longleftrightarrow>
    (\<exists>c < length rs. i = Item_c (int e) (int c))"
  by (subst ids_nth) (auto simp: nth_enumerate_eq sr_child_def split: prod.splits)

lemma ids_row: "i \<in> ids [styled_row e x v] \<longleftrightarrow>
    i = SR_id x \<or> i = [] \<or> i = Item (int e) \<or> \<not> single x \<and> (\<exists>c < length (sd_refs x). i = Item_c (int e) (int c))"
proof -
  obtain a where "row_part e x 0 = Node ''A'' a []" "a_id a = Item (int e)" using row_part_link by blast
  then show ?thesis
    using row_part_single [of x e] row_part_multi [of x e]
    by (cases "single x") (auto simp: styled_row_def ids_children no_attrs_def)
qed

definition page_top :: "sd_entry list \<Rightarrow> string \<Rightarrow> string \<Rightarrow> (string \<times> string) list \<Rightarrow> node list" where
  "page_top data sd nd vs =
     (let p = page data sd nd vs; html = hd p; body = hd (childNodes html); index = hd (childNodes body)
      in [html, body, index, childNodes index ! 1])"

lemma length_page_top [simp]: "length (page_top data sd nd vs) = 4"
  by (simp add: page_top_def Let_def)

lemma path_to_page:
  assumes "i \<notin> fixed_ids" "i \<noteq> []"
  shows "path_to i (page data sd nd vs) = map_option (\<lambda>p. page_top data sd nd vs @ p) (path_to i (styled_rows data vs))"
  using assms
  by (cases "path_to i (styled_rows data vs)")
    (simp_all add: page_top_def page_def page_with_def status_div_def no_attrs_def fixed_ids_def Let_def eq_commute [of _ i])

lemma update_first_page:
  assumes "i \<notin> fixed_ids" "i \<noteq> []"
  shows "update_first i f (page data sd nd vs) = map_option (page_with sd nd) (update_first i f (styled_rows data vs))"
  using assms
  by (cases "update_first i f (styled_rows data vs)")
    (simp_all add: page_def page_with_def status_div_def no_attrs_def fixed_ids_def eq_commute [of _ i])

lemma styled_row_path: "path_to (SR_id x) [styled_row e x v] = Some [styled_row e x v]"
  by (simp add: styled_row_def)

lemma styled_row_link:
  assumes "row_part e x 0 = Node ''A'' a []" "a_id a = Item (int e)"
  shows "path_to (Item (int e)) [styled_row e x v] = Some [styled_row e x v, hd (childNodes (styled_row e x v)), Node ''A'' a []]"
  using assms by (simp add: styled_row_def no_attrs_def)

lemma path_row:
  assumes "length vs = length data" "e < length data" "distinct (map sd_id data)"
  shows "path_to (SR_id (data ! e)) (page data sd nd vs) = Some (page_top data sd nd vs @ [styled_row e (data ! e) (vs ! e)])"
proof -
  have "sd_id (data ! e) \<noteq> sd_id (data ! j)" if "j < e" for j
    using that assms(2,3) nth_eq_iff_index_eq [OF assms(3), of j e] by auto
  then have "path_to (SR_id (data ! e)) (styled_rows data vs) = Some [styled_row e (data ! e) (vs ! e)]"
    using assms(1,2) by - (rule path_to_nth [of e], auto simp: ids_row styled_row_path simp del: ids.simps path_to.simps)
  then show ?thesis by (simp add: path_to_page)
qed

lemma path_item:
  assumes "length vs = length data" "e < length data"
  shows "\<exists>entry link. path_to (Item (int e)) (page data sd nd vs) =
      Some (page_top data sd nd vs @ [styled_row e (data ! e) (vs ! e), entry, link]) \<and> a_id (node_attrs link) = Item (int e)"
proof -
  obtain a where a: "row_part e (data ! e) 0 = Node ''A'' a []" "a_id a = Item (int e)" using row_part_link by blast
  have "path_to (Item (int e)) (styled_rows data vs) =
      Some [styled_row e (data ! e) (vs ! e), hd (childNodes (styled_row e (data ! e) (vs ! e))), Node ''A'' a []]"
    using assms styled_row_link [OF a] by - (rule path_to_nth [of e], auto simp: ids_row simp del: ids.simps path_to.simps)
  with a show ?thesis by (simp add: path_to_page)
qed

lemma path_item_None:
  assumes "length vs = length data" "k < 0 \<or> int (length data) \<le> k"
  shows "path_to (Item k) (page data sd nd vs) = None"
proof -
  have "Item k \<notin> ids (styled_rows data vs)" using assms by (subst ids_nth) (auto simp: ids_row simp del: ids.simps)
  then show ?thesis by (simp add: path_to_page path_to_None)
qed

lemma path_child:
  assumes "length vs = length data" "0 \<le> k" "0 \<le> n"
  shows "path_to (Item_c k n) (page data sd nd vs) \<noteq> None \<longleftrightarrow>
    nat k < length data \<and> \<not> single (data ! nat k) \<and> nat n < length (sd_refs (data ! nat k))"
proof -
  have *: "(\<exists>c < m. k = int j \<and> n = int c) \<longleftrightarrow> j = nat k \<and> nat n < m" for m j
    using assms(2,3) by (auto intro!: exI [of _ "nat n"])
  have "Item_c k n \<in> ids (styled_rows data vs) \<longleftrightarrow>
      nat k < length data \<and> \<not> single (data ! nat k) \<and> nat n < length (sd_refs (data ! nat k))"
    using assms * by (subst ids_nth) (auto simp: ids_row simp del: ids.simps cong: conj_cong)
  then show ?thesis by (simp add: path_to_page path_to_None del: not_None_eq)
qed

section \<open>Moving over the items\<close>

lemma grandparent_item [simp]: "grandparent (page_top data sd nd vs @ [r, entry, link]) = Done r"
  by (simp add: grandparent_def nth_append)

lemma is_block_row [simp]: "is_block (styled_row e x v) \<longleftrightarrow> fst v = ''block''"
  by (simp add: is_block_def styled_row_def)

definition visible :: "(string \<times> string) list \<Rightarrow> nat \<Rightarrow> bool" where
  "visible vs e \<longleftrightarrow> fst (vs ! e) = ''block''"

definition item_path :: "node list \<Rightarrow> nat option \<Rightarrow> node list option" where
  "item_path d j = Option.bind j (\<lambda>j. path_to (Item (int j)) d)"

lemma NavNext_find:
  assumes "length vs = length data"
  shows "NavNext (page data sd nd vs) (int e) =
    Done (item_path (page data sd nd vs) (find (visible vs) [e..<length data]))"
proof (induction "length data - e" arbitrary: e)
  case 0
  then show ?case using path_item_None [OF assms, of "int e" sd nd] by (subst NavNext.simps) (simp add: item_path_def)
next
  case (Suc m)
  then have e: "e < length data" by simp
  then have "[e..<length data] = e # [Suc e..<length data]" by (simp add: upt_conv_Cons)
  moreover obtain entry link where "path_to (Item (int e)) (page data sd nd vs) =
      Some (page_top data sd nd vs @ [styled_row e (data ! e) (vs ! e), entry, link])"
    using path_item [OF assms e] by blast
  moreover have "NavNext (page data sd nd vs) (int e + 1) =
      Done (item_path (page data sd nd vs) (find (visible vs) [Suc e..<length data]))"
    using Suc.hyps(1) [of "Suc e"] Suc.hyps(2) by (simp add: add.commute)
  ultimately show ?case by (subst NavNext.simps) (simp add: visible_def [of vs e] item_path_def)
qed

lemma NavPrev_find:
  assumes "length vs = length data" "e \<le> length data"
  shows "NavPrev (page data sd nd vs) (int e - 1) =
    Done (item_path (page data sd nd vs) (find (visible vs) (rev [0..<e])))"
  using assms(2)
proof (induction e)
  case 0
  then show ?case using path_item_None [OF assms(1), of "-1" sd nd] by (subst NavPrev.simps) (simp add: item_path_def)
next
  case (Suc e)
  then have "e < length data" by simp
  then obtain entry link where "path_to (Item (int e)) (page data sd nd vs) =
      Some (page_top data sd nd vs @ [styled_row e (data ! e) (vs ! e), entry, link])"
    using path_item [OF assms(1)] by blast
  with Suc show ?case by (subst NavPrev.simps) (simp add: visible_def [of vs e] item_path_def)
qed

text \<open>The children of a row of the page.\<close>

definition children_node :: "nat \<Rightarrow> sd_entry \<Rightarrow> string \<Rightarrow> node" where
  "children_node e x cd = Node ''DIV'' (no_attrs\<lparr>a_class := ''SRChildren'', a_display := cd\<rparr>)
    (map (\<lambda>(c, r). sr_child e c r) (List.enumerate 0 (sd_refs x)))"

lemma find_child_loop_first: "xs \<noteq> [] \<Longrightarrow> find_child_loop xs st = first_children (xs @ concat st)"
proof (induction xs st rule: find_child_loop.induct)
  case (2 n xs st)
  have climb: "case climb st of None \<Rightarrow> concat st = [] | Some (ys, st') \<Rightarrow> ys \<noteq> [] \<and> concat st = ys @ concat st'"
    by (induction st) (auto split: option.splits)
  have split: "first_children (as @ bs) = (case first_children as of Some n \<Rightarrow> Some n | None \<Rightarrow> first_children bs)" for as bs
    by (induction as rule: first_children.induct) (auto split: option.splits)
  show ?case
    using 2 climb by (cases n) (auto simp: is_children_def split simp del: concat_eq_Nil_conv split: option.splits)
qed simp

lemma FindChildElement_loop: "find_child_loop xs [] = first_children xs"
  using find_child_loop_first [of xs "[]"] by (cases xs) simp_all

text \<open>
  C39. The walk of \<^verbatim>\<open>FindChildElement\<close> over \<^verbatim>\<open>firstChild\<close>, \<^verbatim>\<open>nextSibling\<close> and \<^verbatim>\<open>parentNode\<close> ends on every document, with
  the element the recursive search finds; it throws exactly when there is no element with the id.
\<close>

theorem FindChildElement_first:
  "FindChildElement i d = (case getElementById i d of None \<Rightarrow> Fault | Some p \<Rightarrow> Done (first_children (childNodes p)))"
  by (simp add: FindChildElement_def FindChildElement_loop split: option.splits)

lemma first_children_row:
  "first_children (childNodes (styled_row e x v)) = (if single x then None else Some (children_node e x (snd v)))"
proof -
  obtain a where "row_part e x 0 = Node ''A'' a []" using row_part_link by blast
  then show ?thesis
    using row_part_single [of x e] row_part_multi [of x e]
    by (auto simp: styled_row_def is_children_def children_node_def no_attrs_def)
qed

lemma update_below_row: "\<not> single x \<Longrightarrow> update_below cd (styled_row e x v) = styled_row e x (fst v, cd)"
proof -
  assume *: "\<not> single x"
  obtain a where "row_part e x 0 = Node ''A'' a []" using row_part_link by blast
  then show ?thesis
    using * row_part_multi [of x e] by (simp add: styled_row_def is_children_def)
qed

lemma is_block_children [simp]: "is_block (children_node e x cd) \<longleftrightarrow> cd = ''block''"
  by (simp add: is_block_def children_node_def)

text \<open>The three operations on children, in terms of the state of the page.\<close>

lemma find_child_page:
  assumes "length vs = length data" "e < length data" "distinct (map sd_id data)"
  shows "FindChildElement (SR_id (data ! e)) (page data sd nd vs) =
    Done (if single (data ! e) then None else Some (children_node e (data ! e) (snd (vs ! e))))"
  using path_row [OF assms] by (simp add: FindChildElement_def getElementById_def FindChildElement_loop first_children_row)

lemma children_of_item_page:
  assumes "length vs = length data" "e < length data" "distinct (map sd_id data)"
  shows "children_of_item (page data sd nd vs) (int e) =
    Done (SR_id (data ! e), if single (data ! e) then None else Some (children_node e (data ! e) (snd (vs ! e))))"
proof -
  have "row_id (page_top data sd nd vs @ [styled_row e (data ! e) (vs ! e), entry, link]) = Done (SR_id (data ! e))" for entry link
    by (simp add: row_id_def) (simp add: styled_row_def)
  with path_item [OF assms(1,2), of sd nd] find_child_page [OF assms, of sd nd] show ?thesis
    by (auto simp: children_of_item_def)
qed

lemma styled_rows_update:
  "length vs = length data \<Longrightarrow> e < length data \<Longrightarrow> (styled_rows data vs)[e := styled_row e (data ! e) v] = styled_rows data (vs[e := v])"
  by (rule nth_equalityI) (auto simp: nth_list_update)

lemma set_child_display_page:
  assumes "length vs = length data" "e < length data" "distinct (map sd_id data)" "\<not> single (data ! e)"
  shows "set_child_display (SR_id (data ! e)) cd (page data sd nd vs) = page data sd nd (vs[e := (fst (vs ! e), cd)])"
proof -
  have "sd_id (data ! e) \<noteq> sd_id (data ! j)" if "j < e" for j
    using that assms(2,3) nth_eq_iff_index_eq [OF assms(3), of j e] by auto
  moreover have "update_first (SR_id x) f [styled_row e x v] = Some [f (styled_row e x v)]" for x f v
    by (simp add: styled_row_def)
  ultimately have "update_first (SR_id (data ! e)) (update_below cd) (styled_rows data vs) =
      Some ((styled_rows data vs)[e := styled_row e (data ! e) (fst (vs ! e), cd)])"
    using assms by - (rule update_first_nth [of e], auto simp: ids_row update_below_row simp del: ids.simps update_first.simps)
  with assms show ?thesis
    by (simp add: set_child_display_def update_first_page styled_rows_update) (simp add: page_def)
qed

section \<open>Searching\<close>

definition term_id :: "jstr \<Rightarrow> jstr" where
  "term_id t = convertToId (toLowerCase (strip_trailing (strip_leading t)))"

definition entry_matches :: "jstr \<Rightarrow> sd_entry \<Rightarrow> bool" where
  "entry_matches t x \<longleftrightarrow> prefix (term_id t) (toLowerCase (sd_id x))"

text \<open>What a search makes of the displays of the rows.\<close>

definition search_view :: "jstr \<Rightarrow> sd_entry list \<Rightarrow> (string \<times> string) list \<Rightarrow> (string \<times> string) list" where
  "search_view t data vs = map2 (\<lambda>x v. (if entry_matches t x then ''block'' else ''none'', snd v)) data vs"

lemma strip_sr_SR: "strip_sr (toLowerCase (SR_id x)) = toLowerCase (sd_id x)"
  by (simp add: strip_sr_def toLowerCase_def SR_id_def js_def Let_def)

lemma row_matches_SR: "row_matches s (no_attrs\<lparr>a_id := SR_id x, a_class := c, a_display := v\<rparr>) \<longleftrightarrow> prefix s (toLowerCase (sd_id x))"
  by (auto simp: row_matches_def strip_sr_SR Let_def prefix_def) (metis append_take_drop_id)

lemma search_loop_leaves:
  "\<forall>n \<in> set xs. a_class (node_attrs n) \<noteq> ''SRResult'' \<and> childNodes n = [] \<Longrightarrow> search_loop s xs m = (xs, m)"
proof (induction xs arbitrary: m)
  case (Cons x xs)
  then show ?case by (cases x) simp
qed simp

lemma search_loop_children:
  "search_loop s (map (\<lambda>(c, r). sr_child e c r) (List.enumerate 0 rs)) m = (map (\<lambda>(c, r). sr_child e c r) (List.enumerate 0 rs), m)"
  by (rule search_loop_leaves) (auto simp: sr_child_def in_set_enumerate_eq split: prod.splits)

lemma row_part_class:
  "\<exists>a. row_part e x 0 = Node ''A'' a [] \<and> a_class a = ''SRSymbol''"
  by (auto simp: row_part_def sr_row_def Let_def split: list.splits prod.splits)

lemma search_loop_row:
  "search_loop s (styled_row e x v # rest) m =
     (let b = prefix s (toLowerCase (sd_id x)); (rest', m') = search_loop s rest (if b then m + 1 else m)
      in (styled_row e x (if b then ''block'' else ''none'', snd v) # rest', m'))"
proof -
  obtain a where a: "row_part e x 0 = Node ''A'' a []" using row_part_link by blast
  have "search_loop s [row_part e x 0, if single x then row_part e x 1 else display_node (snd v) (row_part e x 1)] m =
      ([row_part e x 0, if single x then row_part e x 1 else display_node (snd v) (row_part e x 1)], m)" for m
    using a row_part_single [of x e] row_part_multi [of x e] by (auto simp: search_loop_children)
  then show ?thesis
    by (simp add: styled_row_def row_matches_SR no_attrs_def [symmetric] Let_def split: prod.splits)
qed

lemma search_loop_rows:
  "length vs = length data \<Longrightarrow>
   search_loop s (map (\<lambda>((e, x), v). styled_row e x v) (zip (List.enumerate k data) vs)) m =
     (map (\<lambda>((e, x), v). styled_row e x v) (zip (List.enumerate k data)
        (map2 (\<lambda>x v. (if prefix s (toLowerCase (sd_id x)) then ''block'' else ''none'', snd v)) data vs)),
      m + length (filter (\<lambda>x. prefix s (toLowerCase (sd_id x))) data))"
proof (induction data arbitrary: k vs m)
  case (Cons x data)
  then obtain v vs' where "vs = v # vs'" by (cases vs) auto
  with Cons show ?case by (simp add: search_loop_row Let_def)
qed simp

lemma search_loop_page:
  assumes "length vs = length data"
  shows "search_loop (term_id t) (page data sd nd vs) 0 =
    (page data sd nd (search_view t data vs), length (filter (entry_matches t) data))"
  using search_loop_rows [OF assms, of "term_id t" 0 0]
  by (simp add: page_def page_with_def styled_rows_def status_div_def no_attrs_def search_view_def entry_matches_def [abs_def])

lemma set_display_page:
  "js ''Searching'' \<notin> ids (styled_rows data vs) \<Longrightarrow>
     set_display (js ''Searching'') v (page data sd nd vs) = Done (page data v nd vs)"
  "js ''NoMatches'' \<notin> ids (styled_rows data vs) \<Longrightarrow>
     set_display (js ''NoMatches'') v (page data sd nd vs) = Done (page data sd v vs)"
  using update_first_None [of "js ''Searching''" "display_node v" "styled_rows data vs"]
    update_first_None [of "js ''NoMatches''" "display_node v" "styled_rows data vs"]
  by (simp_all add: set_display_def page_def page_with_def status_div_def no_attrs_def js_def)

lemma fixed_ids_rows: "length vs = length data \<Longrightarrow> i \<in> fixed_ids \<Longrightarrow> i \<notin> ids (styled_rows data vs)"
proof (subst ids_nth, safe)
  fix j assume "length vs = length data" "i \<in> fixed_ids" "j < length (styled_rows data vs)" "i \<in> ids [styled_rows data vs ! j]"
  then show False
    using fixed_ids_fresh by (auto simp: ids_row simp del: ids.simps fixed_ids_fresh) (simp add: fixed_ids_def js_def)
qed

lemma Search_page:
  assumes "length vs = length data" "doc s = page data sd nd vs"
  shows "Search url t s = (let t = (if t = [] then unescape (drop 1 url) else t); n = length (filter (entry_matches t) data)
    in Done (True, s\<lparr>doc := page data ''none'' (if n = 0 then ''block'' else ''none'') (search_view t data vs), lastMatchCount := n\<rparr>))"
proof -
  have "length (search_view t data vs) = length data" for t using assms(1) by (simp add: search_view_def)
  note fresh = fixed_ids_rows [OF this]
  have "js ''Searching'' \<in> fixed_ids" "js ''NoMatches'' \<in> fixed_ids" by (simp_all add: fixed_ids_def)
  with search_loop_page [OF assms(1)] assms(2) fresh show ?thesis
    by (simp add: Search_def Let_def set_display_page term_id_def [symmetric] del: length_0_conv)
qed

lemma toLowerCase_id: "toLowerCase (convertToId s) = convertToId s"
proof -
  have hex: "\<forall>d \<in> set (to_hex c). 48 \<le> d \<and> d \<le> 57 \<or> 97 \<le> d \<and> d \<le> 102" for c
  proof (induction c rule: to_hex.induct)
    case (1 n)
    then show ?case by (subst to_hex.simps) (auto simp: hex_digit_def)
  qed
  have "toLowerCase (id_of_char c) = id_of_char c" for c
    using hex [of c] by (force simp: toLowerCase_def id_of_char_def js_def intro!: map_idI)
  then show ?thesis by (simp add: convertToId_concat toLowerCase_def map_concat comp_def)
qed

definition search_data :: "sd_entry list \<Rightarrow> bool" where
  "search_data data \<longleftrightarrow> list_all (\<lambda>x. sd_id x = convertToId (toLowerCase (sd_name x)) \<and> list_all (\<lambda>c. c < 256) (sd_name x)) data"

definition normal_term :: "jstr \<Rightarrow> jstr" where
  "normal_term t = toLowerCase (strip_trailing (strip_leading t))"

lemma lower_char: "\<forall>c \<in> set s. c < 256 \<Longrightarrow> \<forall>c \<in> set (toLowerCase s). c < 256"
  by (auto simp: toLowerCase_def)

lemma strip_set: "set (strip_trailing (strip_leading t)) \<subseteq> set t"
  by (auto simp: strip_trailing_def strip_leading_def dest!: set_dropWhileD)

lemma entry_matches_name:
  assumes "search_data data" "x \<in> set data" "\<forall>c \<in> set t. c < 256"
  shows "entry_matches t x \<longleftrightarrow> prefix (normal_term t) (toLowerCase (sd_name x))"
proof -
  have "sd_id x = convertToId (toLowerCase (sd_name x))" "\<forall>c \<in> set (sd_name x). c < 256"
    using assms(1,2) by (auto simp: search_data_def list_all_iff)
  moreover have "\<forall>c \<in> set (strip_trailing (strip_leading t)). c < 256" using assms(3) strip_set by blast
  ultimately show ?thesis
    by (simp add: entry_matches_def term_id_def normal_term_def toLowerCase_id convertToId_prefix_code lower_char)
qed
lemma Search_names:
  assumes "length vs = length data" "doc s = page data sd nd vs" "search_data data"
    "t \<noteq> []" "list_all (\<lambda>c. c < 256) t"
  shows "Search url t s = (let match = (\<lambda>x. prefix (normal_term t) (toLowerCase (sd_name x))) in
    Done (True, s\<lparr>doc := page data ''none'' (if list_ex match data then ''none'' else ''block'')
        (map2 (\<lambda>x v. (if match x then ''block'' else ''none'', snd v)) data vs),
      lastMatchCount := length (filter match data)\<rparr>))"
proof -
  have t: "\<forall>c \<in> set t. c < 256" using assms(5) by (simp add: list_all_iff)
  note m = entry_matches_name [OF assms(3) _ t]
  have "filter (entry_matches t) data = filter (\<lambda>x. prefix (normal_term t) (toLowerCase (sd_name x))) data"
    using m by (auto intro: filter_cong)
  moreover have "search_view t data vs =
      map2 (\<lambda>x v. (if prefix (normal_term t) (toLowerCase (sd_name x)) then ''block'' else ''none'', snd v)) data vs"
    using m by (auto simp: search_view_def dest: set_zip_leftD)
  moreover have "list_ex P data \<longleftrightarrow> filter P data \<noteq> []" for P
    by (simp add: list_ex_iff filter_empty_conv)
  ultimately show ?thesis
    using Search_page [OF assms(1,2), of url t] assms(4) by (simp add: Let_def)
qed

text \<open>
  C14. A search on a page built from the index shows exactly the entries whose name, letter case aside,
  starts with the term without its outer blanks, hides the others, leaves the children as they are, counts
  the entries it shows, and says \<^verbatim>\<open>No Matches\<close> exactly when there are none.
\<close>

theorem search_shows_names:
  assumes "length vs = length data" "doc s = page data sd nd vs" "search_data data"
    "t \<noteq> []" "list_all (\<lambda>c. c < 256) t"
  shows "Search url t s = (let match = (\<lambda>x. prefix (normal_term t) (toLowerCase (sd_name x))) in
    Done (True, s\<lparr>doc := page data ''none'' (if list_ex match data then ''none'' else ''block'')
        (map2 (\<lambda>x v. (if match x then ''block'' else ''none'', snd v)) data vs),
      lastMatchCount := length (filter match data)\<rparr>))"
  using Search_names [OF assms] .

section \<open>Moving the focus\<close>

text \<open>
  \<^verbatim>\<open>NavNext\<close> returns the first visible item from an index on, and null if there is none; it never throws
  on a page that \<^verbatim>\<open>createResults\<close> built.
\<close>

theorem NavNext_nearest:
  assumes "length vs = length data"
  shows "NavNext (page data sd nd vs) (int e) =
    Done (case find (visible vs) [e..<length data] of None \<Rightarrow> None | Some j \<Rightarrow> path_to (Item (int j)) (page data sd nd vs))"
  using NavNext_find [OF assms] by (simp add: item_path_def split: option.splits)

lemma find_block_bound: "find P [e..<n] = Some j \<Longrightarrow> j < n" "find P (rev [0..<m]) = Some j \<Longrightarrow> j < m"
  by (auto simp: find_Some_iff rev_nth)

text \<open>The item Down moves to: the first child of an open row, or the next visible item.\<close>

definition down_target :: "sd_entry list \<Rightarrow> (string \<times> string) list \<Rightarrow> nat \<Rightarrow> jstr option" where
  "down_target data vs e =
     (if \<not> single (data ! e) \<and> snd (vs ! e) = ''block'' \<and> sd_refs (data ! e) \<noteq> [] then Some (Item_c (int e) 0)
      else map_option (\<lambda>j. Item (int j)) (find (visible vs) [e + 1..<length data]))"

lemma path_to_last: "path_to i d = Some p \<Longrightarrow> p \<noteq> [] \<and> a_id (node_attrs (last p)) = i"
  by (induction d arbitrary: p rule: ids.induct) (auto split: if_splits option.splits)

lemma focus_item_path:
  assumes "length vs = length data" "\<forall>j. m = Some j \<longrightarrow> j < length data"
  shows "focus_path (item_path (page data sd nd vs) m) s =
    (case m of None \<Rightarrow> s | Some j \<Rightarrow> s\<lparr>focused := OnItem (Item (int j))\<rparr>)"
proof (cases m)
  case (Some j)
  then have "j < length data" using assms(2) by simp
  from path_item [OF assms(1) this, of sd nd] Some show ?thesis by (auto simp: focus_path_def item_path_def)
qed (simp add: focus_path_def item_path_def)

lemma Nav_down_page:
  assumes "length vs = length data" "doc s = page data sd nd vs" "e < length data" "distinct (map sd_id data)"
  shows "Nav_down (int e) s = Done (case down_target data vs e of None \<Rightarrow> s | Some i \<Rightarrow> s\<lparr>focused := OnItem i\<rparr>)"
proof -
  have down: "run_bind (NavNext (doc s) (int e + 1)) (\<lambda>f. Done (focus_path f s)) =
      Done (case find (visible vs) [e + 1..<length data] of None \<Rightarrow> s | Some j \<Rightarrow> s\<lparr>focused := OnItem (Item (int j))\<rparr>)"
    using NavNext_find [OF assms(1), of sd nd "e + 1"] focus_item_path [OF assms(1), of "find (visible vs) [e + 1..<length data]" sd nd s]
      find_block_bound(1) assms(2) by (simp add: add.commute)
  show ?thesis
  proof (cases "path_to (Item_c (int e) 0) (page data sd nd vs)")
    case None
    then show ?thesis
      using children_of_item_page [OF assms(1,3,4), of sd nd] down path_child [OF assms(1), of "int e" 0 sd nd] assms(2,3)
      by (auto simp: Nav_down_def Let_def down_target_def split: option.splits)
  next
    case (Some p)
    then show ?thesis
      using children_of_item_page [OF assms(1,3,4), of sd nd] down path_child [OF assms(1), of "int e" 0 sd nd] assms(2,3)
        path_to_last [OF Some]
      by (auto simp: Nav_down_def Let_def down_target_def focus_path_def split: option.splits)
  qed
qed

text \<open>
  The item Up moves to: \<open>p\<close> is the previous visible item. When its children are shown, the focus goes to the
  last element \<^verbatim>\<open>Item<newIndex>_c<n>\<close>, where \<^verbatim>\<open>newIndex\<close> is the index before the current one and not the index of \<open>p\<close>.
\<close>

definition up_target :: "sd_entry list \<Rightarrow> (string \<times> string) list \<Rightarrow> nat \<Rightarrow> jstr option" where
  "up_target data vs e =
     map_option (\<lambda>p. if \<not> single (data ! p) \<and> snd (vs ! p) = ''block'' \<and> \<not> single (data ! (e - 1)) \<and> sd_refs (data ! (e - 1)) \<noteq> []
         then Item_c (int e - 1) (int (length (sd_refs (data ! (e - 1)))) - 1) else Item (int p))
       (find (visible vs) (rev [0..<e]))"

lemma last_child_page:
  assumes "length vs = length data" "0 < e" "e \<le> length data" "\<not> single (data ! (e - 1))" "n \<le> length (sd_refs (data ! (e - 1)))"
  shows "last_child (page data sd nd vs) (int e - 1) (int n) f =
    (if n = length (sd_refs (data ! (e - 1))) then f else Item_c (int e - 1) (int (length (sd_refs (data ! (e - 1)))) - 1))"
  using assms(5)
proof (induction "length (sd_refs (data ! (e - 1))) - n" arbitrary: n f)
  case 0
  then show ?case using path_child [OF assms(1), of "int e - 1" "int n" sd nd] assms(2)
    by (subst last_child.simps) (simp add: nat_diff_distrib)
next
  case (Suc m)
  then have n: "n < length (sd_refs (data ! (e - 1)))" by simp
  then obtain p where p: "path_to (Item_c (int e - 1) (int n)) (page data sd nd vs) = Some p"
    using path_child [OF assms(1), of "int e - 1" "int n" sd nd] assms(2-4) by (auto simp: nat_diff_distrib)
  have "m = length (sd_refs (data ! (e - 1))) - Suc n" using Suc.hyps(2) by simp
  from Suc.hyps(1) [OF this] n p show ?case
    by (subst last_child.simps) (auto simp: add.commute)
qed

lemma last_child_single:
  assumes "length vs = length data" "0 < e" "e \<le> length data" "single (data ! (e - 1))"
  shows "last_child (page data sd nd vs) (int e - 1) 0 f = f"
  using path_child [OF assms(1), of "int e - 1" 0 sd nd] assms(2,4)
  by (subst last_child.simps) (simp add: nat_diff_distrib)

lemma Nav_up_page:
  assumes "length vs = length data" "doc s = page data sd nd vs" "e < length data" "distinct (map sd_id data)"
  shows "Nav_up (int e) s = Done (s\<lparr>focused := (case up_target data vs e of None \<Rightarrow> OnSearchField | Some i \<Rightarrow> OnItem i)\<rparr>)"
proof (cases "find (visible vs) (rev [0..<e])")
  case None
  then show ?thesis using NavPrev_find [OF assms(1), of e sd nd] assms(2,3)
    by (simp add: Nav_up_def up_target_def item_path_def)
next
  case (Some p)
  then have p: "p < e" using find_block_bound(2) by blast
  then have pl: "p < length data" using assms(3) by simp
  obtain entry link where path: "path_to (Item (int p)) (page data sd nd vs) =
      Some (page_top data sd nd vs @ [styled_row p (data ! p) (vs ! p), entry, link])" "a_id (node_attrs link) = Item (int p)"
    using path_item [OF assms(1) pl] by blast
  have row: "row_id (page_top data sd nd vs @ [styled_row p (data ! p) (vs ! p), entry, link]) = Done (SR_id (data ! p))"
    by (simp add: row_id_def) (simp add: styled_row_def)
  have lc: "last_child (page data sd nd vs) (int e - 1) 0 f =
      (if \<not> single (data ! (e - 1)) \<and> sd_refs (data ! (e - 1)) \<noteq> []
       then Item_c (int e - 1) (int (length (sd_refs (data ! (e - 1)))) - 1) else f)" for f
    using last_child_page [OF assms(1), of e 0 sd nd f] last_child_single [OF assms(1), of e sd nd f] p assms(3)
    by (cases "single (data ! (e - 1))") auto
  from Some path row NavPrev_find [OF assms(1), of e sd nd] find_child_page [OF assms(1) pl assms(4), of sd nd] assms(2,3)
  show ?thesis
    by (simp add: Nav_up_def up_target_def item_path_def lc Let_def)
qed

section \<open>Showing and hiding children\<close>

lemma Toggle_page:
  assumes "length vs = length data" "doc s = page data sd nd vs" "e < length data" "distinct (map sd_id data)"
  shows "Toggle (SR_id (data ! e)) s =
    Done (if single (data ! e) then s else s\<lparr>doc := page data sd nd
      (vs[e := (fst (vs ! e), if snd (vs ! e) = ''block'' then ''none'' else ''block'')])\<rparr>)"
  using find_child_page [OF assms(1,3,4), of sd nd] set_child_display_page [OF assms(1,3,4), of _ sd nd] assms(2)
  by (simp add: Toggle_def)

lemma Nav_show_page:
  assumes "length vs = length data" "doc s = page data sd nd vs" "e < length data" "distinct (map sd_id data)"
  shows "Nav_show v (int e) s =
    Done (if single (data ! e) then s else s\<lparr>doc := page data sd nd (vs[e := (fst (vs ! e), v)])\<rparr>)"
  using children_of_item_page [OF assms(1,3,4), of sd nd] set_child_display_page [OF assms(1,3,4), of v sd nd] assms(2)
  by (simp add: Nav_show_def)

section \<open>Keys\<close>

fun run_keys :: "event list \<Rightarrow> srstate \<Rightarrow> bool list \<times> srstate" where
  "run_keys [] s = ([], s)"
| "run_keys (e # es) s = (let (b, s) = ProcessKeys e s; (bs, s) = run_keys es s in (b # bs, s))"

definition key_event :: "event_type \<Rightarrow> nat \<Rightarrow> event" where
  "key_event ty c = \<lparr>e_type = ty, keyCode = c\<rparr>"

lemma run_keys_repeat:
  "repeatOn s \<Longrightarrow> lastKey s \<noteq> 0 \<Longrightarrow>
   run_keys (map (key_event Keypress) ks @ es) s = (let (bs, s) = run_keys es s in (replicate (length ks) True @ bs, s))"
proof (induction ks)
  case (Cons k ks)
  then show ?case by (simp add: ProcessKeys_def key_event_def split: prod.splits)
qed simp

text \<open>
  While a key is held, the page acts on the key going down and on every repeated key press, but not on
  the first key press, which the browser sends along with it; releasing the key does nothing more and resets
  the state.
\<close>

theorem key_cycle:
  assumes "c \<noteq> 0"
  shows "run_keys (key_event Keydown c # map (key_event Keypress) ks @ [key_event Keyup c]) s =
    (True # (if ks = [] then [] else False # replicate (length ks - 1) True) @ [False], s\<lparr>lastKey := 0, repeatOn := False\<rparr>)"
proof (cases ks)
  case (Cons k ks')
  define s1 where "s1 = s\<lparr>lastKey := c, repeatOn := True\<rparr>"
  have "run_keys (map (key_event Keypress) ks' @ [key_event Keyup c]) s1 =
      (replicate (length ks') True @ [False], s\<lparr>lastKey := 0, repeatOn := False\<rparr>)"
    by (subst run_keys_repeat) (use assms in \<open>simp_all add: s1_def ProcessKeys_def key_event_def\<close>)
  then show ?thesis using assms Cons by (simp add: ProcessKeys_def key_event_def [of Keydown] key_event_def [of _ k] s1_def)
qed (use assms in \<open>simp add: ProcessKeys_def key_event_def\<close>)

text \<open>
  Down on an item moves the focus to the first child of its row if the children are shown, otherwise to
  the next visible item; without one the focus stays.
\<close>

theorem nav_down_moves:
  assumes "length vs = length data" "doc s = page data sd nd vs" "e < length data" "distinct (map sd_id data)"
  shows "Nav (key_event Keydown 40) (int e) s =
    (let s = s\<lparr>repeatOn := False, lastKey := 40\<rparr>
     in Done (False, case down_target data vs e of None \<Rightarrow> s | Some i \<Rightarrow> s\<lparr>focused := OnItem i\<rparr>))"
  using Nav_down_page [OF assms(1) _ assms(3,4), of "s\<lparr>repeatOn := False, lastKey := 40\<rparr>" sd nd] assms(2)
  by (simp add: Nav_def key_event_def ProcessKeys_def returning_def Let_def)

text \<open>
  Up on an item moves the focus to the previous visible item if that item's children are not shown; the
  focus goes to the search field when there is none.
\<close>

theorem nav_up_moves:
  assumes "length vs = length data" "doc s = page data sd nd vs" "e < length data" "distinct (map sd_id data)"
    "list_all (\<lambda>v. snd v \<noteq> ''block'') vs"
  shows "Nav (key_event Keydown 38) (int e) s =
    Done (False, s\<lparr>repeatOn := False, lastKey := 38, focused :=
      (case find (visible vs) (rev [0..<e]) of None \<Rightarrow> OnSearchField | Some p \<Rightarrow> OnItem (Item (int p)))\<rparr>)"
proof -
  have "up_target data vs e = map_option (\<lambda>p. Item (int p)) (find (visible vs) (rev [0..<e]))"
  proof (cases "find (visible vs) (rev [0..<e])")
    case (Some p)
    then have "p < e" by (rule find_block_bound(2))
    then have "vs ! p \<in> set vs" using assms(1,3) by simp
    then have "snd (vs ! p) \<noteq> ''block''" using assms(5) by (simp add: list_all_iff)
    with Some show ?thesis by (simp add: up_target_def)
  qed (simp add: up_target_def)
  then show ?thesis
    using Nav_up_page [OF assms(1) _ assms(3,4), of "s\<lparr>repeatOn := False, lastKey := 38\<rparr>" sd nd] assms(2)
    by (simp add: Nav_def key_event_def ProcessKeys_def returning_def split: option.splits)
qed

section \<open>Concrete runs\<close>

text \<open>Three entries, the second hidden, the first with its two places shown.\<close>

definition ex_entry :: "string \<Rightarrow> nat \<Rightarrow> sd_entry" where
  "ex_entry n k = \<lparr>sd_id = convertToId (toLowerCase (js n)), sd_name = js n, sd_refs = replicate k (js ''a.html'', True, js n)\<rparr>"

definition ex_data :: "sd_entry list" where
  "ex_data = [ex_entry ''filp'' 2, ex_entry ''base'' 3, ex_entry ''file_cnt'' 1]"

definition ex_state :: "node list \<Rightarrow> srstate" where
  "ex_state d = \<lparr>doc = d, lastMatchCount = 0, lastKey = 0, repeatOn = False, focused = NoFocus, results_closed = False\<rparr>"

lemmas ex_simps = ex_data_def ex_entry_def ex_state_def convertToId_concat id_of_char_def js_def toLowerCase_def
  to_hex.simps hex_digit_def

lemma ex_data_ok: "search_data ex_data" "distinct (map sd_id ex_data)" "length ex_data = 3"
  by (simp_all add: search_data_def ex_simps)

text \<open>
  Up can move the focus to an element that is not displayed: with the second row hidden by a search and
  the children of the first shown, Up on the third item focuses the last child of the hidden row.
\<close>

theorem nav_up_focuses_hidden:
  "\<exists>s. Nav (key_event Keydown 38) 2
      (ex_state (page ex_data ''none'' ''none'' [(''block'', ''block''), (''none'', ''''), (''block'', '''')])) = Done (False, s) \<and>
    focused s = OnItem (Item_c 1 2)"
proof -
  let ?vs = "[(''block'', ''block''), (''none'', ''''), (''block'', '''')]"
  have "up_target ex_data ?vs 2 = Some (Item_c 1 2)"
    by (simp add: up_target_def visible_def single_def ex_data_def ex_entry_def upt_rec numeral_2_eq_2)
  then show ?thesis
    using Nav_up_page [of ?vs ex_data "ex_state (page ex_data ''none'' ''none'' ?vs)\<lparr>repeatOn := False, lastKey := 38\<rparr>" "''none''" "''none''" 2]
      ex_data_ok
    by (simp add: Nav_def key_event_def ProcessKeys_def returning_def ex_state_def)
qed

definition ex_page :: srstate where
  "ex_page = ex_state (results_page (createResults ex_data))"

lemma ex_page_doc: "doc ex_page = page ex_data '''' ''none'' (replicate 3 ('''', ''''))"
  using ex_data_ok(3) by (simp add: ex_page_def ex_state_def results_page_def createResults_styled page_def)

theorem search_shows_names_witness:
  "\<exists>s. Search [] (js '' FIL'') ex_page = Done (True, s) \<and> lastMatchCount s = 2"
proof -
  have "length (filter (\<lambda>x. prefix (normal_term (js '' FIL'')) (toLowerCase (sd_name x))) ex_data) = 2"
    by (simp add: ex_data_def ex_entry_def normal_term_def strip_leading_def strip_trailing_def js_def toLowerCase_def)
  then show ?thesis
    using search_shows_names [OF _ ex_page_doc ex_data_ok(1), where t = "js '' FIL''" and url = "[]"] ex_data_ok(3)
    by (simp add: Let_def) (simp add: js_def)
qed

theorem NavNext_nearest_witness:
  "\<exists>p. NavNext (page ex_data ''none'' ''none'' [(''none'', ''''), (''none'', ''''), (''block'', '''')]) 0 = Done (Some p)"
proof -
  let ?vs = "[(''none'', ''''), (''none'', ''''), (''block'', '''')]"
  have "find (visible ?vs) [0..<3] = Some 2" by (simp add: visible_def upt_rec numeral_3_eq_3)
  then show ?thesis
    using NavNext_nearest [of ?vs ex_data "''none''" "''none''" 0] path_item [of ?vs ex_data 2 "''none''" "''none''"] ex_data_ok(3)
    by auto
qed

theorem key_cycle_witness:
  "fst (run_keys [key_event Keydown 40, key_event Keypress 40, key_event Keypress 40, key_event Keyup 40] ex_page) = [True, False, True, False]"
  using key_cycle [of 40 "[40, 40]" ex_page] by simp

theorem nav_down_moves_witness:
  "\<exists>s. Nav (key_event Keydown 40) 0
      (ex_state (page ex_data ''none'' ''none'' [(''block'', ''''), (''none'', ''''), (''block'', '''')])) = Done (False, s) \<and>
    focused s = OnItem (Item 2)"
proof -
  let ?vs = "[(''block'', ''''), (''none'', ''''), (''block'', '''')]"
  have "down_target ex_data ?vs 0 = Some (Item 2)"
    by (simp add: down_target_def visible_def upt_rec ex_data_ok(3) numeral_3_eq_3)
  then show ?thesis
    using nav_down_moves [of ?vs ex_data "ex_state (page ex_data ''none'' ''none'' ?vs)" "''none''" "''none''" 0] ex_data_ok
    by (simp add: Let_def ex_state_def)
qed

theorem nav_up_moves_witness:
  "\<exists>s. Nav (key_event Keydown 38) 2
      (ex_state (page ex_data ''none'' ''none'' [(''block'', ''''), (''none'', ''''), (''block'', '''')])) = Done (False, s) \<and>
    focused s = OnItem (Item 0)"
proof -
  let ?vs = "[(''block'', ''''), (''none'', ''''), (''block'', '''')]"
  have "find (visible ?vs) (rev [0..<2]) = Some 0" by (simp add: visible_def upt_rec numeral_2_eq_2)
  then show ?thesis
    using nav_up_moves [of ?vs ex_data "ex_state (page ex_data ''none'' ''none'' ?vs)" "''none''" "''none''" 2] ex_data_ok
    by (simp add: ex_state_def)
qed

end
