(* ===== verification/Search_Panel.thy ===== *)
theory Search_Panel
  imports Search_View Event_Runs
begin

text \<open>
  The search panel of a documentation page: the index tables, the geometry helpers and the class
  \<^verbatim>\<open>SearchBox\<close> of \<^verbatim>\<open>Doc/html/search/search.js\<close>, with the elements of the page it drives (as
  \<^verbatim>\<open>Doc/html/index.html\<close> has them) and the timers of the browser. An exception is the outcome \<open>Fault\<close>.

  Shown: the panel opens exactly result pages that exist; the results window and its close button are
  shown and hidden together; a key stroke in the field replaces the
  remembered pending search by at most one new one; the selection
  marks the selected section. The selection index can leave the index table, and then a search throws.
\<close>

section \<open>The index\<close>

definition indexSectionsWithContent :: "string list" where
  "indexSectionsWithContent =
    [''0000000000000000000000000000000000000000000000000000000000000000000000000000000000000000000000000111111001000111101101110000000000000000000000000000000000000000000000000000000000000000000000000000000000000000000000000000000000000000000000000000000000000000'',
     ''0000000000000000000000000000000000000000000000000000000000000000000000000000000000000000000000000000100000000000100001000000000000000000000000000000000000000000000000000000000000000000000000000000000000000000000000000000000000000000000000000000000000000000'',
     ''0000000000000000000000000000000000000000000000000000000000000000000000000000000000000000000000000000000000000000100001000000000000000000000000000000000000000000000000000000000000000000000000000000000000000000000000000000000000000000000000000000000000000000'',
     ''0000000000000000000000000000000000000000000000000000000000000000000000000000000000000000000000000000010000000100101001000000000000000000000000000000000000000000000000000000000000000000000000000000000000000000000000000000000000000000000000000000000000000000'',
     ''0000000000000000000000000000000000000000000000000000000000000000000000000000000000000000000000000011101001000111101101100000000000000000000000000000000000000000000000000000000000000000000000000000000000000000000000000000000000000000000000000000000000000000'',
     ''0000000000000000000000000000000000000000000000000000000000000000000000000000000000000000000000000000100000000000100001000000000000000000000000000000000000000000000000000000000000000000000000000000000000000000000000000000000000000000000000000000000000000000'',
     ''0000000000000000000000000000000000000000000000000000000000000000000000000000000000000000000000000110100001000000101000010000000000000000000000000000000000000000000000000000000000000000000000000000000000000000000000000000000000000000000000000000000000000000'']"

definition indexSectionNames :: "string list" where
  "indexSectionNames =
    [''all'', ''classes'', ''files'', ''functions'', ''variables'', ''typedefs'', ''defines'']"

section \<open>Geometry\<close>

text \<open>
  An element as \<^verbatim>\<open>getXPos\<close> and \<^verbatim>\<open>getYPos\<close> see it, with its \<^verbatim>\<open>offsetParent\<close>: null for the outermost one.
\<close>

datatype box = Box (offsetLeft: int) (offsetTop: int) (offsetWidth: int) (offsetHeight: int) (is_body: bool)
  (offsetParent: "box option")

fun x_loop :: "box option \<Rightarrow> int \<Rightarrow> int" where
  "x_loop None x = x"
| "x_loop (Some (Box l t w h body parent)) x = (if body then x else x_loop parent (x + l))"

fun y_loop :: "box option \<Rightarrow> int \<Rightarrow> int" where
  "y_loop None y = y"
| "y_loop (Some (Box l t w h body parent)) y = (if body then y else y_loop parent (y + t))"

definition getXPos :: "box \<Rightarrow> int" where
  "getXPos item = (if offsetWidth item \<noteq> 0 then x_loop (Some item) 0 else 0)"

definition getYPos :: "box \<Rightarrow> int" where
  "getYPos item = (if offsetWidth item \<noteq> 0 then y_loop (Some item) 0 else 0)"

definition px :: "int \<Rightarrow> jstr" where
  "px n = js_int n @ js ''px''"

section \<open>State\<close>

text \<open>
  The instance variables of \<^verbatim>\<open>SearchBox\<close>, then the elements: the field, the box, the selection window with its
  child nodes (a class name and the mark in the first child), the results window and the frame in it, the
  close button; the focus; and the browser's timers. Timer ids start at 1, so that \<open>0\<close> means none.
\<close>

datatype timer_action = T_Search | T_CloseSelection

datatype panel_focus = P_None | P_Field | P_Select nat | P_Frame

record sel_child =
  sc_class :: string
  sc_mark :: jstr

record style =
  s_display :: string
  s_position :: string
  s_left :: jstr
  s_top :: jstr
  s_width :: jstr

record panel =
  sb_name :: jstr
  resultsPath :: jstr
  keyTimeout :: nat
  lastSearchValue :: jstr
  lastResultsPage :: jstr
  hideTimeout :: nat
  searchIndex :: nat
  searchActive :: bool
  insideFrame :: bool
  searchLabel :: jstr
  field_value :: jstr
  box_class :: string
  box_geometry :: box
  select_geometry :: box
  select_window :: style
  select_width :: int
  select_children :: "sel_child list"
  results_window :: style
  results_offsetWidth :: int
  results_width :: jstr
  close_display :: string
  body_clientWidth :: int
  frame_location :: jstr
  frame_results :: "srstate option"
  panel_focus :: panel_focus
  timers :: "(nat \<times> timer_action) list"
  next_timer :: nat
  alerts :: nat

definition setTimeout :: "timer_action \<Rightarrow> panel \<Rightarrow> nat \<times> panel" where
  "setTimeout a p = (next_timer p, p\<lparr>timers := timers p @ [(next_timer p, a)], next_timer := next_timer p + 1\<rparr>)"

definition clearTimeout :: "nat \<Rightarrow> panel \<Rightarrow> panel" where
  "clearTimeout t p = p\<lparr>timers := filter (\<lambda>(i, a). i \<noteq> t) (timers p)\<rparr>"

definition show_style :: "string \<Rightarrow> style \<Rightarrow> style" where
  "show_style v st = st\<lparr>s_display := v\<rparr>"

text \<open>The constructor, on a page \<open>p\<close>.\<close>

definition SearchBox :: "jstr \<Rightarrow> jstr \<Rightarrow> bool \<Rightarrow> jstr \<Rightarrow> panel \<Rightarrow> panel" where
  "SearchBox nm path inFrame label p =
     (let p = (if nm = [] \<or> path = [] then p\<lparr>alerts := alerts p + 1\<rparr> else p)
      in p\<lparr>sb_name := nm, resultsPath := path, keyTimeout := 0, lastSearchValue := [], lastResultsPage := [],
           hideTimeout := 0, searchIndex := 0, searchActive := False, insideFrame := inFrame, searchLabel := label\<rparr>)"

section \<open>Activation and focus\<close>

definition Activate :: "bool \<Rightarrow> panel \<Rightarrow> panel" where
  "Activate isActive p =
     (if isActive \<or> s_display (results_window p) = ''block'' then
        let p = p\<lparr>box_class := ''MSearchBoxActive''\<rparr>
        in if field_value p = searchLabel p then p\<lparr>field_value := [], searchActive := True\<rparr> else p
      else
        p\<lparr>box_class := ''MSearchBoxInactive'', field_value := searchLabel p, searchActive := False,
          lastSearchValue := [], lastResultsPage := []\<rparr>)"

definition OnSearchFieldFocus :: "bool \<Rightarrow> panel \<Rightarrow> panel" where
  "OnSearchFieldFocus isActive p = Activate isActive p"

text \<open>\<^verbatim>\<open>focus()\<close> and \<^verbatim>\<open>blur()\<close>: the field's \<^verbatim>\<open>onblur\<close> and \<^verbatim>\<open>onfocus\<close> handlers run when the focus leaves or enters it.\<close>

definition set_focus :: "panel_focus \<Rightarrow> panel \<Rightarrow> panel" where
  "set_focus f p =
     (if panel_focus p = f then p
      else
        let p = (if panel_focus p = P_Field then OnSearchFieldFocus False p else p);
            p = p\<lparr>panel_focus := f\<rparr>
        in if f = P_Field then OnSearchFieldFocus True p else p)"

section \<open>The selection window\<close>

definition OnSearchSelectShow :: "panel \<Rightarrow> panel" where
  "OnSearchSelectShow p =
     (let left = getXPos (select_geometry p);
          top = getYPos (select_geometry p);
          p = (if insideFrame p then
                 let left = left + (offsetWidth (select_geometry p) + 6);
                     top = top + offsetHeight (select_geometry p);
                     left = left - select_width p
                 in p\<lparr>select_window := (select_window p)\<lparr>s_display := ''block'', s_left := px left, s_top := px top\<rparr>\<rparr>
               else
                 let top = top + offsetHeight (select_geometry p)
                 in p\<lparr>select_window := (select_window p)\<lparr>s_display := ''block'', s_left := px left, s_top := px top\<rparr>\<rparr>)
      in if hideTimeout p \<noteq> 0 then (clearTimeout (hideTimeout p) p)\<lparr>hideTimeout := 0\<rparr> else p)"

definition OnSearchSelectHide :: "panel \<Rightarrow> panel" where
  "OnSearchSelectHide p = (let (t, p) = setTimeout T_CloseSelection p in p\<lparr>hideTimeout := t\<rparr>)"

fun count_loop :: "sel_child list \<Rightarrow> nat \<Rightarrow> nat" where
  "count_loop [] count = count"
| "count_loop (child # cs) count = count_loop cs (if sc_class child = ''SelectItem'' then count + 1 else count)"

definition SelectItemCount :: "panel \<Rightarrow> nat" where
  "SelectItemCount p = count_loop (select_children p) 0"

fun set_loop :: "nat \<Rightarrow> nat \<Rightarrow> sel_child list \<Rightarrow> sel_child list" where
  "set_loop i j [] = []"
| "set_loop i j (child # cs) =
     (if sc_class child = ''SelectItem'' then
        child\<lparr>sc_mark := (if j = i then js ''&#8226;'' else js ''&#160;'')\<rparr> # set_loop i (j + 1) cs
      else child # set_loop i j cs)"

definition SelectItemSet :: "nat \<Rightarrow> panel \<Rightarrow> panel" where
  "SelectItemSet i p = p\<lparr>select_children := set_loop i 0 (select_children p)\<rparr>"

definition CloseResultsWindow :: "panel \<Rightarrow> panel" where
  "CloseResultsWindow p =
     Activate False (p\<lparr>results_window := show_style ''none'' (results_window p), close_display := ''none''\<rparr>)"

definition CloseSelectionWindow :: "panel \<Rightarrow> panel" where
  "CloseSelectionWindow p = p\<lparr>select_window := show_style ''none'' (select_window p)\<rparr>"

section \<open>Searching\<close>

text \<open>
  \<^verbatim>\<open>charCodeAt(0)\<close> of the empty string is \<^verbatim>\<open>NaN\<close>, here \<open>None\<close>: it is not below 16, prints as \<^verbatim>\<open>NaN\<close> and is the index \<open>0\<close>
  for \<^verbatim>\<open>charAt\<close>. \<^verbatim>\<open>charAt\<close> beyond the end is the empty string.
\<close>

definition charCodeAt0 :: "jstr \<Rightarrow> nat option" where
  "charCodeAt0 s = (case s of [] \<Rightarrow> None | c # cs \<Rightarrow> Some c)"

definition hexCode :: "nat option \<Rightarrow> jstr" where
  "hexCode code = (case code of None \<Rightarrow> js ''NaN'' | Some c \<Rightarrow> if c < 16 then js ''0'' @ to_hex c else to_hex c)"

definition charAt :: "string \<Rightarrow> nat option \<Rightarrow> string" where
  "charAt s code = (let i = (case code of None \<Rightarrow> 0 | Some c \<Rightarrow> c) in if i < length s then [s ! i] else '''')"

definition results_page_name :: "panel \<Rightarrow> jstr \<Rightarrow> (jstr \<times> jstr \<times> bool) run" where
  "results_page_name p searchValue =
     (let code = charCodeAt0 (toLowerCase searchValue)
      in run_bind (arr_get indexSectionsWithContent (searchIndex p)) (\<lambda>section.
           if charAt section code = ''1'' then
             run_bind (arr_get indexSectionNames (searchIndex p)) (\<lambda>sname.
               let page = resultsPath p @ js ''/'' @ js sname @ js ''_'' @ hexCode code @ js ''.html''
               in Done (page, page @ js ''?'' @ escape searchValue, True))
           else
             let page = resultsPath p @ js ''/nomatches.html'' in Done (page, page, False)))"

definition show_results :: "panel \<Rightarrow> panel" where
  "show_results p =
     (if s_display (results_window p) \<noteq> ''block'' then
        let p = p\<lparr>close_display := ''inline''\<rparr>
        in if insideFrame p then
             let width = body_clientWidth p - 8
             in p\<lparr>results_window := (results_window p)\<lparr>s_position := ''relative'', s_display := ''block'', s_width := px width\<rparr>,
                  results_width := px width\<rparr>
           else
             let left = getXPos (box_geometry p) + 150;
                 top = getYPos (box_geometry p) + 20;
                 left = left - results_offsetWidth p
             in p\<lparr>results_window := (results_window p)\<lparr>s_display := ''block'', s_top := px top, s_left := px left\<rparr>\<rparr>
      else p)"

definition panel_Search :: "panel \<Rightarrow> panel run" where
  "panel_Search p =
     (let p = p\<lparr>keyTimeout := 0\<rparr>;
          searchValue = strip_leading (field_value p)
      in run_bind (results_page_name p searchValue) (\<lambda>(resultsPage, resultsPageWithSearch, hasResultsPage).
           let p = show_results (p\<lparr>frame_location := resultsPageWithSearch\<rparr>)
           in Done (p\<lparr>lastSearchValue := searchValue, lastResultsPage := resultsPage\<rparr>)))"

definition OnSelectItem :: "nat \<Rightarrow> panel \<Rightarrow> panel run" where
  "OnSelectItem i p =
     (let p = SelectItemSet i (p\<lparr>searchIndex := i\<rparr>);
          searchValue = strip_blanks (field_value p)
      in if searchValue \<noteq> [] \<and> searchActive p then panel_Search p else Done p)"

definition OnSearchSelectKey :: "nat \<Rightarrow> panel \<Rightarrow> panel run" where
  "OnSearchSelectKey kc p =
     (if kc = 40 \<and> searchIndex p < SelectItemCount p then
        let p = p\<lparr>searchIndex := searchIndex p + 1\<rparr> in OnSelectItem (searchIndex p) p
      else if kc = 38 \<and> 0 < searchIndex p then
        let p = p\<lparr>searchIndex := searchIndex p - 1\<rparr> in OnSelectItem (searchIndex p) p
      else if kc = 13 \<or> kc = 27 then
        run_bind (OnSelectItem (searchIndex p) p) (\<lambda>p. Done (set_focus P_Field (CloseSelectionWindow p)))
      else Done p)"

section \<open>The search field\<close>

fun first_select :: "nat \<Rightarrow> sel_child list \<Rightarrow> nat option" where
  "first_select i [] = None"
| "first_select i (child # cs) = (if sc_class child = ''SelectItem'' then Some i else first_select (i + 1) cs)"

text \<open>Down or Enter hands the focus to the first visible result, if the frame has a result page.\<close>

definition focus_results :: "panel \<Rightarrow> panel run" where
  "focus_results p =
     (case frame_results p of
        None \<Rightarrow> Done p
      | Some sr \<Rightarrow>
          run_bind (NavNext (doc sr) 0) (\<lambda>elem.
            Done (if elem = None then p else set_focus P_Frame (p\<lparr>frame_results := Some (focus_path elem sr)\<rparr>))))"

definition field_changed :: "panel \<Rightarrow> panel" where
  "field_changed p =
     (let searchValue = strip_blanks (field_value p)
      in if searchValue \<noteq> lastSearchValue p then
           if searchValue \<noteq> [] then
             let (t, p) = setTimeout T_Search p in p\<lparr>keyTimeout := t\<rparr>
           else
             p\<lparr>results_window := show_style ''none'' (results_window p), close_display := ''none'', lastSearchValue := []\<rparr>
         else p)"

definition kill_timer :: "panel \<Rightarrow> panel" where
  "kill_timer p = (if keyTimeout p \<noteq> 0 then (clearTimeout (keyTimeout p) p)\<lparr>keyTimeout := 0\<rparr> else p)"

definition field_key :: "nat \<Rightarrow> bool \<Rightarrow> panel \<Rightarrow> panel run" where
  "field_key kc shiftKey p =
     (if kc = 40 \<or> kc = 13 then
        if shiftKey then
          let p = OnSearchSelectShow p
          in Done (case first_select 0 (select_children p) of None \<Rightarrow> p | Some i \<Rightarrow> set_focus (P_Select i) p)
        else run_bind (focus_results p) (\<lambda>p. Done (field_changed p))
      else if kc = 27 then
        let p = set_focus P_None p;
            p = p\<lparr>results_window := show_style ''none'' (results_window p), close_display := ''none'', lastSearchValue := []\<rparr>
        in Done (Activate False p)
      else Done (field_changed p))"

definition OnSearchFieldChange :: "nat \<Rightarrow> bool \<Rightarrow> panel \<Rightarrow> panel run" where
  "OnSearchFieldChange kc shiftKey p = field_key kc shiftKey (kill_timer p)"

section \<open>Events\<close>

text \<open>
  What happens to the panel: the user types, moves the mouse over the selection, presses keys, clicks; a timer
  fires (the browser removes it and runs its action); the frame finishes loading a page.
\<close>

datatype panel_event =
    E_Type jstr
  | E_FieldKey nat bool
  | E_FieldFocus bool
  | E_SelectShow
  | E_SelectHide
  | E_SelectItem nat
  | E_SelectKey nat
  | E_CloseResults
  | E_Timer nat
  | E_FrameLoaded "srstate option"
  | E_FrameKey event int
  | E_FrameChildKey event int int

definition fire :: "nat \<Rightarrow> panel \<Rightarrow> panel run" where
  "fire t p =
     (case map_of (timers p) t of
        None \<Rightarrow> Done p
      | Some a \<Rightarrow>
          let p = clearTimeout t p
          in (case a of T_Search \<Rightarrow> panel_Search p | T_CloseSelection \<Rightarrow> Done (CloseSelectionWindow p)))"

text \<open>
  Keys on the result page in the frame. Its handlers reach back to the panel: Escape calls
  \<^verbatim>\<open>parent.searchBox.CloseResultsWindow()\<close>, and both Escape and Up can move the focus to the parent's search field.
\<close>

definition frame_result :: "srstate \<Rightarrow> panel \<Rightarrow> panel" where
  "frame_result sr p =
     (let p = (if results_closed sr then CloseResultsWindow p else p);
          p = (if focused sr = OnSearchField then set_focus P_Field p else p)
      in p\<lparr>frame_results := Some (sr\<lparr>results_closed := False,
           focused := (if focused sr = OnSearchField then NoFocus else focused sr)\<rparr>)\<rparr>)"

definition frame_key :: "(srstate \<Rightarrow> (bool \<times> srstate) run) \<Rightarrow> panel \<Rightarrow> panel run" where
  "frame_key nav p =
     (case frame_results p of
        None \<Rightarrow> Done p
      | Some sr \<Rightarrow> run_bind (nav sr) (\<lambda>(b, sr). Done (frame_result sr p)))"

fun panel_step :: "panel_event \<Rightarrow> panel \<Rightarrow> panel run" where
  "panel_step (E_Type v) p = Done (p\<lparr>field_value := v\<rparr>)"
| "panel_step (E_FieldKey kc sh) p = OnSearchFieldChange kc sh p"
| "panel_step (E_FieldFocus b) p = Done (set_focus (if b then P_Field else P_None) p)"
| "panel_step E_SelectShow p = Done (OnSearchSelectShow p)"
| "panel_step E_SelectHide p = Done (OnSearchSelectHide p)"
| "panel_step (E_SelectItem i) p = OnSelectItem i p"
| "panel_step (E_SelectKey kc) p = OnSearchSelectKey kc p"
| "panel_step E_CloseResults p = Done (CloseResultsWindow p)"
| "panel_step (E_Timer t) p = fire t p"
| "panel_step (E_FrameLoaded sr) p = Done (p\<lparr>frame_results := sr\<rparr>)"
| "panel_step (E_FrameKey ev k) p = frame_key (Nav ev k) p"
| "panel_step (E_FrameChildKey ev k c) p = frame_key (NavChild ev k c) p"

section \<open>The index tables\<close>

text \<open>The positions of the ones of a section, counted from \<open>k\<close>.\<close>

fun ones :: "nat \<Rightarrow> string \<Rightarrow> nat list" where
  "ones k [] = []"
| "ones k (c # cs) = (if c = CHR ''1'' then k # ones (k + 1) cs else ones (k + 1) cs)"

lemma ones_nth: "c \<in> set (ones k s) \<longleftrightarrow> k \<le> c \<and> c - k < length s \<and> s ! (c - k) = CHR ''1''"
proof (induction s arbitrary: k)
  case (Cons x s)
  have "k \<le> c \<Longrightarrow> c - k = 0 \<or> (\<exists>m. c - k = Suc m \<and> c - Suc k = m)" by (cases "c - k") auto
  with Cons [of "Suc k"] show ?case by (auto simp: nth_Cons' Suc_le_eq le_eq_less_or_eq)
qed simp

lemma charAt_ones: "hd s = CHR ''0'' \<Longrightarrow> s \<noteq> [] \<Longrightarrow>
    charAt s code = ''1'' \<longleftrightarrow> (\<exists>c. code = Some c \<and> c \<in> set (ones 0 s))"
  by (cases code) (auto simp: charAt_def Let_def ones_nth hd_conv_nth)

lemma index_ones: "map (ones 0) indexSectionsWithContent =
   [[0x61, 0x62, 0x63, 0x64, 0x65, 0x66, 0x69, 0x6d, 0x6e, 0x6f, 0x70, 0x72, 0x73, 0x75, 0x76, 0x77],
    [0x64, 0x70, 0x75], [0x70, 0x75], [0x65, 0x6d, 0x70, 0x72, 0x75],
    [0x62, 0x63, 0x64, 0x66, 0x69, 0x6d, 0x6e, 0x6f, 0x70, 0x72, 0x73, 0x75, 0x76],
    [0x64, 0x70, 0x75], [0x61, 0x62, 0x64, 0x69, 0x70, 0x72, 0x77]]"
  unfolding indexSectionsWithContent_def by code_simp

lemma index_heads: "list_all (\<lambda>s. hd s = CHR ''0'' \<and> s \<noteq> []) indexSectionsWithContent" "length indexSectionsWithContent = 7"
  "length indexSectionNames = 7"
  unfolding indexSectionsWithContent_def indexSectionNames_def by simp_all

text \<open>The result pages in \<^verbatim>\<open>Doc/html/search\<close>.\<close>

definition result_files :: "string list" where
  "result_files =
    [''all_61.html'', ''all_62.html'', ''all_63.html'', ''all_64.html'', ''all_65.html'', ''all_66.html'',
     ''all_69.html'', ''all_6d.html'', ''all_6e.html'', ''all_6f.html'', ''all_70.html'',
     ''all_72.html'', ''all_73.html'', ''all_75.html'', ''all_76.html'', ''all_77.html'',
     ''classes_64.html'', ''classes_70.html'', ''classes_75.html'', ''defines_61.html'',
     ''defines_62.html'', ''defines_64.html'', ''defines_69.html'', ''defines_70.html'',
     ''defines_72.html'', ''defines_77.html'', ''files_70.html'', ''files_75.html'',
     ''functions_65.html'', ''functions_6d.html'', ''functions_70.html'', ''functions_72.html'',
     ''functions_75.html'', ''nomatches.html'', ''typedefs_64.html'', ''typedefs_70.html'',
     ''typedefs_75.html'', ''variables_62.html'', ''variables_63.html'', ''variables_64.html'',
     ''variables_66.html'', ''variables_69.html'', ''variables_6d.html'', ''variables_6e.html'',
     ''variables_6f.html'', ''variables_70.html'', ''variables_72.html'', ''variables_73.html'',
     ''variables_75.html'', ''variables_76.html'']"


lemma index_files:
  "list_all (\<lambda>(n, cs). list_all (\<lambda>c. js n @ js ''_'' @ hexCode (Some c) @ js ''.html'' \<in> set (map js result_files)) cs)
     (zip indexSectionNames (map (ones 0) indexSectionsWithContent))"
  unfolding index_ones by code_simp

text \<open>
  C36. While the selection is on one of the sections, the panel opens a file of the search directory for every
  term: the page of the section and the first character if the index says there is one, and otherwise the
  page without matches.
\<close>

theorem opened_page_exists:
  assumes "searchIndex p < 7"
  shows "\<exists>f pg loc has. results_page_name p v = Done (pg, loc, has) \<and> f \<in> set result_files \<and>
    pg = resultsPath p @ js ''/'' @ js f \<and> (has = (f \<noteq> ''nomatches.html''))"
proof -
  define i where "i = searchIndex p"
  define code where "code = charCodeAt0 (toLowerCase v)"
  have i: "i < length indexSectionsWithContent" "i < length indexSectionNames" using assms index_heads by (simp_all add: i_def)
  have h: "hd (indexSectionsWithContent ! i) = CHR ''0'' \<and> indexSectionsWithContent ! i \<noteq> []"
    using index_heads(1) i(1) by (simp add: list_all_length)
  show ?thesis
  proof (cases "charAt (indexSectionsWithContent ! i) code = ''1''")
    case True
    then obtain c where c: "code = Some c" "c \<in> set (ones 0 (indexSectionsWithContent ! i))" using charAt_ones h by blast
    let ?z = "zip indexSectionNames (map (ones 0) indexSectionsWithContent)"
    have "(indexSectionNames ! i, ones 0 (indexSectionsWithContent ! i)) \<in> set ?z"
      using i by (auto simp: set_zip)
    with index_files have "list_all (\<lambda>c. js (indexSectionNames ! i) @ js ''_'' @ hexCode (Some c) @ js ''.html'' \<in> set (map js result_files))
        (ones 0 (indexSectionsWithContent ! i))"
      unfolding list_all_iff [of _ ?z] by blast
    with c have "js (indexSectionNames ! i) @ js ''_'' @ hexCode code @ js ''.html'' \<in> js ` set result_files"
      by (simp add: list_all_iff)
    then obtain f where f: "js (indexSectionNames ! i) @ js ''_'' @ hexCode code @ js ''.html'' = js f" "f \<in> set result_files" by auto
    moreover have "f \<noteq> ''nomatches.html''"
    proof
      assume *: "f = ''nomatches.html''"
      have "95 \<in> set (js (indexSectionNames ! i) @ js ''_'' @ hexCode code @ js ''.html'')" by (simp add: js_def)
      then have "95 \<in> set (js ''nomatches.html'')" unfolding f(1) * .
      then show False by (simp add: js_def)
    qed
    ultimately show ?thesis
      using True i by (auto simp: results_page_name_def Let_def i_def code_def)
  next
    case False
    have "''nomatches.html'' \<in> set result_files" by (simp add: result_files_def)
    then show ?thesis
      using False i by (auto simp: results_page_name_def Let_def i_def code_def js_def)
  qed
qed

text \<open>
  The section \<^verbatim>\<open>all\<close> is the union of the others: a first character has a page there exactly when some other
  section has one.
\<close>

theorem index_all_is_union:
  "charAt (indexSectionsWithContent ! 0) code = ''1'' \<longleftrightarrow>
    list_ex (\<lambda>i. charAt (indexSectionsWithContent ! i) code = ''1'') [1, 2, 3, 4, 5, 6]"
proof -
  have n: "charAt (indexSectionsWithContent ! i) code = ''1'' \<longleftrightarrow>
      (\<exists>c. code = Some c \<and> c \<in> set (map (ones 0) indexSectionsWithContent ! i))" if "i < 7" for i
    using that index_heads charAt_ones [of "indexSectionsWithContent ! i" code] by (simp add: list_all_length)
  show ?thesis
    by (simp add: n index_ones) auto
qed

lemma term_in_location:
  assumes "results_page_name p v = Done (pg, loc, True)" "list_all (\<lambda>c. c < 65536) v"
  shows "Search (drop (length pg) loc) [] s = Search url v s"
proof -
  have "\<forall>c \<in> set v. c < 65536" using assms(2) by (simp add: list_all_iff)
  then have "unescape (escape v) = v" by (induction v) (simp_all add: escape_def unescape_escape_char)
  moreover have "drop (length pg) loc = js ''?'' @ escape v"
    using assms(1) by (auto simp: results_page_name_def Let_def arr_get_def run_bind_Done_iff split: if_splits)
  moreover have "v \<noteq> []"
  proof
    assume "v = []"
    then have "charAt (indexSectionsWithContent ! searchIndex p) None = ''1''" "searchIndex p < length indexSectionsWithContent"
      using assms(1) by (auto simp: results_page_name_def charCodeAt0_def toLowerCase_def Let_def arr_get_def split: if_splits)
    then show False using index_heads(1) charAt_ones [of _ None] by (auto simp: list_all_length)
  qed
  ultimately show ?thesis by (simp add: Search_def js_def)
qed

text \<open>
  The term goes to the result page: loaded with the location the panel gives it, the page searches for
  what the field holds without its leading blanks.
\<close>

theorem term_reaches_results:
  assumes "results_page_name p v = Done (pg, loc, True)" "list_all (\<lambda>c. c < 65536) v"
  shows "Search (drop (length pg) loc) [] s = Search url v s"
  using term_in_location [OF assms] .

section \<open>The selection\<close>

definition select_items :: "panel \<Rightarrow> sel_child list" where
  "select_items p = filter (\<lambda>c. sc_class c = ''SelectItem'') (select_children p)"

lemma count_loop_filter: "count_loop cs n = n + length (filter (\<lambda>c. sc_class c = ''SelectItem'') cs)"
  by (induction cs arbitrary: n) auto

lemma SelectItemCount_items: "SelectItemCount p = length (select_items p)"
  by (simp add: SelectItemCount_def select_items_def count_loop_filter)

lemma set_loop_filter:
  "filter (\<lambda>c. sc_class c = ''SelectItem'') (set_loop i k cs) =
     map (\<lambda>(j, c). c\<lparr>sc_mark := if j = i then js ''&#8226;'' else js ''&#160;''\<rparr>)
       (List.enumerate k (filter (\<lambda>c. sc_class c = ''SelectItem'') cs))"
  by (induction cs arbitrary: k) auto

text \<open>
  Selecting an item marks it with a bullet and no other item, and keeps their number.
\<close>

theorem select_marks_one:
  "map sc_mark (select_items (SelectItemSet i p)) =
     map (\<lambda>j. if j = i then js ''&#8226;'' else js ''&#160;'') [0..<SelectItemCount p] \<and>
   SelectItemCount (SelectItemSet i p) = SelectItemCount p"
proof -
  have "map sc_mark (map (\<lambda>(j, c). c\<lparr>sc_mark := f j\<rparr>) (List.enumerate k cs)) = map f [k..<k + length cs]" for f k and cs :: "sel_child list"
    by (rule nth_equalityI) (simp_all add: nth_enumerate_eq)
  then show ?thesis
    by (simp add: SelectItemCount_items select_items_def SelectItemSet_def set_loop_filter)
qed

text \<open>
  C40. The selection with the keyboard goes one item too far: on the last of the seven items Down moves the index
  behind the index table, and with a term in the active field the search throws.
\<close>

theorem select_key_overrun:
  assumes "SelectItemCount p = 7" "searchIndex p = 6" "searchActive p" "strip_blanks (field_value p) \<noteq> []"
  shows "OnSearchSelectKey 40 p = Fault"
  using assms index_heads
  by (simp add: OnSearchSelectKey_def OnSelectItem_def SelectItemSet_def panel_Search_def results_page_name_def Let_def)

section \<open>Invariants\<close>

text \<open>
  The results window and the close button go together. Timer ids are distinct, positive and below the next one;
  \<open>keyTimeout\<close> is \<open>0\<close> or a pending search; \<open>hideTimeout\<close>, which may be the id of a timer that has fired, is never
  the id of a pending search.
\<close>

definition window_ok :: "panel \<Rightarrow> bool" where
  "window_ok p \<longleftrightarrow> (s_display (results_window p) = ''block'') = (close_display p = ''inline'')"

definition timers_ok :: "panel \<Rightarrow> bool" where
  "timers_ok p \<longleftrightarrow>
     distinct (map fst (timers p)) \<and> (\<forall>i a. (i, a) \<in> set (timers p) \<longrightarrow> 0 < i \<and> i < next_timer p) \<and> 0 < next_timer p \<and>
     (keyTimeout p = 0 \<or> (keyTimeout p, T_Search) \<in> set (timers p)) \<and>
     hideTimeout p < next_timer p \<and> (hideTimeout p, T_Search) \<notin> set (timers p)"

definition panel_ok :: "panel \<Rightarrow> bool" where
  "panel_ok p \<longleftrightarrow> window_ok p \<and> timers_ok p"

lemma timers_ok_cong:
  "timers p = timers q \<Longrightarrow> next_timer p = next_timer q \<Longrightarrow> keyTimeout p = keyTimeout q \<or> keyTimeout p = 0 \<Longrightarrow>
   hideTimeout p = hideTimeout q \<Longrightarrow> timers_ok q \<Longrightarrow> timers_ok p"
  by (auto simp: timers_ok_def)

lemma Activate_simps [simp]:
  "results_window (Activate b p) = results_window p" "close_display (Activate b p) = close_display p"
  "timers (Activate b p) = timers p" "next_timer (Activate b p) = next_timer p" "keyTimeout (Activate b p) = keyTimeout p"
  "hideTimeout (Activate b p) = hideTimeout p"
  by (simp_all add: Activate_def Let_def)

lemma set_focus_simps [simp]:
  "results_window (set_focus f p) = results_window p" "close_display (set_focus f p) = close_display p"
  "timers (set_focus f p) = timers p" "next_timer (set_focus f p) = next_timer p" "keyTimeout (set_focus f p) = keyTimeout p"
  "hideTimeout (set_focus f p) = hideTimeout p"
  by (simp_all add: set_focus_def OnSearchFieldFocus_def Let_def)

lemma show_results_simps [simp]:
  "timers (show_results p) = timers p" "next_timer (show_results p) = next_timer p" "keyTimeout (show_results p) = keyTimeout p"
  "hideTimeout (show_results p) = hideTimeout p" "s_display (results_window (show_results p)) = ''block''"
  "close_display (show_results p) = (if s_display (results_window p) = ''block'' then close_display p else ''inline'')"
  "field_value (show_results p) = field_value p"
  by (simp_all add: show_results_def Let_def)

lemma panel_SearchD:
  assumes "panel_Search p = Done p'"
  shows "timers p' = timers p" "next_timer p' = next_timer p" "keyTimeout p' = 0" "hideTimeout p' = hideTimeout p"
    "s_display (results_window p') = ''block''"
    "close_display p' = (if s_display (results_window p) = ''block'' then close_display p else ''inline'')"
    "lastSearchValue p' = strip_leading (field_value p)" "field_value p' = field_value p"
proof -
  obtain pg loc where "p' = (show_results (p\<lparr>keyTimeout := 0, frame_location := loc\<rparr>))\<lparr>lastSearchValue := strip_leading (field_value p), lastResultsPage := pg\<rparr>"
    using assms by (auto simp: panel_Search_def run_bind_Done_iff Let_def)
  then show "timers p' = timers p" "next_timer p' = next_timer p" "keyTimeout p' = 0" "hideTimeout p' = hideTimeout p"
    "s_display (results_window p') = ''block''"
    "close_display p' = (if s_display (results_window p) = ''block'' then close_display p else ''inline'')"
    "lastSearchValue p' = strip_leading (field_value p)" "field_value p' = field_value p"
    by simp_all
qed

lemma panel_ok_Search: "panel_ok p \<Longrightarrow> panel_Search p = Done p' \<Longrightarrow> panel_ok p'"
  using panel_SearchD [of p p'] timers_ok_cong [of p' p] by (simp add: panel_ok_def window_ok_def)

lemma panel_ok_Activate [simp]: "panel_ok (Activate b p) = panel_ok p"
  by (simp add: panel_ok_def window_ok_def timers_ok_def)

lemma panel_ok_set_focus [simp]: "panel_ok (set_focus f p) = panel_ok p"
  by (simp add: panel_ok_def window_ok_def timers_ok_def)

lemma timers_ok_clear:
  "timers_ok p \<Longrightarrow> t = keyTimeout p \<Longrightarrow> timers_ok ((clearTimeout t p)\<lparr>keyTimeout := 0\<rparr>)"
  "timers_ok p \<Longrightarrow> t = hideTimeout p \<Longrightarrow> timers_ok ((clearTimeout t p)\<lparr>hideTimeout := 0\<rparr>)"
  by (auto simp: timers_ok_def clearTimeout_def distinct_map inj_on_def)

lemma panel_ok_SelectShow: "panel_ok p \<Longrightarrow> panel_ok (OnSearchSelectShow p)"
proof -
  assume p: "panel_ok p"
  have q: "panel_ok (p\<lparr>select_window := w\<rparr>)" for w
    using p by (simp add: panel_ok_def window_ok_def timers_ok_def)
  then have "panel_ok ((clearTimeout (hideTimeout p) (p\<lparr>select_window := w\<rparr>))\<lparr>hideTimeout := 0\<rparr>)" for w
    using timers_ok_clear(2) [of "p\<lparr>select_window := w\<rparr>" "hideTimeout p"] by (simp add: panel_ok_def window_ok_def clearTimeout_def)
  with q show ?thesis by (simp add: OnSearchSelectShow_def Let_def)
qed

lemma panel_ok_SelectHide: "panel_ok p \<Longrightarrow> panel_ok (OnSearchSelectHide p)"
  by (auto simp: OnSearchSelectHide_def setTimeout_def panel_ok_def window_ok_def timers_ok_def)

lemma panel_ok_field_changed: "panel_ok p \<Longrightarrow> keyTimeout p = 0 \<Longrightarrow> panel_ok (field_changed p)"
  by (auto simp: field_changed_def setTimeout_def panel_ok_def window_ok_def timers_ok_def show_style_def Let_def)

lemma panel_ok_SelectItem: "panel_ok p \<Longrightarrow> OnSelectItem i p = Done p' \<Longrightarrow> panel_ok p'"
proof -
  assume "panel_ok p" and d: "OnSelectItem i p = Done p'"
  then have "panel_ok (SelectItemSet i (p\<lparr>searchIndex := i\<rparr>))"
    by (simp add: SelectItemSet_def panel_ok_def window_ok_def timers_ok_def)
  with d show ?thesis by (auto simp: OnSelectItem_def Let_def split: if_splits intro: panel_ok_Search)
qed

lemma focus_resultsD:
  "focus_results p = Done p' \<Longrightarrow> panel_ok p' = panel_ok p \<and> keyTimeout p' = keyTimeout p"
  by (auto simp: focus_results_def run_bind_Done_iff split: option.splits if_splits)
    (simp_all add: panel_ok_def window_ok_def timers_ok_def)

lemma kill_timer_ok: "panel_ok p \<Longrightarrow> panel_ok (kill_timer p)" "keyTimeout (kill_timer p) = 0"
  using timers_ok_clear(1) [of p "keyTimeout p"] by (simp_all add: kill_timer_def panel_ok_def window_ok_def clearTimeout_def)

lemma panel_ok_field_key:
  assumes "panel_ok p" "keyTimeout p = 0" "field_key kc sh p = Done p'"
  shows "panel_ok p'"
proof -
  have "panel_ok ((set_focus P_None p)\<lparr>results_window := show_style ''none'' w, close_display := ''none'', lastSearchValue := []\<rparr>)" for w
    using assms(1) by (simp add: panel_ok_def window_ok_def timers_ok_def show_style_def)
  then show ?thesis
    using assms focus_resultsD [of p]
    by (auto simp: field_key_def Let_def run_bind_Done_iff panel_ok_SelectShow panel_ok_field_changed split: if_splits option.splits)
qed

lemma timers_ok_fire:
  assumes "panel_ok p" "(t, a) \<in> set (timers p)"
  shows "panel_ok ((clearTimeout t p)\<lparr>keyTimeout := 0\<rparr>)" "a = T_CloseSelection \<Longrightarrow> panel_ok (clearTimeout t p)"
proof -
  show "panel_ok ((clearTimeout t p)\<lparr>keyTimeout := 0\<rparr>)"
    using assms(1) by (auto simp: panel_ok_def window_ok_def timers_ok_def clearTimeout_def distinct_map inj_on_def)
  assume "a = T_CloseSelection"
  then have "t \<noteq> keyTimeout p \<or> keyTimeout p = 0"
    using assms eq_key_imp_eq_value [of "timers p" t a T_Search] by (auto simp: panel_ok_def timers_ok_def)
  then show "panel_ok (clearTimeout t p)"
    using assms(1) by (auto simp: panel_ok_def window_ok_def timers_ok_def clearTimeout_def distinct_map inj_on_def)
qed

lemma panel_Search_timeout: "panel_Search (p\<lparr>keyTimeout := 0\<rparr>) = panel_Search p"
  by (simp add: panel_Search_def)

lemma panel_ok_CloseSelection [simp]: "panel_ok (CloseSelectionWindow q) = panel_ok q"
  by (simp add: CloseSelectionWindow_def panel_ok_def window_ok_def timers_ok_def)

lemma panel_ok_fire: "panel_ok p \<Longrightarrow> fire t p = Done p' \<Longrightarrow> panel_ok p'"
proof -
  assume p: "panel_ok p" and d: "fire t p = Done p'"
  show ?thesis
  proof (cases "map_of (timers p) t")
    case (Some a)
    then have "(t, a) \<in> set (timers p)" by (rule map_of_SomeD)
    note c = timers_ok_fire [OF p this]
    show ?thesis
    proof (cases a)
      case T_Search
      then show ?thesis using d Some panel_ok_Search [OF c(1), of p'] by (simp add: fire_def panel_Search_timeout)
    next
      case T_CloseSelection
      then show ?thesis using d Some c(2) by (auto simp: fire_def Let_def)
    qed
  qed (use p d in \<open>simp add: fire_def\<close>)
qed

lemma panel_ok_SelectKey:
  assumes "panel_ok p" "OnSearchSelectKey kc p = Done p'"
  shows "panel_ok p'"
proof -
  have "panel_ok (p\<lparr>searchIndex := k\<rparr>)" for k
    using assms(1) by (simp add: panel_ok_def window_ok_def timers_ok_def)
  then show ?thesis
    using assms by (auto simp: OnSearchSelectKey_def Let_def run_bind_Done_iff split: if_splits dest: panel_ok_SelectItem [rotated])
qed

lemma panel_ok_frame_key:
  assumes "panel_ok p" "frame_key nav p = Done p'"
  shows "panel_ok p'"
proof -
  have close: "panel_ok (CloseResultsWindow p)"
    using assms(1) by (simp add: CloseResultsWindow_def show_style_def panel_ok_def window_ok_def timers_ok_def)
  have "panel_ok (q\<lparr>frame_results := sr\<rparr>) = panel_ok q" for q sr
    by (simp add: panel_ok_def window_ok_def timers_ok_def)
  with close assms(1) have "panel_ok (frame_result sr p)" for sr by (simp add: frame_result_def Let_def)
  with assms show ?thesis by (auto simp: frame_key_def run_bind_Done_iff split: option.splits)
qed

lemma panel_ok_step:
  assumes "panel_ok p" "panel_step e p = Done p'"
  shows "panel_ok p'"
proof -
  have "panel_ok (p\<lparr>field_value := v\<rparr>)" "panel_ok (p\<lparr>frame_results := sr\<rparr>)" "panel_ok (CloseResultsWindow p)" for v sr
    using assms(1) by (simp_all add: CloseResultsWindow_def show_style_def panel_ok_def window_ok_def timers_ok_def)
  note other = this
  have key: "panel_ok p'" if "OnSearchFieldChange kc sh p = Done p'" for kc sh
    using that panel_ok_field_key [OF kill_timer_ok(1) [OF assms(1)] kill_timer_ok(2)] by (simp add: OnSearchFieldChange_def)
  show ?thesis
  proof (cases e)
    case (E_Type v)
    then show ?thesis using assms(2) other(1) by auto
  next
    case (E_FieldKey kc sh)
    then show ?thesis using assms(2) key by auto
  next
    case (E_FieldFocus b)
    then show ?thesis using assms(2) assms(1) by auto
  next
    case E_SelectShow
    then show ?thesis using assms(2) panel_ok_SelectShow [OF assms(1)] by auto
  next
    case E_SelectHide
    then show ?thesis using assms(2) panel_ok_SelectHide [OF assms(1)] by auto
  next
    case (E_SelectItem i)
    then show ?thesis using assms(2) panel_ok_SelectItem [OF assms(1)] by auto
  next
    case (E_SelectKey kc)
    then show ?thesis using assms(2) panel_ok_SelectKey [OF assms(1)] by auto
  next
    case E_CloseResults
    then show ?thesis using assms(2) other(3) by auto
  next
    case (E_Timer t)
    then show ?thesis using assms(2) panel_ok_fire [OF assms(1)] by auto
  next
    case (E_FrameLoaded sr)
    then show ?thesis using assms(2) other(2) by auto
  next
    case (E_FrameKey ev k)
    then show ?thesis using assms(2) panel_ok_frame_key [OF assms(1)] by auto
  next
    case (E_FrameChildKey ev k c)
    then show ?thesis using assms(2) panel_ok_frame_key [OF assms(1)] by auto
  qed
qed

interpretation panel: kept panel_step panel_ok
  by unfold_locales (rule panel_ok_step)

text \<open>
  C35. Whatever happens to the panel, the results window and the close button are shown and hidden together,
  timer ids stay distinct, and the timer the panel remembers for a search is a pending one.
\<close>

theorem panel_invariant:
  assumes "panel_ok p" "run_all panel_step es p = Done p'"
  shows "panel_ok p'"
  using assms by (rule panel.kept_run)

text \<open>The pending searches.\<close>

definition pending_searches :: "panel \<Rightarrow> nat list" where
  "pending_searches p = map fst (filter (\<lambda>(t, a). a = T_Search) (timers p))"

lemma pending_kill_timer:
  assumes "panel_ok p"
  shows "pending_searches (kill_timer p) = filter (\<lambda>t. t \<noteq> keyTimeout p) (pending_searches p)"
proof (cases "keyTimeout p = 0")
  case True
  have "filter (\<lambda>t. t \<noteq> 0) (pending_searches p) = pending_searches p"
    using assms by (auto simp: pending_searches_def filter_id_conv panel_ok_def timers_ok_def)
  with True show ?thesis by (simp add: kill_timer_def)
next
  case False
  then show ?thesis
    by (simp add: kill_timer_def clearTimeout_def pending_searches_def filter_map comp_def case_prod_unfold conj_commute)
qed

lemma pending_SelectShow:
  assumes "panel_ok p"
  shows "pending_searches (OnSearchSelectShow p) = pending_searches p"
proof -
  have "filter (\<lambda>(t, a). a = T_Search) (filter (\<lambda>(i, a). i \<noteq> hideTimeout p) (timers p)) =
      filter (\<lambda>(t, a). a = T_Search) (timers p)"
    using assms by (auto simp: panel_ok_def timers_ok_def intro!: filter_cong)
  then show ?thesis by (simp add: OnSearchSelectShow_def clearTimeout_def pending_searches_def Let_def)
qed

text \<open>A change of the field starts a search exactly when the stripped value is new and not empty.\<close>

lemma field_changed_pending:
  assumes "panel_ok p" "keyTimeout p = 0"
  shows "pending_searches (field_changed p) =
      pending_searches p @ (if keyTimeout (field_changed p) \<noteq> 0 then [keyTimeout (field_changed p)] else [])"
    "keyTimeout (field_changed p) \<in> {0, next_timer p}"
    "keyTimeout (field_changed p) \<noteq> 0 \<longleftrightarrow> strip_blanks (field_value p) \<notin> {[], lastSearchValue p}"
    "keyTimeout (field_changed p) \<noteq> 0 \<longleftrightarrow>
      strip_blanks (field_value (field_changed p)) \<notin> {[], lastSearchValue (field_changed p)}"
  using assms by (auto simp: field_changed_def setTimeout_def pending_searches_def panel_ok_def timers_ok_def Let_def)

text \<open>The frame shows no result page yet, or that of some table, with any of its rows shown.\<close>

definition frame_ok :: "panel \<Rightarrow> bool" where
  "frame_ok p \<longleftrightarrow> (\<forall>sr. frame_results p = Some sr \<longrightarrow>
     (\<exists>data sd nd vs. length vs = length data \<and> doc sr = page data sd nd vs))"

lemma focus_results_Done:
  assumes "frame_ok p"
  obtains q where "focus_results p = Done q" "timers q = timers p" "next_timer q = next_timer p"
proof (cases "frame_results p")
  case None
  with that [of p] show thesis by (simp add: focus_results_def)
next
  case (Some sr)
  then obtain data sd nd vs where "length vs = length data" "doc sr = page data sd nd vs" using assms by (auto simp: frame_ok_def)
  with NavNext_find [of vs data sd nd 0] obtain e where "NavNext (doc sr) 0 = Done e" by auto
  with Some that show thesis by (simp add: focus_results_def)
qed

text \<open>
  C37. Typing is debounced. A key in the field never throws and kills the search \<^verbatim>\<open>keyTimeout\<close> remembers; of the pending
  searches those it had forgotten stay, and at most one new one, which it then remembers, comes behind them. For Escape
  and for Down or Enter with Shift there is none. For every other key there is one exactly when the field holds a
  new term; with Down or Enter that is decided after the focus has moved to the results, which may change the field.
\<close>

theorem typing_debounced:
  assumes "panel_ok p" "frame_ok p"
  shows "\<exists>p'. OnSearchFieldChange kc sh p = Done p' \<and>
    pending_searches p' = filter (\<lambda>t. t \<noteq> keyTimeout p) (pending_searches p) @ (if keyTimeout p' \<noteq> 0 then [keyTimeout p'] else []) \<and>
    keyTimeout p' \<in> {0, next_timer p} \<and>
    (if kc = 27 \<or> kc \<in> {13, 40} \<and> sh then keyTimeout p' = 0
     else keyTimeout p' \<noteq> 0 \<longleftrightarrow> strip_blanks (field_value p') \<notin> {[], lastSearchValue p'}) \<and>
    (kc \<notin> {13, 27, 40} \<longrightarrow> (keyTimeout p' \<noteq> 0 \<longleftrightarrow> strip_blanks (field_value p) \<notin> {[], lastSearchValue p}))"
proof -
  let ?p = "kill_timer p"
  note ok = kill_timer_ok(1) [OF assms(1)] kill_timer_ok(2) [of p]
  have same: "field_value ?p = field_value p" "lastSearchValue ?p = lastSearchValue p" "next_timer ?p = next_timer p" "frame_ok ?p"
    using assms(2) by (simp_all add: kill_timer_def clearTimeout_def frame_ok_def)
  have keep: "pending_searches q = pending_searches q'" if "timers q = timers q'" for q q' using that by (simp add: pending_searches_def)
  obtain q where q: "focus_results ?p = Done q" "timers q = timers ?p" "next_timer q = next_timer ?p"
    using focus_results_Done [OF same(4)] .
  then have q_ok: "panel_ok q" "keyTimeout q = 0" using focus_resultsD [OF q(1)] ok by simp_all
  have show_timer: "keyTimeout (OnSearchSelectShow ?p) = 0" using ok(2) by (simp add: OnSearchSelectShow_def clearTimeout_def Let_def)
  consider (esc) "kc = 27" | (shift) "kc \<in> {13, 40}" sh | (nav) "kc \<in> {13, 40}" "\<not> sh" | (other) "kc \<notin> {13, 27, 40}" by blast
  then show ?thesis
  proof cases
    case esc
    then show ?thesis
      using ok(2) pending_kill_timer [OF assms(1)] by (auto simp: OnSearchFieldChange_def field_key_def Let_def pending_searches_def)
  next
    case shift
    then have "\<exists>r. OnSearchFieldChange kc sh p = Done r \<and> timers r = timers (OnSearchSelectShow ?p) \<and> keyTimeout r = 0"
      using show_timer by (auto simp: OnSearchFieldChange_def field_key_def Let_def split: option.split)
    then obtain r where "OnSearchFieldChange kc sh p = Done r" "timers r = timers (OnSearchSelectShow ?p)" "keyTimeout r = 0" by blast
    with shift keep [of r "OnSearchSelectShow ?p"] pending_SelectShow [OF ok(1)] pending_kill_timer [OF assms(1)]
    show ?thesis by auto
  next
    case nav
    then have "OnSearchFieldChange kc sh p = Done (field_changed q)"
      using q(1) by (auto simp: OnSearchFieldChange_def field_key_def)
    with nav field_changed_pending [OF q_ok] keep [OF q(2)] q(3) same(3) pending_kill_timer [OF assms(1)] show ?thesis by auto
  next
    case other
    then have "OnSearchFieldChange kc sh p = Done (field_changed ?p)" by (auto simp: OnSearchFieldChange_def field_key_def)
    with other field_changed_pending [OF ok] same pending_kill_timer [OF assms(1)] show ?thesis by auto
  qed
qed

lemma panel_Search_Done: "searchIndex p < 7 \<Longrightarrow> \<exists>p'. panel_Search p = Done p' \<and> searchIndex p' = searchIndex p"
  using index_heads by (auto simp: panel_Search_def results_page_name_def show_results_def Let_def)

text \<open>
  Blanks inside a term are taken for a change of the term: after a search for a term with a blank in it, any
  further key in the field schedules the same search again.
\<close>

theorem blank_restarts_search:
  assumes "panel_Search p = Done p1" "32 \<in> set (strip_leading (field_value p))" "kc \<notin> {13, 27, 40}"
  shows "\<exists>p2. OnSearchFieldChange kc sh p1 = Done p2 \<and> keyTimeout p2 = next_timer p \<and> (keyTimeout p2, T_Search) \<in> set (timers p2)"
proof -
  have "kill_timer p1 = p1" using panel_SearchD(3) [OF assms(1)] by (simp add: kill_timer_def)
  moreover have "strip_blanks (field_value p1) \<noteq> lastSearchValue p1"
  proof
    assume "strip_blanks (field_value p1) = lastSearchValue p1"
    then have "32 \<in> set (strip_blanks (field_value p1))" using assms(2) panel_SearchD(7) [OF assms(1)] by simp
    then show False by (simp add: strip_blanks_def)
  qed
  moreover have "strip_blanks (field_value p1) \<noteq> []"
  proof -
    obtain c cs where c: "strip_leading (field_value p) = c # cs" using assms(2) by (cases "strip_leading (field_value p)") auto
    then have "c \<noteq> 32" using hd_dropWhile [of "\<lambda>c. c = 32" "field_value p"] by (auto simp: strip_leading_def)
    moreover have "c \<in> set (field_value p)" using c set_dropWhileD [of c "\<lambda>c. c = 32" "field_value p"] by (simp add: strip_leading_def)
    ultimately show ?thesis using panel_SearchD(8) [OF assms(1)] by (auto simp: strip_blanks_def filter_empty_conv)
  qed
  ultimately show ?thesis
    using assms(3) panel_SearchD(2) [OF assms(1)]
    by (simp add: OnSearchFieldChange_def field_key_def field_changed_def setTimeout_def Let_def)
qed

text \<open>
  A search scheduled by typing survives a selection made before it fires, although the panel forgets its timer:
  Escape then closes the results window, but when the timer fires the window opens again.
\<close>

theorem forgotten_search_reopens:
  assumes "panel_ok p" "keyTimeout p \<noteq> 0" "searchActive p" "strip_blanks (field_value p) \<noteq> []" "i < 7"
  shows "\<exists>p1 p2 p3. OnSelectItem i p = Done p1 \<and> OnSearchFieldChange 27 sh p1 = Done p2 \<and>
    s_display (results_window p2) = ''none'' \<and> fire (keyTimeout p) p2 = Done p3 \<and> s_display (results_window p3) = ''block''"
proof -
  define q where "q = SelectItemSet i (p\<lparr>searchIndex := i\<rparr>)"
  have q: "searchIndex q = i" "timers q = timers p" by (simp_all add: q_def SelectItemSet_def)
  obtain p1 where p1: "panel_Search q = Done p1" "searchIndex p1 = i" using panel_Search_Done [of q] q(1) assms(5) by auto
  have k: "kill_timer p1 = p1" using panel_SearchD(3) [OF p1(1)] by (simp add: kill_timer_def)
  define p2 where "p2 = Activate False ((set_focus P_None p1)\<lparr>results_window := show_style ''none'' (results_window (set_focus P_None p1)),
      close_display := ''none'', lastSearchValue := []\<rparr>)"
  have ix: "searchIndex (Activate b r) = searchIndex r" "searchIndex (set_focus f r) = searchIndex r" for b f r
    by (simp_all add: Activate_def set_focus_def OnSearchFieldFocus_def Let_def)
  have p2: "timers p2 = timers p" "s_display (results_window p2) = ''none''" "searchIndex p2 = i"
    using panel_SearchD(1) [OF p1(1)] q(2) p1(2) by (simp_all add: p2_def show_style_def ix)
  have "map_of (timers p2) (keyTimeout p) = Some T_Search"
    using assms(1,2) p2(1) by (simp add: panel_ok_def timers_ok_def)
  moreover obtain p3 where "panel_Search (clearTimeout (keyTimeout p) p2) = Done p3"
    using panel_Search_Done [of "clearTimeout (keyTimeout p) p2"] p2(3) assms(5) by (auto simp: clearTimeout_def)
  moreover note panel_SearchD(5) [OF this]
  moreover have "OnSelectItem i p = Done p1"
    using p1(1) assms(3,4) by (simp add: OnSelectItem_def q_def Let_def) (simp add: SelectItemSet_def)
  moreover have "OnSearchFieldChange 27 sh p1 = Done p2"
    using k by (simp add: OnSearchFieldChange_def field_key_def p2_def Let_def)
  ultimately show ?thesis using p2(2) by (simp add: fire_def)
qed

text \<open>
  C34. Escape on an item of the result page goes back to the search field: the results window and the close button
  are hidden, the last search is forgotten, and the field is empty, active and focused.
\<close>

theorem escape_returns_to_field:
  assumes "frame_results p = Some sr" "panel_focus p \<noteq> P_Field"
  shows "\<exists>p'. panel_step (E_FrameKey (key_event Keydown 27) k) p = Done p' \<and> s_display (results_window p') = ''none'' \<and>
    close_display p' = ''none'' \<and> panel_focus p' = P_Field \<and> field_value p' = [] \<and> searchActive p' \<and>
    box_class p' = ''MSearchBoxActive'' \<and> lastSearchValue p' = [] \<and> lastResultsPage p' = []"
  using assms
  by (simp add: frame_key_def Nav_def key_event_def ProcessKeys_def Nav_escape_def frame_result_def CloseResultsWindow_def
      show_style_def Activate_def set_focus_def OnSearchFieldFocus_def Let_def)

section \<open>A concrete panel\<close>

definition ex_style :: style where
  "ex_style = \<lparr>s_display = ''none'', s_position = '''', s_left = [], s_top = [], s_width = []\<rparr>"

text \<open>The page \<^verbatim>\<open>index.html\<close> with an active field; \<open>keyTimeout\<close> and the timers as given.\<close>

definition ex_panel :: "string \<Rightarrow> nat \<Rightarrow> panel" where
  "ex_panel v t =
     \<lparr>sb_name = js ''searchBox'', resultsPath = js ''search'', keyTimeout = t, lastSearchValue = [], lastResultsPage = [],
      hideTimeout = 0, searchIndex = 6, searchActive = True, insideFrame = False, searchLabel = js ''Search'',
      field_value = js v, box_class = ''MSearchBoxActive'', box_geometry = Box 10 20 100 15 False None,
      select_geometry = Box 0 0 16 16 False (Some (Box 10 20 100 15 True None)), select_window = ex_style, select_width = 80,
      select_children = \<lparr>sc_class = '''', sc_mark = []\<rparr> # replicate 7 \<lparr>sc_class = ''SelectItem'', sc_mark = []\<rparr>,
      results_window = ex_style, results_offsetWidth = 200, results_width = [], close_display = ''none'',
      body_clientWidth = 800, frame_location = [], frame_results = None, panel_focus = P_Field,
      timers = (if t = 0 then [] else [(t, T_Search)]), next_timer = t + 1, alerts = 0\<rparr>"

lemma ex_panel_ok: "panel_ok (ex_panel v t)"
  by (auto simp: ex_panel_def ex_style_def panel_ok_def window_ok_def timers_ok_def)

lemma ex_panel_value: "strip_blanks (field_value (ex_panel ''a b'' t)) = js ''ab''" "searchIndex (ex_panel v t) = 6"
  "searchActive (ex_panel v t)" "SelectItemCount (ex_panel v t) = 7" "keyTimeout (ex_panel v t) = t"
  "strip_leading (field_value (ex_panel ''a b'' t)) = js ''a b''"
  by (simp_all add: ex_panel_def strip_blanks_def strip_leading_def js_def SelectItemCount_def numeral_eq_Suc)

theorem opened_page_exists_witness:
  "\<exists>f pg loc has. results_page_name (ex_panel ''a b'' 0) (js ''a b'') = Done (pg, loc, has) \<and> f \<in> set result_files"
  using opened_page_exists [of "ex_panel ''a b'' 0" "js ''a b''"] ex_panel_value(2) by auto

theorem term_reaches_results_witness:
  "\<exists>pg loc. results_page_name (ex_panel ''a b'' 0) (js ''a b'') = Done (pg, loc, True) \<and>
    Search (drop (length pg) loc) [] ex_page = Search [] (js ''a b'') ex_page"
proof -
  have "map (ones 0) indexSectionsWithContent ! 6 = [0x61, 0x62, 0x64, 0x69, 0x70, 0x72, 0x77]"
    unfolding index_ones by simp
  then have "charAt (indexSectionsWithContent ! 6) (Some 97) = ''1''"
    using charAt_ones [of "indexSectionsWithContent ! 6" "Some 97"] index_heads(1,2) by (simp add: list_all_length)
  then obtain pg loc where "results_page_name (ex_panel ''a b'' 0) (js ''a b'') = Done (pg, loc, True)"
    using index_heads(2,3) ex_panel_value(2) by (simp add: results_page_name_def charCodeAt0_def toLowerCase_def js_def Let_def)
  with term_reaches_results [OF this, of ex_page "[]"] show ?thesis by (auto simp: js_def)
qed

theorem select_key_overrun_witness: "OnSearchSelectKey 40 (ex_panel ''a b'' 0) = Fault"
  by (rule select_key_overrun) (simp_all add: ex_panel_value, simp add: js_def)

theorem panel_invariant_witness:
  "\<exists>p. run_all panel_step [E_FieldKey 66 False, E_SelectHide, E_Timer 2] (ex_panel ''a b'' 0) = Done p \<and> panel_ok p"
proof -
  have "\<exists>p. run_all panel_step [E_FieldKey 66 False, E_SelectHide, E_Timer 2] (ex_panel ''a b'' 0) = Done p"
    by (simp add: OnSearchFieldChange_def field_key_def field_changed_def kill_timer_def setTimeout_def OnSearchSelectHide_def
        fire_def ex_panel_def strip_blanks_def js_def clearTimeout_def)
  then show ?thesis using panel_invariant [OF ex_panel_ok] by blast
qed

theorem typing_debounced_witness:
  "\<exists>p. OnSearchFieldChange 66 False (ex_panel ''a b'' 3) = Done p \<and> keyTimeout p = 4 \<and> pending_searches p = [4]"
proof -
  have "frame_ok (ex_panel ''a b'' 3)" "pending_searches (ex_panel ''a b'' 3) = [3]" "next_timer (ex_panel ''a b'' 3) = 4"
    "js ''ab'' \<notin> {[], lastSearchValue (ex_panel ''a b'' 3)}"
    by (simp_all add: ex_panel_def frame_ok_def pending_searches_def js_def)
  with typing_debounced [OF ex_panel_ok, of "''a b''" 3 66 False] show ?thesis by (auto simp: ex_panel_value)
qed

theorem blank_restarts_search_witness:
  "\<exists>p1 p2. panel_Search (ex_panel ''a b'' 0) = Done p1 \<and> OnSearchFieldChange 37 False p1 = Done p2 \<and> keyTimeout p2 = 1"
proof -
  obtain p1 where "panel_Search (ex_panel ''a b'' 0) = Done p1"
    using panel_Search_Done [of "ex_panel ''a b'' 0"] ex_panel_value(2) by auto
  with blank_restarts_search [OF this, of 37 False] show ?thesis
    by (auto simp: ex_panel_value(6) js_def) (auto simp: ex_panel_def)
qed

theorem forgotten_search_reopens_witness:
  "\<exists>p1 p2 p3. OnSelectItem 1 (ex_panel ''a b'' 3) = Done p1 \<and> OnSearchFieldChange 27 False p1 = Done p2 \<and>
    s_display (results_window p2) = ''none'' \<and> fire 3 p2 = Done p3 \<and> s_display (results_window p3) = ''block''"
  using forgotten_search_reopens [OF ex_panel_ok, of "''a b''" 3 1 False] by (simp add: ex_panel_value js_def)

theorem escape_returns_to_field_witness:
  "\<exists>p. panel_step (E_FrameKey (key_event Keydown 27) 0) ((ex_panel ''a b'' 0)\<lparr>frame_results := Some ex_page, panel_focus := P_Frame\<rparr>) = Done p \<and>
    panel_focus p = P_Field \<and> field_value p = []"
  using escape_returns_to_field [of "(ex_panel ''a b'' 0)\<lparr>frame_results := Some ex_page, panel_focus := P_Frame\<rparr>" ex_page 0] by auto

end
