(* ===== verification/Search_Data.thy ===== *)
theory Search_Data
  imports Search_View
begin

text \<open>
  The search index of the documentation, the tables \<^verbatim>\<open>searchData\<close> of \<^verbatim>\<open>Doc/html/search/*_XX.js\<close>, entry by entry:
  the id, the name, and per place its URL, whether it opens in the parent frame, and its scope. A result page
  \<^verbatim>\<open><section>_<code>.html\<close> loads the table of the same name.

  Shown: every table is well formed in the sense the search relies on.
\<close>

section \<open>The tables\<close>

definition ent :: "string \<Rightarrow> string \<Rightarrow> (string \<times> bool \<times> string) list \<Rightarrow> sd_entry" where
  "ent i n refs = \<lparr>sd_id = js i, sd_name = js n, sd_refs = map (\<lambda>(url, par, scope). (js url, par, js scope)) refs\<rparr>"

definition all_61_js :: "sd_entry list" where
  "all_61_js =
    [ent ''ascii_5fboard_5fmagic_5fnum'' ''ASCII_BOARD_MAGIC_NUM'' [(''../pciedev__ufn_8h.html#aca51b3d5775dca72eb36777c14d34fd4'', True, ''pciedev_ufn.h'')],
     ent ''ascii_5fboard_5fmagic_5fnum_5fl'' ''ASCII_BOARD_MAGIC_NUM_L'' [(''../pciedev__ufn_8h.html#a6d893ebfc112547b07f019e4ea40238e'', True, ''pciedev_ufn.h'')],
     ent ''ascii_5fproj_5fmagic_5fnum'' ''ASCII_PROJ_MAGIC_NUM'' [(''../pciedev__ufn_8h.html#a3f6a99cce20fba28cfba56e8c30355dc'', True, ''pciedev_ufn.h'')]]"

definition all_62_js :: "sd_entry list" where
  "all_62_js =
    [ent ''bar0'' ''BAR0'' [(''../pciedev__io_8h.html#a1fce441aaa962f572d643140658a6e4c'', True, ''pciedev_io.h'')],
     ent ''bar1'' ''BAR1'' [(''../pciedev__io_8h.html#a4ceeca7cc9bab8b697f8a49f79037010'', True, ''pciedev_io.h'')],
     ent ''bar2'' ''BAR2'' [(''../pciedev__io_8h.html#a44fa2ca32ff22e5eb7fa28ef39e50780'', True, ''pciedev_io.h'')],
     ent ''bar3'' ''BAR3'' [(''../pciedev__io_8h.html#a7f201c103377c8f3c84f10576e63e7af'', True, ''pciedev_io.h'')],
     ent ''bar4'' ''BAR4'' [(''../pciedev__io_8h.html#ace7f77e5691514de1c5a1f8c16d3025c'', True, ''pciedev_io.h'')],
     ent ''bar5'' ''BAR5'' [(''../pciedev__io_8h.html#a7473bbc92af15efd739f5c06409d8bc4'', True, ''pciedev_io.h'')],
     ent ''barx_5frw'' ''barx_rw'' [(''../structdevice__rw.html#ae382b34e69e05728f9a046ae0cf53c3a'', True, ''device_rw'')],
     ent ''binded'' ''binded'' [(''../structpciedev__dev.html#a51671163411ed9b55b4efd560d78e935'', True, ''pciedev_dev'')],
     ent ''brd_5finfo_5flist'' ''brd_info_list'' [(''../structpciedev__dev.html#a7eedb6b87273cc7942ee679d90a7d219'', True, ''pciedev_dev'')],
     ent ''brd_5fnum'' ''brd_num'' [(''../structpciedev__dev.html#a12a1bde58b97299f0f6bd7b8b484f31b'', True, ''pciedev_dev'')],
     ent ''bus_5ffunc'' ''bus_func'' [(''../structpciedev__dev.html#a2e80f1ccc118c804209ab8858861e66a'', True, ''pciedev_dev'')],
     ent ''busnumber'' ''busNumber'' [(''../structpciedev__dev.html#af0a497c0dd86b442745b10a74c95000b'', True, ''pciedev_dev'')]]"

definition all_63_js :: "sd_entry list" where
  "all_63_js =
    [ent ''cdev'' ''cdev'' [(''../structpciedev__dev.html#ab2013286f43d6c6113e2a7887146f592'', True, ''pciedev_dev'')],
     ent ''class_5fcode'' ''class_code'' [(''../structpciedev__dev.html#a7a18e1f1c1746d8996c13cd609d5d8b4'', True, ''pciedev_dev'')],
     ent ''cmd'' ''cmd'' [(''../structdevice__ioctrl__data.html#abce7358be06d7ce7e756fe02c25c187e'', True, ''device_ioctrl_data'')]]"

definition all_64_js :: "sd_entry list" where
  "all_64_js =
    [ent ''data'' ''data'' [(''../structdevice__ioctrl__data.html#a99d6274576188aeea8225493378b04ec'', True, ''device_ioctrl_data'')],
     ent ''data_5frw'' ''data_rw'' [(''../structdevice__rw.html#a4731025369481beeaa5c408775ad2a7e'', True, ''device_rw'')],
     ent ''dev_5fdma_5f64mask'' ''dev_dma_64mask'' [(''../structpciedev__dev.html#af7e6baa6cd220202c57c57fd6f4c8960'', True, ''pciedev_dev'')],
     ent ''dev_5ffile_5flist'' ''dev_file_list'' [(''../structpciedev__dev.html#a8ed1dbb1842cc5dac1c4e70ee591563f'', True, ''pciedev_dev'')],
     ent ''dev_5ffile_5fref'' ''dev_file_ref'' [(''../structpciedev__dev.html#a70dd23e1e4e09f064d5bef3e55f475fb'', True, ''pciedev_dev'')],
     ent ''dev_5fminor'' ''dev_minor'' [(''../structpciedev__dev.html#af40974d12b3cb4756839bac0f12a4d93'', True, ''pciedev_dev'')],
     ent ''dev_5fmut'' ''dev_mut'' [(''../structpciedev__dev.html#a71029cd75f21c4574bbfae901fec48f7'', True, ''pciedev_dev'')],
     ent ''dev_5fname'' ''dev_name'' [(''../structpciedev__dev.html#ab1b83722186d216f09a5a720e5164e90'', True, ''pciedev_dev'')],
     ent ''dev_5fnum'' ''dev_num'' [(''../structpciedev__dev.html#a3a204fd1eee6f172951fb0182116f200'', True, ''pciedev_dev'')],
     ent ''dev_5fpayload_5fsize'' ''dev_payload_size'' [(''../structpciedev__dev.html#ac977dad885ba0696370be25e4233e59e'', True, ''pciedev_dev'')],
     ent ''dev_5fstr'' ''dev_str'' [(''../structpciedev__dev.html#ae5322ae529331c6aeeb37b2766b780f8'', True, ''pciedev_dev'')],
     ent ''dev_5fsts'' ''dev_sts'' [(''../structpciedev__dev.html#a1e913602320203e4f93018ea16b97445'', True, ''pciedev_dev'')],
     ent ''devfn'' ''devfn'' [(''../structpciedev__dev.html#ab6f3fabedbac7c70efa91d88e6dc7550'', True, ''pciedev_dev'')],
     ent ''device_5fid'' ''device_id'' [(''../structpciedev__dev.html#a5323236e310202fa3bd7c8829a5223e6'', True, ''pciedev_dev'')],
     ent ''device_5fioctrl_5fdata'' ''device_ioctrl_data'' [(''../structdevice__ioctrl__data.html'', True, ''device_ioctrl_data''), (''../pciedev__io_8h.html#a9f5c23857ea399bf4a9bb9652b6d817b'', True, ''device_ioctrl_data():&#160;pciedev_io.h'')],
     ent ''device_5fioctrl_5fdma'' ''device_ioctrl_dma'' [(''../structdevice__ioctrl__dma.html'', True, ''device_ioctrl_dma''), (''../pciedev__io_8h.html#a795326190b88aa344d83d5493642a274'', True, ''device_ioctrl_dma():&#160;pciedev_io.h'')],
     ent ''device_5fioctrl_5ftime'' ''device_ioctrl_time'' [(''../structdevice__ioctrl__time.html'', True, ''device_ioctrl_time''), (''../pciedev__io_8h.html#aba7e14009372d9742940885711d7890e'', True, ''device_ioctrl_time():&#160;pciedev_io.h'')],
     ent ''device_5frw'' ''device_rw'' [(''../structdevice__rw.html'', True, ''device_rw''), (''../pciedev__io_8h.html#a198b5f4fef9dff99b6c27836f972bc19'', True, ''device_rw():&#160;pciedev_io.h'')],
     ent ''devnumber'' ''devNumber'' [(''../structpciedev__dev.html#a857356f652dc59e77c1bbb48e0b2333b'', True, ''pciedev_dev'')],
     ent ''dma_5fcmd'' ''dma_cmd'' [(''../structdevice__ioctrl__dma.html#a5cce7fa7327b8572fba52bdf18d14b0f'', True, ''device_ioctrl_dma'')],
     ent ''dma_5fdata_5foffset'' ''DMA_DATA_OFFSET'' [(''../pciedev__io_8h.html#aa293c11b73c1e8a741c9060d8ef1c021'', True, ''pciedev_io.h'')],
     ent ''dma_5fdata_5foffset_5fbyte'' ''DMA_DATA_OFFSET_BYTE'' [(''../pciedev__io_8h.html#a9fa9f95b2d69f5b07cb9cb30b1ba9afe'', True, ''pciedev_io.h'')],
     ent ''dma_5foffset'' ''dma_offset'' [(''../structdevice__ioctrl__dma.html#afcf57847c512e334f1a83bd89be950fd'', True, ''device_ioctrl_dma'')],
     ent ''dma_5fpattern'' ''dma_pattern'' [(''../structdevice__ioctrl__dma.html#a1e19c195c09b5115ca42ca5bf7392bd8'', True, ''device_ioctrl_dma'')],
     ent ''dma_5freserved1'' ''dma_reserved1'' [(''../structdevice__ioctrl__dma.html#a0b2c5967b28765ba545b56dcb88c2762'', True, ''device_ioctrl_dma'')],
     ent ''dma_5freserved2'' ''dma_reserved2'' [(''../structdevice__ioctrl__dma.html#a0796ba7e60f5ed15719a885a871101c5'', True, ''device_ioctrl_dma'')],
     ent ''dma_5fsize'' ''dma_size'' [(''../structdevice__ioctrl__dma.html#a32b3b16303be485dc116787dc4564bdd'', True, ''device_ioctrl_dma'')]]"

definition all_65_js :: "sd_entry list" where
  "all_65_js =
    [ent ''export_5fsymbol'' ''EXPORT_SYMBOL'' [(''../pciedev__ioctl__exp_8c.html#a889e49a098c44667f34ee09eb94f3c6a'', True, ''EXPORT_SYMBOL(pciedev_ioctl_exp):&#160;pciedev_ioctl_exp.c''), (''../pciedev__probe__exp_8c.html#abc9bdcb88daa33ee8ae058eeaa2251c8'', True, ''EXPORT_SYMBOL(pciedev_probe_exp):&#160;pciedev_probe_exp.c''), (''../pciedev__remove__exp_8c.html#a8487f59e9ab9587fd1cf0725727275aa'', True, ''EXPORT_SYMBOL(pciedev_remove_exp):&#160;pciedev_remove_exp.c''), (''../pciedev__rw__exp_8c.html#af50d888daed4367a10b43b71a5c74eb0'', True, ''EXPORT_SYMBOL(pciedev_read_exp):&#160;pciedev_rw_exp.c''), (''../pciedev__rw__exp_8c.html#a17a1c6f35a7ed697a490a1ca66b2c29b'', True, ''EXPORT_SYMBOL(pciedev_write_exp):&#160;pciedev_rw_exp.c''), (''../pciedev__ufn_8c.html#add6b7ba455c4805935a5a9bace119129'', True, ''EXPORT_SYMBOL(upciedev_init_module_exp):&#160;pciedev_ufn.c''), (''../pciedev__ufn_8c.html#a7ec45425c1b2e74af4d398ed7f9212de'', True, ''EXPORT_SYMBOL(upciedev_cleanup_module_exp):&#160;pciedev_ufn.c''), (''../pciedev__ufn_8c.html#ac844a1d72164dc18da863fd2ebb3a1af'', True, ''EXPORT_SYMBOL(pciedev_open_exp):&#160;pciedev_ufn.c''), (''../pciedev__ufn_8c.html#a61d2e6b8cc11ea6d68aa89127aada355'', True, ''EXPORT_SYMBOL(pciedev_release_exp):&#160;pciedev_ufn.c''), (''../pciedev__ufn_8c.html#ad5a165b96b96af52cf601887ea253b2f'', True, ''EXPORT_SYMBOL(pciedev_set_drvdata):&#160;pciedev_ufn.c''), (''../pciedev__ufn_8c.html#a0e1e74f108738755b0c742ac71907fd4'', True, ''EXPORT_SYMBOL(pciedev_get_drvdata):&#160;pciedev_ufn.c''), (''../pciedev__ufn_8c.html#a4e915dfd29e270f043c0566caa9a6087'', True, ''EXPORT_SYMBOL(pciedev_get_brdnum):&#160;pciedev_ufn.c''), (''../pciedev__ufn_8c.html#a4fb250f74f1a0732a2c0064cab95ca1a'', True, ''EXPORT_SYMBOL(pciedev_get_pciedata):&#160;pciedev_ufn.c''), (''../pciedev__ufn_8c.html#a906761c56b3624e88c3410a01ae4f7ce'', True, ''EXPORT_SYMBOL(pciedev_get_baddress):&#160;pciedev_ufn.c''), (''../pciedev__ufn_8c.html#ae155e7f4908c28fd5df9d6c8375f877d'', True, ''EXPORT_SYMBOL(pciedev_setup_interrupt):&#160;pciedev_ufn.c''), (''../pciedev__ufn_8c.html#a43e78acb59528339d96afabcad70ac4b'', True, ''EXPORT_SYMBOL(pciedev_get_brdinfo):&#160;pciedev_ufn.c''), (''../pciedev__ufn_8c.html#a99061ad1906f6eb5c82fefc424cc0b8f'', True, ''EXPORT_SYMBOL(pciedev_fill_prj_info):&#160;pciedev_ufn.c''), (''../pciedev__ufn_8c.html#a032f20f49be6687932b66383b4a8907d'', True, ''EXPORT_SYMBOL(pciedev_get_prjinfo):&#160;pciedev_ufn.c''), (''../pciedev__ufn_8c.html#a2acb177d65187ee20660834da0d07380'', True, ''EXPORT_SYMBOL(pciedev_procinfo):&#160;pciedev_ufn.c'')]]"

definition all_66_js :: "sd_entry list" where
  "all_66_js =
    [ent ''file_5fcnt'' ''file_cnt'' [(''../structupciedev__file__list.html#a29fc76d66fcd00034f2a33fe60099c88'', True, ''upciedev_file_list'')],
     ent ''filp'' ''filp'' [(''../structupciedev__file__list.html#a1f13c1fe78b490ed69ecbffa3a12bbef'', True, ''upciedev_file_list'')],
     ent ''funcnumber'' ''funcNumber'' [(''../structpciedev__dev.html#a36d7c7cf8cbf98727f98433cdbdaaae1'', True, ''pciedev_dev'')]]"

definition all_69_js :: "sd_entry list" where
  "all_69_js =
    [ent ''ioctrl_5fall'' ''IOCTRL_ALL'' [(''../pciedev__io_8h.html#a1dc1215c881918ae78af0f20713b05a5'', True, ''pciedev_io.h'')],
     ent ''ioctrl_5fr'' ''IOCTRL_R'' [(''../pciedev__io_8h.html#a314ade3cefcb60fbf18f80c8eba4b54c'', True, ''pciedev_io.h'')],
     ent ''ioctrl_5fw'' ''IOCTRL_W'' [(''../pciedev__io_8h.html#a35ef23c334a9de2bfddddf640577d972'', True, ''pciedev_io.h'')],
     ent ''irq_5fflag'' ''irq_flag'' [(''../structpciedev__dev.html#a63c39ba841c2a04ebd5cabadf2c8d14e'', True, ''pciedev_dev'')],
     ent ''irq_5fline'' ''irq_line'' [(''../structpciedev__dev.html#ac7f57db218b2645cc3f8f4740b49d600'', True, ''pciedev_dev'')],
     ent ''irq_5fmode'' ''irq_mode'' [(''../structpciedev__dev.html#a3bf528da41deea66659a704d7d199cef'', True, ''pciedev_dev'')],
     ent ''irq_5fpin'' ''irq_pin'' [(''../structpciedev__dev.html#a3ed00696a9eacdc5b8aa6dbf5a798058'', True, ''pciedev_dev'')]]"

definition all_6d_js :: "sd_entry list" where
  "all_6d_js =
    [ent ''mem_5fbase0'' ''mem_base0'' [(''../structpciedev__dev.html#a9eeca3daecefa938fed5dfa82cd0134f'', True, ''pciedev_dev'')],
     ent ''mem_5fbase0_5fend'' ''mem_base0_end'' [(''../structpciedev__dev.html#a13b54f913bbeacae98936d708920e431'', True, ''pciedev_dev'')],
     ent ''mem_5fbase0_5fflag'' ''mem_base0_flag'' [(''../structpciedev__dev.html#a7689d8265585e5c19bfddcd33d949c88'', True, ''pciedev_dev'')],
     ent ''mem_5fbase1'' ''mem_base1'' [(''../structpciedev__dev.html#aab9adcd9233138414badd0c1e8db1f02'', True, ''pciedev_dev'')],
     ent ''mem_5fbase1_5fend'' ''mem_base1_end'' [(''../structpciedev__dev.html#a00a1ac6ebdbd16b78f3b2b510dde3f75'', True, ''pciedev_dev'')],
     ent ''mem_5fbase1_5fflag'' ''mem_base1_flag'' [(''../structpciedev__dev.html#a8a625e696ed055d6f818738c2a92875f'', True, ''pciedev_dev'')],
     ent ''mem_5fbase2'' ''mem_base2'' [(''../structpciedev__dev.html#aade7517fe3f08239e7460e9461e2563c'', True, ''pciedev_dev'')],
     ent ''mem_5fbase2_5fend'' ''mem_base2_end'' [(''../structpciedev__dev.html#a2b3aafb9b6817245845b155d1dd3e92e'', True, ''pciedev_dev'')],
     ent ''mem_5fbase2_5fflag'' ''mem_base2_flag'' [(''../structpciedev__dev.html#adb2583a869e02b007f7e4b2f08800fbe'', True, ''pciedev_dev'')],
     ent ''mem_5fbase3'' ''mem_base3'' [(''../structpciedev__dev.html#ae3ff109bfd9cb408840e508cff84b41b'', True, ''pciedev_dev'')],
     ent ''mem_5fbase3_5fend'' ''mem_base3_end'' [(''../structpciedev__dev.html#ac342b2f6483d567df043678e627ce55f'', True, ''pciedev_dev'')],
     ent ''mem_5fbase3_5fflag'' ''mem_base3_flag'' [(''../structpciedev__dev.html#a508632a38d538a0e821f96898ba7d80f'', True, ''pciedev_dev'')],
     ent ''mem_5fbase4'' ''mem_base4'' [(''../structpciedev__dev.html#ad0e9a713d5f0d5634889c3fe42027df2'', True, ''pciedev_dev'')],
     ent ''mem_5fbase4_5fend'' ''mem_base4_end'' [(''../structpciedev__dev.html#acff2a1d6bd78f11a63c8d8b300afc51b'', True, ''pciedev_dev'')],
     ent ''mem_5fbase4_5fflag'' ''mem_base4_flag'' [(''../structpciedev__dev.html#aefe502be39515a39eb1d2330b6358add'', True, ''pciedev_dev'')],
     ent ''mem_5fbase5'' ''mem_base5'' [(''../structpciedev__dev.html#aae516cf31dd9d645b214c5569c8067e5'', True, ''pciedev_dev'')],
     ent ''mem_5fbase5_5fend'' ''mem_base5_end'' [(''../structpciedev__dev.html#a1282cc47941988b4f4f40e217ed1a6ea'', True, ''pciedev_dev'')],
     ent ''mem_5fbase5_5fflag'' ''mem_base5_flag'' [(''../structpciedev__dev.html#afa46524d43b30b75519b4f18b6461d3a'', True, ''pciedev_dev'')],
     ent ''memmory_5fbase0'' ''memmory_base0'' [(''../structpciedev__dev.html#a53596933996f3b9b03254cf0054e9148'', True, ''pciedev_dev'')],
     ent ''memmory_5fbase1'' ''memmory_base1'' [(''../structpciedev__dev.html#ae754c343d131ac67a1f555173c6a373b'', True, ''pciedev_dev'')],
     ent ''memmory_5fbase2'' ''memmory_base2'' [(''../structpciedev__dev.html#a4aef037999e808b2e013978f6d1055cb'', True, ''pciedev_dev'')],
     ent ''memmory_5fbase3'' ''memmory_base3'' [(''../structpciedev__dev.html#aae2703c74a36294718cd01b31bb4f81d'', True, ''pciedev_dev'')],
     ent ''memmory_5fbase4'' ''memmory_base4'' [(''../structpciedev__dev.html#a614bbb6ab9d71f9ba40eb29e2b84db39'', True, ''pciedev_dev'')],
     ent ''memmory_5fbase5'' ''memmory_base5'' [(''../structpciedev__dev.html#a08b0506d15ec24f529bdea4d6e459f2a'', True, ''pciedev_dev'')],
     ent ''mode_5frw'' ''mode_rw'' [(''../structdevice__rw.html#afed29415714fb813dea1c933ef904a2c'', True, ''device_rw'')],
     ent ''module_5fauthor'' ''MODULE_AUTHOR'' [(''../upciedev__drv_8c.html#aeb38205dd76d7ef98c268faa49b66a02'', True, ''upciedev_drv.c'')],
     ent ''module_5fdescription'' ''MODULE_DESCRIPTION'' [(''../upciedev__drv_8c.html#a04135c0cdd256a3304e0ece7f02d3e3e'', True, ''upciedev_drv.c'')],
     ent ''module_5fexit'' ''module_exit'' [(''../upciedev__drv_8c.html#a81db766d6c760fb089254b52ca3e5b1b'', True, ''upciedev_drv.c'')],
     ent ''module_5finit'' ''module_init'' [(''../upciedev__drv_8c.html#a1529276f8eb03153ef29fca48b388169'', True, ''upciedev_drv.c'')],
     ent ''module_5flicense'' ''MODULE_LICENSE'' [(''../upciedev__drv_8c.html#a5c95e2cd11cba226f5f3513060a8928e'', True, ''upciedev_drv.c'')],
     ent ''module_5fversion'' ''MODULE_VERSION'' [(''../upciedev__drv_8c.html#aaf1fcc58f41ef923017c9d1bb319686d'', True, ''upciedev_drv.c'')]]"

definition all_6e_js :: "sd_entry list" where
  "all_6e_js =
    [ent ''node_5ffile_5flist'' ''node_file_list'' [(''../structupciedev__file__list.html#a0849bf418ad72dd15dfe82656ae0b2cd'', True, ''upciedev_file_list'')],
     ent ''null_5fdev'' ''null_dev'' [(''../structpciedev__dev.html#afe1e74f898cb5cbe0b407282cb828941'', True, ''pciedev_dev'')]]"

definition all_6f_js :: "sd_entry list" where
  "all_6f_js =
    [ent ''offset'' ''offset'' [(''../structdevice__ioctrl__data.html#aa0b658a92f878b772eacf929ffe1e180'', True, ''device_ioctrl_data'')],
     ent ''offset_5frw'' ''offset_rw'' [(''../structdevice__rw.html#ab06d43634d5687872ab483eb4dd96a29'', True, ''device_rw'')]]"

definition all_70_js :: "sd_entry list" where
  "all_70_js =
    [ent ''parent_5fdev'' ''parent_dev'' [(''../structpciedev__dev.html#a3ccd02ec03020de42cdf8f1d748493d6'', True, ''pciedev_dev'')],
     ent ''pci_5fdev_5firq'' ''pci_dev_irq'' [(''../structpciedev__dev.html#a858a6584f47bbe70e34e54cd8a008324'', True, ''pciedev_dev'')],
     ent ''pcied_5ffpos'' ''PCIED_FPOS'' [(''../pciedev__ufn_8h.html#af5bd2d5b0d466fc7c6b89e85054df1f9'', True, ''pciedev_ufn.h'')],
     ent ''pciedev_5fall_5fmems'' ''pciedev_all_mems'' [(''../structpciedev__dev.html#a9439b81f518ed4bc0055f53101cd900c'', True, ''pciedev_dev'')],
     ent ''pciedev_5fboard_5fdate'' ''PCIEDEV_BOARD_DATE'' [(''../structpciedev__brd__info.html#a1a6c23dd0317d5f343bd95bd75079a63'', True, ''pciedev_brd_info'')],
     ent ''pciedev_5fboard_5fid'' ''PCIEDEV_BOARD_ID'' [(''../structpciedev__brd__info.html#ae94f88f988d0db5a887ffcf42b4ab235'', True, ''pciedev_brd_info'')],
     ent ''pciedev_5fboard_5freserved'' ''PCIEDEV_BOARD_RESERVED'' [(''../structpciedev__brd__info.html#aba02a309752715d4081bf30465c0948c'', True, ''pciedev_brd_info'')],
     ent ''pciedev_5fboard_5fversion'' ''PCIEDEV_BOARD_VERSION'' [(''../structpciedev__brd__info.html#a09721e4f18f2b6d882db29497e31fa3a'', True, ''pciedev_brd_info'')],
     ent ''pciedev_5fbrd_5finfo'' ''pciedev_brd_info'' [(''../structpciedev__brd__info.html'', True, ''pciedev_brd_info''), (''../pciedev__ufn_8h.html#a4342eaea5cad7821f56bc3ba64f8104a'', True, ''pciedev_brd_info():&#160;pciedev_ufn.h'')],
     ent ''pciedev_5fcdev'' ''pciedev_cdev'' [(''../structpciedev__cdev.html'', True, ''pciedev_cdev''), (''../pciedev__ufn_8h.html#a4ae814911b067afa89f58fcaf1241a82'', True, ''pciedev_cdev():&#160;pciedev_ufn.h'')],
     ent ''pciedev_5fcheck_5fscratch'' ''pciedev_check_scratch'' [(''../pciedev__rw__exp_8c.html#a172e512fecea4c8923a8b2bd11cd9f30'', True, ''pciedev_check_scratch(struct pciedev_dev *dev, int rmode):&#160;pciedev_rw_exp.c''), (''../pciedev__ufn_8h.html#a3a50a2c317ac8543481467429e02b216'', True, ''pciedev_check_scratch(struct pciedev_dev *, int):&#160;pciedev_rw_exp.c'')],
     ent ''pciedev_5fclass'' ''pciedev_class'' [(''../structpciedev__cdev.html#aaa98d4915cbbed6c866ffaf7483108bc'', True, ''pciedev_cdev'')],
     ent ''pciedev_5fdev'' ''pciedev_dev'' [(''../structpciedev__dev.html'', True, ''pciedev_dev''), (''../pciedev__ufn_8h.html#a8b346c63af6e09c3191f8b83f53cf971'', True, ''pciedev_dev():&#160;pciedev_ufn.h'')],
     ent ''pciedev_5fdev_5fm'' ''pciedev_dev_m'' [(''../structpciedev__cdev.html#a8c11bf5f89111dabe132a47e1f4c76a7'', True, ''pciedev_cdev'')],
     ent ''pciedev_5fdma_5fmin_5fsyze'' ''PCIEDEV_DMA_MIN_SYZE'' [(''../pciedev__io_8h.html#a6df179f336e65ab5b64801ca0f9818d2'', True, ''pciedev_io.h'')],
     ent ''pciedev_5fdma_5fsyze'' ''PCIEDEV_DMA_SYZE'' [(''../pciedev__io_8h.html#acf195079e65702428087887dd5649ffc'', True, ''pciedev_io.h'')],
     ent ''pciedev_5fdriver_5fversion'' ''PCIEDEV_DRIVER_VERSION'' [(''../pciedev__io_8h.html#a2140cdb4612e1aeb483572affbeb9f20'', True, ''pciedev_io.h'')],
     ent ''pciedev_5fdrv_5fver_5fmaj'' ''PCIEDEV_DRV_VER_MAJ'' [(''../structpciedev__cdev.html#ad61b849b4d938a1750e68585791eeebd'', True, ''pciedev_cdev'')],
     ent ''pciedev_5fdrv_5fver_5fmin'' ''PCIEDEV_DRV_VER_MIN'' [(''../structpciedev__cdev.html#af290aa167eae6b6ec1eb1e82eccf9f9b'', True, ''pciedev_cdev'')],
     ent ''pciedev_5ffill_5fprj_5finfo'' ''pciedev_fill_prj_info'' [(''../pciedev__ufn_8c.html#afdfa8ea4102cd3b704d207dfbf2f8045'', True, ''pciedev_fill_prj_info(struct pciedev_dev *bdev, void *baddress):&#160;pciedev_ufn.c''), (''../pciedev__ufn_8h.html#a04704b7f8858ac0ba0e15eeafd3ae855'', True, ''pciedev_fill_prj_info(struct pciedev_dev *, void *):&#160;pciedev_ufn.c'')],
     ent ''pciedev_5ffirmware_5fversion'' ''PCIEDEV_FIRMWARE_VERSION'' [(''../pciedev__io_8h.html#a4209c10c61a2ea367ce7ae1ebaf03ed0'', True, ''pciedev_io.h'')],
     ent ''pciedev_5fget_5fbaddress'' ''pciedev_get_baddress'' [(''../pciedev__ufn_8c.html#a8249f6edd275b94c53e9e783a2538dae'', True, ''pciedev_get_baddress(int br_num, struct pciedev_dev *dev):&#160;pciedev_ufn.c''), (''../pciedev__ufn_8h.html#a11ca837547544e14dea204bd54a29bae'', True, ''pciedev_get_baddress(int, struct pciedev_dev *):&#160;pciedev_ufn.c'')],
     ent ''pciedev_5fget_5fbrdinfo'' ''pciedev_get_brdinfo'' [(''../pciedev__ufn_8c.html#a0e9c0296a49472322ef2c3179fce5a37'', True, ''pciedev_get_brdinfo(struct pciedev_dev *bdev):&#160;pciedev_ufn.c''), (''../pciedev__ufn_8h.html#aad9373dffa0623f69740cd579caeceb0'', True, ''pciedev_get_brdinfo(struct pciedev_dev *):&#160;pciedev_ufn.c'')],
     ent ''pciedev_5fget_5fbrdnum'' ''pciedev_get_brdnum'' [(''../pciedev__ufn_8c.html#af78683c2315d019d4552c0bc6e6fc7fc'', True, ''pciedev_get_brdnum(struct pci_dev *dev):&#160;pciedev_ufn.c''), (''../pciedev__ufn_8h.html#a5892091221ae99bab874c14d9f1dd817'', True, ''pciedev_get_brdnum(struct pci_dev *):&#160;pciedev_ufn.c'')],
     ent ''pciedev_5fget_5fdma_5ftime'' ''PCIEDEV_GET_DMA_TIME'' [(''../pciedev__io_8h.html#a2aa7940c0614fa9c0c1031e028db6fc0'', True, ''pciedev_io.h'')],
     ent ''pciedev_5fget_5fdrvdata'' ''pciedev_get_drvdata'' [(''../pciedev__ufn_8c.html#aa4c092a53544e5791a7544cb68d60f61'', True, ''pciedev_get_drvdata(struct pciedev_dev *dev):&#160;pciedev_ufn.c''), (''../pciedev__ufn_8h.html#a248ae92b918dddf4f310a2c0bdf12e26'', True, ''pciedev_get_drvdata(struct pciedev_dev *):&#160;pciedev_ufn.c'')],
     ent ''pciedev_5fget_5fpciedata'' ''pciedev_get_pciedata'' [(''../pciedev__ufn_8c.html#a227a41c8651d334fcacecc6161ddc9b9'', True, ''pciedev_get_pciedata(struct pci_dev *dev):&#160;pciedev_ufn.c''), (''../pciedev__ufn_8h.html#acc306e1d829c5958649ced047a9f0b47'', True, ''pciedev_get_pciedata(struct pci_dev *):&#160;pciedev_ufn.c'')],
     ent ''pciedev_5fget_5fprjinfo'' ''pciedev_get_prjinfo'' [(''../pciedev__ufn_8c.html#a505869656038dbb8c3d014de193c69c6'', True, ''pciedev_get_prjinfo(struct pciedev_dev *bdev):&#160;pciedev_ufn.c''), (''../pciedev__ufn_8h.html#a7b2e7230722a388f1738872a12e16fab'', True, ''pciedev_get_prjinfo(struct pciedev_dev *):&#160;pciedev_ufn.c'')],
     ent ''pciedev_5fget_5fstatus'' ''PCIEDEV_GET_STATUS'' [(''../pciedev__io_8h.html#a1192aa141968a35a6df1c3fed3646f14'', True, ''pciedev_io.h'')],
     ent ''pciedev_5fhw_5fversion'' ''PCIEDEV_HW_VERSION'' [(''../structpciedev__brd__info.html#a3579f9986da5358c11e47d3e2ecd74b3'', True, ''pciedev_brd_info'')],
     ent ''pciedev_5fio_2eh'' ''pciedev_io.h'' [(''../pciedev__io_8h.html'', True, '''')],
     ent ''pciedev_5fioctl_5fexp'' ''pciedev_ioctl_exp'' [(''../pciedev__ioctl__exp_8c.html#ac5a7d2102e3cbf8119042c6267f7b8b1'', True, ''pciedev_ioctl_exp(struct file *filp, unsigned int *cmd_p, unsigned long *arg_p, pciedev_cdev *pciedev_cdev_m):&#160;pciedev_ioctl_exp.c''), (''../pciedev__ufn_8h.html#aa7f3b36a7cc679675ed48898e06b7f63'', True, ''pciedev_ioctl_exp(struct file *, unsigned int *, unsigned long *, pciedev_cdev *):&#160;pciedev_ioctl_exp.c'')],
     ent ''pciedev_5fioctl_5fexp_2ec'' ''pciedev_ioctl_exp.c'' [(''../pciedev__ioctl__exp_8c.html'', True, '''')],
     ent ''pciedev_5fllseek'' ''pciedev_llseek'' [(''../pciedev__rw__exp_8c.html#a5533905d3d36265c8988a01f23248e33'', True, ''pciedev_llseek(struct file *filp, loff_t off, int frm):&#160;pciedev_rw_exp.c''), (''../pciedev__ufn_8h.html#a9e757259c2d591ca648fe06068cdcf84'', True, ''pciedev_llseek(struct file *, loff_t, int):&#160;pciedev_rw_exp.c'')],
     ent ''pciedev_5fmajor'' ''PCIEDEV_MAJOR'' [(''../structpciedev__cdev.html#a1b39e1fbdc16a04ddbaa97bdf8a25bd2'', True, ''pciedev_cdev'')],
     ent ''pciedev_5fminor'' ''PCIEDEV_MINOR'' [(''../structpciedev__cdev.html#ac992db6cc3d06151e8602f83d2a62a64'', True, ''pciedev_cdev'')],
     ent ''pciedev_5fopen_5fexp'' ''pciedev_open_exp'' [(''../pciedev__ufn_8c.html#a69825f42f3dedf9d9b384bf8ab649799'', True, ''pciedev_open_exp(struct inode *inode, struct file *filp):&#160;pciedev_ufn.c''), (''../pciedev__ufn_8h.html#a018ec19a761491b35bcc290a7c580d70'', True, ''pciedev_open_exp(struct inode *, struct file *):&#160;pciedev_ufn.c'')],
     ent ''pciedev_5fpci_5fdev'' ''pciedev_pci_dev'' [(''../structpciedev__dev.html#a2752cedd8537dd552c53eb3cfe5289e3'', True, ''pciedev_dev'')],
     ent ''pciedev_5fphysical_5fslot'' ''PCIEDEV_PHYSICAL_SLOT'' [(''../pciedev__io_8h.html#a07aad6c0ab1a1d0386c51904d1d4e481'', True, ''pciedev_io.h'')],
     ent ''pciedev_5fprj_5finfo'' ''pciedev_prj_info'' [(''../structpciedev__prj__info.html'', True, ''pciedev_prj_info''), (''../pciedev__ufn_8h.html#a247bf67f29f8c8442f2c1d8d4e6ed4f6'', True, ''pciedev_prj_info():&#160;pciedev_ufn.h'')],
     ent ''pciedev_5fprobe_5fexp'' ''pciedev_probe_exp'' [(''../pciedev__probe__exp_8c.html#a0a4ad98251744b7f355f14f7a0b499e0'', True, ''pciedev_probe_exp(struct pci_dev *dev, const struct pci_device_id *id, struct file_operations *pciedev_fops, pciedev_cdev *pciedev_cdev_p, char *dev_name, int *brd_num):&#160;pciedev_probe_exp.c''), (''../pciedev__ufn_8h.html#a056c9a66d474f26e759a4191825eeea1'', True, ''pciedev_probe_exp(struct pci_dev *, const struct pci_device_id *, struct file_operations *, pciedev_cdev *, char *, int *):&#160;pciedev_probe_exp.c'')],
     ent ''pciedev_5fprobe_5fexp_2ec'' ''pciedev_probe_exp.c'' [(''../pciedev__probe__exp_8c.html'', True, '''')],
     ent ''pciedev_5fprocdir'' ''pciedev_procdir'' [(''../structpciedev__cdev.html#a58b53d27105e413037a0e9b84c1c9e12'', True, ''pciedev_cdev'')],
     ent ''pciedev_5fprocinfo'' ''pciedev_procinfo'' [(''../pciedev__ufn_8c.html#a72ca703e4a2497c3c844f5334f41db11'', True, ''pciedev_procinfo(struct file *filp, char *buf, size_t count, loff_t *offp):&#160;pciedev_ufn.c''), (''../pciedev__ufn_8h.html#a72ca703e4a2497c3c844f5334f41db11'', True, ''pciedev_procinfo(struct file *filp, char *buf, size_t count, loff_t *offp):&#160;pciedev_ufn.c'')],
     ent ''pciedev_5fproj_5fdate'' ''PCIEDEV_PROJ_DATE'' [(''../structpciedev__prj__info.html#a168802287bd865a38046ed7ce1c8ddf5'', True, ''pciedev_prj_info'')],
     ent ''pciedev_5fproj_5fid'' ''PCIEDEV_PROJ_ID'' [(''../structpciedev__prj__info.html#a64d2c70194b0134722e18d0042b97dd1'', True, ''pciedev_prj_info'')],
     ent ''pciedev_5fproj_5fnext'' ''PCIEDEV_PROJ_NEXT'' [(''../structpciedev__brd__info.html#a9728484f826aafb16433484fa237490f'', True, ''pciedev_brd_info::PCIEDEV_PROJ_NEXT()''), (''../structpciedev__prj__info.html#aa08856292f6a8c4e22e8ee9d2c62a62d'', True, ''pciedev_prj_info::PCIEDEV_PROJ_NEXT()'')],
     ent ''pciedev_5fproj_5freserved'' ''PCIEDEV_PROJ_RESERVED'' [(''../structpciedev__prj__info.html#a6bd9422a240447891b3f7320890d4088'', True, ''pciedev_prj_info'')],
     ent ''pciedev_5fproj_5fversion'' ''PCIEDEV_PROJ_VERSION'' [(''../structpciedev__prj__info.html#a9906330775b1a10fe77374728f2c248b'', True, ''pciedev_prj_info'')],
     ent ''pciedev_5fread_5fdma'' ''PCIEDEV_READ_DMA'' [(''../pciedev__io_8h.html#a0ce58a436c9a78d135964a5b62c0dfd5'', True, ''pciedev_io.h'')],
     ent ''pciedev_5fread_5fexp'' ''pciedev_read_exp'' [(''../pciedev__rw__exp_8c.html#adffa9c9f1526e76ddb2c9f13b23abefb'', True, ''pciedev_read_exp(struct file *filp, char __user *buf, size_t count, loff_t *f_pos):&#160;pciedev_rw_exp.c''), (''../pciedev__ufn_8h.html#acdc8222997f63d934b2c33980ccf622b'', True, ''pciedev_read_exp(struct file *, char __user *, size_t, loff_t *):&#160;pciedev_rw_exp.c'')],
     ent ''pciedev_5frelease_5fexp'' ''pciedev_release_exp'' [(''../pciedev__ufn_8c.html#ab17fa9853c5b5fc62e50f61069ff8a8d'', True, ''pciedev_release_exp(struct inode *inode, struct file *filp):&#160;pciedev_ufn.c''), (''../pciedev__ufn_8h.html#a81a53a912c64095350b48158afc566ac'', True, ''pciedev_release_exp(struct inode *, struct file *):&#160;pciedev_ufn.c'')],
     ent ''pciedev_5fremove_5fexp'' ''pciedev_remove_exp'' [(''../pciedev__remove__exp_8c.html#a3dea48122c045d73e487b9cccc610561'', True, ''pciedev_remove_exp(struct pci_dev *dev, pciedev_cdev *pciedev_cdev_m, char *dev_name, int *brd_num):&#160;pciedev_remove_exp.c''), (''../pciedev__ufn_8h.html#a8e8bd2dc388062f755d6e768f3e606e5'', True, ''pciedev_remove_exp(struct pci_dev *dev, pciedev_cdev *, char *, int *):&#160;pciedev_remove_exp.c'')],
     ent ''pciedev_5fremove_5fexp_2ec'' ''pciedev_remove_exp.c'' [(''../pciedev__remove__exp_8c.html'', True, '''')],
     ent ''pciedev_5frw_5fexp_2ec'' ''pciedev_rw_exp.c'' [(''../pciedev__rw__exp_8c.html'', True, '''')],
     ent ''pciedev_5fscratch_5freg'' ''PCIEDEV_SCRATCH_REG'' [(''../pciedev__io_8h.html#aee76447bc6c66911e0012e7cb33b34ac'', True, ''pciedev_io.h'')],
     ent ''pciedev_5fset_5fdrvdata'' ''pciedev_set_drvdata'' [(''../pciedev__ufn_8c.html#a2ba88ce564225bbd3b049039527515b5'', True, ''pciedev_set_drvdata(struct pciedev_dev *dev, void *data):&#160;pciedev_ufn.c''), (''../pciedev__ufn_8h.html#ab120c58326f82de487f963fa675b93ae'', True, ''pciedev_set_drvdata(struct pciedev_dev *, void *):&#160;pciedev_ufn.c'')],
     ent ''pciedev_5fset_5firq'' ''PCIEDEV_SET_IRQ'' [(''../pciedev__io_8h.html#affbc21ad44dcfae23526e8fb7b77b16c'', True, ''pciedev_io.h'')],
     ent ''pciedev_5fsetup_5finterrupt'' ''pciedev_setup_interrupt'' [(''../pciedev__ufn_8c.html#af9ec8fdb0f4113c211110358b8b847f3'', True, ''pciedev_setup_interrupt(irqreturn_t(*pciedev_interrupt)(int, void *, struct pt_regs *), struct pciedev_dev *pdev, char *dev_name):&#160;pciedev_ufn.c''), (''../pciedev__ufn_8h.html#ae8f130b4ff23110a501ab00b5928ee94'', True, ''pciedev_setup_interrupt(irqreturn_t(*pciedev_interrupt)(int, void *, struct pt_regs *), struct pciedev_dev *, char *):&#160;pciedev_ufn.c'')],
     ent ''pciedev_5fufn_2ec'' ''pciedev_ufn.c'' [(''../pciedev__ufn_8c.html'', True, '''')],
     ent ''pciedev_5fufn_2eh'' ''pciedev_ufn.h'' [(''../pciedev__ufn_8h.html'', True, '''')],
     ent ''pciedev_5fwrite_5fdma'' ''PCIEDEV_WRITE_DMA'' [(''../pciedev__io_8h.html#a6892d9a42c85abdf25bf5998359ba61b'', True, ''pciedev_io.h'')],
     ent ''pciedev_5fwrite_5fexp'' ''pciedev_write_exp'' [(''../pciedev__rw__exp_8c.html#ab9c8b3bd33ef7a2861205b46e495d8d6'', True, ''pciedev_write_exp(struct file *filp, const char __user *buf, size_t count, loff_t *f_pos):&#160;pciedev_rw_exp.c''), (''../pciedev__ufn_8h.html#aeb1b14d3cfd3cc60cc552f4c16c6493b'', True, ''pciedev_write_exp(struct file *, const char __user *, size_t, loff_t *):&#160;pciedev_rw_exp.c'')],
     ent ''pciedevmodulenum'' ''pciedevModuleNum'' [(''../structpciedev__cdev.html#a15edea422f4d38368426aebf1a6728e2'', True, ''pciedev_cdev'')],
     ent ''pciedoocs_5fioc'' ''PCIEDOOCS_IOC'' [(''../pciedev__io_8h.html#ae4a61739d33de556c654b0b2d3458549'', True, ''pciedev_io.h'')],
     ent ''pciedoocs_5fioc_5fdma_5fmaxnr'' ''PCIEDOOCS_IOC_DMA_MAXNR'' [(''../pciedev__io_8h.html#a80b72af01345fd80ba7df7085fe5271b'', True, ''pciedev_io.h'')],
     ent ''pciedoocs_5fioc_5fdma_5fminnr'' ''PCIEDOOCS_IOC_DMA_MINNR'' [(''../pciedev__io_8h.html#a3550d7327b976a7882121d4fb3e9e518'', True, ''pciedev_io.h'')],
     ent ''pciedoocs_5fioc_5fmaxnr'' ''PCIEDOOCS_IOC_MAXNR'' [(''../pciedev__io_8h.html#a2adc22a34dd80aeb9090741dad0bf049'', True, ''pciedev_io.h'')],
     ent ''pciedoocs_5fioc_5fminnr'' ''PCIEDOOCS_IOC_MINNR'' [(''../pciedev__io_8h.html#aeda3a2a8e04dea1db5bcf4d4cec12688'', True, ''pciedev_io.h'')],
     ent ''prj_5finfo_5flist'' ''prj_info_list'' [(''../structpciedev__dev.html#abbeab4eb9fde1991bddb7d550cea0073'', True, ''pciedev_dev'')],
     ent ''prj_5flist'' ''prj_list'' [(''../structpciedev__prj__info.html#acd9c7558368cd3f73ef5e917791660ba'', True, ''pciedev_prj_info'')]]"

definition all_72_js :: "sd_entry list" where
  "all_72_js =
    [ent ''register_5fupciedev_5fproc'' ''register_upciedev_proc'' [(''../pciedev__ufn_8c.html#a32f12fc6b2bf9b68659745c699738fdb'', True, ''register_upciedev_proc(int num, char *dfn, struct pciedev_dev *p_upcie_dev, struct pciedev_cdev *p_upcie_cdev):&#160;pciedev_ufn.c''), (''../pciedev__ufn_8h.html#a32f12fc6b2bf9b68659745c699738fdb'', True, ''register_upciedev_proc(int num, char *dfn, struct pciedev_dev *p_upcie_dev, struct pciedev_cdev *p_upcie_cdev):&#160;pciedev_ufn.c'')],
     ent ''reserved'' ''reserved'' [(''../structdevice__ioctrl__data.html#ad8ffd816b771df6ef50f7c40166a37a6'', True, ''device_ioctrl_data'')],
     ent ''revision'' ''revision'' [(''../structpciedev__dev.html#acee588bb923d6964d7274a976c60b81f'', True, ''pciedev_dev'')],
     ent ''rsrvd_5frw'' ''rsrvd_rw'' [(''../structdevice__rw.html#ad00399557d63fd24a5301204a7631c52'', True, ''device_rw'')],
     ent ''rw_5fd16'' ''RW_D16'' [(''../pciedev__io_8h.html#abc50dc315c651c129149ea8f543e23ea'', True, ''pciedev_io.h'')],
     ent ''rw_5fd32'' ''RW_D32'' [(''../pciedev__io_8h.html#a95cac24787550ae06eb2cd33b0d92194'', True, ''pciedev_io.h'')],
     ent ''rw_5fd8'' ''RW_D8'' [(''../pciedev__io_8h.html#a3494a27985916bbb418d9c6557985c15'', True, ''pciedev_io.h'')],
     ent ''rw_5fdma'' ''RW_DMA'' [(''../pciedev__io_8h.html#a3afe2693cdc01fee9aa769f889e9f690'', True, ''pciedev_io.h'')],
     ent ''rw_5finfo'' ''RW_INFO'' [(''../pciedev__io_8h.html#a8ee8c3c02591a6a47113a0e59b88936a'', True, ''pciedev_io.h'')],
     ent ''rw_5foff0'' ''rw_off0'' [(''../structpciedev__dev.html#a591d58b973d2267fb720eb4945a580a6'', True, ''pciedev_dev'')],
     ent ''rw_5foff1'' ''rw_off1'' [(''../structpciedev__dev.html#a528311ce7651bbb1a31f1fba2aba01e2'', True, ''pciedev_dev'')],
     ent ''rw_5foff2'' ''rw_off2'' [(''../structpciedev__dev.html#a6c373ebf413e5fec410b1b51dacb4a65'', True, ''pciedev_dev'')],
     ent ''rw_5foff3'' ''rw_off3'' [(''../structpciedev__dev.html#ad49f7d49274b2b921da3c21aa857cebd'', True, ''pciedev_dev'')],
     ent ''rw_5foff4'' ''rw_off4'' [(''../structpciedev__dev.html#a0cc4eb653f653ab59363e1d9f89a7d62'', True, ''pciedev_dev'')],
     ent ''rw_5foff5'' ''rw_off5'' [(''../structpciedev__dev.html#a95eb4e3702cf7f042d99d03746f70d69'', True, ''pciedev_dev'')]]"

definition all_73_js :: "sd_entry list" where
  "all_73_js =
    [ent ''scratch_5fbar'' ''scratch_bar'' [(''../structpciedev__dev.html#a594a5c181000d31c2ffab9a3a1f39ab7'', True, ''pciedev_dev'')],
     ent ''scratch_5foffset'' ''scratch_offset'' [(''../structpciedev__dev.html#a3d70cef688f7bad685097a682b6818ff'', True, ''pciedev_dev'')],
     ent ''size_5frw'' ''size_rw'' [(''../structdevice__rw.html#ad9348912dabb0b218d0c500c66dda20d'', True, ''device_rw'')],
     ent ''slot_5fnum'' ''slot_num'' [(''../structpciedev__dev.html#a80d2c64840bd16a5e3f485104f0635b2'', True, ''pciedev_dev'')],
     ent ''start_5ftime'' ''start_time'' [(''../structdevice__ioctrl__time.html#a73717c26f9ec75f5b4ea114976a1ba2c'', True, ''device_ioctrl_time'')],
     ent ''startup_5fbrd'' ''startup_brd'' [(''../structpciedev__dev.html#a7f22bd7ed61495948900ba16d18d9425'', True, ''pciedev_dev'')],
     ent ''startup_5fprj_5fnum'' ''startup_prj_num'' [(''../structpciedev__dev.html#a9543b875aeec9066051803149cd34fc1'', True, ''pciedev_dev'')],
     ent ''stop_5ftime'' ''stop_time'' [(''../structdevice__ioctrl__time.html#a04786d897463142079bd0cc2b041efcd'', True, ''device_ioctrl_time'')],
     ent ''subdevice_5fid'' ''subdevice_id'' [(''../structpciedev__dev.html#a2530f2ef78bb906c92c95d48f74dbfab'', True, ''pciedev_dev'')],
     ent ''subvendor_5fid'' ''subvendor_id'' [(''../structpciedev__dev.html#a570e1ece5d7563491b2db88cbbb9a87b'', True, ''pciedev_dev'')]]"

definition all_75_js :: "sd_entry list" where
  "all_75_js =
    [ent ''unregister_5fupciedev_5fproc'' ''unregister_upciedev_proc'' [(''../pciedev__ufn_8c.html#a604e88255fa0f468cbc7c046ce560db9'', True, ''unregister_upciedev_proc(int num, char *dfn):&#160;pciedev_ufn.c''), (''../pciedev__ufn_8h.html#a604e88255fa0f468cbc7c046ce560db9'', True, ''unregister_upciedev_proc(int num, char *dfn):&#160;pciedev_ufn.c'')],
     ent ''upciedev_5fcleanup_5fmodule_5fexp'' ''upciedev_cleanup_module_exp'' [(''../pciedev__ufn_8c.html#a9210f5f3452bcfc6c7d0f982688ca833'', True, ''upciedev_cleanup_module_exp(pciedev_cdev **pciedev_cdev_p):&#160;pciedev_ufn.c''), (''../pciedev__ufn_8h.html#aa7b73bf550ed4243740e152276bae7b0'', True, ''upciedev_cleanup_module_exp(pciedev_cdev **):&#160;pciedev_ufn.c'')],
     ent ''upciedev_5fdrv_2ec'' ''upciedev_drv.c'' [(''../upciedev__drv_8c.html'', True, '''')],
     ent ''upciedev_5ffile_5flist'' ''upciedev_file_list'' [(''../structupciedev__file__list.html'', True, ''upciedev_file_list''), (''../pciedev__ufn_8h.html#a4002e0ed7729cf485218730115e81277'', True, ''upciedev_file_list():&#160;pciedev_ufn.h'')],
     ent ''upciedev_5finit_5fmodule_5fexp'' ''upciedev_init_module_exp'' [(''../pciedev__ufn_8c.html#ac43f73e71ebb1f2386f0a238d0be6404'', True, ''upciedev_init_module_exp(pciedev_cdev **pciedev_cdev_pp, struct file_operations *pciedev_fops, char *dev_name):&#160;pciedev_ufn.c''), (''../pciedev__ufn_8h.html#a3881936381992a7936d832e84260e450'', True, ''upciedev_init_module_exp(pciedev_cdev **, struct file_operations *, char *):&#160;pciedev_ufn.c'')],
     ent ''upciedev_5fver_5fmaj'' ''UPCIEDEV_VER_MAJ'' [(''../structpciedev__cdev.html#a8c7da97fa14c4332361a77f992fb0aae'', True, ''pciedev_cdev'')],
     ent ''upciedev_5fver_5fmin'' ''UPCIEDEV_VER_MIN'' [(''../structpciedev__cdev.html#a0f6e52e10c1d498a0d500cfd096098c7'', True, ''pciedev_cdev'')]]"

definition all_76_js :: "sd_entry list" where
  "all_76_js =
    [ent ''vendor_5fid'' ''vendor_id'' [(''../structpciedev__dev.html#a4d30d9bd4e8486561688b472ee6451ef'', True, ''pciedev_dev'')]]"

definition all_77_js :: "sd_entry list" where
  "all_77_js =
    [ent ''word_5fboard_5fdate'' ''WORD_BOARD_DATE'' [(''../pciedev__ufn_8h.html#a6fc5de9f35daa6a43b6ecf40b0fbdc87'', True, ''pciedev_ufn.h'')],
     ent ''word_5fboard_5fhw_5fversion'' ''WORD_BOARD_HW_VERSION'' [(''../pciedev__ufn_8h.html#aed280da0791db3ba65e788e162368762'', True, ''pciedev_ufn.h'')],
     ent ''word_5fboard_5fid'' ''WORD_BOARD_ID'' [(''../pciedev__ufn_8h.html#af973f22d2c9b14bc7ecaedb722240bbc'', True, ''pciedev_ufn.h'')],
     ent ''word_5fboard_5fmagic_5fnum'' ''WORD_BOARD_MAGIC_NUM'' [(''../pciedev__ufn_8h.html#a65dc7126a642247f408a9b05d22de86c'', True, ''pciedev_ufn.h'')],
     ent ''word_5fboard_5freset'' ''WORD_BOARD_RESET'' [(''../pciedev__ufn_8h.html#ae7163ed970470fb18075a06a3ff145be'', True, ''pciedev_ufn.h'')],
     ent ''word_5fboard_5fto_5fproj'' ''WORD_BOARD_TO_PROJ'' [(''../pciedev__ufn_8h.html#a26e1013d278b8bb19337073a093a013b'', True, ''pciedev_ufn.h'')],
     ent ''word_5fboard_5fversion'' ''WORD_BOARD_VERSION'' [(''../pciedev__ufn_8h.html#ad9f4f941a44446fae6331251868a4071'', True, ''pciedev_ufn.h'')],
     ent ''word_5fproj_5fdate'' ''WORD_PROJ_DATE'' [(''../pciedev__ufn_8h.html#a00ac381d8b99a4b466be5be5e18dcd0b'', True, ''pciedev_ufn.h'')],
     ent ''word_5fproj_5fid'' ''WORD_PROJ_ID'' [(''../pciedev__ufn_8h.html#a85a66859ac00fbbc3d584d5f27774284'', True, ''pciedev_ufn.h'')],
     ent ''word_5fproj_5firq_5fclr_5fflagse'' ''WORD_PROJ_IRQ_CLR_FLAGSE'' [(''../pciedev__ufn_8h.html#a7858e1aa41d7fb2b42a89b4ceb614c4f'', True, ''pciedev_ufn.h'')],
     ent ''word_5fproj_5firq_5fenable'' ''WORD_PROJ_IRQ_ENABLE'' [(''../pciedev__ufn_8h.html#aeefda069e3e7efe0cdb8501758c2f74d'', True, ''pciedev_ufn.h'')],
     ent ''word_5fproj_5firq_5fflags'' ''WORD_PROJ_IRQ_FLAGS'' [(''../pciedev__ufn_8h.html#af6cc20b4fa5e8ad19108d8dccb28c002'', True, ''pciedev_ufn.h'')],
     ent ''word_5fproj_5firq_5fmask'' ''WORD_PROJ_IRQ_MASK'' [(''../pciedev__ufn_8h.html#a381bd39443d57c9e512e9a9777b47f08'', True, ''pciedev_ufn.h'')],
     ent ''word_5fproj_5fmagic_5fnum'' ''WORD_PROJ_MAGIC_NUM'' [(''../pciedev__ufn_8h.html#a0d2e2e3847dcb8f5ec882ce96ee0b5cf'', True, ''pciedev_ufn.h'')],
     ent ''word_5fproj_5fnext'' ''WORD_PROJ_NEXT'' [(''../pciedev__ufn_8h.html#aa1761624d108ae662fe032ad67a1d45e'', True, ''pciedev_ufn.h'')],
     ent ''word_5fproj_5freserved'' ''WORD_PROJ_RESERVED'' [(''../pciedev__ufn_8h.html#a78ffd9d43448bd1c27cc9fe25dd888cc'', True, ''pciedev_ufn.h'')],
     ent ''word_5fproj_5freset'' ''WORD_PROJ_RESET'' [(''../pciedev__ufn_8h.html#a3755c7798e6a6212f86e2c411ee08980'', True, ''pciedev_ufn.h'')],
     ent ''word_5fproj_5fversion'' ''WORD_PROJ_VERSION'' [(''../pciedev__ufn_8h.html#aa99330b8108c91906503ed83bf7f5362'', True, ''pciedev_ufn.h'')]]"

definition classes_64_js :: "sd_entry list" where
  "classes_64_js =
    [ent ''device_5fioctrl_5fdata'' ''device_ioctrl_data'' [(''../structdevice__ioctrl__data.html'', True, '''')],
     ent ''device_5fioctrl_5fdma'' ''device_ioctrl_dma'' [(''../structdevice__ioctrl__dma.html'', True, '''')],
     ent ''device_5fioctrl_5ftime'' ''device_ioctrl_time'' [(''../structdevice__ioctrl__time.html'', True, '''')],
     ent ''device_5frw'' ''device_rw'' [(''../structdevice__rw.html'', True, '''')]]"

definition classes_70_js :: "sd_entry list" where
  "classes_70_js =
    [ent ''pciedev_5fbrd_5finfo'' ''pciedev_brd_info'' [(''../structpciedev__brd__info.html'', True, '''')],
     ent ''pciedev_5fcdev'' ''pciedev_cdev'' [(''../structpciedev__cdev.html'', True, '''')],
     ent ''pciedev_5fdev'' ''pciedev_dev'' [(''../structpciedev__dev.html'', True, '''')],
     ent ''pciedev_5fprj_5finfo'' ''pciedev_prj_info'' [(''../structpciedev__prj__info.html'', True, '''')]]"

definition classes_75_js :: "sd_entry list" where
  "classes_75_js =
    [ent ''upciedev_5ffile_5flist'' ''upciedev_file_list'' [(''../structupciedev__file__list.html'', True, '''')]]"

definition files_70_js :: "sd_entry list" where
  "files_70_js =
    [ent ''pciedev_5fio_2eh'' ''pciedev_io.h'' [(''../pciedev__io_8h.html'', True, '''')],
     ent ''pciedev_5fioctl_5fexp_2ec'' ''pciedev_ioctl_exp.c'' [(''../pciedev__ioctl__exp_8c.html'', True, '''')],
     ent ''pciedev_5fprobe_5fexp_2ec'' ''pciedev_probe_exp.c'' [(''../pciedev__probe__exp_8c.html'', True, '''')],
     ent ''pciedev_5fremove_5fexp_2ec'' ''pciedev_remove_exp.c'' [(''../pciedev__remove__exp_8c.html'', True, '''')],
     ent ''pciedev_5frw_5fexp_2ec'' ''pciedev_rw_exp.c'' [(''../pciedev__rw__exp_8c.html'', True, '''')],
     ent ''pciedev_5fufn_2ec'' ''pciedev_ufn.c'' [(''../pciedev__ufn_8c.html'', True, '''')],
     ent ''pciedev_5fufn_2eh'' ''pciedev_ufn.h'' [(''../pciedev__ufn_8h.html'', True, '''')]]"

definition files_75_js :: "sd_entry list" where
  "files_75_js =
    [ent ''upciedev_5fdrv_2ec'' ''upciedev_drv.c'' [(''../upciedev__drv_8c.html'', True, '''')]]"

definition functions_65_js :: "sd_entry list" where
  "functions_65_js =
    [ent ''export_5fsymbol'' ''EXPORT_SYMBOL'' [(''../pciedev__ioctl__exp_8c.html#a889e49a098c44667f34ee09eb94f3c6a'', True, ''EXPORT_SYMBOL(pciedev_ioctl_exp):&#160;pciedev_ioctl_exp.c''), (''../pciedev__probe__exp_8c.html#abc9bdcb88daa33ee8ae058eeaa2251c8'', True, ''EXPORT_SYMBOL(pciedev_probe_exp):&#160;pciedev_probe_exp.c''), (''../pciedev__remove__exp_8c.html#a8487f59e9ab9587fd1cf0725727275aa'', True, ''EXPORT_SYMBOL(pciedev_remove_exp):&#160;pciedev_remove_exp.c''), (''../pciedev__rw__exp_8c.html#af50d888daed4367a10b43b71a5c74eb0'', True, ''EXPORT_SYMBOL(pciedev_read_exp):&#160;pciedev_rw_exp.c''), (''../pciedev__rw__exp_8c.html#a17a1c6f35a7ed697a490a1ca66b2c29b'', True, ''EXPORT_SYMBOL(pciedev_write_exp):&#160;pciedev_rw_exp.c''), (''../pciedev__ufn_8c.html#add6b7ba455c4805935a5a9bace119129'', True, ''EXPORT_SYMBOL(upciedev_init_module_exp):&#160;pciedev_ufn.c''), (''../pciedev__ufn_8c.html#a7ec45425c1b2e74af4d398ed7f9212de'', True, ''EXPORT_SYMBOL(upciedev_cleanup_module_exp):&#160;pciedev_ufn.c''), (''../pciedev__ufn_8c.html#ac844a1d72164dc18da863fd2ebb3a1af'', True, ''EXPORT_SYMBOL(pciedev_open_exp):&#160;pciedev_ufn.c''), (''../pciedev__ufn_8c.html#a61d2e6b8cc11ea6d68aa89127aada355'', True, ''EXPORT_SYMBOL(pciedev_release_exp):&#160;pciedev_ufn.c''), (''../pciedev__ufn_8c.html#ad5a165b96b96af52cf601887ea253b2f'', True, ''EXPORT_SYMBOL(pciedev_set_drvdata):&#160;pciedev_ufn.c''), (''../pciedev__ufn_8c.html#a0e1e74f108738755b0c742ac71907fd4'', True, ''EXPORT_SYMBOL(pciedev_get_drvdata):&#160;pciedev_ufn.c''), (''../pciedev__ufn_8c.html#a4e915dfd29e270f043c0566caa9a6087'', True, ''EXPORT_SYMBOL(pciedev_get_brdnum):&#160;pciedev_ufn.c''), (''../pciedev__ufn_8c.html#a4fb250f74f1a0732a2c0064cab95ca1a'', True, ''EXPORT_SYMBOL(pciedev_get_pciedata):&#160;pciedev_ufn.c''), (''../pciedev__ufn_8c.html#a906761c56b3624e88c3410a01ae4f7ce'', True, ''EXPORT_SYMBOL(pciedev_get_baddress):&#160;pciedev_ufn.c''), (''../pciedev__ufn_8c.html#ae155e7f4908c28fd5df9d6c8375f877d'', True, ''EXPORT_SYMBOL(pciedev_setup_interrupt):&#160;pciedev_ufn.c''), (''../pciedev__ufn_8c.html#a43e78acb59528339d96afabcad70ac4b'', True, ''EXPORT_SYMBOL(pciedev_get_brdinfo):&#160;pciedev_ufn.c''), (''../pciedev__ufn_8c.html#a99061ad1906f6eb5c82fefc424cc0b8f'', True, ''EXPORT_SYMBOL(pciedev_fill_prj_info):&#160;pciedev_ufn.c''), (''../pciedev__ufn_8c.html#a032f20f49be6687932b66383b4a8907d'', True, ''EXPORT_SYMBOL(pciedev_get_prjinfo):&#160;pciedev_ufn.c''), (''../pciedev__ufn_8c.html#a2acb177d65187ee20660834da0d07380'', True, ''EXPORT_SYMBOL(pciedev_procinfo):&#160;pciedev_ufn.c'')]]"

definition functions_6d_js :: "sd_entry list" where
  "functions_6d_js =
    [ent ''module_5fauthor'' ''MODULE_AUTHOR'' [(''../upciedev__drv_8c.html#aeb38205dd76d7ef98c268faa49b66a02'', True, ''upciedev_drv.c'')],
     ent ''module_5fdescription'' ''MODULE_DESCRIPTION'' [(''../upciedev__drv_8c.html#a04135c0cdd256a3304e0ece7f02d3e3e'', True, ''upciedev_drv.c'')],
     ent ''module_5fexit'' ''module_exit'' [(''../upciedev__drv_8c.html#a81db766d6c760fb089254b52ca3e5b1b'', True, ''upciedev_drv.c'')],
     ent ''module_5finit'' ''module_init'' [(''../upciedev__drv_8c.html#a1529276f8eb03153ef29fca48b388169'', True, ''upciedev_drv.c'')],
     ent ''module_5flicense'' ''MODULE_LICENSE'' [(''../upciedev__drv_8c.html#a5c95e2cd11cba226f5f3513060a8928e'', True, ''upciedev_drv.c'')],
     ent ''module_5fversion'' ''MODULE_VERSION'' [(''../upciedev__drv_8c.html#aaf1fcc58f41ef923017c9d1bb319686d'', True, ''upciedev_drv.c'')]]"

definition functions_70_js :: "sd_entry list" where
  "functions_70_js =
    [ent ''pciedev_5fcheck_5fscratch'' ''pciedev_check_scratch'' [(''../pciedev__rw__exp_8c.html#a172e512fecea4c8923a8b2bd11cd9f30'', True, ''pciedev_check_scratch(struct pciedev_dev *dev, int rmode):&#160;pciedev_rw_exp.c''), (''../pciedev__ufn_8h.html#a3a50a2c317ac8543481467429e02b216'', True, ''pciedev_check_scratch(struct pciedev_dev *, int):&#160;pciedev_rw_exp.c'')],
     ent ''pciedev_5ffill_5fprj_5finfo'' ''pciedev_fill_prj_info'' [(''../pciedev__ufn_8c.html#afdfa8ea4102cd3b704d207dfbf2f8045'', True, ''pciedev_fill_prj_info(struct pciedev_dev *bdev, void *baddress):&#160;pciedev_ufn.c''), (''../pciedev__ufn_8h.html#a04704b7f8858ac0ba0e15eeafd3ae855'', True, ''pciedev_fill_prj_info(struct pciedev_dev *, void *):&#160;pciedev_ufn.c'')],
     ent ''pciedev_5fget_5fbaddress'' ''pciedev_get_baddress'' [(''../pciedev__ufn_8c.html#a8249f6edd275b94c53e9e783a2538dae'', True, ''pciedev_get_baddress(int br_num, struct pciedev_dev *dev):&#160;pciedev_ufn.c''), (''../pciedev__ufn_8h.html#a11ca837547544e14dea204bd54a29bae'', True, ''pciedev_get_baddress(int, struct pciedev_dev *):&#160;pciedev_ufn.c'')],
     ent ''pciedev_5fget_5fbrdinfo'' ''pciedev_get_brdinfo'' [(''../pciedev__ufn_8c.html#a0e9c0296a49472322ef2c3179fce5a37'', True, ''pciedev_get_brdinfo(struct pciedev_dev *bdev):&#160;pciedev_ufn.c''), (''../pciedev__ufn_8h.html#aad9373dffa0623f69740cd579caeceb0'', True, ''pciedev_get_brdinfo(struct pciedev_dev *):&#160;pciedev_ufn.c'')],
     ent ''pciedev_5fget_5fbrdnum'' ''pciedev_get_brdnum'' [(''../pciedev__ufn_8c.html#af78683c2315d019d4552c0bc6e6fc7fc'', True, ''pciedev_get_brdnum(struct pci_dev *dev):&#160;pciedev_ufn.c''), (''../pciedev__ufn_8h.html#a5892091221ae99bab874c14d9f1dd817'', True, ''pciedev_get_brdnum(struct pci_dev *):&#160;pciedev_ufn.c'')],
     ent ''pciedev_5fget_5fdrvdata'' ''pciedev_get_drvdata'' [(''../pciedev__ufn_8c.html#aa4c092a53544e5791a7544cb68d60f61'', True, ''pciedev_get_drvdata(struct pciedev_dev *dev):&#160;pciedev_ufn.c''), (''../pciedev__ufn_8h.html#a248ae92b918dddf4f310a2c0bdf12e26'', True, ''pciedev_get_drvdata(struct pciedev_dev *):&#160;pciedev_ufn.c'')],
     ent ''pciedev_5fget_5fpciedata'' ''pciedev_get_pciedata'' [(''../pciedev__ufn_8c.html#a227a41c8651d334fcacecc6161ddc9b9'', True, ''pciedev_get_pciedata(struct pci_dev *dev):&#160;pciedev_ufn.c''), (''../pciedev__ufn_8h.html#acc306e1d829c5958649ced047a9f0b47'', True, ''pciedev_get_pciedata(struct pci_dev *):&#160;pciedev_ufn.c'')],
     ent ''pciedev_5fget_5fprjinfo'' ''pciedev_get_prjinfo'' [(''../pciedev__ufn_8c.html#a505869656038dbb8c3d014de193c69c6'', True, ''pciedev_get_prjinfo(struct pciedev_dev *bdev):&#160;pciedev_ufn.c''), (''../pciedev__ufn_8h.html#a7b2e7230722a388f1738872a12e16fab'', True, ''pciedev_get_prjinfo(struct pciedev_dev *):&#160;pciedev_ufn.c'')],
     ent ''pciedev_5fioctl_5fexp'' ''pciedev_ioctl_exp'' [(''../pciedev__ioctl__exp_8c.html#ac5a7d2102e3cbf8119042c6267f7b8b1'', True, ''pciedev_ioctl_exp(struct file *filp, unsigned int *cmd_p, unsigned long *arg_p, pciedev_cdev *pciedev_cdev_m):&#160;pciedev_ioctl_exp.c''), (''../pciedev__ufn_8h.html#aa7f3b36a7cc679675ed48898e06b7f63'', True, ''pciedev_ioctl_exp(struct file *, unsigned int *, unsigned long *, pciedev_cdev *):&#160;pciedev_ioctl_exp.c'')],
     ent ''pciedev_5fllseek'' ''pciedev_llseek'' [(''../pciedev__rw__exp_8c.html#a5533905d3d36265c8988a01f23248e33'', True, ''pciedev_llseek(struct file *filp, loff_t off, int frm):&#160;pciedev_rw_exp.c''), (''../pciedev__ufn_8h.html#a9e757259c2d591ca648fe06068cdcf84'', True, ''pciedev_llseek(struct file *, loff_t, int):&#160;pciedev_rw_exp.c'')],
     ent ''pciedev_5fopen_5fexp'' ''pciedev_open_exp'' [(''../pciedev__ufn_8c.html#a69825f42f3dedf9d9b384bf8ab649799'', True, ''pciedev_open_exp(struct inode *inode, struct file *filp):&#160;pciedev_ufn.c''), (''../pciedev__ufn_8h.html#a018ec19a761491b35bcc290a7c580d70'', True, ''pciedev_open_exp(struct inode *, struct file *):&#160;pciedev_ufn.c'')],
     ent ''pciedev_5fprobe_5fexp'' ''pciedev_probe_exp'' [(''../pciedev__probe__exp_8c.html#a0a4ad98251744b7f355f14f7a0b499e0'', True, ''pciedev_probe_exp(struct pci_dev *dev, const struct pci_device_id *id, struct file_operations *pciedev_fops, pciedev_cdev *pciedev_cdev_p, char *dev_name, int *brd_num):&#160;pciedev_probe_exp.c''), (''../pciedev__ufn_8h.html#a056c9a66d474f26e759a4191825eeea1'', True, ''pciedev_probe_exp(struct pci_dev *, const struct pci_device_id *, struct file_operations *, pciedev_cdev *, char *, int *):&#160;pciedev_probe_exp.c'')],
     ent ''pciedev_5fprocinfo'' ''pciedev_procinfo'' [(''../pciedev__ufn_8c.html#a72ca703e4a2497c3c844f5334f41db11'', True, ''pciedev_procinfo(struct file *filp, char *buf, size_t count, loff_t *offp):&#160;pciedev_ufn.c''), (''../pciedev__ufn_8h.html#a72ca703e4a2497c3c844f5334f41db11'', True, ''pciedev_procinfo(struct file *filp, char *buf, size_t count, loff_t *offp):&#160;pciedev_ufn.c'')],
     ent ''pciedev_5fread_5fexp'' ''pciedev_read_exp'' [(''../pciedev__rw__exp_8c.html#adffa9c9f1526e76ddb2c9f13b23abefb'', True, ''pciedev_read_exp(struct file *filp, char __user *buf, size_t count, loff_t *f_pos):&#160;pciedev_rw_exp.c''), (''../pciedev__ufn_8h.html#acdc8222997f63d934b2c33980ccf622b'', True, ''pciedev_read_exp(struct file *, char __user *, size_t, loff_t *):&#160;pciedev_rw_exp.c'')],
     ent ''pciedev_5frelease_5fexp'' ''pciedev_release_exp'' [(''../pciedev__ufn_8c.html#ab17fa9853c5b5fc62e50f61069ff8a8d'', True, ''pciedev_release_exp(struct inode *inode, struct file *filp):&#160;pciedev_ufn.c''), (''../pciedev__ufn_8h.html#a81a53a912c64095350b48158afc566ac'', True, ''pciedev_release_exp(struct inode *, struct file *):&#160;pciedev_ufn.c'')],
     ent ''pciedev_5fremove_5fexp'' ''pciedev_remove_exp'' [(''../pciedev__remove__exp_8c.html#a3dea48122c045d73e487b9cccc610561'', True, ''pciedev_remove_exp(struct pci_dev *dev, pciedev_cdev *pciedev_cdev_m, char *dev_name, int *brd_num):&#160;pciedev_remove_exp.c''), (''../pciedev__ufn_8h.html#a8e8bd2dc388062f755d6e768f3e606e5'', True, ''pciedev_remove_exp(struct pci_dev *dev, pciedev_cdev *, char *, int *):&#160;pciedev_remove_exp.c'')],
     ent ''pciedev_5fset_5fdrvdata'' ''pciedev_set_drvdata'' [(''../pciedev__ufn_8c.html#a2ba88ce564225bbd3b049039527515b5'', True, ''pciedev_set_drvdata(struct pciedev_dev *dev, void *data):&#160;pciedev_ufn.c''), (''../pciedev__ufn_8h.html#ab120c58326f82de487f963fa675b93ae'', True, ''pciedev_set_drvdata(struct pciedev_dev *, void *):&#160;pciedev_ufn.c'')],
     ent ''pciedev_5fsetup_5finterrupt'' ''pciedev_setup_interrupt'' [(''../pciedev__ufn_8c.html#af9ec8fdb0f4113c211110358b8b847f3'', True, ''pciedev_setup_interrupt(irqreturn_t(*pciedev_interrupt)(int, void *, struct pt_regs *), struct pciedev_dev *pdev, char *dev_name):&#160;pciedev_ufn.c''), (''../pciedev__ufn_8h.html#ae8f130b4ff23110a501ab00b5928ee94'', True, ''pciedev_setup_interrupt(irqreturn_t(*pciedev_interrupt)(int, void *, struct pt_regs *), struct pciedev_dev *, char *):&#160;pciedev_ufn.c'')],
     ent ''pciedev_5fwrite_5fexp'' ''pciedev_write_exp'' [(''../pciedev__rw__exp_8c.html#ab9c8b3bd33ef7a2861205b46e495d8d6'', True, ''pciedev_write_exp(struct file *filp, const char __user *buf, size_t count, loff_t *f_pos):&#160;pciedev_rw_exp.c''), (''../pciedev__ufn_8h.html#aeb1b14d3cfd3cc60cc552f4c16c6493b'', True, ''pciedev_write_exp(struct file *, const char __user *, size_t, loff_t *):&#160;pciedev_rw_exp.c'')]]"

definition functions_72_js :: "sd_entry list" where
  "functions_72_js =
    [ent ''register_5fupciedev_5fproc'' ''register_upciedev_proc'' [(''../pciedev__ufn_8c.html#a32f12fc6b2bf9b68659745c699738fdb'', True, ''register_upciedev_proc(int num, char *dfn, struct pciedev_dev *p_upcie_dev, struct pciedev_cdev *p_upcie_cdev):&#160;pciedev_ufn.c''), (''../pciedev__ufn_8h.html#a32f12fc6b2bf9b68659745c699738fdb'', True, ''register_upciedev_proc(int num, char *dfn, struct pciedev_dev *p_upcie_dev, struct pciedev_cdev *p_upcie_cdev):&#160;pciedev_ufn.c'')]]"

definition functions_75_js :: "sd_entry list" where
  "functions_75_js =
    [ent ''unregister_5fupciedev_5fproc'' ''unregister_upciedev_proc'' [(''../pciedev__ufn_8c.html#a604e88255fa0f468cbc7c046ce560db9'', True, ''unregister_upciedev_proc(int num, char *dfn):&#160;pciedev_ufn.c''), (''../pciedev__ufn_8h.html#a604e88255fa0f468cbc7c046ce560db9'', True, ''unregister_upciedev_proc(int num, char *dfn):&#160;pciedev_ufn.c'')],
     ent ''upciedev_5fcleanup_5fmodule_5fexp'' ''upciedev_cleanup_module_exp'' [(''../pciedev__ufn_8c.html#a9210f5f3452bcfc6c7d0f982688ca833'', True, ''upciedev_cleanup_module_exp(pciedev_cdev **pciedev_cdev_p):&#160;pciedev_ufn.c''), (''../pciedev__ufn_8h.html#aa7b73bf550ed4243740e152276bae7b0'', True, ''upciedev_cleanup_module_exp(pciedev_cdev **):&#160;pciedev_ufn.c'')],
     ent ''upciedev_5finit_5fmodule_5fexp'' ''upciedev_init_module_exp'' [(''../pciedev__ufn_8c.html#ac43f73e71ebb1f2386f0a238d0be6404'', True, ''upciedev_init_module_exp(pciedev_cdev **pciedev_cdev_pp, struct file_operations *pciedev_fops, char *dev_name):&#160;pciedev_ufn.c''), (''../pciedev__ufn_8h.html#a3881936381992a7936d832e84260e450'', True, ''upciedev_init_module_exp(pciedev_cdev **, struct file_operations *, char *):&#160;pciedev_ufn.c'')]]"

definition variables_62_js :: "sd_entry list" where
  "variables_62_js =
    [ent ''barx_5frw'' ''barx_rw'' [(''../structdevice__rw.html#ae382b34e69e05728f9a046ae0cf53c3a'', True, ''device_rw'')],
     ent ''binded'' ''binded'' [(''../structpciedev__dev.html#a51671163411ed9b55b4efd560d78e935'', True, ''pciedev_dev'')],
     ent ''brd_5finfo_5flist'' ''brd_info_list'' [(''../structpciedev__dev.html#a7eedb6b87273cc7942ee679d90a7d219'', True, ''pciedev_dev'')],
     ent ''brd_5fnum'' ''brd_num'' [(''../structpciedev__dev.html#a12a1bde58b97299f0f6bd7b8b484f31b'', True, ''pciedev_dev'')],
     ent ''bus_5ffunc'' ''bus_func'' [(''../structpciedev__dev.html#a2e80f1ccc118c804209ab8858861e66a'', True, ''pciedev_dev'')],
     ent ''busnumber'' ''busNumber'' [(''../structpciedev__dev.html#af0a497c0dd86b442745b10a74c95000b'', True, ''pciedev_dev'')]]"

definition variables_63_js :: "sd_entry list" where
  "variables_63_js =
    [ent ''cdev'' ''cdev'' [(''../structpciedev__dev.html#ab2013286f43d6c6113e2a7887146f592'', True, ''pciedev_dev'')],
     ent ''class_5fcode'' ''class_code'' [(''../structpciedev__dev.html#a7a18e1f1c1746d8996c13cd609d5d8b4'', True, ''pciedev_dev'')],
     ent ''cmd'' ''cmd'' [(''../structdevice__ioctrl__data.html#abce7358be06d7ce7e756fe02c25c187e'', True, ''device_ioctrl_data'')]]"

definition variables_64_js :: "sd_entry list" where
  "variables_64_js =
    [ent ''data'' ''data'' [(''../structdevice__ioctrl__data.html#a99d6274576188aeea8225493378b04ec'', True, ''device_ioctrl_data'')],
     ent ''data_5frw'' ''data_rw'' [(''../structdevice__rw.html#a4731025369481beeaa5c408775ad2a7e'', True, ''device_rw'')],
     ent ''dev_5fdma_5f64mask'' ''dev_dma_64mask'' [(''../structpciedev__dev.html#af7e6baa6cd220202c57c57fd6f4c8960'', True, ''pciedev_dev'')],
     ent ''dev_5ffile_5flist'' ''dev_file_list'' [(''../structpciedev__dev.html#a8ed1dbb1842cc5dac1c4e70ee591563f'', True, ''pciedev_dev'')],
     ent ''dev_5ffile_5fref'' ''dev_file_ref'' [(''../structpciedev__dev.html#a70dd23e1e4e09f064d5bef3e55f475fb'', True, ''pciedev_dev'')],
     ent ''dev_5fminor'' ''dev_minor'' [(''../structpciedev__dev.html#af40974d12b3cb4756839bac0f12a4d93'', True, ''pciedev_dev'')],
     ent ''dev_5fmut'' ''dev_mut'' [(''../structpciedev__dev.html#a71029cd75f21c4574bbfae901fec48f7'', True, ''pciedev_dev'')],
     ent ''dev_5fname'' ''dev_name'' [(''../structpciedev__dev.html#ab1b83722186d216f09a5a720e5164e90'', True, ''pciedev_dev'')],
     ent ''dev_5fnum'' ''dev_num'' [(''../structpciedev__dev.html#a3a204fd1eee6f172951fb0182116f200'', True, ''pciedev_dev'')],
     ent ''dev_5fpayload_5fsize'' ''dev_payload_size'' [(''../structpciedev__dev.html#ac977dad885ba0696370be25e4233e59e'', True, ''pciedev_dev'')],
     ent ''dev_5fstr'' ''dev_str'' [(''../structpciedev__dev.html#ae5322ae529331c6aeeb37b2766b780f8'', True, ''pciedev_dev'')],
     ent ''dev_5fsts'' ''dev_sts'' [(''../structpciedev__dev.html#a1e913602320203e4f93018ea16b97445'', True, ''pciedev_dev'')],
     ent ''devfn'' ''devfn'' [(''../structpciedev__dev.html#ab6f3fabedbac7c70efa91d88e6dc7550'', True, ''pciedev_dev'')],
     ent ''device_5fid'' ''device_id'' [(''../structpciedev__dev.html#a5323236e310202fa3bd7c8829a5223e6'', True, ''pciedev_dev'')],
     ent ''devnumber'' ''devNumber'' [(''../structpciedev__dev.html#a857356f652dc59e77c1bbb48e0b2333b'', True, ''pciedev_dev'')],
     ent ''dma_5fcmd'' ''dma_cmd'' [(''../structdevice__ioctrl__dma.html#a5cce7fa7327b8572fba52bdf18d14b0f'', True, ''device_ioctrl_dma'')],
     ent ''dma_5foffset'' ''dma_offset'' [(''../structdevice__ioctrl__dma.html#afcf57847c512e334f1a83bd89be950fd'', True, ''device_ioctrl_dma'')],
     ent ''dma_5fpattern'' ''dma_pattern'' [(''../structdevice__ioctrl__dma.html#a1e19c195c09b5115ca42ca5bf7392bd8'', True, ''device_ioctrl_dma'')],
     ent ''dma_5freserved1'' ''dma_reserved1'' [(''../structdevice__ioctrl__dma.html#a0b2c5967b28765ba545b56dcb88c2762'', True, ''device_ioctrl_dma'')],
     ent ''dma_5freserved2'' ''dma_reserved2'' [(''../structdevice__ioctrl__dma.html#a0796ba7e60f5ed15719a885a871101c5'', True, ''device_ioctrl_dma'')],
     ent ''dma_5fsize'' ''dma_size'' [(''../structdevice__ioctrl__dma.html#a32b3b16303be485dc116787dc4564bdd'', True, ''device_ioctrl_dma'')]]"

definition variables_66_js :: "sd_entry list" where
  "variables_66_js =
    [ent ''file_5fcnt'' ''file_cnt'' [(''../structupciedev__file__list.html#a29fc76d66fcd00034f2a33fe60099c88'', True, ''upciedev_file_list'')],
     ent ''filp'' ''filp'' [(''../structupciedev__file__list.html#a1f13c1fe78b490ed69ecbffa3a12bbef'', True, ''upciedev_file_list'')],
     ent ''funcnumber'' ''funcNumber'' [(''../structpciedev__dev.html#a36d7c7cf8cbf98727f98433cdbdaaae1'', True, ''pciedev_dev'')]]"

definition variables_69_js :: "sd_entry list" where
  "variables_69_js =
    [ent ''irq_5fflag'' ''irq_flag'' [(''../structpciedev__dev.html#a63c39ba841c2a04ebd5cabadf2c8d14e'', True, ''pciedev_dev'')],
     ent ''irq_5fline'' ''irq_line'' [(''../structpciedev__dev.html#ac7f57db218b2645cc3f8f4740b49d600'', True, ''pciedev_dev'')],
     ent ''irq_5fmode'' ''irq_mode'' [(''../structpciedev__dev.html#a3bf528da41deea66659a704d7d199cef'', True, ''pciedev_dev'')],
     ent ''irq_5fpin'' ''irq_pin'' [(''../structpciedev__dev.html#a3ed00696a9eacdc5b8aa6dbf5a798058'', True, ''pciedev_dev'')]]"

definition variables_6d_js :: "sd_entry list" where
  "variables_6d_js =
    [ent ''mem_5fbase0'' ''mem_base0'' [(''../structpciedev__dev.html#a9eeca3daecefa938fed5dfa82cd0134f'', True, ''pciedev_dev'')],
     ent ''mem_5fbase0_5fend'' ''mem_base0_end'' [(''../structpciedev__dev.html#a13b54f913bbeacae98936d708920e431'', True, ''pciedev_dev'')],
     ent ''mem_5fbase0_5fflag'' ''mem_base0_flag'' [(''../structpciedev__dev.html#a7689d8265585e5c19bfddcd33d949c88'', True, ''pciedev_dev'')],
     ent ''mem_5fbase1'' ''mem_base1'' [(''../structpciedev__dev.html#aab9adcd9233138414badd0c1e8db1f02'', True, ''pciedev_dev'')],
     ent ''mem_5fbase1_5fend'' ''mem_base1_end'' [(''../structpciedev__dev.html#a00a1ac6ebdbd16b78f3b2b510dde3f75'', True, ''pciedev_dev'')],
     ent ''mem_5fbase1_5fflag'' ''mem_base1_flag'' [(''../structpciedev__dev.html#a8a625e696ed055d6f818738c2a92875f'', True, ''pciedev_dev'')],
     ent ''mem_5fbase2'' ''mem_base2'' [(''../structpciedev__dev.html#aade7517fe3f08239e7460e9461e2563c'', True, ''pciedev_dev'')],
     ent ''mem_5fbase2_5fend'' ''mem_base2_end'' [(''../structpciedev__dev.html#a2b3aafb9b6817245845b155d1dd3e92e'', True, ''pciedev_dev'')],
     ent ''mem_5fbase2_5fflag'' ''mem_base2_flag'' [(''../structpciedev__dev.html#adb2583a869e02b007f7e4b2f08800fbe'', True, ''pciedev_dev'')],
     ent ''mem_5fbase3'' ''mem_base3'' [(''../structpciedev__dev.html#ae3ff109bfd9cb408840e508cff84b41b'', True, ''pciedev_dev'')],
     ent ''mem_5fbase3_5fend'' ''mem_base3_end'' [(''../structpciedev__dev.html#ac342b2f6483d567df043678e627ce55f'', True, ''pciedev_dev'')],
     ent ''mem_5fbase3_5fflag'' ''mem_base3_flag'' [(''../structpciedev__dev.html#a508632a38d538a0e821f96898ba7d80f'', True, ''pciedev_dev'')],
     ent ''mem_5fbase4'' ''mem_base4'' [(''../structpciedev__dev.html#ad0e9a713d5f0d5634889c3fe42027df2'', True, ''pciedev_dev'')],
     ent ''mem_5fbase4_5fend'' ''mem_base4_end'' [(''../structpciedev__dev.html#acff2a1d6bd78f11a63c8d8b300afc51b'', True, ''pciedev_dev'')],
     ent ''mem_5fbase4_5fflag'' ''mem_base4_flag'' [(''../structpciedev__dev.html#aefe502be39515a39eb1d2330b6358add'', True, ''pciedev_dev'')],
     ent ''mem_5fbase5'' ''mem_base5'' [(''../structpciedev__dev.html#aae516cf31dd9d645b214c5569c8067e5'', True, ''pciedev_dev'')],
     ent ''mem_5fbase5_5fend'' ''mem_base5_end'' [(''../structpciedev__dev.html#a1282cc47941988b4f4f40e217ed1a6ea'', True, ''pciedev_dev'')],
     ent ''mem_5fbase5_5fflag'' ''mem_base5_flag'' [(''../structpciedev__dev.html#afa46524d43b30b75519b4f18b6461d3a'', True, ''pciedev_dev'')],
     ent ''memmory_5fbase0'' ''memmory_base0'' [(''../structpciedev__dev.html#a53596933996f3b9b03254cf0054e9148'', True, ''pciedev_dev'')],
     ent ''memmory_5fbase1'' ''memmory_base1'' [(''../structpciedev__dev.html#ae754c343d131ac67a1f555173c6a373b'', True, ''pciedev_dev'')],
     ent ''memmory_5fbase2'' ''memmory_base2'' [(''../structpciedev__dev.html#a4aef037999e808b2e013978f6d1055cb'', True, ''pciedev_dev'')],
     ent ''memmory_5fbase3'' ''memmory_base3'' [(''../structpciedev__dev.html#aae2703c74a36294718cd01b31bb4f81d'', True, ''pciedev_dev'')],
     ent ''memmory_5fbase4'' ''memmory_base4'' [(''../structpciedev__dev.html#a614bbb6ab9d71f9ba40eb29e2b84db39'', True, ''pciedev_dev'')],
     ent ''memmory_5fbase5'' ''memmory_base5'' [(''../structpciedev__dev.html#a08b0506d15ec24f529bdea4d6e459f2a'', True, ''pciedev_dev'')],
     ent ''mode_5frw'' ''mode_rw'' [(''../structdevice__rw.html#afed29415714fb813dea1c933ef904a2c'', True, ''device_rw'')]]"

definition variables_6e_js :: "sd_entry list" where
  "variables_6e_js =
    [ent ''node_5ffile_5flist'' ''node_file_list'' [(''../structupciedev__file__list.html#a0849bf418ad72dd15dfe82656ae0b2cd'', True, ''upciedev_file_list'')],
     ent ''null_5fdev'' ''null_dev'' [(''../structpciedev__dev.html#afe1e74f898cb5cbe0b407282cb828941'', True, ''pciedev_dev'')]]"

definition variables_6f_js :: "sd_entry list" where
  "variables_6f_js =
    [ent ''offset'' ''offset'' [(''../structdevice__ioctrl__data.html#aa0b658a92f878b772eacf929ffe1e180'', True, ''device_ioctrl_data'')],
     ent ''offset_5frw'' ''offset_rw'' [(''../structdevice__rw.html#ab06d43634d5687872ab483eb4dd96a29'', True, ''device_rw'')]]"

definition variables_70_js :: "sd_entry list" where
  "variables_70_js =
    [ent ''parent_5fdev'' ''parent_dev'' [(''../structpciedev__dev.html#a3ccd02ec03020de42cdf8f1d748493d6'', True, ''pciedev_dev'')],
     ent ''pci_5fdev_5firq'' ''pci_dev_irq'' [(''../structpciedev__dev.html#a858a6584f47bbe70e34e54cd8a008324'', True, ''pciedev_dev'')],
     ent ''pciedev_5fall_5fmems'' ''pciedev_all_mems'' [(''../structpciedev__dev.html#a9439b81f518ed4bc0055f53101cd900c'', True, ''pciedev_dev'')],
     ent ''pciedev_5fboard_5fdate'' ''PCIEDEV_BOARD_DATE'' [(''../structpciedev__brd__info.html#a1a6c23dd0317d5f343bd95bd75079a63'', True, ''pciedev_brd_info'')],
     ent ''pciedev_5fboard_5fid'' ''PCIEDEV_BOARD_ID'' [(''../structpciedev__brd__info.html#ae94f88f988d0db5a887ffcf42b4ab235'', True, ''pciedev_brd_info'')],
     ent ''pciedev_5fboard_5freserved'' ''PCIEDEV_BOARD_RESERVED'' [(''../structpciedev__brd__info.html#aba02a309752715d4081bf30465c0948c'', True, ''pciedev_brd_info'')],
     ent ''pciedev_5fboard_5fversion'' ''PCIEDEV_BOARD_VERSION'' [(''../structpciedev__brd__info.html#a09721e4f18f2b6d882db29497e31fa3a'', True, ''pciedev_brd_info'')],
     ent ''pciedev_5fclass'' ''pciedev_class'' [(''../structpciedev__cdev.html#aaa98d4915cbbed6c866ffaf7483108bc'', True, ''pciedev_cdev'')],
     ent ''pciedev_5fdev_5fm'' ''pciedev_dev_m'' [(''../structpciedev__cdev.html#a8c11bf5f89111dabe132a47e1f4c76a7'', True, ''pciedev_cdev'')],
     ent ''pciedev_5fdrv_5fver_5fmaj'' ''PCIEDEV_DRV_VER_MAJ'' [(''../structpciedev__cdev.html#ad61b849b4d938a1750e68585791eeebd'', True, ''pciedev_cdev'')],
     ent ''pciedev_5fdrv_5fver_5fmin'' ''PCIEDEV_DRV_VER_MIN'' [(''../structpciedev__cdev.html#af290aa167eae6b6ec1eb1e82eccf9f9b'', True, ''pciedev_cdev'')],
     ent ''pciedev_5fhw_5fversion'' ''PCIEDEV_HW_VERSION'' [(''../structpciedev__brd__info.html#a3579f9986da5358c11e47d3e2ecd74b3'', True, ''pciedev_brd_info'')],
     ent ''pciedev_5fmajor'' ''PCIEDEV_MAJOR'' [(''../structpciedev__cdev.html#a1b39e1fbdc16a04ddbaa97bdf8a25bd2'', True, ''pciedev_cdev'')],
     ent ''pciedev_5fminor'' ''PCIEDEV_MINOR'' [(''../structpciedev__cdev.html#ac992db6cc3d06151e8602f83d2a62a64'', True, ''pciedev_cdev'')],
     ent ''pciedev_5fpci_5fdev'' ''pciedev_pci_dev'' [(''../structpciedev__dev.html#a2752cedd8537dd552c53eb3cfe5289e3'', True, ''pciedev_dev'')],
     ent ''pciedev_5fprocdir'' ''pciedev_procdir'' [(''../structpciedev__cdev.html#a58b53d27105e413037a0e9b84c1c9e12'', True, ''pciedev_cdev'')],
     ent ''pciedev_5fproj_5fdate'' ''PCIEDEV_PROJ_DATE'' [(''../structpciedev__prj__info.html#a168802287bd865a38046ed7ce1c8ddf5'', True, ''pciedev_prj_info'')],
     ent ''pciedev_5fproj_5fid'' ''PCIEDEV_PROJ_ID'' [(''../structpciedev__prj__info.html#a64d2c70194b0134722e18d0042b97dd1'', True, ''pciedev_prj_info'')],
     ent ''pciedev_5fproj_5fnext'' ''PCIEDEV_PROJ_NEXT'' [(''../structpciedev__brd__info.html#a9728484f826aafb16433484fa237490f'', True, ''pciedev_brd_info::PCIEDEV_PROJ_NEXT()''), (''../structpciedev__prj__info.html#aa08856292f6a8c4e22e8ee9d2c62a62d'', True, ''pciedev_prj_info::PCIEDEV_PROJ_NEXT()'')],
     ent ''pciedev_5fproj_5freserved'' ''PCIEDEV_PROJ_RESERVED'' [(''../structpciedev__prj__info.html#a6bd9422a240447891b3f7320890d4088'', True, ''pciedev_prj_info'')],
     ent ''pciedev_5fproj_5fversion'' ''PCIEDEV_PROJ_VERSION'' [(''../structpciedev__prj__info.html#a9906330775b1a10fe77374728f2c248b'', True, ''pciedev_prj_info'')],
     ent ''pciedevmodulenum'' ''pciedevModuleNum'' [(''../structpciedev__cdev.html#a15edea422f4d38368426aebf1a6728e2'', True, ''pciedev_cdev'')],
     ent ''prj_5finfo_5flist'' ''prj_info_list'' [(''../structpciedev__dev.html#abbeab4eb9fde1991bddb7d550cea0073'', True, ''pciedev_dev'')],
     ent ''prj_5flist'' ''prj_list'' [(''../structpciedev__prj__info.html#acd9c7558368cd3f73ef5e917791660ba'', True, ''pciedev_prj_info'')]]"

definition variables_72_js :: "sd_entry list" where
  "variables_72_js =
    [ent ''reserved'' ''reserved'' [(''../structdevice__ioctrl__data.html#ad8ffd816b771df6ef50f7c40166a37a6'', True, ''device_ioctrl_data'')],
     ent ''revision'' ''revision'' [(''../structpciedev__dev.html#acee588bb923d6964d7274a976c60b81f'', True, ''pciedev_dev'')],
     ent ''rsrvd_5frw'' ''rsrvd_rw'' [(''../structdevice__rw.html#ad00399557d63fd24a5301204a7631c52'', True, ''device_rw'')],
     ent ''rw_5foff0'' ''rw_off0'' [(''../structpciedev__dev.html#a591d58b973d2267fb720eb4945a580a6'', True, ''pciedev_dev'')],
     ent ''rw_5foff1'' ''rw_off1'' [(''../structpciedev__dev.html#a528311ce7651bbb1a31f1fba2aba01e2'', True, ''pciedev_dev'')],
     ent ''rw_5foff2'' ''rw_off2'' [(''../structpciedev__dev.html#a6c373ebf413e5fec410b1b51dacb4a65'', True, ''pciedev_dev'')],
     ent ''rw_5foff3'' ''rw_off3'' [(''../structpciedev__dev.html#ad49f7d49274b2b921da3c21aa857cebd'', True, ''pciedev_dev'')],
     ent ''rw_5foff4'' ''rw_off4'' [(''../structpciedev__dev.html#a0cc4eb653f653ab59363e1d9f89a7d62'', True, ''pciedev_dev'')],
     ent ''rw_5foff5'' ''rw_off5'' [(''../structpciedev__dev.html#a95eb4e3702cf7f042d99d03746f70d69'', True, ''pciedev_dev'')]]"

definition variables_73_js :: "sd_entry list" where
  "variables_73_js =
    [ent ''scratch_5fbar'' ''scratch_bar'' [(''../structpciedev__dev.html#a594a5c181000d31c2ffab9a3a1f39ab7'', True, ''pciedev_dev'')],
     ent ''scratch_5foffset'' ''scratch_offset'' [(''../structpciedev__dev.html#a3d70cef688f7bad685097a682b6818ff'', True, ''pciedev_dev'')],
     ent ''size_5frw'' ''size_rw'' [(''../structdevice__rw.html#ad9348912dabb0b218d0c500c66dda20d'', True, ''device_rw'')],
     ent ''slot_5fnum'' ''slot_num'' [(''../structpciedev__dev.html#a80d2c64840bd16a5e3f485104f0635b2'', True, ''pciedev_dev'')],
     ent ''start_5ftime'' ''start_time'' [(''../structdevice__ioctrl__time.html#a73717c26f9ec75f5b4ea114976a1ba2c'', True, ''device_ioctrl_time'')],
     ent ''startup_5fbrd'' ''startup_brd'' [(''../structpciedev__dev.html#a7f22bd7ed61495948900ba16d18d9425'', True, ''pciedev_dev'')],
     ent ''startup_5fprj_5fnum'' ''startup_prj_num'' [(''../structpciedev__dev.html#a9543b875aeec9066051803149cd34fc1'', True, ''pciedev_dev'')],
     ent ''stop_5ftime'' ''stop_time'' [(''../structdevice__ioctrl__time.html#a04786d897463142079bd0cc2b041efcd'', True, ''device_ioctrl_time'')],
     ent ''subdevice_5fid'' ''subdevice_id'' [(''../structpciedev__dev.html#a2530f2ef78bb906c92c95d48f74dbfab'', True, ''pciedev_dev'')],
     ent ''subvendor_5fid'' ''subvendor_id'' [(''../structpciedev__dev.html#a570e1ece5d7563491b2db88cbbb9a87b'', True, ''pciedev_dev'')]]"

definition variables_75_js :: "sd_entry list" where
  "variables_75_js =
    [ent ''upciedev_5fver_5fmaj'' ''UPCIEDEV_VER_MAJ'' [(''../structpciedev__cdev.html#a8c7da97fa14c4332361a77f992fb0aae'', True, ''pciedev_cdev'')],
     ent ''upciedev_5fver_5fmin'' ''UPCIEDEV_VER_MIN'' [(''../structpciedev__cdev.html#a0f6e52e10c1d498a0d500cfd096098c7'', True, ''pciedev_cdev'')]]"

definition variables_76_js :: "sd_entry list" where
  "variables_76_js =
    [ent ''vendor_5fid'' ''vendor_id'' [(''../structpciedev__dev.html#a4d30d9bd4e8486561688b472ee6451ef'', True, ''pciedev_dev'')]]"

definition typedefs_64_js :: "sd_entry list" where
  "typedefs_64_js =
    [ent ''device_5fioctrl_5fdata'' ''device_ioctrl_data'' [(''../pciedev__io_8h.html#a9f5c23857ea399bf4a9bb9652b6d817b'', True, ''pciedev_io.h'')],
     ent ''device_5fioctrl_5fdma'' ''device_ioctrl_dma'' [(''../pciedev__io_8h.html#a795326190b88aa344d83d5493642a274'', True, ''pciedev_io.h'')],
     ent ''device_5fioctrl_5ftime'' ''device_ioctrl_time'' [(''../pciedev__io_8h.html#aba7e14009372d9742940885711d7890e'', True, ''pciedev_io.h'')],
     ent ''device_5frw'' ''device_rw'' [(''../pciedev__io_8h.html#a198b5f4fef9dff99b6c27836f972bc19'', True, ''pciedev_io.h'')]]"

definition typedefs_70_js :: "sd_entry list" where
  "typedefs_70_js =
    [ent ''pciedev_5fbrd_5finfo'' ''pciedev_brd_info'' [(''../pciedev__ufn_8h.html#a4342eaea5cad7821f56bc3ba64f8104a'', True, ''pciedev_ufn.h'')],
     ent ''pciedev_5fcdev'' ''pciedev_cdev'' [(''../pciedev__ufn_8h.html#a4ae814911b067afa89f58fcaf1241a82'', True, ''pciedev_ufn.h'')],
     ent ''pciedev_5fdev'' ''pciedev_dev'' [(''../pciedev__ufn_8h.html#a8b346c63af6e09c3191f8b83f53cf971'', True, ''pciedev_ufn.h'')],
     ent ''pciedev_5fprj_5finfo'' ''pciedev_prj_info'' [(''../pciedev__ufn_8h.html#a247bf67f29f8c8442f2c1d8d4e6ed4f6'', True, ''pciedev_ufn.h'')]]"

definition typedefs_75_js :: "sd_entry list" where
  "typedefs_75_js =
    [ent ''upciedev_5ffile_5flist'' ''upciedev_file_list'' [(''../pciedev__ufn_8h.html#a4002e0ed7729cf485218730115e81277'', True, ''pciedev_ufn.h'')]]"

definition defines_61_js :: "sd_entry list" where
  "defines_61_js =
    [ent ''ascii_5fboard_5fmagic_5fnum'' ''ASCII_BOARD_MAGIC_NUM'' [(''../pciedev__ufn_8h.html#aca51b3d5775dca72eb36777c14d34fd4'', True, ''pciedev_ufn.h'')],
     ent ''ascii_5fboard_5fmagic_5fnum_5fl'' ''ASCII_BOARD_MAGIC_NUM_L'' [(''../pciedev__ufn_8h.html#a6d893ebfc112547b07f019e4ea40238e'', True, ''pciedev_ufn.h'')],
     ent ''ascii_5fproj_5fmagic_5fnum'' ''ASCII_PROJ_MAGIC_NUM'' [(''../pciedev__ufn_8h.html#a3f6a99cce20fba28cfba56e8c30355dc'', True, ''pciedev_ufn.h'')]]"

definition defines_62_js :: "sd_entry list" where
  "defines_62_js =
    [ent ''bar0'' ''BAR0'' [(''../pciedev__io_8h.html#a1fce441aaa962f572d643140658a6e4c'', True, ''pciedev_io.h'')],
     ent ''bar1'' ''BAR1'' [(''../pciedev__io_8h.html#a4ceeca7cc9bab8b697f8a49f79037010'', True, ''pciedev_io.h'')],
     ent ''bar2'' ''BAR2'' [(''../pciedev__io_8h.html#a44fa2ca32ff22e5eb7fa28ef39e50780'', True, ''pciedev_io.h'')],
     ent ''bar3'' ''BAR3'' [(''../pciedev__io_8h.html#a7f201c103377c8f3c84f10576e63e7af'', True, ''pciedev_io.h'')],
     ent ''bar4'' ''BAR4'' [(''../pciedev__io_8h.html#ace7f77e5691514de1c5a1f8c16d3025c'', True, ''pciedev_io.h'')],
     ent ''bar5'' ''BAR5'' [(''../pciedev__io_8h.html#a7473bbc92af15efd739f5c06409d8bc4'', True, ''pciedev_io.h'')]]"

definition defines_64_js :: "sd_entry list" where
  "defines_64_js =
    [ent ''dma_5fdata_5foffset'' ''DMA_DATA_OFFSET'' [(''../pciedev__io_8h.html#aa293c11b73c1e8a741c9060d8ef1c021'', True, ''pciedev_io.h'')],
     ent ''dma_5fdata_5foffset_5fbyte'' ''DMA_DATA_OFFSET_BYTE'' [(''../pciedev__io_8h.html#a9fa9f95b2d69f5b07cb9cb30b1ba9afe'', True, ''pciedev_io.h'')]]"

definition defines_69_js :: "sd_entry list" where
  "defines_69_js =
    [ent ''ioctrl_5fall'' ''IOCTRL_ALL'' [(''../pciedev__io_8h.html#a1dc1215c881918ae78af0f20713b05a5'', True, ''pciedev_io.h'')],
     ent ''ioctrl_5fr'' ''IOCTRL_R'' [(''../pciedev__io_8h.html#a314ade3cefcb60fbf18f80c8eba4b54c'', True, ''pciedev_io.h'')],
     ent ''ioctrl_5fw'' ''IOCTRL_W'' [(''../pciedev__io_8h.html#a35ef23c334a9de2bfddddf640577d972'', True, ''pciedev_io.h'')]]"

definition defines_70_js :: "sd_entry list" where
  "defines_70_js =
    [ent ''pcied_5ffpos'' ''PCIED_FPOS'' [(''../pciedev__ufn_8h.html#af5bd2d5b0d466fc7c6b89e85054df1f9'', True, ''pciedev_ufn.h'')],
     ent ''pciedev_5fdma_5fmin_5fsyze'' ''PCIEDEV_DMA_MIN_SYZE'' [(''../pciedev__io_8h.html#a6df179f336e65ab5b64801ca0f9818d2'', True, ''pciedev_io.h'')],
     ent ''pciedev_5fdma_5fsyze'' ''PCIEDEV_DMA_SYZE'' [(''../pciedev__io_8h.html#acf195079e65702428087887dd5649ffc'', True, ''pciedev_io.h'')],
     ent ''pciedev_5fdriver_5fversion'' ''PCIEDEV_DRIVER_VERSION'' [(''../pciedev__io_8h.html#a2140cdb4612e1aeb483572affbeb9f20'', True, ''pciedev_io.h'')],
     ent ''pciedev_5ffirmware_5fversion'' ''PCIEDEV_FIRMWARE_VERSION'' [(''../pciedev__io_8h.html#a4209c10c61a2ea367ce7ae1ebaf03ed0'', True, ''pciedev_io.h'')],
     ent ''pciedev_5fget_5fdma_5ftime'' ''PCIEDEV_GET_DMA_TIME'' [(''../pciedev__io_8h.html#a2aa7940c0614fa9c0c1031e028db6fc0'', True, ''pciedev_io.h'')],
     ent ''pciedev_5fget_5fstatus'' ''PCIEDEV_GET_STATUS'' [(''../pciedev__io_8h.html#a1192aa141968a35a6df1c3fed3646f14'', True, ''pciedev_io.h'')],
     ent ''pciedev_5fphysical_5fslot'' ''PCIEDEV_PHYSICAL_SLOT'' [(''../pciedev__io_8h.html#a07aad6c0ab1a1d0386c51904d1d4e481'', True, ''pciedev_io.h'')],
     ent ''pciedev_5fread_5fdma'' ''PCIEDEV_READ_DMA'' [(''../pciedev__io_8h.html#a0ce58a436c9a78d135964a5b62c0dfd5'', True, ''pciedev_io.h'')],
     ent ''pciedev_5fscratch_5freg'' ''PCIEDEV_SCRATCH_REG'' [(''../pciedev__io_8h.html#aee76447bc6c66911e0012e7cb33b34ac'', True, ''pciedev_io.h'')],
     ent ''pciedev_5fset_5firq'' ''PCIEDEV_SET_IRQ'' [(''../pciedev__io_8h.html#affbc21ad44dcfae23526e8fb7b77b16c'', True, ''pciedev_io.h'')],
     ent ''pciedev_5fwrite_5fdma'' ''PCIEDEV_WRITE_DMA'' [(''../pciedev__io_8h.html#a6892d9a42c85abdf25bf5998359ba61b'', True, ''pciedev_io.h'')],
     ent ''pciedoocs_5fioc'' ''PCIEDOOCS_IOC'' [(''../pciedev__io_8h.html#ae4a61739d33de556c654b0b2d3458549'', True, ''pciedev_io.h'')],
     ent ''pciedoocs_5fioc_5fdma_5fmaxnr'' ''PCIEDOOCS_IOC_DMA_MAXNR'' [(''../pciedev__io_8h.html#a80b72af01345fd80ba7df7085fe5271b'', True, ''pciedev_io.h'')],
     ent ''pciedoocs_5fioc_5fdma_5fminnr'' ''PCIEDOOCS_IOC_DMA_MINNR'' [(''../pciedev__io_8h.html#a3550d7327b976a7882121d4fb3e9e518'', True, ''pciedev_io.h'')],
     ent ''pciedoocs_5fioc_5fmaxnr'' ''PCIEDOOCS_IOC_MAXNR'' [(''../pciedev__io_8h.html#a2adc22a34dd80aeb9090741dad0bf049'', True, ''pciedev_io.h'')],
     ent ''pciedoocs_5fioc_5fminnr'' ''PCIEDOOCS_IOC_MINNR'' [(''../pciedev__io_8h.html#aeda3a2a8e04dea1db5bcf4d4cec12688'', True, ''pciedev_io.h'')]]"

definition defines_72_js :: "sd_entry list" where
  "defines_72_js =
    [ent ''rw_5fd16'' ''RW_D16'' [(''../pciedev__io_8h.html#abc50dc315c651c129149ea8f543e23ea'', True, ''pciedev_io.h'')],
     ent ''rw_5fd32'' ''RW_D32'' [(''../pciedev__io_8h.html#a95cac24787550ae06eb2cd33b0d92194'', True, ''pciedev_io.h'')],
     ent ''rw_5fd8'' ''RW_D8'' [(''../pciedev__io_8h.html#a3494a27985916bbb418d9c6557985c15'', True, ''pciedev_io.h'')],
     ent ''rw_5fdma'' ''RW_DMA'' [(''../pciedev__io_8h.html#a3afe2693cdc01fee9aa769f889e9f690'', True, ''pciedev_io.h'')],
     ent ''rw_5finfo'' ''RW_INFO'' [(''../pciedev__io_8h.html#a8ee8c3c02591a6a47113a0e59b88936a'', True, ''pciedev_io.h'')]]"

definition defines_77_js :: "sd_entry list" where
  "defines_77_js =
    [ent ''word_5fboard_5fdate'' ''WORD_BOARD_DATE'' [(''../pciedev__ufn_8h.html#a6fc5de9f35daa6a43b6ecf40b0fbdc87'', True, ''pciedev_ufn.h'')],
     ent ''word_5fboard_5fhw_5fversion'' ''WORD_BOARD_HW_VERSION'' [(''../pciedev__ufn_8h.html#aed280da0791db3ba65e788e162368762'', True, ''pciedev_ufn.h'')],
     ent ''word_5fboard_5fid'' ''WORD_BOARD_ID'' [(''../pciedev__ufn_8h.html#af973f22d2c9b14bc7ecaedb722240bbc'', True, ''pciedev_ufn.h'')],
     ent ''word_5fboard_5fmagic_5fnum'' ''WORD_BOARD_MAGIC_NUM'' [(''../pciedev__ufn_8h.html#a65dc7126a642247f408a9b05d22de86c'', True, ''pciedev_ufn.h'')],
     ent ''word_5fboard_5freset'' ''WORD_BOARD_RESET'' [(''../pciedev__ufn_8h.html#ae7163ed970470fb18075a06a3ff145be'', True, ''pciedev_ufn.h'')],
     ent ''word_5fboard_5fto_5fproj'' ''WORD_BOARD_TO_PROJ'' [(''../pciedev__ufn_8h.html#a26e1013d278b8bb19337073a093a013b'', True, ''pciedev_ufn.h'')],
     ent ''word_5fboard_5fversion'' ''WORD_BOARD_VERSION'' [(''../pciedev__ufn_8h.html#ad9f4f941a44446fae6331251868a4071'', True, ''pciedev_ufn.h'')],
     ent ''word_5fproj_5fdate'' ''WORD_PROJ_DATE'' [(''../pciedev__ufn_8h.html#a00ac381d8b99a4b466be5be5e18dcd0b'', True, ''pciedev_ufn.h'')],
     ent ''word_5fproj_5fid'' ''WORD_PROJ_ID'' [(''../pciedev__ufn_8h.html#a85a66859ac00fbbc3d584d5f27774284'', True, ''pciedev_ufn.h'')],
     ent ''word_5fproj_5firq_5fclr_5fflagse'' ''WORD_PROJ_IRQ_CLR_FLAGSE'' [(''../pciedev__ufn_8h.html#a7858e1aa41d7fb2b42a89b4ceb614c4f'', True, ''pciedev_ufn.h'')],
     ent ''word_5fproj_5firq_5fenable'' ''WORD_PROJ_IRQ_ENABLE'' [(''../pciedev__ufn_8h.html#aeefda069e3e7efe0cdb8501758c2f74d'', True, ''pciedev_ufn.h'')],
     ent ''word_5fproj_5firq_5fflags'' ''WORD_PROJ_IRQ_FLAGS'' [(''../pciedev__ufn_8h.html#af6cc20b4fa5e8ad19108d8dccb28c002'', True, ''pciedev_ufn.h'')],
     ent ''word_5fproj_5firq_5fmask'' ''WORD_PROJ_IRQ_MASK'' [(''../pciedev__ufn_8h.html#a381bd39443d57c9e512e9a9777b47f08'', True, ''pciedev_ufn.h'')],
     ent ''word_5fproj_5fmagic_5fnum'' ''WORD_PROJ_MAGIC_NUM'' [(''../pciedev__ufn_8h.html#a0d2e2e3847dcb8f5ec882ce96ee0b5cf'', True, ''pciedev_ufn.h'')],
     ent ''word_5fproj_5fnext'' ''WORD_PROJ_NEXT'' [(''../pciedev__ufn_8h.html#aa1761624d108ae662fe032ad67a1d45e'', True, ''pciedev_ufn.h'')],
     ent ''word_5fproj_5freserved'' ''WORD_PROJ_RESERVED'' [(''../pciedev__ufn_8h.html#a78ffd9d43448bd1c27cc9fe25dd888cc'', True, ''pciedev_ufn.h'')],
     ent ''word_5fproj_5freset'' ''WORD_PROJ_RESET'' [(''../pciedev__ufn_8h.html#a3755c7798e6a6212f86e2c411ee08980'', True, ''pciedev_ufn.h'')],
     ent ''word_5fproj_5fversion'' ''WORD_PROJ_VERSION'' [(''../pciedev__ufn_8h.html#aa99330b8108c91906503ed83bf7f5362'', True, ''pciedev_ufn.h'')]]"

section \<open>The index\<close>

text \<open>The tables by section and by the code of the first character of their names.\<close>

definition search_tables :: "(string \<times> nat \<times> sd_entry list) list" where
  "search_tables =
    [(''all'', 0x61, all_61_js),
     (''all'', 0x62, all_62_js),
     (''all'', 0x63, all_63_js),
     (''all'', 0x64, all_64_js),
     (''all'', 0x65, all_65_js),
     (''all'', 0x66, all_66_js),
     (''all'', 0x69, all_69_js),
     (''all'', 0x6d, all_6d_js),
     (''all'', 0x6e, all_6e_js),
     (''all'', 0x6f, all_6f_js),
     (''all'', 0x70, all_70_js),
     (''all'', 0x72, all_72_js),
     (''all'', 0x73, all_73_js),
     (''all'', 0x75, all_75_js),
     (''all'', 0x76, all_76_js),
     (''all'', 0x77, all_77_js),
     (''classes'', 0x64, classes_64_js),
     (''classes'', 0x70, classes_70_js),
     (''classes'', 0x75, classes_75_js),
     (''files'', 0x70, files_70_js),
     (''files'', 0x75, files_75_js),
     (''functions'', 0x65, functions_65_js),
     (''functions'', 0x6d, functions_6d_js),
     (''functions'', 0x70, functions_70_js),
     (''functions'', 0x72, functions_72_js),
     (''functions'', 0x75, functions_75_js),
     (''variables'', 0x62, variables_62_js),
     (''variables'', 0x63, variables_63_js),
     (''variables'', 0x64, variables_64_js),
     (''variables'', 0x66, variables_66_js),
     (''variables'', 0x69, variables_69_js),
     (''variables'', 0x6d, variables_6d_js),
     (''variables'', 0x6e, variables_6e_js),
     (''variables'', 0x6f, variables_6f_js),
     (''variables'', 0x70, variables_70_js),
     (''variables'', 0x72, variables_72_js),
     (''variables'', 0x73, variables_73_js),
     (''variables'', 0x75, variables_75_js),
     (''variables'', 0x76, variables_76_js),
     (''typedefs'', 0x64, typedefs_64_js),
     (''typedefs'', 0x70, typedefs_70_js),
     (''typedefs'', 0x75, typedefs_75_js),
     (''defines'', 0x61, defines_61_js),
     (''defines'', 0x62, defines_62_js),
     (''defines'', 0x64, defines_64_js),
     (''defines'', 0x69, defines_69_js),
     (''defines'', 0x70, defines_70_js),
     (''defines'', 0x72, defines_72_js),
     (''defines'', 0x77, defines_77_js)]"

text \<open>
  The result pages of \<^verbatim>\<open>Doc/html/search\<close> and the table each loads with its first script element before it calls
  \<^verbatim>\<open>createResults\<close>; \<^verbatim>\<open>nomatches.html\<close> loads none.
\<close>

definition result_pages :: "(string \<times> sd_entry list) list" where
  "result_pages =
    [(''all_61.html'', all_61_js),
     (''all_62.html'', all_62_js),
     (''all_63.html'', all_63_js),
     (''all_64.html'', all_64_js),
     (''all_65.html'', all_65_js),
     (''all_66.html'', all_66_js),
     (''all_69.html'', all_69_js),
     (''all_6d.html'', all_6d_js),
     (''all_6e.html'', all_6e_js),
     (''all_6f.html'', all_6f_js),
     (''all_70.html'', all_70_js),
     (''all_72.html'', all_72_js),
     (''all_73.html'', all_73_js),
     (''all_75.html'', all_75_js),
     (''all_76.html'', all_76_js),
     (''all_77.html'', all_77_js),
     (''classes_64.html'', classes_64_js),
     (''classes_70.html'', classes_70_js),
     (''classes_75.html'', classes_75_js),
     (''files_70.html'', files_70_js),
     (''files_75.html'', files_75_js),
     (''functions_65.html'', functions_65_js),
     (''functions_6d.html'', functions_6d_js),
     (''functions_70.html'', functions_70_js),
     (''functions_72.html'', functions_72_js),
     (''functions_75.html'', functions_75_js),
     (''variables_62.html'', variables_62_js),
     (''variables_63.html'', variables_63_js),
     (''variables_64.html'', variables_64_js),
     (''variables_66.html'', variables_66_js),
     (''variables_69.html'', variables_69_js),
     (''variables_6d.html'', variables_6d_js),
     (''variables_6e.html'', variables_6e_js),
     (''variables_6f.html'', variables_6f_js),
     (''variables_70.html'', variables_70_js),
     (''variables_72.html'', variables_72_js),
     (''variables_73.html'', variables_73_js),
     (''variables_75.html'', variables_75_js),
     (''variables_76.html'', variables_76_js),
     (''typedefs_64.html'', typedefs_64_js),
     (''typedefs_70.html'', typedefs_70_js),
     (''typedefs_75.html'', typedefs_75_js),
     (''defines_61.html'', defines_61_js),
     (''defines_62.html'', defines_62_js),
     (''defines_64.html'', defines_64_js),
     (''defines_69.html'', defines_69_js),
     (''defines_70.html'', defines_70_js),
     (''defines_72.html'', defines_72_js),
     (''defines_77.html'', defines_77_js)]"

definition page_table :: "jstr \<Rightarrow> sd_entry list option" where
  "page_table f = map_of (map (\<lambda>(n, t). (js n, t)) result_pages) f"

section \<open>Well-formed tables\<close>

text \<open>
  What the search relies on: ids are made from the names, they are distinct, and all names start with the
  character the table is for.
\<close>

definition table_ok :: "nat \<Rightarrow> sd_entry list \<Rightarrow> bool" where
  "table_ok c t \<longleftrightarrow> search_data t \<and> distinct (map sd_id t) \<and> list_all (\<lambda>x. take 1 (toLowerCase (sd_name x)) = [c]) t"

lemma id_of_char_table:
  "97 \<le> c \<and> c \<le> 122 \<or> 48 \<le> c \<and> c \<le> 57 \<Longrightarrow> id_of_char c = [c]"
  "id_of_char 95 = [95, 53, 102]" "id_of_char 46 = [95, 50, 101]"
  by (simp_all add: id_of_char_def js_def to_hex.simps hex_digit_def)

lemmas table_simps = table_ok_def search_data_def ent_def convertToId_concat id_of_char_table js_def toLowerCase_def

lemma all_61_ok: "table_ok 0x61 all_61_js"
  by (simp add: table_simps all_61_js_def)

lemma all_62_ok: "table_ok 0x62 all_62_js"
  by (simp add: table_simps all_62_js_def)

lemma all_63_ok: "table_ok 0x63 all_63_js"
  by (simp add: table_simps all_63_js_def)

lemma all_64_ok: "table_ok 0x64 all_64_js"
  by (simp add: table_simps all_64_js_def)

lemma all_65_ok: "table_ok 0x65 all_65_js"
  by (simp add: table_simps all_65_js_def)

lemma all_66_ok: "table_ok 0x66 all_66_js"
  by (simp add: table_simps all_66_js_def)

lemma all_69_ok: "table_ok 0x69 all_69_js"
  by (simp add: table_simps all_69_js_def)

lemma all_6d_ok: "table_ok 0x6d all_6d_js"
  by (simp add: table_simps all_6d_js_def)

lemma all_6e_ok: "table_ok 0x6e all_6e_js"
  by (simp add: table_simps all_6e_js_def)

lemma all_6f_ok: "table_ok 0x6f all_6f_js"
  by (simp add: table_simps all_6f_js_def)

lemma all_70_ok: "table_ok 0x70 all_70_js"
  by (simp add: table_simps all_70_js_def)

lemma all_72_ok: "table_ok 0x72 all_72_js"
  by (simp add: table_simps all_72_js_def)

lemma all_73_ok: "table_ok 0x73 all_73_js"
  by (simp add: table_simps all_73_js_def)

lemma all_75_ok: "table_ok 0x75 all_75_js"
  by (simp add: table_simps all_75_js_def)

lemma all_76_ok: "table_ok 0x76 all_76_js"
  by (simp add: table_simps all_76_js_def)

lemma all_77_ok: "table_ok 0x77 all_77_js"
  by (simp add: table_simps all_77_js_def)

lemma classes_64_ok: "table_ok 0x64 classes_64_js"
  by (simp add: table_simps classes_64_js_def)

lemma classes_70_ok: "table_ok 0x70 classes_70_js"
  by (simp add: table_simps classes_70_js_def)

lemma classes_75_ok: "table_ok 0x75 classes_75_js"
  by (simp add: table_simps classes_75_js_def)

lemma files_70_ok: "table_ok 0x70 files_70_js"
  by (simp add: table_simps files_70_js_def)

lemma files_75_ok: "table_ok 0x75 files_75_js"
  by (simp add: table_simps files_75_js_def)

lemma functions_65_ok: "table_ok 0x65 functions_65_js"
  by (simp add: table_simps functions_65_js_def)

lemma functions_6d_ok: "table_ok 0x6d functions_6d_js"
  by (simp add: table_simps functions_6d_js_def)

lemma functions_70_ok: "table_ok 0x70 functions_70_js"
  by (simp add: table_simps functions_70_js_def)

lemma functions_72_ok: "table_ok 0x72 functions_72_js"
  by (simp add: table_simps functions_72_js_def)

lemma functions_75_ok: "table_ok 0x75 functions_75_js"
  by (simp add: table_simps functions_75_js_def)

lemma variables_62_ok: "table_ok 0x62 variables_62_js"
  by (simp add: table_simps variables_62_js_def)

lemma variables_63_ok: "table_ok 0x63 variables_63_js"
  by (simp add: table_simps variables_63_js_def)

lemma variables_64_ok: "table_ok 0x64 variables_64_js"
  by (simp add: table_simps variables_64_js_def)

lemma variables_66_ok: "table_ok 0x66 variables_66_js"
  by (simp add: table_simps variables_66_js_def)

lemma variables_69_ok: "table_ok 0x69 variables_69_js"
  by (simp add: table_simps variables_69_js_def)

lemma variables_6d_ok: "table_ok 0x6d variables_6d_js"
  by (simp add: table_simps variables_6d_js_def)

lemma variables_6e_ok: "table_ok 0x6e variables_6e_js"
  by (simp add: table_simps variables_6e_js_def)

lemma variables_6f_ok: "table_ok 0x6f variables_6f_js"
  by (simp add: table_simps variables_6f_js_def)

lemma variables_70_ok: "table_ok 0x70 variables_70_js"
  by (simp add: table_simps variables_70_js_def)

lemma variables_72_ok: "table_ok 0x72 variables_72_js"
  by (simp add: table_simps variables_72_js_def)

lemma variables_73_ok: "table_ok 0x73 variables_73_js"
  by (simp add: table_simps variables_73_js_def)

lemma variables_75_ok: "table_ok 0x75 variables_75_js"
  by (simp add: table_simps variables_75_js_def)

lemma variables_76_ok: "table_ok 0x76 variables_76_js"
  by (simp add: table_simps variables_76_js_def)

lemma typedefs_64_ok: "table_ok 0x64 typedefs_64_js"
  by (simp add: table_simps typedefs_64_js_def)

lemma typedefs_70_ok: "table_ok 0x70 typedefs_70_js"
  by (simp add: table_simps typedefs_70_js_def)

lemma typedefs_75_ok: "table_ok 0x75 typedefs_75_js"
  by (simp add: table_simps typedefs_75_js_def)

lemma defines_61_ok: "table_ok 0x61 defines_61_js"
  by (simp add: table_simps defines_61_js_def)

lemma defines_62_ok: "table_ok 0x62 defines_62_js"
  by (simp add: table_simps defines_62_js_def)

lemma defines_64_ok: "table_ok 0x64 defines_64_js"
  by (simp add: table_simps defines_64_js_def)

lemma defines_69_ok: "table_ok 0x69 defines_69_js"
  by (simp add: table_simps defines_69_js_def)

lemma defines_70_ok: "table_ok 0x70 defines_70_js"
  by (simp add: table_simps defines_70_js_def)

lemma defines_72_ok: "table_ok 0x72 defines_72_js"
  by (simp add: table_simps defines_72_js_def)

lemma defines_77_ok: "table_ok 0x77 defines_77_js"
  by (simp add: table_simps defines_77_js_def)

lemmas table_oks =
  all_61_ok
  all_62_ok
  all_63_ok
  all_64_ok
  all_65_ok
  all_66_ok
  all_69_ok
  all_6d_ok
  all_6e_ok
  all_6f_ok
  all_70_ok
  all_72_ok
  all_73_ok
  all_75_ok
  all_76_ok
  all_77_ok
  classes_64_ok
  classes_70_ok
  classes_75_ok
  files_70_ok
  files_75_ok
  functions_65_ok
  functions_6d_ok
  functions_70_ok
  functions_72_ok
  functions_75_ok
  variables_62_ok
  variables_63_ok
  variables_64_ok
  variables_66_ok
  variables_69_ok
  variables_6d_ok
  variables_6e_ok
  variables_6f_ok
  variables_70_ok
  variables_72_ok
  variables_73_ok
  variables_75_ok
  variables_76_ok
  typedefs_64_ok
  typedefs_70_ok
  typedefs_75_ok
  defines_61_ok
  defines_62_ok
  defines_64_ok
  defines_69_ok
  defines_70_ok
  defines_72_ok
  defines_77_ok

lemma search_tables_ok: "list_all (\<lambda>(s, c, t). table_ok c t) search_tables"
  by (simp add: search_tables_def table_oks)

end
