(* ===== verification/Search_Index.thy ===== *)
theory Search_Index
  imports Search_Panel Search_Data
begin

text \<open>
  The panel, the index and the result page together: the index tables of \<^verbatim>\<open>search.js\<close> name exactly the tables that
  exist, and a search from the panel shows exactly the entries of the selected section that match, although it
  loads one table only.
\<close>

section \<open>The index and the tables\<close>

definition section_tables :: "string \<Rightarrow> (nat \<times> sd_entry list) list" where
  "section_tables s = map snd (filter (\<lambda>(s', c, t). s' = s) search_tables)"

text \<open>All entries of a section.\<close>

definition section_entries :: "string \<Rightarrow> sd_entry list" where
  "section_entries s = concat (map snd (section_tables s))"

lemma search_tables_index:
  "map (\<lambda>(s, c, t). (s, c)) search_tables =
     concat (map (\<lambda>(n, cs). map (Pair n) cs) (zip indexSectionNames (map (ones 0) indexSectionsWithContent)))"
  by (simp add: index_ones search_tables_def indexSectionNames_def)

lemma section_codes:
  assumes "i < 7"
  shows "map fst (section_tables (indexSectionNames ! i)) = ones 0 (indexSectionsWithContent ! i)"
proof -
  have names: "distinct indexSectionNames" by (simp add: indexSectionNames_def)
  have pick: "filter (\<lambda>p. fst p = ns ! i) (concat (map (\<lambda>(n, cs). map (Pair n) cs) (zip ns css))) = map (Pair (ns ! i)) (css ! i)"
    if "distinct ns" "i < length ns" "length css = length ns" for i and ns :: "string list" and css :: "nat list list"
    using that
  proof (induction ns arbitrary: css i)
    case (Cons n ns)
    have none: "filter (\<lambda>p. fst p = m) (concat (map (\<lambda>(n, cs). map (Pair n) cs) (zip ms css))) = []"
      if "m \<notin> set ms" for m and ms :: "string list" and css :: "nat list list"
      using that by (auto simp: filter_empty_conv dest: set_zip_leftD)
    from Cons show ?case by (cases css; cases i) (auto simp: none filter_empty_conv)
  qed simp
  have "map fst (section_tables s) = map snd (filter (\<lambda>p. fst p = s) (map (\<lambda>(s, c, t). (s, c)) search_tables))" for s
    by (simp add: section_tables_def filter_map comp_def case_prod_unfold)
  with pick [OF names, of i "map (ones 0) indexSectionsWithContent"] assms index_heads(2,3) show ?thesis
    unfolding search_tables_index by (simp add: comp_def)
qed

lemma ones_filter: "ones k s = filter (\<lambda>c. s ! (c - k) = CHR ''1'') [k..<k + length s]"
proof (induction s arbitrary: k)
  case (Cons x s)
  have "filter (\<lambda>c. (x # s) ! (c - k) = CHR ''1'') [Suc k..<Suc k + length s] =
      filter (\<lambda>c. s ! (c - Suc k) = CHR ''1'') [Suc k..<Suc k + length s]"
    by (rule filter_cong) (auto simp: nth_Cons')
  moreover have "[k..<k + length (x # s)] = k # [Suc k..<Suc k + length s]"
    by (simp add: upt_conv_Cons del: upt_Suc)
  ultimately show ?case using Cons [of "Suc k"] by (cases "x = CHR ''1''") (simp_all del: upt_Suc)
qed simp

text \<open>
  The index of \<^verbatim>\<open>search.js\<close> is exact: a section has a page for a first character exactly when there is a table
  for it, in both directions and in the same order.
\<close>

theorem index_matches_tables:
  "list_all (\<lambda>i. map fst (section_tables (indexSectionNames ! i)) =
       filter (\<lambda>c. charAt (indexSectionsWithContent ! i) (Some c) = ''1'') [0..<256]) [0..<7]"
proof -
  have len: "list_all (\<lambda>s. length s = 256) indexSectionsWithContent" by (simp add: indexSectionsWithContent_def)
  have "map fst (section_tables (indexSectionNames ! i)) = filter (\<lambda>c. charAt (indexSectionsWithContent ! i) (Some c) = ''1'') [0..<256]"
    if "i < 7" for i
  proof -
    have "length (indexSectionsWithContent ! i) = 256" using len that index_heads(2) by (simp add: list_all_length)
    then show ?thesis
      using section_codes [OF that] ones_filter [of 0] by (auto simp: charAt_def intro: filter_cong)
  qed
  then show ?thesis by (simp add: list_all_iff)
qed

text \<open>
  C33. Every table is what the search relies on: its ids are those \<^verbatim>\<open>convertToId\<close> makes of the names, they are
  distinct, the names stay below 256, and each starts with the character the table is for.
\<close>

theorem index_tables_typed:
  "list_all (\<lambda>(s, c, t). search_data t \<and> distinct (map sd_id t) \<and> list_all (\<lambda>x. take 1 (toLowerCase (sd_name x)) = [c]) t)
     search_tables"
  using search_tables_ok by (simp add: table_ok_def)

section \<open>One table is enough\<close>

definition name_match :: "jstr \<Rightarrow> sd_entry \<Rightarrow> bool" where
  "name_match v x \<longleftrightarrow> prefix (normal_term v) (toLowerCase (sd_name x))"

lemma strip_trailing_Cons: "c \<noteq> 32 \<Longrightarrow> strip_trailing (c # cs) = c # strip_trailing cs"
  by (auto simp: strip_trailing_def dropWhile_append dropWhile_eq_Nil_conv)

lemma normal_term_first:
  assumes "strip_leading v = v" "v \<noteq> []"
  shows "take 1 (normal_term v) = take 1 (toLowerCase v)"
proof -
  obtain c cs where v: "v = c # cs" using assms(2) by (cases v) auto
  then have "c \<noteq> 32" using assms(1) hd_dropWhile [of "\<lambda>c. c = 32" v] by (auto simp: strip_leading_def)
  then have "strip_trailing v = c # strip_trailing cs" by (simp add: strip_trailing_Cons v)
  then show ?thesis using assms(1) v by (simp add: normal_term_def toLowerCase_def)
qed

lemma match_in_table:
  assumes "strip_leading v = v" "v \<noteq> []" "table_ok c t" "x \<in> set t" "name_match v x"
  shows "take 1 (toLowerCase v) = [c]"
proof -
  have "take 1 (toLowerCase (sd_name x)) = [c]" using assms(3,4) by (auto simp: table_ok_def list_all_iff)
  moreover have "normal_term v \<noteq> []" using normal_term_first [OF assms(1,2)] assms(2) by (auto simp: toLowerCase_def)
  ultimately show ?thesis
    using assms(5) normal_term_first [OF assms(1,2)] by (auto simp: name_match_def prefix_def take_Cons' split: if_splits) (cases "normal_term v"; simp)
qed

lemma filter_tables:
  assumes "distinct (map fst tabs)" "\<forall>(c, t) \<in> set tabs. \<forall>x \<in> set t. P x \<longrightarrow> c = d"
  shows "filter P (concat (map snd tabs)) = (case map_of tabs d of None \<Rightarrow> [] | Some t \<Rightarrow> filter P t)"
  using assms
proof (induction tabs)
  case (Cons a tabs)
  obtain c t where a: "a = (c, t)" by fastforce
  show ?case
  proof (cases "c = d")
    case True
    then have "map_of tabs d = None" using Cons.prems(1) a by (simp add: map_of_eq_None_iff)
    with Cons a True show ?thesis by simp
  next
    case False
    then have "filter P t = []" using Cons.prems(2) a by (auto simp: filter_empty_conv)
    with Cons a False show ?thesis by simp
  qed
qed simp

lemma section_matches:
  assumes "i < 7" "strip_leading v = v" "v \<noteq> []"
  shows "filter (name_match v) (section_entries (indexSectionNames ! i)) =
    (case map_of (section_tables (indexSectionNames ! i)) (hd (toLowerCase v)) of None \<Rightarrow> [] | Some t \<Rightarrow> filter (name_match v) t)"
proof -
  have "distinct (map fst (section_tables (indexSectionNames ! i)))"
    using section_codes [OF assms(1)] ones_filter [of 0 "indexSectionsWithContent ! i"] by simp
  moreover have "table_ok c t" if "(c, t) \<in> set (section_tables (indexSectionNames ! i))" for c t
    using that search_tables_ok by (auto simp: section_tables_def list_all_iff)
  then have "c = hd (toLowerCase v)" if "(c, t) \<in> set (section_tables (indexSectionNames ! i))" "x \<in> set t" "name_match v x" for c t x
    using that match_in_table [OF assms(2,3)] by (cases "toLowerCase v") force+
  then have "\<forall>(c, t) \<in> set (section_tables (indexSectionNames ! i)). \<forall>x \<in> set t. name_match v x \<longrightarrow> c = hd (toLowerCase v)"
    by blast
  ultimately show ?thesis unfolding section_entries_def by (rule filter_tables)
qed

text \<open>The entries a page shows.\<close>

definition shown_entries :: "sd_entry list \<Rightarrow> (string \<times> string) list \<Rightarrow> sd_entry list" where
  "shown_entries data vs = map fst (filter (\<lambda>(x, v). fst v = ''block'') (zip data vs))"

lemma shown_entries_search:
  "length vs = length data \<Longrightarrow>
   shown_entries data (map2 (\<lambda>x v. (if P x then ''block'' else ''none'', snd v)) data vs) = filter P data"
  by (induction data vs rule: list_induct2') (auto simp: shown_entries_def)

lemma table_page:
  assumes "i < 7" "charCodeAt0 (toLowerCase v) = Some c"
  shows "charAt (indexSectionsWithContent ! i) (Some c) = ''1'' \<longleftrightarrow> map_of (section_tables (indexSectionNames ! i)) c \<noteq> None"
proof -
  have "charAt (indexSectionsWithContent ! i) (Some c) = ''1'' \<longleftrightarrow> c \<in> set (ones 0 (indexSectionsWithContent ! i))"
    using charAt_ones [of "indexSectionsWithContent ! i" "Some c"] index_heads(1,2) assms(1) by (simp add: list_all_length)
  then show ?thesis by (simp add: map_of_eq_None_iff section_codes [OF assms(1), symmetric])
qed

text \<open>The name the panel gives the page of a table is that of the page which loads it.\<close>

definition table_page_name :: "string \<Rightarrow> nat \<Rightarrow> jstr" where
  "table_page_name s c = js s @ js ''_'' @ hexCode (Some c) @ js ''.html''"

lemma result_pages_tables:
  "map (\<lambda>(n, t). (js n, t)) result_pages = map (\<lambda>(s, c, t). (table_page_name s c, t)) search_tables"
  by (simp add: search_tables_def result_pages_def table_page_name_def hexCode_def js_def to_hex_two hex_digit_def)

lemma result_pages_names: "distinct (map (js \<circ> fst) result_pages)" "js ''nomatches.html'' \<notin> js ` fst ` set result_pages"
  unfolding result_pages_def by (simp_all add: js_def)

lemma page_table_page:
  assumes "i < 7" "map_of (section_tables (indexSectionNames ! i)) c = Some t"
  shows "page_table (table_page_name (indexSectionNames ! i) c) = Some t"
proof -
  have "(indexSectionNames ! i, c, t) \<in> set search_tables"
    using map_of_SomeD [OF assms(2)] by (auto simp: section_tables_def)
  then have "(table_page_name (indexSectionNames ! i) c, t) \<in> set (map (\<lambda>(n, t). (js n, t)) result_pages)"
    unfolding result_pages_tables by force
  moreover have "distinct (map fst (map (\<lambda>(n, t). (js n, t)) result_pages))"
    using result_pages_names(1) by (simp add: comp_def case_prod_unfold)
  ultimately show ?thesis by (simp add: page_table_def)
qed

lemma page_table_nomatches: "page_table (js ''nomatches.html'') = None"
  using result_pages_names(2) by (auto simp: page_table_def map_of_eq_None_iff image_iff)

lemma table_search:
  assumes "table_ok c t" "results_page_name p v = Done (pg, loc, True)" "list_all (\<lambda>c. c < 65536) v"
    and "v \<noteq> []" "list_all (\<lambda>c. c < 256) v" "doc s = results_page (createResults t)"
  shows "\<exists>s' nd vs. Search (drop (length pg) loc) [] s = Done (True, s') \<and> lastMatchCount s' = length (filter (name_match v) t) \<and>
    doc s' = page t ''none'' nd vs \<and> shown_entries t vs = filter (name_match v) t"
proof -
  have start: "doc s = page t '''' ''none'' (replicate (length t) ('''', ''''))"
    using assms(6) by (simp add: results_page_def createResults_styled page_def)
  let ?vs = "map2 (\<lambda>x w. (if name_match v x then ''block'' else ''none'', snd w)) t (replicate (length t) ('''' :: string, '''' :: string))"
  let ?nd = "if list_ex (name_match v) t then ''none'' else ''block''"
  have "Search (drop (length pg) loc) [] s =
      Done (True, s\<lparr>doc := page t ''none'' ?nd ?vs, lastMatchCount := length (filter (name_match v) t)\<rparr>)"
    using Search_names [OF _ start _ assms(4,5), of "[]"] assms(1) term_in_location [OF assms(2,3), of s "[]"]
    by (simp add: table_ok_def Let_def name_match_def [abs_def])
  moreover have "shown_entries t ?vs = filter (name_match v) t" by (rule shown_entries_search) simp
  ultimately show ?thesis
    by (intro exI [of _ "s\<lparr>doc := page t ''none'' ?nd ?vs, lastMatchCount := length (filter (name_match v) t)\<rparr>"]
        exI [of _ ?nd] exI [of _ ?vs]) simp
qed

text \<open>
  C6. A search from the panel, with one of the seven sections selected, finds everything. For every term that is not
  blank and whose code units are below 256, the panel opens a page of the search directory; if the page loads a table,
  it shows exactly the entries of the whole selected section whose name starts with the term, letter case and outer
  blanks aside, in order; if it loads none it is the page for no matches, and no entry of the section matches.
\<close>

theorem panel_finds_all:
  assumes "searchIndex p < 7" "v = strip_leading (field_value p)" "v \<noteq> []" "list_all (\<lambda>c. c < 256) v"
    and "found = filter (name_match v) (section_entries (indexSectionNames ! searchIndex p))"
  shows "\<exists>f pg loc has. results_page_name p v = Done (pg, loc, has) \<and> pg = resultsPath p @ js ''/'' @ f \<and>
    (case page_table f of
      None \<Rightarrow> \<not> has \<and> loc = pg \<and> f = js ''nomatches.html'' \<and> found = []
    | Some t \<Rightarrow> has \<and>
        (\<forall>s. doc s = results_page (createResults t) \<longrightarrow>
          (\<exists>s' nd vs. Search (drop (length pg) loc) [] s = Done (True, s') \<and> lastMatchCount s' = length found \<and>
            doc s' = page t ''none'' nd vs \<and> shown_entries t vs = found)))"
proof -
  define i where "i = searchIndex p"
  define c where "c = hd (toLowerCase v)"
  have v: "strip_leading v = v" using assms(2) by (simp add: strip_leading_def dropWhile_idem)
  have c: "charCodeAt0 (toLowerCase v) = Some c" using assms(3) by (cases v) (simp_all add: c_def charCodeAt0_def toLowerCase_def)
  note found = section_matches [OF assms(1) v assms(3), folded c_def assms(5)]
  have i: "i < 7" "i < length indexSectionsWithContent" "i < length indexSectionNames"
    using assms(1) index_heads(2,3) by (simp_all add: i_def)
  show ?thesis
  proof (cases "map_of (section_tables (indexSectionNames ! i)) c")
    case None
    let ?pg = "resultsPath p @ js ''/'' @ js ''nomatches.html''"
    have pg: "results_page_name p v = Done (?pg, ?pg, False)"
      using None table_page [OF i(1) c] i c by (simp add: results_page_name_def Let_def i_def) (simp add: js_def)
    have "found = []" using None found by (simp add: i_def)
    show ?thesis
      by (rule exI [of _ "js ''nomatches.html''"], rule exI [of _ ?pg], rule exI [of _ ?pg], rule exI [of _ False])
        (simp add: pg page_table_nomatches \<open>found = []\<close>)
  next
    case (Some t)
    let ?f = "table_page_name (indexSectionNames ! i) c"
    let ?pg = "resultsPath p @ js ''/'' @ ?f" let ?loc = "?pg @ js ''?'' @ escape v"
    have pg: "results_page_name p v = Done (?pg, ?loc, True)"
      using Some table_page [OF i(1) c] i c by (simp add: results_page_name_def table_page_name_def Let_def i_def)
    have "(c, t) \<in> set (section_tables (indexSectionNames ! i))" using Some by (rule map_of_SomeD)
    then have ok: "table_ok c t" using search_tables_ok by (auto simp: section_tables_def list_all_iff)
    have "list_all (\<lambda>c. c < 65536) v" using assms(4) by (auto simp: list_all_iff)
    note search = table_search [OF ok pg this assms(3,4)]
    have f: "found = filter (name_match v) t" using found Some by (simp add: i_def)
    show ?thesis
      by (rule exI [of _ ?f], rule exI [of _ ?pg], rule exI [of _ ?loc], rule exI [of _ True])
        (simp only: pg page_table_page [OF i(1) Some] option.case f, intro conjI refl TrueI allI impI search)
  qed
qed

section \<open>A concrete search\<close>

theorem panel_finds_all_witness:
  "\<exists>pg loc. results_page_name (ex_panel ''a b'' 0) (js ''a b'') = Done (pg, loc, True) \<and>
    filter (name_match (js ''a b'')) (section_entries ''defines'') = []"
proof -
  let ?p = "ex_panel ''a b'' 0" and ?v = "js ''a b''"
  have v: "strip_leading (field_value ?p) = ?v" "?v \<noteq> []" "list_all (\<lambda>c. c < 256) ?v" "hd (toLowerCase ?v) = 0x61"
    by (simp_all add: ex_panel_value(6) js_def toLowerCase_def)
  have name: "indexSectionNames ! 6 = ''defines''" by (simp add: indexSectionNames_def)
  have t: "map_of (section_tables ''defines'') 0x61 = Some defines_61_js"
    by (simp add: section_tables_def search_tables_def)
  have none: "filter (name_match ?v) defines_61_js = []"
    by (simp add: defines_61_js_def ent_def name_match_def normal_term_def strip_leading_def strip_trailing_def js_def toLowerCase_def)
  have "filter (name_match ?v) (section_entries ''defines'') = filter (name_match ?v) defines_61_js"
    using section_matches [of 6 ?v] v name t by (simp add: strip_leading_def js_def)
  moreover have "charCodeAt0 (toLowerCase ?v) = Some 0x61" by (simp add: charCodeAt0_def js_def toLowerCase_def)
  then have "charAt (indexSectionsWithContent ! 6) (charCodeAt0 (toLowerCase ?v)) = ''1''"
    using table_page [where i = 6 and v = ?v and c = "0x61"] name t by simp
  then have "has" if "results_page_name ?p ?v = Done (pg, loc, has)" for pg loc has
    using that index_heads(2,3) by (auto simp: results_page_name_def ex_panel_value(2) Let_def)
  ultimately show ?thesis
    using panel_finds_all [of ?p ?v, OF _ _ v(2,3) refl] v(1) name none by (force simp: ex_panel_value(2))
qed

end
