(* ===== verification/Search_Spec.thy ===== *)
theory Search_Spec
  imports Search_View Event_Runs
begin

text \<open>
  What the result page promises, without a document: its state is a table of rows, each with its display and the
  display of its children, the two status lines, the focus and the key state. The handlers of
  \<^verbatim>\<open>search.js\<close>, which work on the document, simulate the machine of this theory.
\<close>

section \<open>The abstract page\<close>

record view =
  v_searching :: string
  v_nomatches :: string
  v_rows :: "(string \<times> string) list"
  v_count :: nat
  v_key :: nat
  v_repeat :: bool
  v_focus :: focus
  v_closed :: bool

datatype handler =
    H_Search jstr jstr
  | H_Toggle nat
  | H_Nav event nat
  | H_NavChild event nat nat

text \<open>The handlers that elements of the page call.\<close>

fun handler_of :: "sd_entry list \<Rightarrow> handler \<Rightarrow> bool" where
  "handler_of data (H_Search url t) = True"
| "handler_of data (H_Toggle e) = (e < length data)"
| "handler_of data (H_Nav ev e) = (e < length data)"
| "handler_of data (H_NavChild ev e c) =
     (e < length data \<and> \<not> single (data ! e) \<and> c < length (sd_refs (data ! e)))"

definition spec_search :: "sd_entry list \<Rightarrow> jstr \<Rightarrow> view \<Rightarrow> view" where
  "spec_search data t v =
     (let n = length (filter (entry_matches t) data)
      in v\<lparr>v_searching := ''none'', v_nomatches := (if n = 0 then ''block'' else ''none''),
           v_rows := search_view t data (v_rows v), v_count := n\<rparr>)"

definition spec_children :: "sd_entry list \<Rightarrow> nat \<Rightarrow> (string \<Rightarrow> string) \<Rightarrow> view \<Rightarrow> view" where
  "spec_children data e f v =
     (if single (data ! e) then v
      else v\<lparr>v_rows := (v_rows v)[e := (fst (v_rows v ! e), f (snd (v_rows v ! e)))]\<rparr>)"

definition spec_focus :: "jstr option \<Rightarrow> view \<Rightarrow> view" where
  "spec_focus i v = (case i of None \<Rightarrow> v | Some i \<Rightarrow> v\<lparr>v_focus := OnItem i\<rparr>)"

text \<open>Whether an event is acted on, and the key state after it.\<close>

definition spec_keys :: "event \<Rightarrow> view \<Rightarrow> bool \<times> view" where
  "spec_keys ev v =
     (case e_type ev of
        Keydown \<Rightarrow> (keyCode ev \<noteq> 0, v\<lparr>v_repeat := False, v_key := keyCode ev\<rparr>)
      | Keypress \<Rightarrow> (v_repeat v \<and> v_key v \<noteq> 0, v\<lparr>v_repeat := v_repeat v \<or> v_key v \<noteq> 0\<rparr>)
      | Keyup \<Rightarrow> (False, v\<lparr>v_key := 0, v_repeat := False\<rparr>)
      | OtherEvent \<Rightarrow> (v_key v \<noteq> 0, v))"

definition spec_escape :: "view \<Rightarrow> view" where
  "spec_escape v = v\<lparr>v_closed := True, v_focus := OnSearchField\<rparr>"

definition spec_nav :: "sd_entry list \<Rightarrow> nat \<Rightarrow> view \<Rightarrow> view" where
  "spec_nav data e v =
     (if v_key v = 38 then
        v\<lparr>v_focus := (case up_target data (v_rows v) e of None \<Rightarrow> OnSearchField | Some i \<Rightarrow> OnItem i)\<rparr>
      else if v_key v = 40 then spec_focus (down_target data (v_rows v) e) v
      else if v_key v = 39 then spec_children data e (\<lambda>_. ''block'') v
      else if v_key v = 37 then spec_children data e (\<lambda>_. ''none'') v
      else if v_key v = 27 then spec_escape v
      else v)"

definition next_item :: "sd_entry list \<Rightarrow> (string \<times> string) list \<Rightarrow> nat \<Rightarrow> jstr option" where
  "next_item data vs e = map_option (\<lambda>j. Item (int j)) (find (visible vs) [e..<length data])"

definition spec_nav_child :: "sd_entry list \<Rightarrow> nat \<Rightarrow> nat \<Rightarrow> view \<Rightarrow> view" where
  "spec_nav_child data e c v =
     (if v_key v = 38 then spec_focus (Some (if 0 < c then Item_c (int e) (int c - 1) else Item (int e))) v
      else if v_key v = 40 then
        spec_focus (if c + 1 < length (sd_refs (data ! e)) then Some (Item_c (int e) (int c + 1))
          else next_item data (v_rows v) (e + 1)) v
      else if v_key v = 27 then spec_escape v
      else v)"

definition spec_key_event :: "event \<Rightarrow> (view \<Rightarrow> view) \<Rightarrow> view \<Rightarrow> view" where
  "spec_key_event ev f v =
     (if keyCode ev = 13 then v else let (act, v) = spec_keys ev v in if act then f v else v)"

fun view_step :: "sd_entry list \<Rightarrow> handler \<Rightarrow> view \<Rightarrow> view" where
  "view_step data (H_Search url t) v = spec_search data (if t = [] then unescape (drop 1 url) else t) v"
| "view_step data (H_Toggle e) v = spec_children data e (\<lambda>d. if d = ''block'' then ''none'' else ''block'') v"
| "view_step data (H_Nav ev e) v = spec_key_event ev (spec_nav data e) v"
| "view_step data (H_NavChild ev e c) v = spec_key_event ev (spec_nav_child data e c) v"

section \<open>The document stands for the abstract page\<close>

fun handle :: "sd_entry list \<Rightarrow> handler \<Rightarrow> srstate \<Rightarrow> srstate run" where
  "handle data (H_Search url t) s = run_bind (Search url t s) (\<lambda>(b, s). Done s)"
| "handle data (H_Toggle e) s = Toggle (SR_id (data ! e)) s"
| "handle data (H_Nav ev e) s = run_bind (Nav ev (int e) s) (\<lambda>(b, s). Done s)"
| "handle data (H_NavChild ev e c) s = run_bind (NavChild ev (int e) (int c) s) (\<lambda>(b, s). Done s)"

definition srstate_of :: "sd_entry list \<Rightarrow> view \<Rightarrow> srstate" where
  "srstate_of data v =
     \<lparr>doc = page data (v_searching v) (v_nomatches v) (v_rows v), lastMatchCount = v_count v, lastKey = v_key v,
      repeatOn = v_repeat v, focused = v_focus v, results_closed = v_closed v\<rparr>"

definition view_ok :: "sd_entry list \<Rightarrow> view \<Rightarrow> bool" where
  "view_ok data v \<longleftrightarrow> length (v_rows v) = length data"

lemma doc_srstate_of [simp]: "doc (srstate_of data v) = page data (v_searching v) (v_nomatches v) (v_rows v)"
  by (simp add: srstate_of_def)

lemma srstate_of_focus: "(srstate_of data v)\<lparr>focused := f\<rparr> = srstate_of data (v\<lparr>v_focus := f\<rparr>)"
  by (simp add: srstate_of_def)

lemma search_simulates:
  assumes "view_ok data v"
  shows "Search url t (srstate_of data v) = Done (True, srstate_of data (spec_search data (if t = [] then unescape (drop 1 url) else t) v))"
  using Search_page [of "v_rows v" data "srstate_of data v" "v_searching v" "v_nomatches v" url t] assms
  by (simp add: view_ok_def Let_def spec_search_def srstate_of_def)

lemma children_simulate:
  assumes "view_ok data v" "e < length data" "distinct (map sd_id data)"
  shows "Toggle (SR_id (data ! e)) (srstate_of data v) =
      Done (srstate_of data (spec_children data e (\<lambda>d. if d = ''block'' then ''none'' else ''block'') v))"
    and "Nav_show w (int e) (srstate_of data v) = Done (srstate_of data (spec_children data e (\<lambda>_. w) v))"
  using Toggle_page [OF assms(1) [unfolded view_ok_def] doc_srstate_of assms(2,3)]
    Nav_show_page [OF assms(1) [unfolded view_ok_def] doc_srstate_of assms(2,3), of w]
  by (simp_all add: spec_children_def srstate_of_def)

lemma nav_simulates:
  assumes "view_ok data v" "e < length data" "distinct (map sd_id data)"
  shows "Nav_up (int e) (srstate_of data v) = Done (srstate_of data (v\<lparr>v_focus :=
      (case up_target data (v_rows v) e of None \<Rightarrow> OnSearchField | Some i \<Rightarrow> OnItem i)\<rparr>))"
    and "Nav_down (int e) (srstate_of data v) = Done (srstate_of data (spec_focus (down_target data (v_rows v) e) v))"
  using Nav_up_page [OF assms(1) [unfolded view_ok_def] doc_srstate_of assms(2,3)]
    Nav_down_page [OF assms(1) [unfolded view_ok_def] doc_srstate_of assms(2,3)]
  by (simp_all add: spec_focus_def srstate_of_focus split: option.splits)

lemma keys_simulate:
  "ProcessKeys ev (srstate_of data v) = (let (act, v) = spec_keys ev v in (act, srstate_of data v))"
  by (auto simp: ProcessKeys_def spec_keys_def srstate_of_def Let_def split: event_type.splits)

lemma spec_keys_rows [simp]: "spec_keys ev v = (act, w) \<Longrightarrow> v_rows w = v_rows v"
  by (auto simp: spec_keys_def split: event_type.splits)

lemma Nav_simulates:
  assumes "view_ok data v" "e < length data" "distinct (map sd_id data)"
  shows "\<exists>b. Nav ev (int e) (srstate_of data v) = Done (b, srstate_of data (spec_key_event ev (spec_nav data e) v))"
proof -
  obtain act w where w: "spec_keys ev v = (act, w)" by fastforce
  then have "view_ok data w" using assms(1) by (simp add: view_ok_def)
  note steps = nav_simulates [OF this assms(2,3)] children_simulate(2) [OF this assms(2,3)]
  have esc: "Nav_escape (srstate_of data w) = srstate_of data (spec_escape w)"
    by (simp add: Nav_escape_def spec_escape_def srstate_of_def)
  have key: "lastKey (srstate_of data w) = v_key w" by (simp add: srstate_of_def)
  show ?thesis
    by (auto simp: Nav_def spec_key_event_def keys_simulate w key returning_def steps esc spec_nav_def)
qed

lemma NavChild_simulates:
  assumes "view_ok data v" "e < length data" "\<not> single (data ! e)" "c < length (sd_refs (data ! e))"
  shows "\<exists>b. NavChild ev (int e) (int c) (srstate_of data v) =
    Done (b, srstate_of data (spec_key_event ev (spec_nav_child data e c) v))"
proof -
  obtain act w where w: "spec_keys ev v = (act, w)" by fastforce
  define s where "s = srstate_of data w"
  have vs: "length (v_rows w) = length data" using assms(1) w by (simp add: view_ok_def)
  have doc: "doc s = page data (v_searching w) (v_nomatches w) (v_rows w)" "lastKey s = v_key w" by (simp_all add: s_def srstate_of_def)
  have up: "focus_on (Item_c (int e) (int c - 1)) s = Done (srstate_of data (w\<lparr>v_focus := OnItem (Item_c (int e) (int c - 1))\<rparr>))" if "0 < c"
    using that path_child [OF vs, of "int e" "int c - 1"] assms(2-4) doc
    by (simp add: focus_on_def nat_diff_distrib s_def srstate_of_focus)
  have top: "focus_on (Item (int e)) s = Done (srstate_of data (w\<lparr>v_focus := OnItem (Item (int e))\<rparr>))"
    using path_item [OF vs assms(2), of "v_searching w" "v_nomatches w"] doc by (auto simp: focus_on_def s_def srstate_of_focus)
  have nav: "run_bind (NavNext (doc s) (int e + 1)) (\<lambda>el. Done (focus_path el s)) =
      Done (srstate_of data (spec_focus (next_item data (v_rows w) (e + 1)) w))"
    using NavNext_find [OF vs, of "v_searching w" "v_nomatches w" "e + 1"] find_block_bound(1) doc
      focus_item_path [OF vs, of "find (visible (v_rows w)) [e + 1..<length data]" "v_searching w" "v_nomatches w" s]
    by (simp add: add.commute next_item_def spec_focus_def s_def srstate_of_focus split: option.splits)
  have "(case path_to (Item_c (int e) (int c + 1)) (doc s) of Some p \<Rightarrow> Done (focus_path (Some p) s)
        | None \<Rightarrow> run_bind (NavNext (doc s) (int e + 1)) (\<lambda>el. Done (focus_path el s))) =
      Done (srstate_of data (spec_focus (if c + 1 < length (sd_refs (data ! e)) then Some (Item_c (int e) (int c + 1))
        else next_item data (v_rows w) (e + 1)) w))"
  proof (cases "path_to (Item_c (int e) (int c + 1)) (doc s)")
    case None
    then show ?thesis using path_child [OF vs, of "int e" "int c + 1" "v_searching w" "v_nomatches w"] assms(2,3) doc nav by (simp add: nat_add_distrib)
  next
    case (Some p)
    then show ?thesis using path_child [OF vs, of "int e" "int c + 1" "v_searching w" "v_nomatches w"] doc path_to_last [OF Some]
      by (auto simp: nat_add_distrib focus_path_def spec_focus_def s_def srstate_of_focus)
  qed
  moreover have "Nav_escape s = srstate_of data (spec_escape w)"
    by (simp add: s_def Nav_escape_def spec_escape_def srstate_of_def)
  ultimately show ?thesis
    using up top doc(2)
    by (auto simp: NavChild_def spec_key_event_def keys_simulate w returning_def spec_nav_child_def s_def [symmetric] spec_focus_def)
qed

lemma handle_simulates:
  assumes "view_ok data v" "handler_of data h" "distinct (map sd_id data)"
  shows "handle data h (srstate_of data v) = Done (srstate_of data (view_step data h v))"
proof (cases h)
  case (H_Search url t)
  then show ?thesis using search_simulates [OF assms(1)] by simp
next
  case (H_Toggle e)
  then show ?thesis using children_simulate(1) [OF assms(1) _ assms(3)] assms(2) by simp
next
  case (H_Nav ev e)
  then show ?thesis using Nav_simulates [OF assms(1) _ assms(3), of e ev] assms(2) by auto
next
  case (H_NavChild ev e c)
  then show ?thesis using NavChild_simulates [OF assms(1), of e c ev] assms(2) by auto
qed

lemma view_step_ok: "view_ok data v \<Longrightarrow> view_ok data (view_step data h v)"
proof -
  assume v: "view_ok data v"
  have f: "view_ok data (spec_key_event ev f v)" if "\<And>w. view_ok data w \<Longrightarrow> view_ok data (f w)" for ev f
    using that v by (auto simp: spec_key_event_def view_ok_def split: prod.splits)
  have "view_ok data (spec_nav data e w)" "view_ok data (spec_nav_child data e c w)" "view_ok data (spec_children data e g w)"
    if "view_ok data w" for e c g w
    using that by (simp_all add: spec_nav_def spec_nav_child_def spec_focus_def spec_children_def spec_escape_def view_ok_def split: option.split)
  with f v show ?thesis
    by (cases h) (simp_all add: spec_search_def search_view_def view_ok_def [of _ "_\<lparr>v_searching := _\<rparr>"] Let_def, simp add: view_ok_def)
qed

interpretation results: simulation "handle data" "view_step data" "srstate_of data" "view_ok data"
    "\<lambda>h. handler_of data h \<and> distinct (map sd_id data)" for data
  by unfold_locales (simp_all add: handle_simulates view_step_ok)

section \<open>Runs\<close>

text \<open>The page when its scripts have run.\<close>

definition start_view :: "sd_entry list \<Rightarrow> view" where
  "start_view data = \<lparr>v_searching = '''', v_nomatches = ''none'', v_rows = replicate (length data) ('''', ''''), v_count = 0,
     v_key = 0, v_repeat = False, v_focus = NoFocus, v_closed = False\<rparr>"

definition start_page :: "sd_entry list \<Rightarrow> srstate" where
  "start_page data = \<lparr>doc = results_page (createResults data), lastMatchCount = 0, lastKey = 0, repeatOn = False,
     focused = NoFocus, results_closed = False\<rparr>"

lemma start_page_view: "start_page data = srstate_of data (start_view data)"
  by (simp add: start_page_def start_view_def srstate_of_def results_page_def createResults_styled page_def)

lemma start_view_ok: "view_ok data (start_view data)"
  by (simp add: view_ok_def start_view_def)

text \<open>
  C5. The handlers implement the abstract page: from the page \<^verbatim>\<open>createResults\<close> builds, any sequence of searches,
  toggles and key events on its items ends, without an exception, in the document that stands for the state the
  abstract machine reaches.
\<close>

theorem handlers_refine_view:
  assumes "distinct (map sd_id data)" "list_all (handler_of data) hs"
  shows "run_all (handle data) hs (start_page data) = Done (srstate_of data (fold (view_step data) hs (start_view data)))"
proof -
  have "list_all (\<lambda>h. handler_of data h \<and> distinct (map sd_id data)) hs"
    using assms by (simp add: list_all_iff)
  then show ?thesis unfolding start_page_view by (rule results.simulates_run [OF start_view_ok])
qed

text \<open>The elements of a page the focus can be on.\<close>

definition page_items :: "sd_entry list \<Rightarrow> jstr set" where
  "page_items data = {Item (int e) | e. e < length data} \<union>
     {Item_c (int e) (int c) | e c. e < length data \<and> \<not> single (data ! e) \<and> c < length (sd_refs (data ! e))}"

definition focus_ok :: "sd_entry list \<Rightarrow> view \<Rightarrow> bool" where
  "focus_ok data v \<longleftrightarrow> (case v_focus v of OnItem i \<Rightarrow> i \<in> page_items data | _ \<Rightarrow> True)"

lemma page_items_Item: "e < length data \<Longrightarrow> Item (int e) \<in> page_items data"
  by (auto simp: page_items_def)

lemma page_items_Item_c:
  "e < length data \<Longrightarrow> \<not> single (data ! e) \<Longrightarrow> 0 \<le> k \<Longrightarrow> k < int (length (sd_refs (data ! e))) \<Longrightarrow> Item_c (int e) k \<in> page_items data"
  unfolding page_items_def by (cases k rule: int_cases) auto

lemma targets_on_page:
  assumes "e < length data"
  shows "down_target data vs e = Some i \<Longrightarrow> i \<in> page_items data"
    and "up_target data vs e = Some i \<Longrightarrow> i \<in> page_items data"
    and "next_item data vs k = Some i \<Longrightarrow> i \<in> page_items data"
proof -
  have find: "map_option (\<lambda>j. Item (int j)) (find (visible vs) [k..<length data]) = Some i \<Longrightarrow> i \<in> page_items data" for k
    using find_block_bound(1) [of "visible vs" k "length data"] page_items_Item by auto
  show "next_item data vs k = Some i \<Longrightarrow> i \<in> page_items data" using find by (simp add: next_item_def)
  show "down_target data vs e = Some i \<Longrightarrow> i \<in> page_items data"
    using find assms page_items_Item_c [of e data 0] by (auto simp: down_target_def split: if_splits)
  assume up: "up_target data vs e = Some i"
  then obtain p where p: "find (visible vs) (rev [0..<e]) = Some p" by (auto simp: up_target_def)
  then have "p < e" by (rule find_block_bound(2))
  then show "i \<in> page_items data"
    using up p assms page_items_Item [of p data] page_items_Item_c [of "e - 1" data "int (length (sd_refs (data ! (e - 1)))) - 1"]
    by (cases "sd_refs (data ! (e - 1))") (auto simp: up_target_def of_nat_diff split: if_splits)
qed

lemma focus_ok_step:
  assumes "focus_ok data v" "handler_of data h"
  shows "focus_ok data (view_step data h v)"
proof -
  have event: "focus_ok data (spec_key_event ev f v)" if "\<And>w. focus_ok data w \<Longrightarrow> focus_ok data (f w)" for ev f
  proof -
    have "focus_ok data w" if "spec_keys ev v = (act, w)" for act w
      using that assms(1) by (auto simp: spec_keys_def focus_ok_def split: event_type.splits)
    with that assms(1) show ?thesis by (auto simp: spec_key_event_def split: prod.splits)
  qed
  have focus: "focus_ok data (spec_focus i w)" if "focus_ok data w" "\<And>x. i = Some x \<Longrightarrow> x \<in> page_items data" for i w
    using that by (auto simp: focus_ok_def spec_focus_def split: option.splits)
  have keep: "focus_ok data (spec_children data e g w) = focus_ok data w" "focus_ok data (spec_escape w)"
    "focus_ok data (spec_search data t w) = focus_ok data w" for e g t w
    by (simp_all add: focus_ok_def spec_children_def spec_escape_def spec_search_def Let_def)
  have nav: "focus_ok data (spec_nav data e w)" if "focus_ok data w" "e < length data" for e w
    using that focus targets_on_page [OF that(2)]
    by (auto simp: spec_nav_def keep focus_ok_def [of _ "_\<lparr>v_focus := _\<rparr>"] split: option.splits)
  have child: "focus_ok data (spec_nav_child data e c w)"
    if "focus_ok data w" "e < length data" "\<not> single (data ! e)" "c < length (sd_refs (data ! e))" for e c w
    using that targets_on_page(3) [OF that(2)] page_items_Item [of e data] page_items_Item_c [of e data]
    by (auto simp: spec_nav_child_def keep intro!: focus split: if_splits)
  show ?thesis
    using assms event nav child by (cases h) (auto simp: keep)
qed

text \<open>
  C15. No sequence of searches, toggles and key events on existing items throws, the page stays a page of the same
  search data, and the focus is on one of its items, on the search field, or nowhere yet.
\<close>

theorem handlers_never_throw:
  assumes "distinct (map sd_id data)" "list_all (handler_of data) hs"
  shows "\<exists>s sd nd vs. run_all (handle data) hs (start_page data) = Done s \<and> doc s = page data sd nd vs \<and> length vs = length data \<and>
    (case focused s of OnItem i \<Rightarrow> i \<in> page_items data | _ \<Rightarrow> True)"
proof -
  let ?v = "fold (view_step data) hs (start_view data)"
  have en: "list_all (\<lambda>h. handler_of data h \<and> distinct (map sd_id data)) hs" using assms by (simp add: list_all_iff)
  have "focus_ok data (fold (view_step data) hs v)" if "focus_ok data v" for v
    using that assms(2) by (induction hs arbitrary: v) (simp_all add: focus_ok_step)
  then have "focus_ok data ?v" by (simp add: focus_ok_def start_view_def)
  moreover have "view_ok data ?v" by (rule results.spec_run_ok [OF start_view_ok en])
  moreover have "run_all (handle data) hs (start_page data) = Done (srstate_of data ?v)"
    unfolding start_page_view by (rule results.simulates_run [OF start_view_ok en])
  ultimately show ?thesis
    by (intro exI [of _ "srstate_of data ?v"]) (auto simp: view_ok_def focus_ok_def srstate_of_def)
qed

section \<open>A concrete run\<close>

definition ex_run :: "handler list" where
  "ex_run = [H_Search [] (js ''f''), H_Toggle 0, H_Nav (key_event Keydown 40) 0, H_NavChild (key_event Keydown 40) 0 1,
     H_Nav (key_event Keydown 39) 2]"

lemma ex_run_ok: "list_all (handler_of ex_data) ex_run"
  using ex_data_ok(3) by (simp add: ex_run_def single_def) (simp add: ex_data_def ex_entry_def)

theorem handlers_refine_view_witness:
  "run_all (handle ex_data) ex_run (start_page ex_data) = Done (srstate_of ex_data (fold (view_step ex_data) ex_run (start_view ex_data)))"
  by (rule handlers_refine_view [OF ex_data_ok(2) ex_run_ok])

theorem handlers_never_throw_witness: "\<exists>s. run_all (handle ex_data) ex_run (start_page ex_data) = Done s"
  using handlers_never_throw [OF ex_data_ok(2) ex_run_ok] by auto

end
