(* ===== verification/Spec2Isabelle.thy ===== *)
theory Spec2Isabelle
  imports Ioctl Crit_Semaphore Driver_Runs Search_Index Search_Spec
begin

text \<open>
  Verification of \<^emph>\<open>upciedev\<close>, the universal PCI Express driver for MicroTCA boards, and of the search its documentation
  comes with.

  \<^bold>\<open>The program.\<close> The repository has two parts. The driver, in C, is a kernel module of functions that board drivers
  build on: it keeps a table of boards, finds and loses them, describes them, and gives user space their registers by
  read, write, ioctl and mmap. The documentation under \<^verbatim>\<open>src/Doc/html\<close> is searched by a program in JavaScript,
  \<^verbatim>\<open>search/search.js\<close>: a panel on every page opens a result page in a frame, which builds its rows from a table, filters
  them and is moved through with keys.

  \<^bold>\<open>Theories and the code they model.\<close>

  \<^item> \<open>UPrelude\<close>: machine integers, the outcome type \<open>run\<close> (returns, waits for ever, touches memory that is not its own),
    array access with the bounds C does not check, byte layouts.
  \<^item> \<open>Event_Runs\<close>: runs of a component over a list of events, with the contracts \<open>kept\<close>, \<open>never_stuck\<close> and \<open>simulation\<close>.
  \<^item> \<open>Kernel_Env\<close>: what the driver calls and does not contain (device access, copies to and from user space), a record of
    functions \<open>'w kern\<close> over the state \<open>'w\<close> of everything outside; the contracts \<open>kern_frame\<close> and \<open>plain_registers\<close>.
  \<^item> \<open>Device\<close>: the constants and structures of \<^verbatim>\<open>pciedev_ufn.h\<close> and \<^verbatim>\<open>pciedev_io.h\<close> as records; \<open>wf_dev\<close>, the invariant of a board.
  \<^item> \<open>Register_IO\<close>: \<^verbatim>\<open>read_write_inline.h\<close>, the loops that move registers, with byte swapping, bit modes and the test for a
    dead link.
  \<^item> \<open>Crit_Region\<close> and \<open>Crit_Semaphore\<close>: the two builds of the board lock, \<^verbatim>\<open>criticalregionlock.h\<close> (a mutex) and
    \<^verbatim>\<open>criticalregionlock.c\<close> (a semaphore with a long lock), the latter also as a step relation for any number of processes.
  \<^item> \<open>File_Ops\<close>: \<^verbatim>\<open>pciedev_rw_exp.c\<close> and open, release, mmap and the accessors of \<^verbatim>\<open>pciedev_ufn.c\<close>.
  \<^item> \<open>Ioctl\<close>: every command of \<^verbatim>\<open>pciedev_ioctl_exp.c\<close>, with the user structures as bytes.
  \<^item> \<open>Board_Info\<close>: how a board is identified and its project or module descriptions are collected (\<^verbatim>\<open>pciedev_ufn.c\<close>).
  \<^item> \<open>Lifecycle\<close>: \<^verbatim>\<open>upciedev_drv.c\<close>, initialisation, cleanup, interrupts and slot queries of \<^verbatim>\<open>pciedev_ufn.c\<close>,
    \<^verbatim>\<open>pciedev_probe_exp.c\<close>, \<^verbatim>\<open>pciedev_remove_exp.c\<close>. What the PCI core answers is the record \<open>pci_info\<close>, what it is asked to do a
    trace of actions.
  \<^item> \<open>Driver_Runs\<close>: the driver as a machine driven by probes, removals, interrupt set-ups, opens and closes.
  \<^item> \<open>Search_Text\<close>: \<^verbatim>\<open>convertToId\<close> and the string functions of the library, on code units.
  \<^item> \<open>Search_Results\<close> and \<open>Search_View\<close>: \<^verbatim>\<open>createResults\<close> and \<^verbatim>\<open>SearchResults\<close> on an explicit document tree; what the methods
    do to a page that \<^verbatim>\<open>createResults\<close> built.
  \<^item> \<open>Search_Spec\<close>: an abstract result page (which rows and children are shown, where the focus is, the last key) and the
    refinement of it by the methods.
  \<^item> \<open>Search_Panel\<close>: the index strings, \<^verbatim>\<open>SearchBox\<close> with its timers and windows, and what the result page does to it.
  \<^item> \<open>Search_Data\<close>: the 49 tables \<^verbatim>\<open>search/*_XX.js\<close>, entry by entry, and the result page that loads each.
  \<^item> \<open>Search_Index\<close>: the panel, the index and the result page together.

  \<^bold>\<open>State and operations.\<close> A C structure is a record with the fields the code uses, an array a list of its declared
  length, an intrusive list the list of its nodes; a board is a \<open>pciedev_dev\<close>, a driver a \<open>driver\<close> (its board table, the slot
  table, the driver data of devices, the board of each open file). A function takes the state it changes and returns it;
  an error number is the result, a wait on a taken mutex is \<open>Blocked\<close>, an index out of bounds or a null pointer \<open>Fault\<close>.
  Words have the width of the code. The results page is a tree of nodes, the panel a record of its elements and timers; an
  exception of JavaScript is \<open>Fault\<close>. A pointer to a board is its number, a pointer to an open file a number.

  \<^bold>\<open>What is shown.\<close>

  \<^item> \<^emph>\<open>Registers.\<close> Every access of a read, a write or an ioctl lies in a BAR of the board or is the scratch register; what is
    delivered is what the registers hold; what is written is read back, with the one value the dead-link test may
    withhold; each error path, and for 32-bit reads the exact result in every case. (\<open>Register_IO\<close>, \<open>File_Ops\<close>, \<open>Ioctl\<close>)
  \<^item> \<^emph>\<open>Locks.\<close> Mutual exclusion in every interleaving of processes that use the lock well bracketed; which calls leave a
    lock taken or wait for themselves. (\<open>Crit_Semaphore\<close>, \<open>File_Ops\<close>, \<open>Ioctl\<close>)
  \<^item> \<^emph>\<open>Discovery.\<close> A board is identified and every field of its description is the register at its offset; a chain of
    descriptions that ends is collected completely; a cyclic one is followed for ever.
    (\<open>Board_Info\<close>)
  \<^item> \<^emph>\<open>Life cycle.\<close> A probe attaches a device to the first free board and nothing else, a removal releases what it took, after
    which the device can be probed again; the tables of
    devices, boards and files agree after every sequence of events; files of a removed board end on the null device and are
    refused there; which bounds and failures the code misses. (\<open>Lifecycle\<close>, \<open>Driver_Runs\<close>)
  \<^item> \<^emph>\<open>Search.\<close> Ids are a prefix code, so that the comparison of ids is a comparison of names; a page shows exactly the matching
    entries; the handlers refine the abstract page and never throw; the panel opens an existing page and the table
    that page loads shows exactly the entries of the section that start with the term; the panel's windows and timers
    stay consistent, and typing schedules at most one search.
    (\<open>Search_Text\<close> to \<open>Search_Index\<close>)

  \<^bold>\<open>Interfaces.\<close> The locales state what one part relies on in another and are interpreted on the model's definitions:
  \<open>kern_frame\<close> on the recording environment \<open>logged\<close>; \<open>crit_lock\<close> on both builds of the lock, \<open>plain_mutex\<close>, which extends it, on
  the mutex; \<open>plain_registers\<close>, a hypothesis on the device, on a device that is memory; \<open>chain\<close>
  and \<open>fill_keeps\<close> on the two functions that read one description; \<open>kept\<close> on the panel and on the driver; \<open>simulation\<close>, which
  gives \<open>never_stuck\<close>, on the handlers of the result page.

  \<^bold>\<open>Loops.\<close> Loops over a bounded range are total functions. The wait for the semaphore is bounded by the code itself (100
  rounds). The loops along a chain of descriptions depend on the device and are partial functions, \<open>None\<close> when they do not
  end; that they end is proved for the chains that do. The walk over the document tree is total with a measure.

  \<^bold>\<open>Assumptions.\<close> A kernel of version 4.20.17 or later for \<^verbatim>\<open>access_ok\<close>, 4.13 or later with \<^verbatim>\<open>CONFIG_PCI_MSI\<close> for interrupts, a
  little-endian machine with 64-bit addresses. The slot table's length is a parameter: it is declared one entry too short
  for the loops over it (\<open>slot_table_overrun\<close>), and the theorems on probing name the length they need (\<open>table_fits\<close>). The
  kernel's side of the life cycle (a device is probed only while it has no driver; its driver data is cleared after a
  failed probe and after a removal) is part of the events of \<open>Driver_Runs\<close>.

  \<^bold>\<open>Not modelled.\<close> \<^verbatim>\<open>jquery.js\<close> is a vendored library the search does not call. \<^verbatim>\<open>debug_functions.h\<close>, the log messages and the
  proc files (\<^verbatim>\<open>pciedev_proc_show\<close>) only print; that a proc entry is created and removed is an action of the trace.
  \<^verbatim>\<open>upciedev_vma_open\<close> and \<^verbatim>\<open>upciedev_vma_close\<close> only print. The semaphore build is modelled by itself, and its step
  relation \<open>sstep\<close> lets no process enter again while it is inside or leave while it is not (what the code does then is shown
  of the functions, \<open>nested_sections_do_not_nest\<close>); the file operations use
  the mutex build, which is the default one. Letter case is modelled for code units below 256.
\<close>

end
